(* ===== verification/Prelude.thy ===== *)
theory Prelude
  imports Main "HOL-Library.State_Monad" "HOL-Library.AList" "HOL-Library.Word"
begin

text \<open>
  What every component shares: the error type of a Go call, weakest preconditions over the
  library's state monad, the loop combinators that stand for \<open>for ... range\<close>, frame
  reasoning (which fields an operation leaves alone) as the locale \<open>effect\<close>, reachable
  states of a set of operations as the locale \<open>machine\<close>, and Go maps as association lists
  behind the locale \<open>go_map\<close>.
\<close>

unbundle bit_operations_syntax

named_theorems wp_simps \<open>equations that push a weakest precondition through a program\<close>
named_theorems frame \<open>introduction rules for what an operation keeps\<close>

section \<open>Results\<close>

type_synonym byte = "8 word"

text \<open>
  A Go function returning \<open>(T, error)\<close> is a value of \<open>'a res\<close>, \<open>Inl\<close> the error's message
  and \<open>Inr\<close> the value; one returning only \<open>error\<close> is a \<open>string option\<close>, \<open>None\<close> for nil.
\<close>

type_synonym 'a res = "string + 'a"
type_synonym err = "string option"

definition is_ok :: "'a res \<Rightarrow> bool" where
  "is_ok r = (case r of Inl _ \<Rightarrow> False | Inr _ \<Rightarrow> True)"

lemma is_ok_simps [simp]: "is_ok (Inl e) = False" "is_ok (Inr x) = True"
  by (simp_all add: is_ok_def)

section \<open>Programs and their weakest preconditions\<close>

abbreviation return :: "'a \<Rightarrow> ('s, 'a) state" where
  "return \<equiv> State_Monad.return"

definition gets :: "('s \<Rightarrow> 'a) \<Rightarrow> ('s, 'a) state" where
  "gets f = State (\<lambda>s. (f s, s))"

definition modify :: "('s \<Rightarrow> 's) \<Rightarrow> ('s, unit) state" where
  "modify f = State (\<lambda>s. ((), f s))"

definition doif :: "bool \<Rightarrow> ('s, unit) state \<Rightarrow> ('s, unit) state" where
  "doif b m = (if b then m else return ())"

text \<open>
  \<open>if err := m; err != nil { return h(err) }\<close> followed by \<open>k\<close>, for a call that returns an error
  only and for one that returns a value or an error.
\<close>

definition check :: "('s, err) state \<Rightarrow> (string \<Rightarrow> 'a) \<Rightarrow> ('s, 'a) state \<Rightarrow> ('s, 'a) state" where
  "check m h k = do { e \<leftarrow> m; (case e of None \<Rightarrow> k | Some x \<Rightarrow> return (h x)) }"

definition bindr :: "('s, 'v res) state \<Rightarrow> (string \<Rightarrow> 'a) \<Rightarrow> ('v \<Rightarrow> ('s, 'a) state) \<Rightarrow> ('s, 'a) state" where
  "bindr m h f = do { r \<leftarrow> m; (case r of Inl e \<Rightarrow> return (h e) | Inr x \<Rightarrow> f x) }"

text \<open>A call whose result is dropped.\<close>

definition drop_result :: "('s, 'a) state \<Rightarrow> ('s, unit) state" where
  "drop_result m = do { m; return () }"

definition wp :: "('s, 'a) state \<Rightarrow> ('a \<Rightarrow> 's \<Rightarrow> bool) \<Rightarrow> 's \<Rightarrow> bool" where
  "wp m Q s = (case run_state m s of (r, t) \<Rightarrow> Q r t)"

lemma run_gets [simp]: "run_state (gets f) s = (f s, s)"
  by (simp add: gets_def)

lemma run_modify [simp]: "run_state (modify f) s = ((), f s)"
  by (simp add: modify_def)

lemma wp_return [wp_simps]: "wp (return x) Q s = Q x s"
  by (simp add: wp_def)

lemma wp_gets [wp_simps]: "wp (gets f) Q s = Q (f s) s"
  by (simp add: wp_def)

lemma wp_modify [wp_simps]: "wp (modify f) Q s = Q () (f s)"
  by (simp add: wp_def)

lemma wp_bind [wp_simps]: "wp (State_Monad.bind m f) Q s = wp m (\<lambda>r t. wp (f r) Q t) s"
  by (simp add: wp_def split: prod.split)

lemma wp_if [wp_simps]: "wp (if b then m else n) Q s = (if b then wp m Q s else wp n Q s)"
  by simp

lemma wp_doif [wp_simps]: "wp (doif b m) Q s = (if b then wp m Q s else Q () s)"
  by (simp add: doif_def wp_return)

lemma wp_option [wp_simps]:
  "wp (case x of None \<Rightarrow> m | Some a \<Rightarrow> f a) Q s =
    (case x of None \<Rightarrow> wp m Q s | Some a \<Rightarrow> wp (f a) Q s)"
  by (simp split: option.split)

lemma wp_sum [wp_simps]:
  "wp (case x of Inl a \<Rightarrow> f a | Inr b \<Rightarrow> g b) Q s =
    (case x of Inl a \<Rightarrow> wp (f a) Q s | Inr b \<Rightarrow> wp (g b) Q s)"
  by (simp split: sum.split)

lemma wp_prod [wp_simps]:
  "wp (case p of (a, b) \<Rightarrow> f a b) Q s = (case p of (a, b) \<Rightarrow> wp (f a b) Q s)"
  by (simp split: prod.split)

lemma wp_check [wp_simps]:
  "wp (check m h k) Q s =
    wp m (\<lambda>e t. case e of None \<Rightarrow> wp k Q t | Some x \<Rightarrow> Q (h x) t) s"
  by (simp add: check_def wp_simps cong: option.case_cong)

lemma wp_bindr [wp_simps]:
  "wp (bindr m h f) Q s =
    wp m (\<lambda>r t. case r of Inl e \<Rightarrow> Q (h e) t | Inr x \<Rightarrow> wp (f x) Q t) s"
  by (simp add: bindr_def wp_simps cong: sum.case_cong)

lemma wp_drop [wp_simps]: "wp (drop_result m) Q s = wp m (\<lambda>_. Q ()) s"
  by (simp add: drop_result_def wp_simps)

lemma wp_mono: "wp m P s \<Longrightarrow> (\<And>r t. P r t \<Longrightarrow> Q r t) \<Longrightarrow> wp m Q s"
  by (auto simp: wp_def split: prod.splits)

lemma wp_conj: "wp m (\<lambda>r t. P r t \<and> Q r t) s \<longleftrightarrow> wp m P s \<and> wp m Q s"
  by (simp add: wp_def split: prod.split)

lemma wp_runD: "wp m Q s \<Longrightarrow> run_state m s = (r, t) \<Longrightarrow> Q r t"
  by (simp add: wp_def)

lemma wp_runI: "(\<And>r t. run_state m s = (r, t) \<Longrightarrow> Q r t) \<Longrightarrow> wp m Q s"
  by (simp add: wp_def split: prod.split)

lemma wp_snd: "wp m (\<lambda>_. P) s \<longleftrightarrow> P (snd (run_state m s))"
  by (simp add: wp_def split: prod.split)

section \<open>Loops over slices\<close>

fun for_each :: "'a list \<Rightarrow> ('a \<Rightarrow> ('s, unit) state) \<Rightarrow> ('s, unit) state" where
  "for_each [] f = return ()"
| "for_each (x # xs) f = do { f x; for_each xs f }"

fun for_fold :: "'a list \<Rightarrow> 'b \<Rightarrow> ('a \<Rightarrow> 'b \<Rightarrow> ('s, 'b) state) \<Rightarrow> ('s, 'b) state" where
  "for_fold [] b f = return b"
| "for_fold (x # xs) b f = do { b' \<leftarrow> f x b; for_fold xs b' f }"

lemma wp_for_each:
  assumes "\<And>x t. x \<in> set xs \<Longrightarrow> I t \<Longrightarrow> wp (f x) (\<lambda>_. I) t" and "I s"
  shows "wp (for_each xs f) (\<lambda>_. I) s"
  using assms
proof (induction xs arbitrary: s)
  case Nil
  then show ?case by (simp add: wp_simps)
next
  case (Cons x xs)
  then have "wp (f x) (\<lambda>_. I) s" by simp
  then have "wp (f x) (\<lambda>_ t. wp (for_each xs f) (\<lambda>_. I) t) s"
    by (rule wp_mono) (rule Cons.IH, use Cons.prems in auto)
  then show ?case by (simp add: wp_simps)
qed

lemma wp_for_fold:
  assumes "\<And>x b t. x \<in> set xs \<Longrightarrow> I b t \<Longrightarrow> wp (f x b) I t" and "I b s"
  shows "wp (for_fold xs b f) I s"
  using assms
proof (induction xs arbitrary: b s)
  case Nil
  then show ?case by (simp add: wp_simps)
next
  case (Cons x xs)
  then have "wp (f x b) I s" by simp
  then have "wp (f x b) (\<lambda>b t. wp (for_fold xs b f) I t) s"
    by (rule wp_mono) (rule Cons.IH, use Cons.prems in auto)
  then show ?case by (simp add: wp_simps)
qed

section \<open>What an operation does to the state, as a preorder\<close>

text \<open>
  A frame condition (a field is unchanged), a preserved invariant and a monotone quantity are
  all of the form: every run of the program relates the state before to the state after by a
  reflexive transitive relation. The locale proves the rules once; the components interpret
  it for their own relations.
\<close>

definition within :: "('s \<Rightarrow> 's \<Rightarrow> bool) \<Rightarrow> ('s, 'a) state \<Rightarrow> bool" where
  "within R m \<longleftrightarrow> (\<forall>s. wp m (\<lambda>_ t. R s t) s)"

locale effect =
  fixes R :: "'s \<Rightarrow> 's \<Rightarrow> bool"
  assumes refl: "R s s"
    and trans: "R s t \<Longrightarrow> R t u \<Longrightarrow> R s u"
begin

lemma return_in: "within R (return x)"
  by (simp add: within_def wp_simps refl)

lemma gets_in: "within R (gets f)"
  by (simp add: within_def wp_simps refl)

lemma modify_in: "(\<And>s. R s (f s)) \<Longrightarrow> within R (modify f)"
  by (simp add: within_def wp_simps)

lemma bind_in:
  assumes "within R m" and "\<And>x. within R (f x)"
  shows "within R (State_Monad.bind m f)"
  unfolding within_def wp_bind
proof
  fix s
  from assms(1) have "wp m (\<lambda>_ t. R s t) s" by (simp add: within_def)
  then show "wp m (\<lambda>r t. wp (f r) (\<lambda>_ u. R s u) t) s"
    by (rule wp_mono) (use assms(2) in \<open>auto simp: within_def intro: wp_mono trans\<close>)
qed

text \<open>When the second part relies on what the first established.\<close>

lemma bind_post:
  assumes "within R m" and "\<And>s. wp m Q s" and "\<And>x t. Q x t \<Longrightarrow> wp (f x) (\<lambda>_ u. R t u) t"
  shows "within R (State_Monad.bind m f)"
  unfolding within_def wp_bind
proof
  fix s
  have "wp m (\<lambda>x t. Q x t \<and> R s t) s"
    using assms(1,2) by (simp add: wp_conj within_def)
  then show "wp m (\<lambda>r t. wp (f r) (\<lambda>_ u. R s u) t) s"
    by (rule wp_mono) (use assms(3) in \<open>auto intro: wp_mono trans\<close>)
qed

lemma if_in: "(b \<Longrightarrow> within R m) \<Longrightarrow> (\<not> b \<Longrightarrow> within R n) \<Longrightarrow> within R (if b then m else n)"
  by simp

lemma doif_in: "(b \<Longrightarrow> within R m) \<Longrightarrow> within R (doif b m)"
  by (simp add: doif_def return_in)

lemma option_in:
  "within R m \<Longrightarrow> (\<And>a. x = Some a \<Longrightarrow> within R (f a)) \<Longrightarrow>
    within R (case x of None \<Rightarrow> m | Some a \<Rightarrow> f a)"
  by (simp split: option.split)

lemma sum_in:
  "(\<And>a. x = Inl a \<Longrightarrow> within R (f a)) \<Longrightarrow> (\<And>b. x = Inr b \<Longrightarrow> within R (g b)) \<Longrightarrow>
    within R (case x of Inl a \<Rightarrow> f a | Inr b \<Rightarrow> g b)"
  by (simp split: sum.split)

lemma prod_in:
  "(\<And>a b. p = (a, b) \<Longrightarrow> within R (f a b)) \<Longrightarrow> within R (case p of (a, b) \<Rightarrow> f a b)"
  by (simp split: prod.split)

lemma check_in: "within R m \<Longrightarrow> within R k \<Longrightarrow> within R (check m h k)"
  unfolding check_def by (intro bind_in option_in return_in)

lemma bindr_in: "within R m \<Longrightarrow> (\<And>x. within R (f x)) \<Longrightarrow> within R (bindr m h f)"
  unfolding bindr_def by (intro bind_in sum_in return_in)

lemma drop_in: "within R m \<Longrightarrow> within R (drop_result m)"
  unfolding drop_result_def by (intro bind_in return_in)

lemma for_each_in:
  assumes "\<And>x. x \<in> set xs \<Longrightarrow> within R (f x)"
  shows "within R (for_each xs f)"
  using assms by (induction xs) (auto intro: return_in bind_in)

lemma for_fold_in:
  assumes "\<And>x b. x \<in> set xs \<Longrightarrow> within R (f x b)"
  shows "within R (for_fold xs b f)"
  using assms by (induction xs arbitrary: b) (auto intro: return_in bind_in)

lemma in_wp: "within R m \<Longrightarrow> wp m (\<lambda>_ t. R s t) s"
  by (simp add: within_def)

lemmas rules = return_in gets_in bind_in if_in doif_in option_in sum_in prod_in
  check_in bindr_in drop_in
  for_each_in for_fold_in

end

abbreviation keeps :: "('s \<Rightarrow> 'v) \<Rightarrow> ('s, 'a) state \<Rightarrow> bool" where
  "keeps f m \<equiv> within (\<lambda>s t. f t = f s) m"

abbreviation preserves :: "('s \<Rightarrow> bool) \<Rightarrow> ('s, 'a) state \<Rightarrow> bool" where
  "preserves I m \<equiv> within (\<lambda>s t. I s \<longrightarrow> I t) m"

interpretation keeps: effect "\<lambda>s t. f t = f s" for f :: "'s \<Rightarrow> 'v"
  by unfold_locales auto

interpretation preserves: effect "\<lambda>s t. I s \<longrightarrow> I t" for I :: "'s \<Rightarrow> bool"
  by unfold_locales auto

lemmas keeps_rules = keeps.rules
lemmas preserves_rules = preserves.rules

lemma keeps_wp: "keeps f m \<Longrightarrow> wp m (\<lambda>_ t. f t = f s) s"
  by (rule keeps.in_wp)

lemma preserves_wp: "preserves I m \<Longrightarrow> I s \<Longrightarrow> wp m (\<lambda>_. I) s"
  by (drule preserves.in_wp [where s = s]) (auto intro: wp_mono)

lemma preservesI: "(\<And>s. I s \<Longrightarrow> wp m (\<lambda>_. I) s) \<Longrightarrow> preserves I m"
  unfolding within_def by (fastforce simp: wp_def split: prod.splits)

lemma keeps_snd: "keeps f m \<Longrightarrow> f (snd (run_state m s)) = f s"
  by (simp add: within_def wp_snd)

lemma preserves_snd: "preserves I m \<Longrightarrow> I s \<Longrightarrow> I (snd (run_state m s))"
  by (simp add: within_def wp_snd)

text \<open>An invariant over kept fields is preserved.\<close>

lemma preserves_keeps: "keeps f m \<Longrightarrow> (\<And>s t. f t = f s \<Longrightarrow> I s \<Longrightarrow> I t) \<Longrightarrow> preserves I m"
  unfolding within_def by (auto intro: wp_mono)

text \<open>Two ways through a sequence: what the first part established stays, or does not matter.\<close>

lemma wp_stays:
  assumes "wp m (\<lambda>_ t. P (f t)) s" and "\<And>x. keeps f (k x)"
  shows "wp (State_Monad.bind m k) (\<lambda>_ t. P (f t)) s"
  unfolding wp_bind
proof (rule wp_mono [OF assms(1)])
  fix x t
  assume "P (f t)"
  then show "wp (k x) (\<lambda>_ u. P (f u)) t"
    by (intro wp_mono [OF keeps_wp [OF assms(2)]]) simp
qed

lemma wp_skip: "(\<And>x t. wp (k x) Q t) \<Longrightarrow> wp (State_Monad.bind m k) Q s"
  unfolding wp_bind by (rule wp_runI) simp

section \<open>Reachable states\<close>

inductive reachable :: "('s \<Rightarrow> bool) \<Rightarrow> ('s \<Rightarrow> 's \<Rightarrow> bool) \<Rightarrow> 's \<Rightarrow> bool"
  for init :: "'s \<Rightarrow> bool" and step :: "'s \<Rightarrow> 's \<Rightarrow> bool" where
  start: "init s \<Longrightarrow> reachable init step s"
| step: "reachable init step s \<Longrightarrow> step s t \<Longrightarrow> reachable init step t"

text \<open>
  A component as a machine: initial states, a step relation and an invariant that both
  respect. The client's lemma: the invariant holds in every reachable state.
\<close>

locale machine =
  fixes init :: "'s \<Rightarrow> bool" and step :: "'s \<Rightarrow> 's \<Rightarrow> bool" and inv :: "'s \<Rightarrow> bool"
  assumes init_inv: "init s \<Longrightarrow> inv s"
    and step_inv: "inv s \<Longrightarrow> step s t \<Longrightarrow> inv t"
begin

lemma reachable_inv: "reachable init step s \<Longrightarrow> inv s"
  by (induction rule: reachable.induct) (auto intro: init_inv step_inv)

end

section \<open>Go maps\<close>

text \<open>
  A Go map the code iterates over is an association list with distinct keys. The interface is
  what the code uses: indexing, assignment, \<open>delete\<close> and the keys \<open>range\<close> visits.
\<close>

type_synonym ('k, 'v) gomap = "('k \<times> 'v) list"

definition mget :: "('k, 'v) gomap \<Rightarrow> 'k \<Rightarrow> 'v option" where
  "mget m k = map_of m k"

definition mput :: "'k \<Rightarrow> 'v \<Rightarrow> ('k, 'v) gomap \<Rightarrow> ('k, 'v) gomap" where
  "mput k v m = AList.update k v m"

definition mdel :: "'k \<Rightarrow> ('k, 'v) gomap \<Rightarrow> ('k, 'v) gomap" where
  "mdel k m = AList.delete k m"

definition mkeys :: "('k, 'v) gomap \<Rightarrow> 'k list" where
  "mkeys m = map fst m"

definition mwf :: "('k, 'v) gomap \<Rightarrow> bool" where
  "mwf m = distinct (map fst m)"

locale go_map =
  fixes emp :: "'m" and get :: "'m \<Rightarrow> 'k \<Rightarrow> 'v option" and put :: "'k \<Rightarrow> 'v \<Rightarrow> 'm \<Rightarrow> 'm"
    and del :: "'k \<Rightarrow> 'm \<Rightarrow> 'm" and keys :: "'m \<Rightarrow> 'k list" and wf :: "'m \<Rightarrow> bool"
  assumes get_emp: "get emp k = None"
    and get_put: "get (put k v m) k' = (if k' = k then Some v else get m k')"
    and get_del: "get (del k m) k' = (if k' = k then None else get m k')"
    and keys_get: "k \<in> set (keys m) \<longleftrightarrow> get m k \<noteq> None"
    and wf_emp: "wf emp"
    and wf_put: "wf m \<Longrightarrow> wf (put k v m)"
    and wf_del: "wf m \<Longrightarrow> wf (del k m)"
begin

lemma put_same: "get (put k v m) k = Some v"
  by (simp add: get_put)

lemma del_same: "get (del k m) k = None"
  by (simp add: get_del)

lemma keys_put: "set (keys (put k v m)) = insert k (set (keys m))"
  by (auto simp: keys_get get_put split: if_splits)

lemma keys_del: "set (keys (del k m)) = set (keys m) - {k}"
  by (auto simp: keys_get get_del split: if_splits)

lemma keys_emp: "keys emp = []"
  using keys_get [of _ emp] by (cases "keys emp") (auto simp: get_emp)

text \<open>Deleting every key that \<open>range\<close> visits empties the map.\<close>

lemma get_fold_del: "get (fold del ks m) k = (if k \<in> set ks then None else get m k)"
  by (induction ks arbitrary: m) (auto simp: get_del)

end

interpretation gomap: go_map "[] :: ('k, 'v) gomap" mget mput mdel mkeys mwf
  by unfold_locales
    (auto simp: mget_def mput_def mdel_def mkeys_def mwf_def update_conv' delete_conv'
      distinct_update distinct_delete map_of_eq_None_iff dest: map_of_SomeD)

lemmas gomap_simps [simp] = gomap.get_emp gomap.get_put gomap.get_del gomap.wf_emp
  gomap.keys_put gomap.keys_del

lemma mget_mem: "mwf m \<Longrightarrow> (k, v) \<in> set m \<longleftrightarrow> mget m k = Some v"
  by (auto simp: mget_def mwf_def)

lemma mget_mkeys: "mget m k = None \<longleftrightarrow> k \<notin> set (mkeys m)"
  using gomap.keys_get [of k m] by auto

lemma mkeys_simps [simp]: "mkeys [] = []" "mkeys (p # m) = fst p # mkeys m"
  by (simp_all add: mkeys_def)

lemma mdel_Cons: "mdel k (p # ps) = (if fst p = k then mdel k ps else p # mdel k ps)"
  by (auto simp: mdel_def AList.delete_eq)

lemma mdel_Nil [simp]: "mdel k [] = []"
  by (simp add: mdel_def AList.delete_eq)

end
