(* ===== verification/GoStd.thy ===== *)
theory GoStd
  imports Prelude "HOL-Library.Char_ord"
begin

text \<open>
  The part of Go's standard library the program's own logic leans on: \<open>strings\<close>,
  \<open>strconv\<close>, \<open>fmt\<close>'s verbs, \<open>encoding/hex\<close>, \<open>encoding/binary\<close> and \<open>net\<close>'s hardware
  addresses, over byte strings. A Go string is a list of bytes, here a \<open>string\<close>; a
  \<open>[]byte\<close> is a \<open>byte list\<close>. White space and case are the ASCII ones, the only ones the
  program's inputs (interface names, command output, hex) contain.
\<close>

section \<open>Strings\<close>

definition str_bytes :: "string \<Rightarrow> byte list" where
  "str_bytes s = map (\<lambda>c. of_nat (of_char c)) s"

definition bytes_str :: "byte list \<Rightarrow> string" where
  "bytes_str bs = map (\<lambda>b. char_of (unat b)) bs"

definition has_prefix :: "string \<Rightarrow> string \<Rightarrow> bool" where
  "has_prefix s p = (take (length p) s = p)"

definition has_suffix :: "string \<Rightarrow> string \<Rightarrow> bool" where
  "has_suffix s p = (length p \<le> length s \<and> drop (length s - length p) s = p)"

definition trim_prefix :: "string \<Rightarrow> string \<Rightarrow> string" where
  "trim_prefix s p = (if has_prefix s p then drop (length p) s else s)"

definition trim_suffix :: "string \<Rightarrow> string \<Rightarrow> string" where
  "trim_suffix s p = (if has_suffix s p then take (length s - length p) s else s)"

definition is_space :: "char \<Rightarrow> bool" where
  "is_space c = (let n = (of_char c :: nat) in n = 32 \<or> (9 \<le> n \<and> n \<le> 13))"

definition trim_space :: "string \<Rightarrow> string" where
  "trim_space s = rev (dropWhile is_space (rev (dropWhile is_space s)))"

fun split_on :: "char \<Rightarrow> string \<Rightarrow> string list" where
  "split_on c [] = [[]]"
| "split_on c (x # xs) =
    (if x = c then [] # split_on c xs
     else (case split_on c xs of [] \<Rightarrow> [[x]] | w # ws \<Rightarrow> (x # w) # ws))"

fun str_fields_acc :: "string \<Rightarrow> string \<Rightarrow> string list" where
  "str_fields_acc w [] = (if w = [] then [] else [rev w])"
| "str_fields_acc w (x # xs) =
    (if is_space x then (if w = [] then str_fields_acc [] xs else rev w # str_fields_acc [] xs)
     else str_fields_acc (x # w) xs)"

definition str_fields :: "string \<Rightarrow> string list" where
  "str_fields s = str_fields_acc [] s"

fun join :: "string \<Rightarrow> string list \<Rightarrow> string" where
  "join sep [] = []"
| "join sep [x] = x"
| "join sep (x # y # xs) = x @ sep @ join sep (y # xs)"

definition lower_char :: "char \<Rightarrow> char" where
  "lower_char c = (let n = (of_char c :: nat) in if 65 \<le> n \<and> n \<le> 90 then char_of (n + 32) else c)"

definition to_lower :: "string \<Rightarrow> string" where
  "to_lower s = map lower_char s"

definition equal_fold :: "string \<Rightarrow> string \<Rightarrow> bool" where
  "equal_fold a b = (to_lower a = to_lower b)"

text \<open>\<open>strings.Cut(s, sep)\<close> for a one byte separator: before, after, found.\<close>

fun cut_at :: "char \<Rightarrow> string \<Rightarrow> (string \<times> string) option" where
  "cut_at c [] = None"
| "cut_at c (x # xs) =
    (if x = c then Some ([], xs)
     else (case cut_at c xs of None \<Rightarrow> None | Some (a, b) \<Rightarrow> Some (x # a, b)))"

section \<open>Decimal and quoting\<close>

definition digit :: "nat \<Rightarrow> char" where
  "digit n = ''0123456789'' ! n"

fun dec_nat :: "nat \<Rightarrow> string" where
  "dec_nat n = (if n < 10 then [digit n] else dec_nat (n div 10) @ [digit (n mod 10)])"

declare dec_nat.simps [simp del]

text \<open>\<open>strconv.Itoa\<close> and the verb \<open>%d\<close>.\<close>

definition itoa :: "int \<Rightarrow> string" where
  "itoa i = (if i < 0 then CHR ''-'' # dec_nat (nat (- i)) else dec_nat (nat i))"

definition undec :: "string \<Rightarrow> nat" where
  "undec s = foldl (\<lambda>a c. a * 10 + (of_char c - 48)) 0 s"

lemma of_char_digit: "n < 10 \<Longrightarrow> (of_char (digit n) :: nat) = 48 + n"
  unfolding digit_def by (simp add: less_Suc_eq numeral_eq_Suc) (elim disjE; simp)

lemma undec_dec_nat [simp]: "undec (dec_nat n) = n"
proof (induction n rule: dec_nat.induct)
  case (1 n)
  show ?case
  proof (cases "n < 10")
    case True
    then show ?thesis by (simp add: dec_nat.simps [of n] undec_def of_char_digit)
  next
    case False
    with 1 have "undec (dec_nat (n div 10)) = n div 10" by simp
    with False show ?thesis
      by (simp add: dec_nat.simps [of n] undec_def of_char_digit)
  qed
qed

lemma dec_nat_inj: "dec_nat m = dec_nat n \<Longrightarrow> m = n"
  using undec_dec_nat by metis

lemma dec_nat_nonempty [simp]: "dec_nat n \<noteq> []"
  by (subst dec_nat.simps) simp

lemma dec_nat_digits: "c \<in> set (dec_nat n) \<Longrightarrow> \<exists>d < 10. c = digit d"
proof (induction n rule: dec_nat.induct)
  case (1 n)
  show ?case
  proof (cases "n < 10")
    case True
    with 1(2) show ?thesis by (auto simp: dec_nat.simps [of n])
  next
    case False
    with 1(2) consider "c \<in> set (dec_nat (n div 10))" | "c = digit (n mod 10)"
      by (auto simp: dec_nat.simps [of n])
    then show ?thesis
      using 1(1) False mod_less_divisor [of 10 n] by cases (auto simp del: mod_less_divisor)
  qed
qed

lemma dash_not_digit: "d < 10 \<Longrightarrow> digit d \<noteq> CHR ''-''"
  using of_char_digit [of d] by auto

lemma itoa_inj: "itoa i = itoa j \<Longrightarrow> i = j"
proof -
  assume eq: "itoa i = itoa j"
  have no_dash: "dec_nat n \<noteq> CHR ''-'' # s" for n s
    using dec_nat_digits [of "CHR ''-''" n] dash_not_digit by (metis list.set_intros(1))
  show "i = j"
    using eq no_dash [of _ "dec_nat _"]
    by (auto simp: itoa_def split: if_splits dest!: dec_nat_inj)
      (metis no_dash)+
qed

text \<open>The verb \<open>%q\<close> on ASCII text.\<close>

definition hexch :: "nat \<Rightarrow> char" where
  "hexch n = ''0123456789abcdef'' ! n"

definition hex2 :: "byte \<Rightarrow> string" where
  "hex2 b = [hexch (unat b div 16), hexch (unat b mod 16)]"

definition quote_char :: "char \<Rightarrow> string" where
  "quote_char c = (let n = (of_char c :: nat) in
     if n = 34 then [CHR 0x5C, c] else if n = 92 then [c, c]
     else if n = 7 then [CHR 0x5C, CHR ''a''] else if n = 8 then [CHR 0x5C, CHR ''b'']
     else if n = 12 then [CHR 0x5C, CHR ''f''] else if n = 10 then [CHR 0x5C, CHR ''n'']
     else if n = 13 then [CHR 0x5C, CHR ''r''] else if n = 9 then [CHR 0x5C, CHR ''t'']
     else if n = 11 then [CHR 0x5C, CHR ''v'']
     else if 32 \<le> n \<and> n < 127 then [c]
     else [CHR 0x5C, CHR ''x''] @ hex2 (of_nat n))"

definition quote :: "string \<Rightarrow> string" where
  "quote s = [CHR 0x22] @ concat (map quote_char s) @ [CHR 0x22]"

section \<open>Hexadecimal\<close>

definition hex_encode :: "byte list \<Rightarrow> string" where
  "hex_encode bs = concat (map hex2 bs)"

definition unhex :: "char \<Rightarrow> nat option" where
  "unhex c = (let n = (of_char c :: nat) in
     if 48 \<le> n \<and> n \<le> 57 then Some (n - 48)
     else if 97 \<le> n \<and> n \<le> 102 then Some (n - 87)
     else if 65 \<le> n \<and> n \<le> 70 then Some (n - 55)
     else None)"

text \<open>\<open>hex.DecodeString\<close>, \<open>None\<close> for its error (a bad byte or an odd length).\<close>

fun hex_decode :: "string \<Rightarrow> byte list option" where
  "hex_decode [] = Some []"
| "hex_decode [c] = None"
| "hex_decode (c # d # s) =
    (case (unhex c, unhex d) of
       (Some h, Some l) \<Rightarrow> map_option ((#) (of_nat (16 * h + l))) (hex_decode s)
     | _ \<Rightarrow> None)"

lemma unhex_hexch [simp]: "n < 16 \<Longrightarrow> unhex (hexch n) = Some n"
  unfolding hexch_def by (simp add: less_Suc_eq numeral_eq_Suc) (elim disjE; simp add: unhex_def)

lemma unat_byte_lt: "unat (b :: byte) < 256"
  using unsigned_less [of b] by simp

lemma nibbles_lt [simp]: "unat (b :: byte) div 16 < 16" "unat (b :: byte) mod 16 < 16"
  using unat_byte_lt [of b] by auto

lemma nibbles_word [simp]:
  "(of_nat (16 * (unat (b :: byte) div 16) + unat b mod 16) :: byte) = b"
  by (metis mult_div_mod_eq word_unat_eq_iff of_nat_unat ucast_id)

lemma hex_decode_encode [simp]: "hex_decode (hex_encode bs) = Some bs"
  by (induction bs) (simp_all add: hex_encode_def hex2_def del: of_nat_add of_nat_mult)

lemma length_hex_encode [simp]: "length (hex_encode bs) = 2 * length bs"
  by (induction bs) (simp_all add: hex_encode_def hex2_def)

lemma hex_decode_length: "hex_decode s = Some bs \<Longrightarrow> length s = 2 * length bs"
  by (induction s arbitrary: bs rule: hex_decode.induct) (auto split: option.splits)

lemma hex_encode_inj: "hex_encode a = hex_encode b \<Longrightarrow> a = b"
  by (metis hex_decode_encode option.inject)

text \<open>\<open>strconv.ParseUint(s, 16, 64)\<close> on at most 16 digits, which cannot overflow.\<close>

fun parse_hex_acc :: "nat \<Rightarrow> string \<Rightarrow> nat option" where
  "parse_hex_acc a [] = Some a"
| "parse_hex_acc a (c # s) =
    (case unhex c of None \<Rightarrow> None | Some d \<Rightarrow> parse_hex_acc (a * 16 + d) s)"

section \<open>Hardware addresses\<close>

definition mac_string :: "byte list \<Rightarrow> string" where
  "mac_string hw = join '':'' (map hex2 hw)"

definition xtoi2 :: "string \<Rightarrow> char \<Rightarrow> byte option" where
  "xtoi2 s e =
    (if length s > 2 \<and> s ! 2 \<noteq> e then None
     else case s of
       c # d # _ \<Rightarrow> (case (unhex c, unhex d) of
           (Some h, Some l) \<Rightarrow> Some (of_nat (16 * h + l)) | _ \<Rightarrow> None)
     | _ \<Rightarrow> None)"

fun mac_pairs :: "nat \<Rightarrow> char \<Rightarrow> string \<Rightarrow> byte list option" where
  "mac_pairs 0 e s = Some []"
| "mac_pairs (Suc n) e s =
    (case xtoi2 s e of None \<Rightarrow> None
     | Some b \<Rightarrow> map_option ((#) b) (mac_pairs n e (drop 3 s)))"

fun mac_quads :: "nat \<Rightarrow> char \<Rightarrow> string \<Rightarrow> byte list option" where
  "mac_quads 0 e s = Some []"
| "mac_quads (Suc n) e s =
    (case (xtoi2 (take 2 s) CHR 0x00, xtoi2 (drop 2 s) e) of
       (Some a, Some b) \<Rightarrow> map_option (\<lambda>t. a # b # t) (mac_quads n e (drop 5 s))
     | _ \<Rightarrow> None)"

text \<open>\<open>net.ParseMAC\<close>: colon or hyphen pairs, or dotted quads, of 6, 8 or 20 bytes.\<close>

definition parse_mac :: "string \<Rightarrow> byte list option" where
  "parse_mac s =
    (if length s < 14 then None
     else if s ! 2 = CHR '':'' \<or> s ! 2 = CHR ''-'' then
       (let n = (length s + 1) div 3 in
        if (length s + 1) mod 3 \<noteq> 0 \<or> n \<notin> {6, 8, 20} then None else mac_pairs n (s ! 2) s)
     else if s ! 4 = CHR ''.'' then
       (let n = 2 * (length s + 1) div 5 in
        if (length s + 1) mod 5 \<noteq> 0 \<or> n \<notin> {6, 8, 20} then None
        else mac_quads (n div 2) (s ! 4) s)
     else None)"

lemma mac_pairs_length: "mac_pairs n e s = Some m \<Longrightarrow> length m = n"
  by (induction n e s arbitrary: m rule: mac_pairs.induct) (auto split: option.splits)

lemma mac_quads_length: "mac_quads n e s = Some m \<Longrightarrow> length m = 2 * n"
  by (induction n e s arbitrary: m rule: mac_quads.induct) (auto split: option.splits)

lemma join_hex2_Cons:
  "join '':'' (map hex2 (b # bs)) =
    (if bs = [] then hex2 b else hex2 b @ '':'' @ join '':'' (map hex2 bs))"
  by (cases bs) simp_all

lemma length_mac_string: "bs \<noteq> [] \<Longrightarrow> length (mac_string bs) + 1 = 3 * length bs"
  unfolding mac_string_def
  by (induction bs) (auto simp: join_hex2_Cons hex2_def simp del: list.map)

lemma xtoi2_hex2: "xtoi2 (hex2 b @ CHR '':'' # s) CHR '':'' = Some b" "xtoi2 (hex2 b) e = Some b"
  by (simp_all add: xtoi2_def hex2_def del: of_nat_add of_nat_mult)

lemma mac_pairs_string: "mac_pairs (length bs) CHR '':'' (mac_string bs) = Some bs"
  unfolding mac_string_def
proof (induction bs)
  case Nil
  then show ?case by simp
next
  case (Cons b bs)
  have "length (hex2 b) = 2" by (simp add: hex2_def)
  then show ?case
    using Cons by (cases "bs = []") (auto simp: join_hex2_Cons xtoi2_hex2 simp del: list.map)
qed

text \<open>A six byte address survives \<open>String()\<close> and \<open>ParseMAC\<close>.\<close>

lemma parse_mac_string:
  assumes "length hw = 6"
  shows "parse_mac (mac_string hw) = Some hw"
proof -
  from assms obtain b c bs where hw: "hw = b # c # bs" by (cases hw rule: list.exhaust; cases "tl hw") auto
  have len: "length (mac_string hw) = 17"
    using length_mac_string [of hw] assms by (cases "hw = []") auto
  have "mac_string hw ! 2 = CHR '':''"
    by (simp add: hw mac_string_def join_hex2_Cons hex2_def del: list.map)
  then show ?thesis
    using mac_pairs_string [of hw] assms by (simp add: parse_mac_def len)
qed

lemma mac_string_inj:
  "mac_string a = mac_string b \<Longrightarrow> length a = 6 \<Longrightarrow> length b = 6 \<Longrightarrow> a = b"
  by (metis parse_mac_string option.inject)

lemma mac_string_nonempty: "length hw = 6 \<Longrightarrow> mac_string hw \<noteq> []"
  using length_mac_string [of hw] by (cases "hw = []") auto

section \<open>Big endian\<close>

definition append_u16 :: "byte list \<Rightarrow> 16 word \<Rightarrow> byte list" where
  "append_u16 bs v = bs @ [ucast (drop_bit 8 v), ucast v]"

definition be_u16 :: "byte list \<Rightarrow> 16 word" where
  "be_u16 bs = push_bit 8 (ucast (bs ! 0)) OR ucast (bs ! 1)"

definition be_nat :: "byte list \<Rightarrow> nat" where
  "be_nat bs = foldl (\<lambda>a b. a * 256 + unat b) 0 bs"

definition be_u64 :: "byte list \<Rightarrow> 64 word" where
  "be_u64 bs = of_nat (be_nat bs)"

lemma append_u16_be [simp]: "be_u16 (append_u16 [] v @ rest) = v"
  unfolding append_u16_def be_u16_def
  by (rule bit_word_eqI) (auto simp: bit_simps)

lemma append_u16_append: "append_u16 bs v = bs @ append_u16 [] v"
  by (simp add: append_u16_def)

lemma length_append_u16 [simp]: "length (append_u16 bs v) = length bs + 2"
  by (simp add: append_u16_def)

lemma be_nat_snoc: "be_nat (bs @ [b]) = be_nat bs * 256 + unat b"
  by (simp add: be_nat_def)

lemma be_nat_lt: "be_nat bs < 256 ^ length bs"
proof (induction bs rule: rev_induct)
  case Nil
  then show ?case by (simp add: be_nat_def)
next
  case (snoc b bs)
  then show ?case
    using unat_byte_lt [of b] by (simp add: be_nat_snoc)
qed

lemma be_nat_inj: "length a = length b \<Longrightarrow> be_nat a = be_nat b \<Longrightarrow> a = b"
proof (induction a arbitrary: b rule: rev_induct)
  case Nil
  then show ?case by simp
next
  case (snoc x xs)
  from snoc.prems obtain y ys where b: "b = ys @ [y]" by (cases b rule: rev_cases) auto
  from snoc.prems(2) have eq: "be_nat xs * 256 + unat x = be_nat ys * 256 + unat y"
    by (simp add: b be_nat_snoc)
  have "unat x = unat y" "be_nat xs = be_nat ys"
    using arg_cong [OF eq, of "\<lambda>n. n mod 256"] arg_cong [OF eq, of "\<lambda>n. n div 256"]
      unat_byte_lt [of x] unat_byte_lt [of y] by auto
  with snoc.IH [of ys] snoc.prems(1) show ?case by (simp add: b word_unat_eq_iff)
qed

lemma be_u64_inj:
  assumes "length a = 8" "length b = 8" "be_u64 a = be_u64 b"
  shows "a = b"
proof -
  have "be_nat a < 2 ^ 64" "be_nat b < 2 ^ 64"
    using be_nat_lt [of a] be_nat_lt [of b] assms(1,2) by simp_all
  then have "take_bit 64 (be_nat a) = be_nat a" "take_bit 64 (be_nat b) = be_nat b"
    by (auto intro: take_bit_nat_eq_self)
  moreover have "take_bit 64 (be_nat a) = take_bit 64 (be_nat b)"
    using assms(3) by (simp add: be_u64_def word_of_nat_eq_iff)
  ultimately have "be_nat a = be_nat b" by metis
  with assms show ?thesis by (auto intro: be_nat_inj)
qed

end
