(* ===== verification/Types.thy ===== *)
theory Types
  imports GoStd
begin

text \<open>
  The data the program keeps and exchanges: the mesh configuration file (\<open>mesh.go\<close>), the two
  sides of an encrypted link (\<open>macsec.go\<close>), what the kernel tells about links and routes and
  what the status handler shows (\<open>macsec_runtime.go\<close>). Field names carry a short prefix, since
  record fields share one name space. Go's \<open>int\<close> is \<open>int\<close>: the values are MTUs, ports, metrics
  and Unix seconds, and every sum the code forms stays far inside 64 bits. A pointer that may
  be nil is an option.
\<close>

section \<open>Interface names\<close>

definition is_alpha :: "char \<Rightarrow> bool" where
  "is_alpha c = (let n = (of_char c :: nat) in (65 \<le> n \<and> n \<le> 90) \<or> (97 \<le> n \<and> n \<le> 122))"

definition is_iface_char :: "char \<Rightarrow> bool" where
  "is_iface_char c = (let n = (of_char c :: nat) in
     is_alpha c \<or> (48 \<le> n \<and> n \<le> 57) \<or> n = 95 \<or> n = 46 \<or> n = 45)"

text \<open>\<open>meshIfaceRE\<close>: a letter and up to fourteen letters, digits, \<open>_\<close>, \<open>.\<close> or \<open>-\<close>.\<close>

fun valid_iface :: "string \<Rightarrow> bool" where
  "valid_iface [] = False"
| "valid_iface (c # s) = (is_alpha c \<and> length s \<le> 14 \<and> list_all is_iface_char s)"

section \<open>The two sides of an encrypted link\<close>

record LeafMACsec =
  lm_Enabled :: bool
  lm_Mode :: string
  lm_Port :: int
  lm_KeyNonce :: string
  lm_Parent :: string
  lm_LinkMTU :: int
  lm_UnderlayMTU :: int
  lm_Jumbo :: bool
  lm_LeafMAC :: string
  lm_LeafPublicKey :: string

record LeafSideMACsec =
  ls_Enabled :: bool
  ls_Mode :: string
  ls_Confirmed :: bool
  ls_KeyNonce :: string
  ls_LinkMTU :: int
  ls_UnderlayMTU :: int
  ls_Jumbo :: bool
  ls_Port :: int
  ls_MainPublicKey :: string
  ls_EnabledAt :: int

definition noLeafMACsec :: LeafMACsec where
  "noLeafMACsec = \<lparr>lm_Enabled = False, lm_Mode = [], lm_Port = 0, lm_KeyNonce = [],
     lm_Parent = [], lm_LinkMTU = 0, lm_UnderlayMTU = 0, lm_Jumbo = False, lm_LeafMAC = [],
     lm_LeafPublicKey = []\<rparr>"

definition noLeafSide :: LeafSideMACsec where
  "noLeafSide = \<lparr>ls_Enabled = False, ls_Mode = [], ls_Confirmed = False, ls_KeyNonce = [],
     ls_LinkMTU = 0, ls_UnderlayMTU = 0, ls_Jumbo = False, ls_Port = 0,
     ls_MainPublicKey = [], ls_EnabledAt = 0\<rparr>"

record macsecKeys =
  k_CAK :: "byte list"
  k_CKN :: "byte list"

section \<open>The configuration file\<close>

record LeafRouter =
  lr_APIToken :: string
  lr_IP :: string
  lr_TLSCA :: string
  lr_MACsec :: "LeafMACsec option"
  lr_MACsecPending :: bool

record MeshConfig =
  mc_ParentIP :: string
  mc_ParentAPIToken :: string
  mc_ParentCA :: string
  mc_LeafRouters :: "LeafRouter list"
  mc_LeafMACsec :: LeafSideMACsec

definition noConfig :: MeshConfig where
  "noConfig = \<lparr>mc_ParentIP = [], mc_ParentAPIToken = [], mc_ParentCA = [],
     mc_LeafRouters = [], mc_LeafMACsec = noLeafSide\<rparr>"

record Token =
  tk_Name :: string
  tk_Token :: string
  tk_Expire :: int
  tk_ScopedPaths :: "string list"

section \<open>What the kernel reports\<close>

record macsecLink =
  ml_Name :: string
  ml_Parent :: string
  ml_Master :: string
  ml_SCI :: "64 word"
  ml_MTU :: int
  ml_AdminUp :: bool
  ml_Encrypt :: bool
  ml_Protect :: bool
  ml_Replay :: bool
  ml_Validate :: string
  ml_Cipher :: string

record linkInfo =
  li_MAC :: "byte list"
  li_MTU :: int
  li_MaxMTU :: int
  li_Master :: string

record routeEntry =
  re_Family :: int
  re_Dst :: string
  re_Gateway :: string
  re_Protocol :: string
  re_Scope :: string
  re_PrefSrc :: string
  re_Metric :: int
  re_MTU :: int

section \<open>What the status handler shows\<close>

record MACsecLinkStatus =
  st_LeafIP :: string
  st_Interface :: string
  st_Member :: string
  st_Parent :: string
  st_Port :: int
  st_LeafMAC :: string
  st_LinkMTU :: int
  st_Mode :: string
  st_Underlay :: int
  st_Running :: bool
  st_Secured :: bool
  st_Pending :: bool
  st_Error :: string

definition noLinkStatus :: MACsecLinkStatus where
  "noLinkStatus = \<lparr>st_LeafIP = [], st_Interface = [], st_Member = [], st_Parent = [],
     st_Port = 0, st_LeafMAC = [], st_LinkMTU = 0, st_Mode = [], st_Underlay = 0,
     st_Running = False, st_Secured = False, st_Pending = False, st_Error = []\<rparr>"

record MACsecStatus =
  ms_Role :: string
  ms_Strict :: bool
  ms_Enabled :: bool
  ms_Confirmed :: bool
  ms_Links :: "MACsecLinkStatus list"

definition noStatus :: MACsecStatus where
  "noStatus = \<lparr>ms_Role = [], ms_Strict = False, ms_Enabled = False, ms_Confirmed = False,
     ms_Links = []\<rparr>"

section \<open>What the two routers tell each other\<close>

record macsecPeerRequest =
  rq_Token :: string
  rq_Enable :: bool
  rq_KeyNonce :: string
  rq_PeerMTU :: int
  rq_Mode :: string
  rq_Port :: int
  rq_UnderlayMTU :: int
  rq_Jumbo :: bool
  rq_MainPublicKey :: string

record macsecPeerResponse =
  rp_Version :: int
  rp_BridgeMAC :: string
  rp_MaxMTU :: int
  rp_LinkMTU :: int
  rp_LeafPublicKey :: string

record leafMACsecRequest =
  lq_IP :: string
  lq_Enable :: bool
  lq_Mode :: string
  lq_Parent :: string
  lq_MTU :: int
  lq_Jumbo :: bool

definition noPeerRequest :: macsecPeerRequest where
  "noPeerRequest = \<lparr>rq_Token = [], rq_Enable = False, rq_KeyNonce = [], rq_PeerMTU = 0,
     rq_Mode = [], rq_Port = 0, rq_UnderlayMTU = 0, rq_Jumbo = False, rq_MainPublicKey = []\<rparr>"

definition noPeerResponse :: macsecPeerResponse where
  "noPeerResponse = \<lparr>rp_Version = 0, rp_BridgeMAC = [], rp_MaxMTU = 0, rp_LinkMTU = 0,
     rp_LeafPublicKey = []\<rparr>"

definition BRIDGE_IFACE :: string where
  "BRIDGE_IFACE = ''br0''"

definition DOWNHAUL_TOKEN_NAME :: string where
  "DOWNHAUL_TOKEN_NAME = ''PLUS-MESH-API-DOWNHAUL-TOKEN''"

end
