(* ===== verification/Macsec.thy ===== *)
theory Macsec
  imports Types
begin

text \<open>
  \<open>macsec.go\<close> and the pure part of \<open>backhaul_wg.go\<close>: key derivation, the configuration a key
  agreement participant runs on, secure channel identifiers, the links \<open>ip\<close> reports, MTU
  budgets, port allocation and the nft rule sets as text. HKDF, which the code takes from Go's
  \<open>crypto/hkdf\<close>, is the parameter \<open>K\<close> (secret, salt, info, length).
\<close>

section \<open>Constants and modes\<close>

definition macsecOverhead :: int where "macsecOverhead = 32"
definition macsecEthernetMTU :: int where "macsecEthernetMTU = 1500"
definition macsecMinLinkMTU :: int where "macsecMinLinkMTU = 1280"
definition macsecWantParent :: int where "macsecWantParent = macsecEthernetMTU + macsecOverhead"
definition macsecLeafPort :: int where "macsecLeafPort = 1"
definition macsecMainPortFirst :: int where "macsecMainPortFirst = 2"
definition macsecMainPortLast :: int where "macsecMainPortLast = 65000"
definition macsecPrioMain :: int where "macsecPrioMain = 16"
definition macsecPrioLeaf :: int where "macsecPrioLeaf = 255"
definition macsecMinSecretLen :: nat where "macsecMinSecretLen = 32"
definition macsecNonceLen :: nat where "macsecNonceLen = 32"
definition macsecCAKLen :: nat where "macsecCAKLen = 32"
definition macsecCKNLen :: nat where "macsecCKNLen = 16"
definition meshWGOverhead :: int where "meshWGOverhead = 60"
definition meshVXLANOverhead :: int where "meshVXLANOverhead = 50"
definition meshJumboMTU :: int where "meshJumboMTU = 9000"
definition meshWGMaxPort :: int where "meshWGMaxPort = 254"
definition meshWGPort :: int where "meshWGPort = 51821"
definition meshVXLANPort :: int where "meshVXLANPort = 4789"

text \<open>Durations, in nanoseconds as \<open>time.Duration\<close> counts them.\<close>

definition second :: int where "second = 1000000000"
definition macsecConfirmTimeout :: int where "macsecConfirmTimeout = 180 * second"
definition macsecApplyDelay :: int where "macsecApplyDelay = 2 * second"
definition macsecNoPeerAfter :: int where "macsecNoPeerAfter = 60 * second"
definition macsecMKARestart :: int where "macsecMKARestart = 30 * second"
definition meshWGFresh :: int where "meshWGFresh = 180 * second"
definition meshJumboSettle :: int where "meshJumboSettle = 30 * second"

lemmas mtu_consts = macsecOverhead_def macsecEthernetMTU_def macsecMinLinkMTU_def
  macsecWantParent_def meshWGOverhead_def meshVXLANOverhead_def meshJumboMTU_def

lemmas port_consts = macsecLeafPort_def macsecMainPortFirst_def macsecMainPortLast_def
  meshWGMaxPort_def

lemmas time_consts = second_def macsecConfirmTimeout_def macsecApplyDelay_def
  macsecNoPeerAfter_def macsecMKARestart_def meshWGFresh_def meshJumboSettle_def

definition backhaulMACsec :: string where "backhaulMACsec = ''macsec''"
definition backhaulWireGuard :: string where "backhaulWireGuard = ''wireguard''"

definition requestedMode :: "string \<Rightarrow> string" where
  "requestedMode mode = (if mode = backhaulMACsec then backhaulMACsec else backhaulWireGuard)"

definition storedMode :: "string \<Rightarrow> string" where
  "storedMode mode = (if mode = backhaulWireGuard then backhaulWireGuard else backhaulMACsec)"

definition backhaulLabel :: "string \<Rightarrow> string" where
  "backhaulLabel mode =
    (if storedMode mode = backhaulWireGuard then ''Encrypted Link (WireGuard)''
     else ''Encrypted Link (MACsec)'')"

lemma modes_differ [simp]: "backhaulMACsec \<noteq> backhaulWireGuard" "backhaulWireGuard \<noteq> backhaulMACsec"
  by (simp_all add: backhaulMACsec_def backhaulWireGuard_def)

lemma storedMode_idem [simp]: "storedMode (storedMode m) = storedMode m"
  by (simp add: storedMode_def)

section \<open>Keys\<close>

type_synonym hkdf = "byte list \<Rightarrow> byte list \<Rightarrow> string \<Rightarrow> nat \<Rightarrow> byte list res"

text \<open>Documented behaviour of HKDF: a key has the length asked for.\<close>

definition hkdf_ok :: "hkdf \<Rightarrow> bool" where
  "hkdf_ok K \<longleftrightarrow> (\<forall>s n i l k. K s n i l = Inr k \<longrightarrow> length k = l)"

definition decodeMACsecNonce :: "string \<Rightarrow> byte list res" where
  "decodeMACsecNonce nonceHex =
    (if length nonceHex \<noteq> 2 * macsecNonceLen then Inl ''invalid key nonce length''
     else case hex_decode nonceHex of
       None \<Rightarrow> Inl ''invalid key nonce encoding''
     | Some nonce \<Rightarrow> Inr nonce)"

definition macsecKDFLabel :: string where
  "macsecKDFLabel = ''spr-mesh-macsec-v1''"

definition deriveMACsecKeys :: "hkdf \<Rightarrow> string \<Rightarrow> string \<Rightarrow> macsecKeys res" where
  "deriveMACsecKeys K secret nonceHex =
    (if length secret < macsecMinSecretLen then Inl ''pairing secret too short for key derivation''
     else case decodeMACsecNonce nonceHex of
       Inl e \<Rightarrow> Inl e
     | Inr nonce \<Rightarrow>
        (case K (str_bytes secret) nonce (macsecKDFLabel @ '' cak'') macsecCAKLen of
           Inl e \<Rightarrow> Inl e
         | Inr cak \<Rightarrow>
            (case K (str_bytes secret) nonce (macsecKDFLabel @ '' ckn'') macsecCKNLen of
               Inl e \<Rightarrow> Inl e
             | Inr ckn \<Rightarrow> Inr \<lparr>k_CAK = cak, k_CKN = ckn\<rparr>)))"

lemma decodeMACsecNonce_encode:
  "length n = macsecNonceLen \<Longrightarrow> decodeMACsecNonce (hex_encode n) = Inr n"
  by (simp add: decodeMACsecNonce_def)

lemma decodeMACsecNonce_length:
  "decodeMACsecNonce s = Inr n \<Longrightarrow> length n = macsecNonceLen"
  by (auto simp: decodeMACsecNonce_def split: if_splits option.splits dest: hex_decode_length)

lemma deriveMACsecKeys_lengths:
  "hkdf_ok K \<Longrightarrow> deriveMACsecKeys K s n = Inr k \<Longrightarrow>
    length (k_CAK k) = macsecCAKLen \<and> length (k_CKN k) = macsecCKNLen"
  by (auto simp: deriveMACsecKeys_def hkdf_ok_def split: if_splits sum.splits)

section \<open>The key agreement participant's configuration\<close>

record mkaInstance =
  mi_ID :: string
  mi_Parent :: string
  mi_Port :: int
  mi_Priority :: int
  mi_Keys :: macsecKeys

definition validMACsecPort :: "int \<Rightarrow> bool" where
  "validMACsecPort port = (port \<ge> 1 \<and> port \<le> 65534)"

definition mka_validate :: "mkaInstance \<Rightarrow> err" where
  "mka_validate inst =
    (if \<not> valid_iface (mi_Parent inst) then
       Some (''invalid MACsec parent interface '' @ quote (mi_Parent inst))
     else if \<not> validMACsecPort (mi_Port inst) then
       Some (''invalid MACsec port '' @ itoa (mi_Port inst))
     else if mi_Priority inst < 0 \<or> mi_Priority inst > 255 then
       Some (''invalid MKA priority '' @ itoa (mi_Priority inst))
     else if length (k_CAK (mi_Keys inst)) \<noteq> macsecCAKLen \<or> length (k_CKN (mi_Keys inst)) \<noteq> macsecCKNLen then
       Some ''invalid MKA key length''
     else None)"

text \<open>A line of generated text: \<open>n\<close> tabs, the text, a newline.\<close>

definition ln :: "nat \<Rightarrow> string \<Rightarrow> string" where
  "ln n s = replicate n CHR 0x09 @ s @ [CHR 0x0A]"

definition wpa_text :: "mkaInstance \<Rightarrow> string" where
  "wpa_text inst = concat
    [ln 0 ''eapol_version=3'', ln 0 ''ap_scan=0'', ln 0 ''network={'',
     ln 1 ''key_mgmt=NONE'', ln 1 ''eapol_flags=0'', ln 1 ''macsec_policy=1'',
     ln 1 ''macsec_integ_only=0'', ln 1 ''macsec_replay_protect=1'',
     ln 1 (''macsec_replay_window='' @ itoa 0),
     ln 1 (''macsec_port='' @ itoa (mi_Port inst)),
     ln 1 (''mka_cak='' @ hex_encode (k_CAK (mi_Keys inst))),
     ln 1 (''mka_ckn='' @ hex_encode (k_CKN (mi_Keys inst))),
     ln 1 (''mka_priority='' @ itoa (mi_Priority inst)),
     ln 0 ''}'']"

definition renderWPAConf :: "mkaInstance \<Rightarrow> string res" where
  "renderWPAConf inst = (case mka_validate inst of Some e \<Rightarrow> Inl e | None \<Rightarrow> Inr (wpa_text inst))"

section \<open>Secure channel identifiers\<close>

text \<open>\<open>copy(b[:6], mac)\<close>, then the port as two big endian bytes, read as a \<open>uint64\<close>.\<close>

definition macsecSCI :: "byte list \<Rightarrow> int \<Rightarrow> 64 word res" where
  "macsecSCI mac port =
    (if length mac \<noteq> 6 then Inl ''invalid MAC for SCI''
     else if \<not> validMACsecPort port then Inl (''invalid MACsec port '' @ itoa port)
     else Inr (be_u64 (append_u16 mac (of_int port))))"

section \<open>The links \<open>ip\<close> reports\<close>

definition link_Secure :: "macsecLink \<Rightarrow> bool" where
  "link_Secure l = (ml_Encrypt l \<and> ml_Protect l \<and> ml_Replay l \<and> ml_Validate l = ''strict'')"

definition link_Forwarding :: "macsecLink \<Rightarrow> bool" where
  "link_Forwarding l = (ml_AdminUp l \<and> link_Secure l)"

text \<open>
  What \<open>encoding/json\<close> makes of the \<open>sci\<close> member: a string (also for null, the empty one), a
  number that fits \<open>uint64\<close>, or anything else, the missing member included.
\<close>

datatype jsonSCI = JString string | JUint "64 word" | JBad

definition parseSCI :: "jsonSCI \<Rightarrow> 64 word res" where
  "parseSCI raw =
    (case raw of
       JString s \<Rightarrow>
         (let s = trim_prefix (to_lower (trim_space s)) ''0x'' in
          if s = [] \<or> length s > 16 then Inl ''invalid sci''
          else case parse_hex_acc 0 s of
            None \<Rightarrow> Inl (''strconv.ParseUint: parsing '' @ quote s @ '': invalid syntax'')
          | Some n \<Rightarrow> Inr (of_nat n))
     | JUint n \<Rightarrow> Inr n
     | JBad \<Rightarrow> Inl ''invalid sci'')"

text \<open>One element of the array \<open>ip -d -j link show type macsec\<close> prints, decoded.\<close>

record ipLinkEntry =
  ie_IfName :: string
  ie_Link :: string
  ie_Master :: string
  ie_MTU :: int
  ie_Flags :: "string list"
  ie_Kind :: string
  ie_SCI :: jsonSCI
  ie_Protect :: "bool option"
  ie_Encrypt :: "bool option"
  ie_Replay :: "bool option"
  ie_ReplayProtect :: "bool option"
  ie_Validate :: string
  ie_Validation :: string
  ie_Cipher :: string

definition entry_link :: "ipLinkEntry \<Rightarrow> macsecLink option" where
  "entry_link e =
    (if ie_Kind e \<noteq> ''macsec'' \<or> \<not> valid_iface (ie_IfName e) then None
     else case parseSCI (ie_SCI e) of
       Inl _ \<Rightarrow> None
     | Inr sci \<Rightarrow> Some
        \<lparr>ml_Name = ie_IfName e, ml_Parent = ie_Link e, ml_Master = ie_Master e, ml_SCI = sci,
         ml_MTU = ie_MTU e, ml_AdminUp = (''UP'' \<in> set (ie_Flags e)),
         ml_Encrypt = (ie_Encrypt e = Some True),
         ml_Protect = (ie_Protect e = Some True),
         ml_Replay = ((case ie_ReplayProtect e of None \<Rightarrow> ie_Replay e | Some b \<Rightarrow> Some b) = Some True),
         ml_Validate = (if ie_Validation e = [] then ie_Validate e else ie_Validation e),
         ml_Cipher = ie_Cipher e\<rparr>)"

text \<open>\<open>dec\<close> is \<open>json.Unmarshal\<close> into the array of entries.\<close>

definition parseMACsecLinks :: "(string \<Rightarrow> ipLinkEntry list res) \<Rightarrow> string \<Rightarrow> macsecLink list res" where
  "parseMACsecLinks dec data =
    (if trim_space data = [] then Inr []
     else case dec data of
       Inl e \<Rightarrow> Inl e
     | Inr entries \<Rightarrow> Inr (List.map_filter entry_link entries))"

fun findMACsecLink :: "macsecLink list \<Rightarrow> string \<Rightarrow> 64 word \<Rightarrow> macsecLink option" where
  "findMACsecLink [] parent sci = None"
| "findMACsecLink (l # ls) parent sci =
    (if ml_Parent l = parent \<and> ml_SCI l = sci then Some l else findMACsecLink ls parent sci)"

lemma findMACsecLink_Some:
  "findMACsecLink ls p c = Some l \<Longrightarrow> l \<in> set ls \<and> ml_Parent l = p \<and> ml_SCI l = c"
  by (induction ls) (auto split: if_splits)

section \<open>MTU budgets\<close>

definition macsecCapableMTU :: "int \<Rightarrow> int" where
  "macsecCapableMTU parentMaxMTU =
    (let mtu = parentMaxMTU - macsecOverhead
     in if mtu > macsecEthernetMTU then macsecEthernetMTU else mtu)"

definition macsecLinkMTU :: "int \<Rightarrow> int \<Rightarrow> int res" where
  "macsecLinkMTU local peer =
    (let mtu = (if peer < local then peer else local);
         mtu = (if mtu > macsecEthernetMTU then macsecEthernetMTU else mtu)
     in if mtu < macsecMinLinkMTU then
          Inl (backhaulLabel backhaulMACsec @ '' MTU '' @ itoa mtu @ '' below minimum '' @ itoa macsecMinLinkMTU)
        else Inr mtu)"

definition wgCapableUnderlay :: "linkInfo \<Rightarrow> int" where
  "wgCapableUnderlay info =
    (let max = li_MaxMTU info;
         max = (if max < li_MTU info then li_MTU info else max)
     in if max > meshJumboMTU then meshJumboMTU else max)"

definition parentCapableMTU :: "linkInfo \<Rightarrow> int" where
  "parentCapableMTU info =
    macsecCapableMTU (if li_MaxMTU info < li_MTU info then li_MTU info else li_MaxMTU info)"

definition wgInnerMTU :: "int \<Rightarrow> int" where
  "wgInnerMTU underlay =
    (let mtu = underlay - meshWGOverhead - meshVXLANOverhead
     in if mtu > macsecEthernetMTU then macsecEthernetMTU else mtu)"

definition underlayOrDefault :: "int \<Rightarrow> int" where
  "underlayOrDefault mtu = (if mtu < macsecEthernetMTU then macsecEthernetMTU else mtu)"

definition meshUnderlay :: "bool \<Rightarrow> int \<Rightarrow> int" where
  "meshUnderlay jumbo mtu = (if \<not> jumbo then macsecEthernetMTU else underlayOrDefault mtu)"

definition effectiveLinkMTU :: "string \<Rightarrow> bool \<Rightarrow> int \<Rightarrow> int \<Rightarrow> int" where
  "effectiveLinkMTU mode jumbo underlay linkMTU =
    (if storedMode mode = backhaulWireGuard then wgInnerMTU (meshUnderlay jumbo underlay)
     else let limit = macsecCapableMTU macsecEthernetMTU
          in if \<not> jumbo \<and> limit < linkMTU then limit else linkMTU)"

definition macsecMSS :: "int \<Rightarrow> int \<times> int" where
  "macsecMSS linkMTU = (linkMTU - 40, linkMTU - 60)"

section \<open>Ports and addresses\<close>

definition validWGPort :: "int \<Rightarrow> bool" where
  "validWGPort port = (port \<ge> macsecMainPortFirst \<and> port \<le> meshWGMaxPort)"

definition usedPorts :: "LeafRouter list \<Rightarrow> int set" where
  "usedPorts leaves = set (List.map_filter
     (\<lambda>leaf. case lr_MACsec leaf of
        Some m \<Rightarrow> if lm_Port m \<noteq> 0 then Some (lm_Port m) else None
      | None \<Rightarrow> None) leaves)"

function freePort :: "int set \<Rightarrow> int \<Rightarrow> int res" where
  "freePort used port =
    (if port \<le> macsecMainPortLast then
       (if port \<notin> used then Inr port else freePort used (port + 1))
     else Inl ''no free MACsec ports'')"
  by pat_completeness auto
termination
  by (relation "measure (\<lambda>(used, port). nat (macsecMainPortLast + 1 - port))") auto

declare freePort.simps [simp del]

definition allocateMACsecPort :: "LeafRouter list \<Rightarrow> int res" where
  "allocateMACsecPort leaves = freePort (usedPorts leaves) macsecMainPortFirst"

definition meshUnderlayIP :: "int \<Rightarrow> string" where
  "meshUnderlayIP port = ''169.254.83.'' @ itoa port"

definition meshTunnelIP :: "int \<Rightarrow> string" where
  "meshTunnelIP port = ''169.254.84.'' @ itoa port"

definition meshMainSide :: int where "meshMainSide = 1"

definition meshVXLANPrefix :: string where "meshVXLANPrefix = ''mshvx''"
definition meshVXLANLeaf :: string where "meshVXLANLeaf = ''mshvx0''"
definition meshWGIface :: string where "meshWGIface = ''wgmesh''"

definition meshVXLANMain :: "int \<Rightarrow> string" where
  "meshVXLANMain port = meshVXLANPrefix @ itoa port"

section \<open>Rule sets\<close>

definition macsecGuardTable :: string where "macsecGuardTable = ''mesh_macsec_guard''"
definition macsecMSSTable :: string where "macsecMSSTable = ''mesh_macsec_mss''"

definition dq :: string where "dq = [CHR 0x22]"

definition table_head :: "string \<Rightarrow> string \<Rightarrow> string" where
  "table_head family t = concat
    [ln 0 (''table '' @ family @ '' '' @ t), ln 0 (''delete table '' @ family @ '' '' @ t),
     ln 0 (''table '' @ family @ '' '' @ t @ '' {'')]"

definition guard_chain :: "string \<Rightarrow> string \<Rightarrow> string list \<Rightarrow> string" where
  "guard_chain hook dev rules = concat
    ([ln 1 (''chain '' @ hook @ '' {''),
      ln 2 (''type filter hook '' @ hook @ '' device '' @ dq @ dev @ dq @ '' priority -500; policy drop;'')]
     @ map (ln 2) rules @ [ln 1 ''}''])"

definition renderLeafGuard :: "string \<Rightarrow> bool \<Rightarrow> string res" where
  "renderLeafGuard wanif egress =
    (if \<not> valid_iface wanif then Inl (''invalid uplink interface '' @ quote wanif)
     else Inr (table_head ''netdev'' macsecGuardTable @
       guard_chain ''ingress'' wanif [''ether type { 0x888e, 0x88e5, 0x88b5 } accept''] @
       (if egress then guard_chain ''egress'' wanif [''ether type { 0x888e, 0x88e5, 0x88b5 } accept''] else []) @
       ln 0 ''}''))"

definition wg_flow :: "string \<Rightarrow> string \<Rightarrow> string" where
  "wg_flow src dst = ''ip saddr '' @ src @ '' ip daddr '' @ dst @ '' udp sport '' @ itoa meshWGPort @
     '' udp dport '' @ itoa meshWGPort @ '' accept''"

definition renderLeafGuardWG :: "string \<Rightarrow> int \<Rightarrow> bool \<Rightarrow> string res" where
  "renderLeafGuardWG wanif port egress =
    (if \<not> valid_iface wanif then Inl (''invalid uplink interface '' @ quote wanif)
     else if \<not> validWGPort port then Inl (''invalid mesh port '' @ itoa port)
     else let main = meshUnderlayIP meshMainSide; leaf = meshUnderlayIP port in
       Inr (table_head ''netdev'' macsecGuardTable @
         guard_chain ''ingress'' wanif
           [''ether type arp arp daddr ip '' @ leaf @ '' accept'', ''ether type 0x88b5 accept'',
            wg_flow main leaf] @
         (if egress then guard_chain ''egress'' wanif
           [''ether type arp arp saddr ip '' @ leaf @ '' accept'', ''ether type 0x88b5 accept'',
            wg_flow leaf main] else []) @
         ln 0 ''}''))"

definition renderMSSClamp :: "int \<Rightarrow> string res" where
  "renderMSSClamp linkMTU =
    (if linkMTU < macsecMinLinkMTU \<or> linkMTU \<ge> macsecEthernetMTU then
       Inl (''no MSS clamp needed for MTU '' @ itoa linkMTU)
     else case macsecMSS linkMTU of (v4, v6) \<Rightarrow>
       Inr (table_head ''bridge'' macsecMSSTable @ concat
         [ln 1 ''chain forward {'', ln 2 ''type filter hook forward priority -150; policy accept;'',
          ln 2 (''ether type ip ip protocol tcp tcp flags & syn == syn tcp option maxseg size > '' @
            itoa v4 @ '' tcp option maxseg size set '' @ itoa v4),
          ln 2 (''ether type ip6 ip6 nexthdr tcp tcp flags & syn == syn tcp option maxseg size > '' @
            itoa v6 @ '' tcp option maxseg size set '' @ itoa v6),
          ln 1 ''}'', ln 0 ''}'']))"

end
