(* ===== verification/CtlFrame.thy ===== *)
theory CtlFrame
  imports Macsec
begin

text \<open>
  The control frames of \<open>macsec_ctl.go\<close>: a fixed layout behind an Ethernet header (magic,
  command, key name, challenge, declared length, HMAC), padded to the declared length so that
  one frame also measures the path. HMAC-SHA256 is the parameter \<open>H\<close> (key, message). The locale
  \<open>frame_codec\<close> is what the protocol code needs of a codec; it is interpreted on the two
  functions below.
\<close>

definition macsecCtlEtherType :: "16 word" where "macsecCtlEtherType = 0x88b5"
definition macsecCtlMagic :: string where "macsecCtlMagic = ''SPRMSEC1''"
definition macsecCtlDisable :: byte where "macsecCtlDisable = 1"
definition macsecCtlAck :: byte where "macsecCtlAck = 2"
definition macsecCtlProbe :: byte where "macsecCtlProbe = 3"
definition macsecCtlProbeReply :: byte where "macsecCtlProbeReply = 4"
definition macsecCtlChallengeLen :: nat where "macsecCtlChallengeLen = 16"
definition macsecCtlMACLen :: nat where "macsecCtlMACLen = 32"

definition macsecCtlPayloadLen :: nat where
  "macsecCtlPayloadLen = length macsecCtlMagic + 1 + macsecCKNLen + macsecCtlChallengeLen + 2 + macsecCtlMACLen"

definition macsecCtlFrameLen :: nat where
  "macsecCtlFrameLen = 14 + macsecCtlPayloadLen"

record macsecCtlKeys =
  ck_Nonce :: string
  ck_CKN :: "byte list"
  ck_Key :: "byte list"

type_synonym hmac = "byte list \<Rightarrow> byte list \<Rightarrow> byte list"

definition hmac_ok :: "hmac \<Rightarrow> bool" where
  "hmac_ok H \<longleftrightarrow> (\<forall>k m. length (H k m) = macsecCtlMACLen)"

definition deriveMACsecCtlKeys :: "hkdf \<Rightarrow> string \<Rightarrow> string \<Rightarrow> macsecCtlKeys res" where
  "deriveMACsecCtlKeys K secret nonceHex =
    (case deriveMACsecKeys K secret nonceHex of
       Inl e \<Rightarrow> Inl e
     | Inr keys \<Rightarrow>
        (case K (str_bytes secret)
                (case decodeMACsecNonce nonceHex of Inl _ \<Rightarrow> [] | Inr n \<Rightarrow> n)
                (macsecKDFLabel @ '' ctl'') 32 of
           Inl e \<Rightarrow> Inl e
         | Inr key \<Rightarrow> Inr \<lparr>ck_Nonce = nonceHex, ck_CKN = k_CKN keys, ck_Key = key\<rparr>))"

text \<open>The bytes the tag covers.\<close>

definition tag_input :: "macsecCtlKeys \<Rightarrow> byte \<Rightarrow> byte list \<Rightarrow> nat \<Rightarrow> byte list" where
  "tag_input keys cmd challenge tot =
     str_bytes macsecCtlMagic @ [cmd] @ ck_CKN keys @ challenge @ append_u16 [] (of_nat tot)"

definition macsecCtlTag :: "hmac \<Rightarrow> macsecCtlKeys \<Rightarrow> byte \<Rightarrow> byte list \<Rightarrow> nat \<Rightarrow> byte list" where
  "macsecCtlTag H keys cmd challenge tot = H (ck_Key keys) (tag_input keys cmd challenge tot)"

text \<open>The frame before its padding.\<close>

definition ctl_head :: "hmac \<Rightarrow> byte list \<Rightarrow> byte list \<Rightarrow> byte \<Rightarrow> macsecCtlKeys \<Rightarrow> byte list \<Rightarrow> nat \<Rightarrow> byte list" where
  "ctl_head H dst src cmd keys challenge tot =
     append_u16 (append_u16 (dst @ src) macsecCtlEtherType @ str_bytes macsecCtlMagic @ [cmd] @
       ck_CKN keys @ challenge) (of_nat tot) @ macsecCtlTag H keys cmd challenge tot"

definition buildMACsecCtlFrameSized ::
  "hmac \<Rightarrow> byte list \<Rightarrow> byte list \<Rightarrow> byte \<Rightarrow> macsecCtlKeys \<Rightarrow> byte list \<Rightarrow> nat \<Rightarrow> byte list option" where
  "buildMACsecCtlFrameSized H dst src cmd keys challenge tot =
    (if length dst \<noteq> 6 \<or> length src \<noteq> 6 then None
     else let tot = (if tot < macsecCtlFrameLen then macsecCtlFrameLen else tot);
              frame = ctl_head H dst src cmd keys challenge tot
          in Some (frame @ replicate (tot - length frame) 0))"

definition buildMACsecCtlFrame ::
  "hmac \<Rightarrow> byte list \<Rightarrow> byte list \<Rightarrow> byte \<Rightarrow> macsecCtlKeys \<Rightarrow> byte list \<Rightarrow> byte list option" where
  "buildMACsecCtlFrame H dst src cmd keys challenge =
     buildMACsecCtlFrameSized H dst src cmd keys challenge macsecCtlFrameLen"

text \<open>\<open>None\<close> is \<open>ok = false\<close>; otherwise command, source, challenge and declared length.\<close>

definition parseMACsecCtlFrameSized ::
  "hmac \<Rightarrow> byte list \<Rightarrow> macsecCtlKeys \<Rightarrow> (byte \<times> byte list \<times> byte list \<times> nat) option" where
  "parseMACsecCtlFrameSized H frame keys =
    (if length frame < macsecCtlFrameLen \<or> length (ck_CKN keys) \<noteq> macsecCKNLen \<or> length (ck_Key keys) = 0
     then None
     else if be_u16 (drop 12 frame) \<noteq> macsecCtlEtherType then None
     else let p = drop 14 (take macsecCtlFrameLen frame) in
       if take (length macsecCtlMagic) p \<noteq> str_bytes macsecCtlMagic then None
       else let p = drop (length macsecCtlMagic) p;
                cmd = p ! 0;
                ckn = take macsecCKNLen (drop 1 p);
                challenge = take macsecCtlChallengeLen (drop (1 + macsecCKNLen) p);
                tot = unat (be_u16 (drop (1 + macsecCKNLen + macsecCtlChallengeLen) p));
                tag = drop (1 + macsecCKNLen + macsecCtlChallengeLen + 2) p
            in if tot < macsecCtlFrameLen \<or> length frame < tot then None
               else if ckn \<noteq> ck_CKN keys then None
               else if tag \<noteq> macsecCtlTag H keys cmd challenge tot then None
               else Some (cmd, take 6 (drop 6 frame), challenge, tot))"

definition parseMACsecCtlFrame ::
  "hmac \<Rightarrow> byte list \<Rightarrow> macsecCtlKeys \<Rightarrow> (byte \<times> byte list \<times> byte list) option" where
  "parseMACsecCtlFrame H frame keys =
     map_option (\<lambda>(cmd, src, challenge, tot). (cmd, src, challenge))
       (parseMACsecCtlFrameSized H frame keys)"

lemmas ctl_consts = macsecCtlFrameLen_def macsecCtlPayloadLen_def macsecCtlMagic_def
  macsecCKNLen_def macsecCtlChallengeLen_def macsecCtlMACLen_def

lemma ctl_lengths [simp]:
  "macsecCtlFrameLen = 89" "length macsecCtlMagic = 8" "macsecCKNLen = 16"
  "macsecCtlChallengeLen = 16" "length (str_bytes s) = length s"
  by (simp_all add: ctl_consts str_bytes_def)

lemma append_u16_two: "\<exists>x y. append_u16 [] v = [x, y]"
  by (simp add: append_u16_def)

section \<open>The layout\<close>

text \<open>
  What the parser reads off a frame that starts with the builder's head: each field is where
  the builder put it, whatever follows.
\<close>

lemma ctl_head_eq:
  "ctl_head H dst src cmd keys challenge tot =
     dst @ src @ append_u16 [] macsecCtlEtherType @ str_bytes macsecCtlMagic @ [cmd] @
     ck_CKN keys @ challenge @ append_u16 [] (of_nat tot) @ macsecCtlTag H keys cmd challenge tot"
  by (simp add: ctl_head_def append_u16_def)

lemma ctl_head_length:
  assumes "length dst = 6" "length src = 6" "length (ck_CKN keys) = 16" "length challenge = 16"
    and "length (macsecCtlTag H keys cmd challenge tot) = 32"
  shows "length (ctl_head H dst src cmd keys challenge tot) = 89"
  using assms by (simp add: ctl_head_def)

lemma parse_head:
  assumes len: "length dst = 6" "length src = 6" "length (ck_CKN keys) = 16" "length challenge = 16"
    "length (macsecCtlTag H keys cmd challenge tot) = 32" "ck_Key keys \<noteq> []"
    and tot: "tot < 65536"
  shows "parseMACsecCtlFrameSized H (ctl_head H dst src cmd keys challenge tot @ rest) keys =
    (if tot < 89 \<or> 89 + length rest < tot then None else Some (cmd, src, challenge, tot))"
proof -
  let ?f = "ctl_head H dst src cmd keys challenge tot @ rest"
  let ?u = "append_u16 [] (of_nat tot)"
  let ?t = "macsecCtlTag H keys cmd challenge tot"
  let ?body = "str_bytes macsecCtlMagic @ [cmd] @ ck_CKN keys @ challenge @ ?u @ ?t"
  have f: "?f = dst @ src @ append_u16 [] macsecCtlEtherType @ ?body @ rest"
    by (simp add: ctl_head_eq)
  have flen: "length ?f = 89 + length rest"
    using ctl_head_length [OF len(1-5)] by simp
  have e: "drop 12 ?f = append_u16 [] macsecCtlEtherType @ ?body @ rest"
    unfolding f using len by simp
  have b: "drop 14 (take 89 ?f) = ?body"
    unfolding f using len by simp
  have u: "unat (be_u16 (?u @ ?t)) = tot"
    using tot by (simp add: unsigned_of_nat take_bit_nat_eq_self)
  have s: "take 6 (drop 6 ?f) = src"
    unfolding f using len by simp
  have d: "drop 8 ?body = cmd # ck_CKN keys @ challenge @ ?u @ ?t"
    by simp
  have m: "take 8 ?body = str_bytes macsecCtlMagic" by simp
  show ?thesis
    unfolding parseMACsecCtlFrameSized_def Let_def ctl_lengths flen e b d m s
    using len u by simp
qed

text \<open>Conversely an accepted frame starts with the head of its own contents.\<close>

lemma u16_bytes: "length bs = 2 \<Longrightarrow> append_u16 [] (be_u16 bs) = bs"
proof -
  assume "length bs = 2"
  then obtain x y where "bs = [x, y]"
    by (metis (no_types) Suc_length_conv length_0_conv numeral_2_eq_2)
  moreover have "ucast (drop_bit 8 (push_bit 8 (ucast x) OR ucast y :: 16 word)) = x" for x y :: byte
    by (rule bit_word_eqI) (auto simp: bit_simps dest: bit_imp_le_length)
  moreover have "ucast (push_bit 8 (ucast x) OR ucast y :: 16 word) = y" for x y :: byte
    by (rule bit_word_eqI) (auto simp: bit_simps)
  ultimately show ?thesis by (simp add: append_u16_def be_u16_def)
qed

lemma be_u16_take: "2 \<le> length bs \<Longrightarrow> be_u16 (take 2 bs) = be_u16 bs"
  by (simp add: be_u16_def)

lemma cut5:
  "q = take a q @ take b (drop a q) @ take c (drop (a + b) q) @ take d (drop (a + b + c) q) @
     drop (a + b + c + d) q"
proof -
  have "drop (a + b) q = drop b (drop a q)" "drop (a + b + c) q = drop c (drop (a + b) q)"
    "drop (a + b + c + d) q = drop d (drop (a + b + c) q)"
    by (simp_all add: ac_simps)
  then show ?thesis by (metis append_take_drop_id)
qed

lemma parse_accepts:
  assumes "parseMACsecCtlFrameSized H f keys = Some (cmd, src, challenge, tot)"
  shows "take 89 f = ctl_head H (take 6 f) src cmd keys challenge tot"
    and "length src = 6" "length challenge = 16" "89 \<le> tot" "tot \<le> length f" "tot < 65536"
    and "length (ck_CKN keys) = 16" "ck_Key keys \<noteq> []"
    and "length (macsecCtlTag H keys cmd challenge tot) = 32"
proof -
  let ?p = "drop 14 (take 89 f)"
  let ?q = "drop 8 ?p"
  have a: "\<not> length f < 89" "length (ck_CKN keys) = 16" "length (ck_Key keys) \<noteq> 0"
    "be_u16 (drop 12 f) = macsecCtlEtherType" "take 8 ?p = str_bytes macsecCtlMagic"
    "cmd = ?q ! 0" "take 16 (drop 1 ?q) = ck_CKN keys" "challenge = take 16 (drop 17 ?q)"
    "tot = unat (be_u16 (drop 33 ?q))" "drop 35 ?q = macsecCtlTag H keys cmd challenge tot"
    "src = take 6 (drop 6 f)" "\<not> tot < 89" "\<not> length f < tot"
    using assms unfolding parseMACsecCtlFrameSized_def Let_def ctl_lengths
    by (simp_all split: if_splits)
  show "length src = 6" "length challenge = 16" "89 \<le> tot" "tot \<le> length f"
    "length (ck_CKN keys) = 16" "ck_Key keys \<noteq> []"
    using a by auto
  show "tot < 65536"
    using a(9) unsigned_less [of "be_u16 (drop 33 ?q)"] by simp
  have pq: "length ?p = 75" "length ?q = 67" using a(1) by simp_all
  show "length (macsecCtlTag H keys cmd challenge tot) = 32"
    using arg_cong [OF a(10), of length] pq by simp
  have ty: "take 2 (drop 12 f) = append_u16 [] macsecCtlEtherType"
    using a(1,4) u16_bytes [of "take 2 (drop 12 f)"] be_u16_take [of "drop 12 f"] by simp
  have tt: "take 2 (drop 33 ?q) = append_u16 [] (of_nat tot)"
    using a(9) pq u16_bytes [of "take 2 (drop 33 ?q)"] be_u16_take [of "drop 33 ?q"] by simp
  have "?q = take 1 ?q @ take 16 (drop 1 ?q) @ take 16 (drop 17 ?q) @ take 2 (drop 33 ?q) @ drop 35 ?q"
    using cut5 [of ?q 1 16 16 2] by simp
  moreover have "take 1 ?q = [cmd]"
    using a(6) pq by (cases ?q) auto
  ultimately have q: "?q = [cmd] @ ck_CKN keys @ challenge @ append_u16 [] (of_nat tot) @
      macsecCtlTag H keys cmd challenge tot"
    using a(7,8,10) tt by metis
  have f89: "take 89 f = take 6 f @ take 6 (drop 6 f) @ take 2 (drop 12 f) @ take 8 ?p @ ?q"
    by (rule trans [OF cut5 [of "take 89 f" 6 6 2 8]]) (simp add: drop_take min_def)
  show "take 89 f = ctl_head H (take 6 f) src cmd keys challenge tot"
    by (subst f89) (simp only: ctl_head_eq a(11) ty a(5) q)
qed

section \<open>The codec as an interface\<close>

text \<open>
  What the protocol relies on: a frame built under a key parses under it to its command, sender,
  challenge and length, and whatever parses carries the key's tag. The client's lemma is one
  exchange: the answer to a request is accepted by who asked.
\<close>

record ctlMsg =
  cm_dst :: "byte list"
  cm_src :: "byte list"
  cm_cmd :: byte
  cm_challenge :: "byte list"
  cm_total :: nat

definition msg_ok :: "ctlMsg \<Rightarrow> bool" where
  "msg_ok m \<longleftrightarrow> length (cm_dst m) = 6 \<and> length (cm_src m) = 6 \<and> length (cm_challenge m) = 16 \<and>
     89 \<le> cm_total m \<and> cm_total m < 65536"

definition key_ok :: "hmac \<times> macsecCtlKeys \<Rightarrow> bool" where
  "key_ok k \<longleftrightarrow> hmac_ok (fst k) \<and> length (ck_CKN (snd k)) = 16 \<and> ck_Key (snd k) \<noteq> []"

definition reply_to :: "byte list \<Rightarrow> byte \<Rightarrow> byte \<times> byte list \<times> byte list \<times> nat \<Rightarrow> ctlMsg" where
  "reply_to own cmd r = (case r of (_, src, challenge, tot) \<Rightarrow>
     \<lparr>cm_dst = src, cm_src = own, cm_cmd = cmd, cm_challenge = challenge, cm_total = tot\<rparr>)"

locale frame_codec =
  fixes good :: "'k \<Rightarrow> bool" and build :: "'k \<Rightarrow> ctlMsg \<Rightarrow> byte list option"
    and parse :: "'k \<Rightarrow> byte list \<Rightarrow> (byte \<times> byte list \<times> byte list \<times> nat) option"
    and tagged :: "'k \<Rightarrow> byte list \<Rightarrow> bool"
  assumes build_parse: "good k \<Longrightarrow> msg_ok m \<Longrightarrow>
      \<exists>f. build k m = Some f \<and> length f = cm_total m \<and>
        parse k f = Some (cm_cmd m, cm_src m, cm_challenge m, cm_total m)"
    and parse_tagged: "parse k f = Some r \<Longrightarrow> tagged k f"
begin

lemma exchange:
  assumes "good k" "msg_ok m" "length own = 6"
  obtains f g where "build k m = Some f" "build k (reply_to own cmd (cm_cmd m, cm_src m, cm_challenge m, cm_total m)) = Some g"
    "parse k f = Some (cm_cmd m, cm_src m, cm_challenge m, cm_total m)"
    "parse k g = Some (cmd, own, cm_challenge m, cm_total m)" "length g = length f"
proof -
  let ?r = "reply_to own cmd (cm_cmd m, cm_src m, cm_challenge m, cm_total m)"
  have "msg_ok ?r" using assms(2,3) by (simp add: msg_ok_def reply_to_def)
  from build_parse [OF assms(1) this] build_parse [OF assms(1,2)] that show ?thesis
    by (auto simp: reply_to_def)
qed

lemma untagged: "\<not> tagged k f \<Longrightarrow> parse k f = None"
  using parse_tagged by (cases "parse k f") auto

end

definition build_msg :: "hmac \<times> macsecCtlKeys \<Rightarrow> ctlMsg \<Rightarrow> byte list option" where
  "build_msg k m = buildMACsecCtlFrameSized (fst k) (cm_dst m) (cm_src m) (cm_cmd m) (snd k) (cm_challenge m) (cm_total m)"

definition parse_msg :: "hmac \<times> macsecCtlKeys \<Rightarrow> byte list \<Rightarrow> (byte \<times> byte list \<times> byte list \<times> nat) option" where
  "parse_msg k f = parseMACsecCtlFrameSized (fst k) f (snd k)"

text \<open>The tag of a frame is the one the key gives for the frame's own contents.\<close>

definition tagged :: "hmac \<times> macsecCtlKeys \<Rightarrow> byte list \<Rightarrow> bool" where
  "tagged k f \<longleftrightarrow> 89 \<le> length f \<and> (\<exists>cmd challenge tot.
     drop 57 (take 89 f) = fst k (ck_Key (snd k)) (tag_input (snd k) cmd challenge tot) \<and>
     drop 14 (take 57 f) = tag_input (snd k) cmd challenge tot)"

lemma hmac_length: "key_ok k \<Longrightarrow> length (macsecCtlTag (fst k) (snd k) c ch n) = 32"
  by (simp add: key_ok_def hmac_ok_def macsecCtlTag_def macsecCtlMACLen_def)

interpretation ctl: frame_codec key_ok build_msg parse_msg tagged
proof
  fix k :: "hmac \<times> macsecCtlKeys" and m
  assume k: "key_ok k" and m: "msg_ok m"
  let ?h = "ctl_head (fst k) (cm_dst m) (cm_src m) (cm_cmd m) (snd k) (cm_challenge m) (cm_total m)"
  let ?f = "?h @ replicate (cm_total m - length ?h) 0"
  have len: "length ?h = 89"
    using k m hmac_length [OF k] by (intro ctl_head_length) (simp_all add: key_ok_def msg_ok_def)
  have "build_msg k m = Some ?f"
    using m by (simp add: build_msg_def buildMACsecCtlFrameSized_def msg_ok_def Let_def)
  moreover have "parse_msg k ?f = Some (cm_cmd m, cm_src m, cm_challenge m, cm_total m)"
    unfolding parse_msg_def
    by (subst parse_head) (use k m len hmac_length [OF k] in \<open>auto simp: key_ok_def msg_ok_def\<close>)
  moreover have "length ?f = cm_total m" using m len by (simp add: msg_ok_def)
  ultimately show "\<exists>f. build_msg k m = Some f \<and> length f = cm_total m \<and>
      parse_msg k f = Some (cm_cmd m, cm_src m, cm_challenge m, cm_total m)"
    by blast
next
  fix k :: "hmac \<times> macsecCtlKeys" and f r
  assume p: "parse_msg k f = Some r"
  obtain cmd src ch tot where r: "r = (cmd, src, ch, tot)" by (cases r) auto
  note a = parse_accepts [OF p [unfolded parse_msg_def r]]
  let ?hd = "take 6 f @ src @ append_u16 [] macsecCtlEtherType"
  let ?in = "tag_input (snd k) cmd ch tot"
  let ?tag = "macsecCtlTag (fst k) (snd k) cmd ch tot"
  have f: "take 89 f = ?hd @ ?in @ ?tag"
    using a(1) by (simp add: ctl_head_eq tag_input_def)
  have l: "length ?hd = 14" "length ?in = 43" "89 \<le> length f"
    using a by (simp_all add: tag_input_def)
  have "take 57 f = take 57 (take 89 f)" by simp
  then have "drop 14 (take 57 f) = ?in"
    unfolding f using l by simp
  moreover have "drop 57 (take 89 f) = ?tag"
    unfolding f using l by simp
  ultimately show "tagged k f"
    unfolding tagged_def macsecCtlTag_def using l(3) by blast
qed

end
