(* ===== verification/SysEnv.thy ===== *)
theory SysEnv
  imports CtlFrame
begin

text \<open>
  The state the code runs on and the world it talks to. \<open>st\<close> holds the files the program owns
  (as decoded contents), the package's globals and the fields of \<open>macsecManager\<close>; its
  \<open>w_hist\<close> is the list of calls made so far, newest first. The interface \<open>macsecSys\<close>, the clock,
  randomness, the socket layer and the outcome of file operations are the record \<open>env\<close>: each
  answer is a function of the history, so a theorem for every \<open>env\<close> is a theorem for every
  behaviour of the kernel, the tools and the peers. Another goroutine holding \<open>Configmtx\<close>
  between two of our critical sections is \<open>e_Race\<close>, applied whenever the lock is taken.
\<close>

section \<open>Calls\<close>

text \<open>
  One constructor per method of \<open>macsecSys\<close>, and one per other effect: file operations, the
  clock, randomness, goroutines started, and requests to other routers. \<open>CHTTP\<close> is method, host,
  path, bearer token and the certificate authority the connection trusts.
\<close>

datatype sysCall =
    CLinks
  | CLinkInfo string
  | CRouteDev string
  | CSetMTU string int
  | CSetMaster string string
  | CSetUp string
  | CDeleteLink string
  | CDisableIPv6 string
  | CNFT string
  | CNFTDeleteTable string string
  | CNFTList string string
  | CStartMKA string string nat
  | CStopMKA nat
  | CExited nat
  | CHelp
  | CLookPath string
  | CRoutes string
  | CPinRouteMTU string routeEntry int
  | CCmd string "string list"
  | COutput string "string list"
  | CSendFrame string "byte list"
  | CExchange string "byte list"
  | CRecvFrames string
  | CNow
  | CRand nat
  | CReadFile string
  | CTokens
  | CWriteSecret string string
  | CRemove string
  | CWriteFlag bool
  | CSaveConfig
  | CSaveMTU "(string \<times> int) list"
  | CWriteWGKey
  | CGoCtlListen string
  | CGoTestMTU string
  | CKick
  | CKickAfter int
  | CCallLeaf string macsecPeerRequest
  | CWriteFile string string
  | CHTTP string string string string string
  | CFetchCert string
  | CHostapd string string
  | CGoParent string string
  | CGoSync
  | CSaveNeighbors "(string, (string \<times> string) list) gomap"
  | CRename string string

type_synonym hist = "sysCall list"

section \<open>Files the program owns\<close>

text \<open>
  \<open>config.json\<close>: absent, present but unreadable, present but not decodable (with what
  \<open>Unmarshal\<close> had filled in before the error), or a configuration.
\<close>

datatype cfgFile = CfgMissing | CfgUnreadable | CfgCorrupt MeshConfig | CfgOk MeshConfig

datatype fstat = Present | Absent | StatError

section \<open>The environment\<close>

record env =
  e_Links :: "hist \<Rightarrow> macsecLink list res"
  e_LinkInfo :: "hist \<Rightarrow> string \<Rightarrow> linkInfo res"
  e_RouteDev :: "hist \<Rightarrow> string \<Rightarrow> string res"
  e_Err :: "hist \<Rightarrow> sysCall \<Rightarrow> err"
  e_NFTList :: "hist \<Rightarrow> string \<Rightarrow> string \<Rightarrow> string \<times> err"
  e_Routes :: "hist \<Rightarrow> string \<Rightarrow> routeEntry list res"
  e_Output :: "hist \<Rightarrow> string \<Rightarrow> string list \<Rightarrow> string res"
  e_Exited :: "hist \<Rightarrow> nat \<Rightarrow> bool"
  e_Now :: "hist \<Rightarrow> int"
  e_Rand :: "hist \<Rightarrow> nat \<Rightarrow> byte list res"
  e_Frames :: "hist \<Rightarrow> string \<Rightarrow> byte list list \<times> string"
  e_Ticks :: "hist \<Rightarrow> nat"
  e_Getenv :: "string \<Rightarrow> string"
  e_ReadFile :: "hist \<Rightarrow> string \<Rightarrow> string res"
  e_Tokens :: "hist \<Rightarrow> Token list res"
  e_Help :: "hist \<Rightarrow> string"
  e_CallLeaf :: "hist \<Rightarrow> LeafRouter \<Rightarrow> macsecPeerRequest \<Rightarrow> (int \<times> string) res"
  e_peerReply :: "string \<Rightarrow> macsecPeerResponse option"
  e_Race :: "hist \<Rightarrow> cfgFile \<Rightarrow> cfgFile"
  e_hkdf :: hkdf
  e_hmac :: hmac
  e_sha256 :: "string \<Rightarrow> byte list"
  e_b64enc :: "byte list \<Rightarrow> string"
  e_b64dec :: "string \<Rightarrow> byte list option"
  e_x25519 :: "byte list \<Rightarrow> byte list res"
  e_parseIP :: "string \<Rightarrow> byte list option"

text \<open>
  An environment for examples: every command succeeds, nothing exists, nobody else runs and no
  time passes. Examples replace the answers they need.
\<close>

definition env0 :: env where
  "env0 = \<lparr>e_Links = (\<lambda>_. Inr []), e_LinkInfo = (\<lambda>_ _. Inl ''no device''),
     e_RouteDev = (\<lambda>_ _. Inl ''no route''), e_Err = (\<lambda>_ _. None),
     e_NFTList = (\<lambda>_ _ _. ([], None)), e_Routes = (\<lambda>_ _. Inr []),
     e_Output = (\<lambda>_ _ _. Inl ''no output''), e_Exited = (\<lambda>_ _. False), e_Now = (\<lambda>_. 0),
     e_Rand = (\<lambda>_ n. Inr (replicate n 7)), e_Frames = (\<lambda>_ _. ([], ''timeout'')), e_Ticks = (\<lambda>_. 0),
     e_Getenv = (\<lambda>_. []), e_ReadFile = (\<lambda>_ _. Inl ''no file''), e_Tokens = (\<lambda>_. Inr []),
     e_Help = (\<lambda>_. ''macsec_linux''), e_CallLeaf = (\<lambda>_ _ _. Inl ''unreachable''), e_peerReply = (\<lambda>_. None), e_Race = (\<lambda>_ f. f),
     e_hkdf = (\<lambda>_ _ _ n. Inr (replicate n 9)), e_hmac = (\<lambda>_ _. replicate 32 5),
     e_sha256 = str_bytes, e_b64enc = bytes_str, e_b64dec = (\<lambda>s. Some (str_bytes s)),
     e_x25519 = Inr, e_parseIP = (\<lambda>_. None)\<rparr>"

section \<open>The manager\<close>

record mkaRunning =
  mr_proc :: nat
  mr_confHash :: "byte list"
  mr_parent :: string
  mr_parentMAC :: string
  mr_sci :: "64 word"
  mr_confPath :: string

text \<open>
  Instants are nanoseconds; the zero \<open>time.Time\<close> of \<open>ctlOffAt\<close> is \<open>None\<close>. A
  \<open>map[string]bool\<close> that is only ever tested is the set of its true keys. A process handle is
  the pointer \<open>StartMKA\<close> returned: the length of the history at that call, so no two are equal.
\<close>

record st =
  w_hist :: hist
  w_cfg :: cfgFile
  w_leafFlag :: fstat
  w_reqFlag :: bool
  w_mtuFile :: "(string \<times> int) list option"
  w_wgKey :: "string option"
  w_neighbors :: "(string, (string \<times> string) list) gomap option"
  w_pendingErrors :: "(string, string) gomap"
  m_procs :: "(string, mkaRunning) gomap"
  m_status :: MACsecStatus
  m_leafActive :: bool
  m_origMTU :: "(string, int) gomap"
  m_mtuInUse :: "string set"
  m_noEgress :: bool
  m_guardRules :: string
  m_guardLive :: string
  m_mssMTU :: int
  m_ready :: bool
  m_mtuLoaded :: bool
  m_unsecured :: "(string, int) gomap"
  m_restarted :: "(string, int) gomap"
  m_leafCtl :: "macsecCtlKeys option"
  m_leafCtlMAC :: "byte list"
  m_ctlOffAt :: "int option"
  m_ctlRunning :: bool
  m_noCtlLoop :: bool
  m_wgApplied :: "(string, string) gomap"
  m_wgParents :: "string list"
  m_wgMainMTU :: int
  m_mtuTesting :: "string set"
  m_mtuRaised :: "(string, int) gomap"
  m_wgSeen :: bool
  m_bridgeGone :: bool
  m_bridgeGuard :: string
  m_bridgeGuardLive :: string

type_synonym 'a go = "(st, 'a) state"

definition newMACsecManager :: "cfgFile \<Rightarrow> fstat \<Rightarrow> bool \<Rightarrow> (string \<times> int) list option \<Rightarrow> st" where
  "newMACsecManager cfg leaf req mtus =
    \<lparr>w_hist = [], w_cfg = cfg, w_leafFlag = leaf, w_reqFlag = req, w_mtuFile = mtus, w_wgKey = None,
     w_neighbors = None, w_pendingErrors = [], m_procs = [], m_status = noStatus, m_leafActive = False,
     m_origMTU = [], m_mtuInUse = {}, m_noEgress = False, m_guardRules = [], m_guardLive = [],
     m_mssMTU = 0, m_ready = False, m_mtuLoaded = False, m_unsecured = [], m_restarted = [],
     m_leafCtl = None, m_leafCtlMAC = [], m_ctlOffAt = None, m_ctlRunning = False,
     m_noCtlLoop = False, m_wgApplied = [], m_wgParents = [], m_wgMainMTU = 0,
     m_mtuTesting = {}, m_mtuRaised = [], m_wgSeen = False, m_bridgeGone = False,
     m_bridgeGuard = [], m_bridgeGuardLive = []\<rparr>"

section \<open>Calls as programs\<close>

definition ask :: "sysCall \<Rightarrow> (hist \<Rightarrow> 'a) \<Rightarrow> 'a go" where
  "ask c f = State (\<lambda>s. (f (w_hist s), s\<lparr>w_hist := c # w_hist s\<rparr>))"

lemma run_ask [simp]: "run_state (ask c f) s = (f (w_hist s), s\<lparr>w_hist := c # w_hist s\<rparr>)"
  by (simp add: ask_def)

lemma wp_ask [wp_simps]: "wp (ask c f) Q s = Q (f (w_hist s)) (s\<lparr>w_hist := c # w_hist s\<rparr>)"
  by (simp add: wp_def)

text \<open>A call that answers with an error only, and one whose answer the code drops.\<close>

definition act :: "env \<Rightarrow> sysCall \<Rightarrow> err go" where
  "act E c = ask c (\<lambda>h. e_Err E h c)"

definition emit :: "sysCall \<Rightarrow> unit go" where
  "emit c = ask c (\<lambda>_. ())"

definition sysLinks :: "env \<Rightarrow> macsecLink list res go" where
  "sysLinks E = ask CLinks (e_Links E)"

definition sysLinkInfo :: "env \<Rightarrow> string \<Rightarrow> linkInfo res go" where
  "sysLinkInfo E n = ask (CLinkInfo n) (\<lambda>h. e_LinkInfo E h n)"

definition sysNFTList :: "env \<Rightarrow> string \<Rightarrow> string \<Rightarrow> (string \<times> err) go" where
  "sysNFTList E f t = ask (CNFTList f t) (\<lambda>h. e_NFTList E h f t)"

definition sysRoutes :: "env \<Rightarrow> string \<Rightarrow> routeEntry list res go" where
  "sysRoutes E d = ask (CRoutes d) (\<lambda>h. e_Routes E h d)"

definition sysOutput :: "env \<Rightarrow> string \<Rightarrow> string list \<Rightarrow> string res go" where
  "sysOutput E n args = ask (COutput n args) (\<lambda>h. e_Output E h n args)"

definition now :: "env \<Rightarrow> int go" where
  "now E = ask CNow (e_Now E)"

definition sysStartMKA :: "env \<Rightarrow> string \<Rightarrow> string \<Rightarrow> nat res go" where
  "sysStartMKA E parent conf = State (\<lambda>s.
     let h = w_hist s; p = length h; c = CStartMKA parent conf p
     in (case e_Err E h c of Some e \<Rightarrow> Inl e | None \<Rightarrow> Inr p, s\<lparr>w_hist := c # h\<rparr>))"

definition procExited :: "env \<Rightarrow> nat \<Rightarrow> bool go" where
  "procExited E p = ask (CExited p) (\<lambda>h. e_Exited E h p)"

definition procStop :: "nat \<Rightarrow> unit go" where
  "procStop p = emit (CStopMKA p)"

lemma wp_StartMKA [wp_simps]:
  "wp (sysStartMKA E p f) Q s =
    Q (case e_Err E (w_hist s) (CStartMKA p f (length (w_hist s))) of
         Some e \<Rightarrow> Inl e | None \<Rightarrow> Inr (length (w_hist s)))
      (s\<lparr>w_hist := CStartMKA p f (length (w_hist s)) # w_hist s\<rparr>)"
  by (simp add: sysStartMKA_def wp_def Let_def)

lemmas sys_defs = act_def emit_def sysLinks_def sysLinkInfo_def sysNFTList_def sysRoutes_def
  sysOutput_def now_def procExited_def procStop_def

lemma wp_sys [wp_simps]:
  "wp (act E c) P s = P (e_Err E (w_hist s) c) (s\<lparr>w_hist := c # w_hist s\<rparr>)"
  "wp (emit c) U s = U () (s\<lparr>w_hist := c # w_hist s\<rparr>)"
  "wp (sysLinks E) QL s = QL (e_Links E (w_hist s)) (s\<lparr>w_hist := CLinks # w_hist s\<rparr>)"
  "wp (sysLinkInfo E n) QI s = QI (e_LinkInfo E (w_hist s) n) (s\<lparr>w_hist := CLinkInfo n # w_hist s\<rparr>)"
  "wp (sysNFTList E f t) QN s = QN (e_NFTList E (w_hist s) f t) (s\<lparr>w_hist := CNFTList f t # w_hist s\<rparr>)"
  "wp (sysRoutes E d) QR s = QR (e_Routes E (w_hist s) d) (s\<lparr>w_hist := CRoutes d # w_hist s\<rparr>)"
  "wp (sysOutput E n a) QO s = QO (e_Output E (w_hist s) n a) (s\<lparr>w_hist := COutput n a # w_hist s\<rparr>)"
  "wp (now E) QT s = QT (e_Now E (w_hist s)) (s\<lparr>w_hist := CNow # w_hist s\<rparr>)"
  "wp (procExited E p) QX s = QX (e_Exited E (w_hist s) p) (s\<lparr>w_hist := CExited p # w_hist s\<rparr>)"
  by (simp_all add: sys_defs wp_ask)

lemma wp_procStop [wp_simps]: "wp (procStop p) Q s = Q () (s\<lparr>w_hist := CStopMKA p # w_hist s\<rparr>)"
  by (simp add: procStop_def wp_simps)

section \<open>The configuration store\<close>

definition lockConfig :: "env \<Rightarrow> unit go" where
  "lockConfig E = modify (\<lambda>s. s\<lparr>w_cfg := e_Race E (w_hist s) (w_cfg s)\<rparr>)"

definition cfg_load :: "cfgFile \<Rightarrow> MeshConfig" where
  "cfg_load f = (case f of CfgMissing \<Rightarrow> noConfig | CfgUnreadable \<Rightarrow> noConfig
     | CfgCorrupt c \<Rightarrow> c | CfgOk c \<Rightarrow> c)"

definition cfg_checked :: "cfgFile \<Rightarrow> MeshConfig res" where
  "cfg_checked f = (case f of CfgMissing \<Rightarrow> Inr noConfig | CfgUnreadable \<Rightarrow> Inl ''read''
     | CfgCorrupt c \<Rightarrow> Inl ''decode'' | CfgOk c \<Rightarrow> Inr c)"

definition loadConfigLocked :: "MeshConfig go" where
  "loadConfigLocked = gets (\<lambda>s. cfg_load (w_cfg s))"

definition loadMeshConfigChecked :: "MeshConfig res go" where
  "loadMeshConfigChecked = gets (\<lambda>s. cfg_checked (w_cfg s))"

text \<open>\<open>atomicWriteFile\<close>: the file is the new one or, on an error, still the old one.\<close>

definition saveConfigLocked :: "env \<Rightarrow> MeshConfig \<Rightarrow> unit go" where
  "saveConfigLocked E config = do {
     e \<leftarrow> act E CSaveConfig;
     doif (e = None) (modify (\<lambda>s. s\<lparr>w_cfg := CfgOk config\<rparr>))
   }"

definition isLeafRouter :: "bool go" where
  "isLeafRouter = gets (\<lambda>s. w_leafFlag s = Present)"

definition getToken :: "env \<Rightarrow> string \<Rightarrow> Token res go" where
  "getToken E name = do {
     r \<leftarrow> ask CTokens (e_Tokens E);
     return (case r of Inl e \<Rightarrow> Inl e
       | Inr tokens \<Rightarrow> (case find (\<lambda>tok. tk_Name tok = name) tokens of
           None \<Rightarrow> Inl ''token not found'' | Some tok \<Rightarrow> Inr tok))
   }"

lemma wp_lockConfig [wp_simps]:
  "wp (lockConfig E) Q s = Q () (s\<lparr>w_cfg := e_Race E (w_hist s) (w_cfg s)\<rparr>)"
  by (simp add: lockConfig_def wp_simps)

lemma wp_loadConfigLocked [wp_simps]: "wp loadConfigLocked Q s = Q (cfg_load (w_cfg s)) s"
  by (simp add: loadConfigLocked_def wp_simps)

lemma wp_loadMeshConfigChecked [wp_simps]:
  "wp loadMeshConfigChecked Q s = Q (cfg_checked (w_cfg s)) s"
  by (simp add: loadMeshConfigChecked_def wp_simps)

lemma wp_isLeafRouter [wp_simps]: "wp isLeafRouter Q s = Q (w_leafFlag s = Present) s"
  by (simp add: isLeafRouter_def wp_simps)

lemma wp_saveConfigLocked [wp_simps]:
  "wp (saveConfigLocked E c) Q s =
    (let t = s\<lparr>w_hist := CSaveConfig # w_hist s\<rparr>
     in if e_Err E (w_hist s) CSaveConfig = None then Q () (t\<lparr>w_cfg := CfgOk c\<rparr>) else Q () t)"
  by (simp add: saveConfigLocked_def wp_simps Let_def)

lemma cfg_checked_load: "cfg_checked f = Inr c \<Longrightarrow> cfg_load f = c"
  by (auto simp: cfg_checked_def cfg_load_def split: cfgFile.splits)

lemma cfg_simps [simp]: "cfg_load (CfgOk c) = c" "cfg_checked (CfgOk c) = Inr c"
  by (simp_all add: cfg_load_def cfg_checked_def)

section \<open>Uplink name and required flag\<close>

text \<open>\<open>strings.Trim(s, cutset)\<close> for the quotes around a shell value.\<close>

definition trim_quotes :: "string \<Rightarrow> string" where
  "trim_quotes s = (let q = (\<lambda>c. c = CHR 0x22 \<or> c = CHR 0x27)
     in rev (dropWhile q (rev (dropWhile q s))))"

fun wanif_lines :: "string list \<Rightarrow> string" where
  "wanif_lines [] = []"
| "wanif_lines (l # ls) =
    (let line = trim_space l in
     if \<not> has_prefix line ''WANIF='' then wanif_lines ls
     else let wanif = trim_quotes (trim_prefix line ''WANIF='')
          in if valid_iface wanif then wanif else wanif_lines ls)"

definition meshWANIF :: "env \<Rightarrow> string go" where
  "meshWANIF E =
    (let wanif = e_Getenv E ''WANIF'' in
     if valid_iface wanif then return wanif
     else do {
       r \<leftarrow> ask (CReadFile ''config.sh'') (\<lambda>h. e_ReadFile E h ''config.sh'');
       return (case r of Inl _ \<Rightarrow> [] | Inr data \<Rightarrow> wanif_lines (split_on CHR 0x0A data))
     })"

lemma wanif_lines_valid: "wanif_lines ls = [] \<or> valid_iface (wanif_lines ls)"
  by (induction ls) (auto simp: Let_def)

lemma meshWANIF_valid: "wp (meshWANIF E) (\<lambda>w _. w = [] \<or> valid_iface w) s"
  using wanif_lines_valid by (auto simp: meshWANIF_def wp_simps Let_def split: sum.split)

definition setMACsecRequiredFlag :: "env \<Rightarrow> bool \<Rightarrow> unit go" where
  "setMACsecRequiredFlag E on =
    (if on then do {
       present \<leftarrow> gets w_reqFlag;
       doif (\<not> present) (do {
         e \<leftarrow> act E (CWriteFlag True);
         doif (e = None) (modify (\<lambda>s. s\<lparr>w_reqFlag := True\<rparr>))
       })
     } else do {
       e \<leftarrow> act E (CWriteFlag False);
       doif (e = None) (modify (\<lambda>s. s\<lparr>w_reqFlag := False\<rparr>))
     })"

definition macsecRequiredFlagSet :: "bool go" where
  "macsecRequiredFlagSet = gets w_reqFlag"

definition Kick :: "unit go" where
  "Kick = emit CKick"

definition KickAfter :: "int \<Rightarrow> unit go" where
  "KickAfter d = emit (CKickAfter d)"

lemma wp_Kick [wp_simps]: "wp Kick Q s = Q () (s\<lparr>w_hist := CKick # w_hist s\<rparr>)"
  by (simp add: Kick_def wp_simps)

end
