(* ===== verification/Footprint.thy ===== *)
theory Footprint
  imports SysEnv
begin

text \<open>
  Which calls an operation makes and which fields it writes. \<open>emits P m\<close>: every call \<open>m\<close> adds
  to the history satisfies \<open>P\<close>. \<open>keeps f m\<close>: \<open>m\<close> leaves \<open>f\<close> alone. Both are instances of the
  locale \<open>effect\<close>, so an operation's footprint follows from those of the operations it calls.
\<close>

definition hist_ext :: "(sysCall \<Rightarrow> bool) \<Rightarrow> st \<Rightarrow> st \<Rightarrow> bool" where
  "hist_ext P s t \<longleftrightarrow> (\<exists>cs. w_hist t = cs @ w_hist s \<and> list_all P cs)"

abbreviation emits :: "(sysCall \<Rightarrow> bool) \<Rightarrow> 'a go \<Rightarrow> bool" where
  "emits P m \<equiv> within (hist_ext P) m"

interpretation emits: effect "hist_ext P" for P
proof
  show "hist_ext P s s" for s
    by (simp add: hist_ext_def)
  show "hist_ext P s u" if "hist_ext P s t" "hist_ext P t u" for s t u
    using that unfolding hist_ext_def by (metis append.assoc list_all_append)
qed

lemmas emits_rules = emits.rules

lemma hist_ext_refl [simp]: "hist_ext P s s"
  by (rule emits.refl)

lemma hist_ext_same: "w_hist t = w_hist s \<Longrightarrow> hist_ext P s t"
  by (simp add: hist_ext_def)

lemma hist_ext_cons: "w_hist t = c # w_hist s \<Longrightarrow> P c \<Longrightarrow> hist_ext P s t"
  unfolding hist_ext_def by (rule exI [of _ "[c]"]) simp

text \<open>
  The same with the history each call was made on: \<open>calls P m\<close>, every call \<open>c\<close> that \<open>m\<close> makes
  on a history \<open>h\<close> satisfies \<open>P c h\<close>. This is how a call is tied to the evidence before it.
\<close>

fun hist_all :: "(sysCall \<Rightarrow> hist \<Rightarrow> bool) \<Rightarrow> sysCall list \<Rightarrow> hist \<Rightarrow> bool" where
  "hist_all P [] h = True"
| "hist_all P (c # cs) h = (P c (cs @ h) \<and> hist_all P cs h)"

lemma hist_all_append: "hist_all P (cs @ ds) h \<longleftrightarrow> hist_all P cs (ds @ h) \<and> hist_all P ds h"
  by (induction cs) auto

lemma hist_all_mem: "hist_all P (cs @ c # ds) h \<Longrightarrow> P c (ds @ h)"
  by (simp add: hist_all_append)

lemma hist_all_list: "list_all P cs \<Longrightarrow> hist_all (\<lambda>c _. P c) cs h"
  by (induction cs) auto

lemma hist_all_mono: "hist_all P cs h \<Longrightarrow> (\<And>c h. P c h \<Longrightarrow> Q c h) \<Longrightarrow> hist_all Q cs h"
  by (induction cs) auto

definition call_ext :: "(sysCall \<Rightarrow> hist \<Rightarrow> bool) \<Rightarrow> st \<Rightarrow> st \<Rightarrow> bool" where
  "call_ext P s t \<longleftrightarrow> (\<exists>cs. w_hist t = cs @ w_hist s \<and> hist_all P cs (w_hist s))"

abbreviation calls :: "(sysCall \<Rightarrow> hist \<Rightarrow> bool) \<Rightarrow> 'a go \<Rightarrow> bool" where
  "calls P m \<equiv> within (call_ext P) m"

interpretation calls: effect "call_ext P" for P
proof
  show "call_ext P s s" for s
    by (auto simp: call_ext_def)
  show "call_ext P s u" if "call_ext P s t" "call_ext P t u" for s t u
    using that unfolding call_ext_def by (metis append.assoc hist_all_append)
qed

lemmas calls_rules = calls.rules

lemma call_ext_refl [simp]: "call_ext P s s"
  by (rule calls.refl)

lemma call_ext_cons: "w_hist t = c # w_hist s \<Longrightarrow> P c (w_hist s) \<Longrightarrow> call_ext P s t"
  unfolding call_ext_def by (rule exI [of _ "[c]"]) simp

lemma call_ext_same: "w_hist t = w_hist s \<Longrightarrow> call_ext P s t"
  by (simp add: call_ext_def)

lemma call_ext_hist: "hist_ext P s t \<Longrightarrow> (\<And>c h. P c \<Longrightarrow> Q c h) \<Longrightarrow> call_ext Q s t"
  unfolding hist_ext_def call_ext_def
  by (metis (mono_tags, lifting) hist_all_list hist_all_mono)

lemma call_ext_mono: "call_ext P s t \<Longrightarrow> (\<And>c h. P c h \<Longrightarrow> Q c h) \<Longrightarrow> call_ext Q s t"
  unfolding call_ext_def by (metis hist_all_mono)

lemma calls_emits: "emits P m \<Longrightarrow> (\<And>c h. P c \<Longrightarrow> Q c h) \<Longrightarrow> calls Q m"
  unfolding within_def by (rule allI, rule wp_mono, erule spec, erule call_ext_hist, blast)

lemma calls_mono: "calls P m \<Longrightarrow> (\<And>c h. P c h \<Longrightarrow> Q c h) \<Longrightarrow> calls Q m"
  unfolding within_def by (rule allI, rule wp_mono, erule spec, erule call_ext_mono, blast)

text \<open>What the later part of a run sees: a history grows.\<close>

definition grows :: "hist \<Rightarrow> hist \<Rightarrow> bool" where
  "grows h h' \<longleftrightarrow> (\<exists>cs. h' = cs @ h)"

lemma grows_refl [simp]: "grows h h"
  by (simp add: grows_def)

lemma grows_cons [simp]: "grows h (c # h)"
  unfolding grows_def by (rule exI [of _ "[c]"]) simp

lemma grows_trans: "grows h h' \<Longrightarrow> grows h' h'' \<Longrightarrow> grows h h''"
  by (auto simp: grows_def)

lemma grows_cons_r: "grows h h' \<Longrightarrow> grows h (c # h')"
  by (auto simp: grows_def)

lemma hist_ext_grows: "hist_ext P s t \<Longrightarrow> grows (w_hist s) (w_hist t)"
  by (auto simp: hist_ext_def grows_def)

lemma call_ext_grows: "call_ext P s t \<Longrightarrow> grows (w_hist s) (w_hist t)"
  by (auto simp: call_ext_def grows_def)

text \<open>The calls made between two states.\<close>

definition made :: "st \<Rightarrow> st \<Rightarrow> sysCall \<Rightarrow> bool" where
  "made s t c \<longleftrightarrow> (\<exists>cs. w_hist t = cs @ w_hist s \<and> c \<in> set cs)"

lemma made_left: "made s t c \<Longrightarrow> hist_ext P t u \<Longrightarrow> made s u c"
  by (force simp: made_def hist_ext_def)

lemma made_right: "hist_ext P s t \<Longrightarrow> made t u c \<Longrightarrow> made s u c"
  by (force simp: made_def hist_ext_def)

lemma wp_made_skip:
  assumes "emits (\<lambda>_. True) m" and "\<And>x t. wp (k x) (\<lambda>_ u. made t u c) t"
  shows "wp (State_Monad.bind m k) (\<lambda>_ u. made s u c) s"
  unfolding wp_bind
proof (rule wp_mono [OF emits.in_wp [OF assms(1)]])
  show "wp (k x) (\<lambda>_ u. made s u c) t" if "hist_ext (\<lambda>_. True) s t" for x t
    by (rule wp_mono [OF assms(2)]) (rule made_right [OF that])
qed

lemma wp_made_ask:
  assumes "\<And>x. emits (\<lambda>_. True) (k x)"
  shows "wp (State_Monad.bind (ask c f) k) (\<lambda>_ u. made s u c) s"
  unfolding wp_bind wp_ask
  by (rule wp_mono [OF emits.in_wp [OF assms]], rule made_left) (simp_all add: made_def)

lemma wp_made_drop:
  assumes "emits (\<lambda>_. True) (k ())"
  shows "wp (State_Monad.bind (drop_result (act E c)) k) (\<lambda>_ u. made s u c) s"
  unfolding wp_bind wp_drop act_def wp_ask
  by (rule wp_mono [OF emits.in_wp [OF assms]], rule made_left) (simp_all add: made_def)

lemma made_ext: "hist_ext P s t \<Longrightarrow> made s t c \<Longrightarrow> P c"
  by (auto simp: made_def hist_ext_def list_all_iff)

lemma hist_ext_any: "hist_ext P s t \<Longrightarrow> hist_ext (\<lambda>_. True) s t"
  by (auto simp: hist_ext_def list_all_iff)

lemma emits_any: "emits P m \<Longrightarrow> emits (\<lambda>_. True) m"
  by (auto simp: within_def intro: wp_mono hist_ext_any)

lemma hist_ext_mono: "hist_ext P s t \<Longrightarrow> (\<And>c. P c \<Longrightarrow> Q c) \<Longrightarrow> hist_ext Q s t"
  unfolding hist_ext_def by (metis list.pred_mono_strong)

lemma emits_mono: "emits P m \<Longrightarrow> (\<And>c. P c \<Longrightarrow> Q c) \<Longrightarrow> emits Q m"
  unfolding within_def by (rule allI, rule wp_mono, erule spec, erule hist_ext_mono, blast)

lemma emits_ask [frame]: "P c \<Longrightarrow> emits P (ask c f)"
  by (simp add: within_def wp_simps hist_ext_cons)

lemma emits_sys [frame]:
  "P c \<Longrightarrow> emits P (act E c)"
  "P c \<Longrightarrow> emits P (emit c)"
  "P CLinks \<Longrightarrow> emits P (sysLinks E)"
  "P (CLinkInfo n) \<Longrightarrow> emits P (sysLinkInfo E n)"
  "P (CNFTList f t) \<Longrightarrow> emits P (sysNFTList E f t)"
  "P (CRoutes d) \<Longrightarrow> emits P (sysRoutes E d)"
  "P (COutput n a) \<Longrightarrow> emits P (sysOutput E n a)"
  "P CNow \<Longrightarrow> emits P (now E)"
  "P (CExited j) \<Longrightarrow> emits P (procExited E j)"
  "P (CStopMKA j) \<Longrightarrow> emits P (procStop j)"
  "P CKick \<Longrightarrow> emits P Kick"
  "P (CKickAfter i) \<Longrightarrow> emits P (KickAfter i)"
  by (simp_all add: sys_defs Kick_def KickAfter_def emits_ask)

lemma emits_modify [frame]: "(\<And>s. w_hist (f s) = w_hist s) \<Longrightarrow> emits P (modify f)"
  by (rule emits.modify_in) (simp add: hist_ext_same)

lemma emits_StartMKA [frame]: "(\<And>i. P (CStartMKA p f i)) \<Longrightarrow> emits P (sysStartMKA E p f)"
  by (simp add: within_def wp_simps hist_ext_cons)

lemma emits_store [frame]:
  "emits P (lockConfig E)" "emits P loadConfigLocked" "emits P loadMeshConfigChecked"
  "emits P isLeafRouter" "emits P macsecRequiredFlagSet"
  "P CSaveConfig \<Longrightarrow> emits P (saveConfigLocked E c)"
  "P CTokens \<Longrightarrow> emits P (getToken E n)"
  "P (CReadFile ''config.sh'') \<Longrightarrow> emits P (meshWANIF E)"
  "(\<And>b. P (CWriteFlag b)) \<Longrightarrow> emits P (setMACsecRequiredFlag E b)"
  by (auto simp: lockConfig_def loadConfigLocked_def loadMeshConfigChecked_def isLeafRouter_def
      macsecRequiredFlagSet_def saveConfigLocked_def getToken_def meshWANIF_def
      setMACsecRequiredFlag_def Let_def intro!: emits_rules frame)

text \<open>Fields that only their own operations write.\<close>

lemma keeps_modify [frame]: "(\<And>s. f (g s) = f s) \<Longrightarrow> keeps f (modify g)"
  by (rule keeps.modify_in)

lemma keeps_ask [frame]: "(\<And>s h. f (s\<lparr>w_hist := h\<rparr>) = f s) \<Longrightarrow> keeps f (ask c a)"
  by (auto simp: within_def wp_simps)

lemma keeps_sys [frame]:
  assumes "\<And>s h. f (s\<lparr>w_hist := h\<rparr>) = f s"
  shows "keeps f (act E c)" "keeps f (emit c)" "keeps f (sysLinks E)" "keeps f (sysLinkInfo E n)"
    "keeps f (sysNFTList E a t)" "keeps f (sysRoutes E d)" "keeps f (sysOutput E n b)"
    "keeps f (now E)" "keeps f (procExited E p)" "keeps f (procStop p)" "keeps f Kick"
    "keeps f (KickAfter i)" "keeps f (sysStartMKA E n k)"
  using assms
  by (simp_all add: sys_defs Kick_def KickAfter_def keeps_ask within_def wp_simps)

lemma keeps_store [frame]:
  assumes "\<And>s h. f (s\<lparr>w_hist := h\<rparr>) = f s"
  shows "keeps f loadConfigLocked" "keeps f loadMeshConfigChecked" "keeps f isLeafRouter"
    "keeps f macsecRequiredFlagSet" "keeps f (getToken E m)" "keeps f (meshWANIF E)"
    "(\<And>s c. f (s\<lparr>w_cfg := c\<rparr>) = f s) \<Longrightarrow> keeps f (lockConfig E)"
    "(\<And>s c. f (s\<lparr>w_cfg := c\<rparr>) = f s) \<Longrightarrow> keeps f (saveConfigLocked E c)"
    "(\<And>s c. f (s\<lparr>w_reqFlag := c\<rparr>) = f s) \<Longrightarrow> keeps f (setMACsecRequiredFlag E b)"
  using assms
  by (auto simp: lockConfig_def loadConfigLocked_def loadMeshConfigChecked_def isLeafRouter_def
      macsecRequiredFlagSet_def saveConfigLocked_def getToken_def meshWANIF_def
      setMACsecRequiredFlag_def Let_def intro!: keeps_rules frame)

end
