(* ===== verification/Guard.thy ===== *)
theory Guard
  imports Footprint
begin

text \<open>
  The nft tables of \<open>macsec_runtime.go\<close> and \<open>backhaul_wg.go\<close>. \<open>installTable\<close> keeps, through two
  pointers, the rules it loaded last and the kernel's listing of them; it reloads unless both
  still match. The pointers are a \<open>slot\<close>, a pair of fields; the locale states what
  \<open>installTable\<close> needs of a slot and proves its contract, and is interpreted on the uplink
  guard's fields and on the bridge guard's.
\<close>

section \<open>Operations\<close>

record slot =
  sl_get :: "st \<Rightarrow> string \<times> string"
  sl_put :: "string \<times> string \<Rightarrow> st \<Rightarrow> st"

definition guardSlot :: slot where
  "guardSlot = \<lparr>sl_get = (\<lambda>s. (m_guardRules s, m_guardLive s)),
     sl_put = (\<lambda>p s. s\<lparr>m_guardRules := fst p, m_guardLive := snd p\<rparr>)\<rparr>"

definition bridgeSlot :: slot where
  "bridgeSlot = \<lparr>sl_get = (\<lambda>s. (m_bridgeGuard s, m_bridgeGuardLive s)),
     sl_put = (\<lambda>p s. s\<lparr>m_bridgeGuard := fst p, m_bridgeGuardLive := snd p\<rparr>)\<rparr>"

definition tableFresh :: "env \<Rightarrow> string \<Rightarrow> string \<Rightarrow> string \<Rightarrow> slot \<Rightarrow> bool go" where
  "tableFresh E family table ruleset sl = do {
     p \<leftarrow> gets (sl_get sl);
     if ruleset = fst p then do {
       r \<leftarrow> sysNFTList E family table;
       return (snd r = None \<and> fst r = snd p)
     } else return False
   }"

definition installTable :: "env \<Rightarrow> string \<Rightarrow> string \<Rightarrow> string \<Rightarrow> slot \<Rightarrow> err go" where
  "installTable E family table ruleset sl = do {
     fresh \<leftarrow> tableFresh E family table ruleset sl;
     if fresh then return None
     else do {
       e \<leftarrow> act E (CNFT ruleset);
       (case e of
          Some e \<Rightarrow> do {
            modify (\<lambda>s. sl_put sl ([], snd (sl_get sl s)) s);
            return (Some e)
          }
        | None \<Rightarrow> do {
            modify (\<lambda>s. sl_put sl (ruleset, snd (sl_get sl s)) s);
            r \<leftarrow> sysNFTList E family table;
            modify (\<lambda>s. sl_put sl (fst (sl_get sl s), fst r) s);
            return None
          })
     }
   }"

definition installGuard :: "env \<Rightarrow> string \<Rightarrow> err go" where
  "installGuard E ruleset = installTable E ''netdev'' macsecGuardTable ruleset guardSlot"

text \<open>\<open>applyGuard\<close> and \<open>applyGuardWG\<close>: with the egress hook, or for good without it.\<close>

definition applyGuard :: "env \<Rightarrow> string \<Rightarrow> err go" where
  "applyGuard E wanif =
    (let ingressOnly =
       (case renderLeafGuard wanif False of Inl e \<Rightarrow> return (Some e)
        | Inr ruleset \<Rightarrow> installGuard E ruleset)
     in do {
       noEgress \<leftarrow> gets m_noEgress;
       if \<not> noEgress then
         (case renderLeafGuard wanif True of Inl e \<Rightarrow> return (Some e)
          | Inr ruleset \<Rightarrow> do {
              e \<leftarrow> installGuard E ruleset;
              if e = None then return None
              else do { modify (\<lambda>s. s\<lparr>m_noEgress := True\<rparr>); ingressOnly }
            })
       else ingressOnly
     })"

definition applyGuardWG :: "env \<Rightarrow> string \<Rightarrow> int \<Rightarrow> err go" where
  "applyGuardWG E wanif port =
    (let ingressOnly =
       (case renderLeafGuardWG wanif port False of Inl e \<Rightarrow> return (Some e)
        | Inr ruleset \<Rightarrow> installGuard E ruleset)
     in do {
       noEgress \<leftarrow> gets m_noEgress;
       if \<not> noEgress then
         (case renderLeafGuardWG wanif port True of Inl e \<Rightarrow> return (Some e)
          | Inr ruleset \<Rightarrow> do {
              e \<leftarrow> installGuard E ruleset;
              if e = None then return None
              else do { modify (\<lambda>s. s\<lparr>m_noEgress := True\<rparr>); ingressOnly }
            })
       else ingressOnly
     })"

definition applyMSSClamp :: "env \<Rightarrow> int \<Rightarrow> unit go" where
  "applyMSSClamp E linkMTU =
    (if linkMTU \<ge> macsecEthernetMTU \<or> linkMTU < macsecMinLinkMTU then do {
       cur \<leftarrow> gets m_mssMTU;
       doif (cur \<noteq> 0) (do {
         act E (CNFTDeleteTable ''bridge'' macsecMSSTable);
         modify (\<lambda>s. s\<lparr>m_mssMTU := 0\<rparr>)
       })
     } else
       (case renderMSSClamp linkMTU of Inl _ \<Rightarrow> return ()
        | Inr ruleset \<Rightarrow> do {
            e \<leftarrow> act E (CNFT ruleset);
            doif (e = None) (modify (\<lambda>s. s\<lparr>m_mssMTU := linkMTU\<rparr>))
          }))"

section \<open>The contract of a cached table\<close>

text \<open>
  A table is \<open>loaded\<close> with a rule set when the kernel accepted that rule set at some point of
  the history and the slot holds it together with the listing taken right after; it is
  \<open>confirmed\<close> when, in addition, the latest call showed the rules in place: they were just
  loaded, or the kernel's listing is still the one remembered.
\<close>

definition confirmed :: "env \<Rightarrow> string \<Rightarrow> string \<Rightarrow> string \<Rightarrow> string \<times> string \<Rightarrow> hist \<Rightarrow> bool" where
  "confirmed E family table ruleset p h \<longleftrightarrow> fst p = ruleset \<and>
     (\<exists>h'. h = CNFTList family table # h' \<and> fst (e_NFTList E h' family table) = snd p \<and>
        (snd (e_NFTList E h' family table) = None \<or>
         (\<exists>h''. h' = CNFT ruleset # h'' \<and> e_Err E h'' (CNFT ruleset) = None)))"

locale table_slot =
  fixes sl :: slot
  assumes get_put: "sl_get sl (sl_put sl p s) = p"
    and get_hist: "sl_get sl (s\<lparr>w_hist := h\<rparr>) = sl_get sl s"
    and put_hist: "w_hist (sl_put sl p s) = w_hist s"
begin

lemma install_contract:
  "wp (installTable E family table ruleset sl) (\<lambda>e t.
     (case e of
        None \<Rightarrow> confirmed E family table ruleset (sl_get sl t) (w_hist t)
      | Some _ \<Rightarrow> fst (sl_get sl t) = [])) s"
  by (auto simp: installTable_def tableFresh_def wp_simps get_put get_hist put_hist confirmed_def
      split: option.splits)

lemma install_footprint:
  "P (CNFT ruleset) \<Longrightarrow> P (CNFTList family table) \<Longrightarrow> emits P (installTable E family table ruleset sl)"
  by (auto simp: installTable_def tableFresh_def put_hist intro!: emits_rules frame)

text \<open>An unchanged table costs one listing and nothing else.\<close>

lemma install_idle:
  assumes "fst (sl_get sl s) = ruleset"
    and "e_NFTList E (w_hist s) family table = (snd (sl_get sl s), None)"
  shows "run_state (installTable E family table ruleset sl) s =
    (None, s\<lparr>w_hist := CNFTList family table # w_hist s\<rparr>)"
  using assms by (simp add: installTable_def tableFresh_def sys_defs ask_def gets_def split: prod.split)

end

interpretation guard: table_slot guardSlot
  by unfold_locales (simp_all add: guardSlot_def)

interpretation bridgeGuard: table_slot bridgeSlot
  by unfold_locales (simp_all add: bridgeSlot_def)

section \<open>Footprints\<close>

lemma emits_guard [frame]:
  assumes "\<And>r. P (CNFT r)" "P (CNFTList ''netdev'' macsecGuardTable)"
  shows "emits P (installGuard E r)" "emits P (applyGuard E w)" "emits P (applyGuardWG E w i)"
  using assms by (auto simp: installGuard_def applyGuard_def applyGuardWG_def Let_def
      intro!: emits_rules guard.install_footprint frame)

lemma emits_mss [frame]:
  "(\<And>r. P (CNFT r)) \<Longrightarrow> P (CNFTDeleteTable ''bridge'' macsecMSSTable) \<Longrightarrow> emits P (applyMSSClamp E m)"
  by (auto simp: applyMSSClamp_def intro!: emits_rules frame)

lemma keeps_guard [frame]:
  assumes "\<And>s h. f (s\<lparr>w_hist := h\<rparr>) = f s" "\<And>s r. f (s\<lparr>m_guardRules := r\<rparr>) = f s"
    "\<And>s r. f (s\<lparr>m_guardLive := r\<rparr>) = f s"
  shows "keeps f (installGuard E r)"
    "(\<And>s b. f (s\<lparr>m_noEgress := b\<rparr>) = f s) \<Longrightarrow> keeps f (applyGuard E w)"
    "(\<And>s b. f (s\<lparr>m_noEgress := b\<rparr>) = f s) \<Longrightarrow> keeps f (applyGuardWG E w i)"
  using assms by (auto simp: installGuard_def applyGuard_def applyGuardWG_def installTable_def
      tableFresh_def guardSlot_def Let_def intro!: keeps_rules frame)

lemma keeps_mss [frame]:
  "(\<And>s h. f (s\<lparr>w_hist := h\<rparr>) = f s) \<Longrightarrow> (\<And>s b. f (s\<lparr>m_mssMTU := b\<rparr>) = f s) \<Longrightarrow>
    keeps f (applyMSSClamp E m)"
  by (auto simp: applyMSSClamp_def intro!: keeps_rules frame)

section \<open>The uplink guard\<close>

text \<open>
  \<open>applyGuard\<close> succeeds only with a confirmed guard for exactly this interface: with the egress
  chain, or, once the kernel refused it, without.
\<close>

definition guarded :: "env \<Rightarrow> (bool \<Rightarrow> string res) \<Rightarrow> st \<Rightarrow> bool" where
  "guarded E render s \<longleftrightarrow> (\<exists>egress ruleset. render egress = Inr ruleset \<and> (egress \<or> m_noEgress s) \<and>
     confirmed E ''netdev'' macsecGuardTable ruleset (m_guardRules s, m_guardLive s) (w_hist s))"

lemma guardedI:
  "render egress = Inr ruleset \<Longrightarrow> egress \<or> m_noEgress s \<Longrightarrow>
    confirmed E ''netdev'' macsecGuardTable ruleset (m_guardRules s, m_guardLive s) (w_hist s) \<Longrightarrow>
    guarded E render s"
  unfolding guarded_def by blast

lemma wp_installGuard:
  "wp (installGuard E ruleset) (\<lambda>e t. m_noEgress t = m_noEgress s \<and>
     (case e of
        None \<Rightarrow> confirmed E ''netdev'' macsecGuardTable ruleset (m_guardRules t, m_guardLive t) (w_hist t)
      | Some _ \<Rightarrow> m_guardRules t = [])) s"
proof -
  have "wp (installGuard E ruleset) (\<lambda>_ t. m_noEgress t = m_noEgress s) s"
    by (intro keeps_wp frame) simp_all
  moreover have "wp (installGuard E ruleset) (\<lambda>e t. (case e of
        None \<Rightarrow> confirmed E ''netdev'' macsecGuardTable ruleset (m_guardRules t, m_guardLive t) (w_hist t)
      | Some _ \<Rightarrow> m_guardRules t = [])) s"
    unfolding installGuard_def
    by (rule wp_mono [OF guard.install_contract]) (simp add: guardSlot_def split: option.splits)
  ultimately show ?thesis
    unfolding wp_conj by blast
qed

text \<open>The two step ladder \<open>applyGuard\<close> and \<open>applyGuardWG\<close> share.\<close>

definition ladder :: "env \<Rightarrow> (bool \<Rightarrow> string res) \<Rightarrow> err go" where
  "ladder E render =
    (let ingressOnly =
       (case render False of Inl e \<Rightarrow> return (Some e) | Inr ruleset \<Rightarrow> installGuard E ruleset)
     in do {
       noEgress \<leftarrow> gets m_noEgress;
       if \<not> noEgress then
         (case render True of Inl e \<Rightarrow> return (Some e)
          | Inr ruleset \<Rightarrow> do {
              e \<leftarrow> installGuard E ruleset;
              if e = None then return None
              else do { modify (\<lambda>s. s\<lparr>m_noEgress := True\<rparr>); ingressOnly }
            })
       else ingressOnly
     })"

lemma wp_ladder:
  "wp (ladder E render) (\<lambda>e t.
     (case e of None \<Rightarrow> guarded E render t
      | Some _ \<Rightarrow> m_guardRules t = [] \<or> (\<exists>egress. \<not> is_ok (render egress)))) s"
proof -
  let ?Q = "\<lambda>e t. (case e of None \<Rightarrow> guarded E render t
      | Some _ \<Rightarrow> m_guardRules t = [] \<or> (\<exists>egress. \<not> is_ok (render egress)))"
  have off: "wp (case render False of Inl e \<Rightarrow> return (Some e) | Inr ruleset \<Rightarrow> installGuard E ruleset) ?Q u"
    if "m_noEgress u" for u
  proof (cases "render False")
    case (Inl e)
    then show ?thesis by (auto simp: wp_simps intro: exI [of _ False])
  next
    case (Inr r)
    then show ?thesis
      using that
      by (auto intro!: wp_mono [OF wp_installGuard] intro: guardedI [of _ False] split: option.splits)
  qed
  show ?thesis
  proof (cases "m_noEgress s")
    case True
    then show ?thesis using off [OF True] by (simp add: ladder_def Let_def wp_simps)
  next
    case False
    show ?thesis
    proof (cases "render True")
      case (Inl e)
      with False show ?thesis by (auto simp: ladder_def Let_def wp_simps intro: exI [of _ True])
    next
      case (Inr r)
      have "wp (installGuard E r) (\<lambda>e t. if e = None then ?Q None t else
          wp (do { modify (\<lambda>s. s\<lparr>m_noEgress := True\<rparr>);
            (case render False of Inl e \<Rightarrow> return (Some e) | Inr ruleset \<Rightarrow> installGuard E ruleset) }) ?Q t) s"
      proof (rule wp_mono [OF wp_installGuard], goal_cases)
        case (1 e t)
        then show ?case
          using off [of "t\<lparr>m_noEgress := True\<rparr>"] Inr
          by (cases e) (simp_all add: wp_bind wp_modify guardedI [of render True])
      qed
      then show ?thesis
        unfolding ladder_def Let_def wp_bind wp_gets Inr sum.case wp_if wp_return
        using False by simp
    qed
  qed
qed

lemma applyGuard_ladder:
  "applyGuard E wanif = ladder E (renderLeafGuard wanif)"
  "applyGuardWG E wanif port = ladder E (renderLeafGuardWG wanif port)"
  by (simp_all add: applyGuard_def applyGuardWG_def ladder_def Let_def)

lemma render_ok:
  "is_ok (renderLeafGuard wanif egress) \<longleftrightarrow> valid_iface wanif"
  "is_ok (renderLeafGuardWG wanif port egress) \<longleftrightarrow> valid_iface wanif \<and> validWGPort port"
  by (auto simp: renderLeafGuard_def renderLeafGuardWG_def Let_def)

lemma wp_applyGuard:
  "valid_iface wanif \<Longrightarrow> wp (applyGuard E wanif) (\<lambda>e t.
     (case e of None \<Rightarrow> guarded E (renderLeafGuard wanif) t | Some _ \<Rightarrow> m_guardRules t = [])) s"
  unfolding applyGuard_ladder
  by (rule wp_mono [OF wp_ladder]) (simp add: render_ok split: option.splits)

lemma wp_applyGuardWG:
  "valid_iface wanif \<Longrightarrow> validWGPort port \<Longrightarrow> wp (applyGuardWG E wanif port) (\<lambda>e t.
     (case e of None \<Rightarrow> guarded E (renderLeafGuardWG wanif port) t | Some _ \<Rightarrow> m_guardRules t = [])) s"
  unfolding applyGuard_ladder
  by (rule wp_mono [OF wp_ladder]) (simp add: render_ok split: option.splits)

end
