(* ===== verification/LinkMTU.thy ===== *)
theory LinkMTU
  imports Footprint
begin

text \<open>
  The MTU bookkeeping of \<open>macsec_runtime.go\<close>: raising a parent interface for the tunnel
  overhead, remembering its original MTU (in memory and in \<open>macsec_mtu.json\<close>) before the first
  change, pinning plaintext routes to the original size, restoring what is no longer in use.
\<close>

section \<open>Operations\<close>

definition saveOrigMTU :: "env \<Rightarrow> unit go" where
  "saveOrigMTU E = do {
     m \<leftarrow> gets m_origMTU;
     e \<leftarrow> act E (CSaveMTU m);
     doif (e = None) (modify (\<lambda>s. s\<lparr>w_mtuFile := Some m\<rparr>))
   }"

definition adoptMTU :: "string \<times> int \<Rightarrow> (string, int) gomap \<Rightarrow> (string, int) gomap" where
  "adoptMTU p m =
    (if mget m (fst p) = None \<and> valid_iface (fst p) \<and> snd p \<ge> 576 then mput (fst p) (snd p) m else m)"

definition loadOrigMTU :: "env \<Rightarrow> unit go" where
  "loadOrigMTU E = do {
     loaded \<leftarrow> gets m_mtuLoaded;
     doif (\<not> loaded) (do {
       modify (\<lambda>s. s\<lparr>m_mtuLoaded := True\<rparr>);
       e \<leftarrow> act E (CReadFile ''macsec_mtu.json'');
       saved \<leftarrow> gets w_mtuFile;
       (case (e, saved) of
          (None, Some m) \<Rightarrow> modify (\<lambda>s. s\<lparr>m_origMTU := fold adoptMTU m (m_origMTU s)\<rparr>)
        | _ \<Rightarrow> return ())
     })
   }"

definition raiseParentMTUTo :: "env \<Rightarrow> string \<Rightarrow> linkInfo \<Rightarrow> int \<Rightarrow> linkInfo go" where
  "raiseParentMTUTo E parent info target = do {
     modify (\<lambda>s. s\<lparr>m_mtuInUse := insert parent (m_mtuInUse s)\<rparr>);
     if li_MTU info \<ge> target then return info
     else let target = (if li_MaxMTU info > 0 \<and> li_MaxMTU info < target then li_MaxMTU info else target) in
     if target \<le> li_MTU info then return info
     else do {
       saved \<leftarrow> gets (\<lambda>s. mget (m_origMTU s) parent);
       doif (saved = None) (do {
         modify (\<lambda>s. s\<lparr>m_origMTU := mput parent (li_MTU info) (m_origMTU s)\<rparr>);
         saveOrigMTU E
       });
       e \<leftarrow> act E (CSetMTU parent target);
       if e \<noteq> None then return info
       else do {
         t \<leftarrow> now E;
         modify (\<lambda>s. s\<lparr>m_mtuRaised := mput parent t (m_mtuRaised s)\<rparr>);
         return (info\<lparr>li_MTU := target\<rparr>)
       }
     }
   }"

definition raiseParentMTU :: "env \<Rightarrow> string \<Rightarrow> linkInfo \<Rightarrow> linkInfo go" where
  "raiseParentMTU E parent info = raiseParentMTUTo E parent info macsecWantParent"

text \<open>One round of the loop of \<open>restoreUnusedMTU\<close>; the flag is \<open>changed\<close>.\<close>

definition restoreOne :: "env \<Rightarrow> string \<times> int \<Rightarrow> bool \<Rightarrow> bool go" where
  "restoreOne E p changed = do {
     used \<leftarrow> gets (\<lambda>s. fst p \<in> m_mtuInUse s);
     if used then return changed
     else do {
       r \<leftarrow> sysLinkInfo E (fst p);
       doif (is_ok r) (do {
         e \<leftarrow> act E (CSetMTU (fst p) (snd p));
         doif (e = None) (do { act E (CCmd ''ethtool'' [''-r'', fst p]); return () })
       });
       modify (\<lambda>s. s\<lparr>m_origMTU := mdel (fst p) (m_origMTU s), m_mtuRaised := mdel (fst p) (m_mtuRaised s)\<rparr>);
       return True
     }
   }"

definition restoreUnusedMTU :: "env \<Rightarrow> unit go" where
  "restoreUnusedMTU E = do {
     m \<leftarrow> gets m_origMTU;
     changed \<leftarrow> for_fold m False (restoreOne E);
     doif changed (saveOrigMTU E)
   }"

text \<open>\<open>net.IP.To4\<close>.\<close>

definition ip_to4 :: "byte list \<Rightarrow> byte list option" where
  "ip_to4 ip =
    (if length ip = 4 then Some ip
     else if length ip = 16 \<and> take 12 ip = replicate 10 0 @ [255, 255] then Some (drop 12 ip)
     else None)"

definition isMeshUnderlayRoute :: "env \<Rightarrow> string \<Rightarrow> bool" where
  "isMeshUnderlayRoute E dst =
    (case e_parseIP E (trim_suffix dst ''/32'') of
       None \<Rightarrow> False
     | Some ip \<Rightarrow> (case ip_to4 ip of None \<Rightarrow> False
         | Some ip4 \<Rightarrow> ip4 ! 0 = 169 \<and> ip4 ! 1 = 254 \<and> ip4 ! 2 = 83))"

definition pinPlaintextRoutes :: "env \<Rightarrow> string \<Rightarrow> linkInfo \<Rightarrow> unit go" where
  "pinPlaintextRoutes E parent info = do {
     saved \<leftarrow> gets (\<lambda>s. mget (m_origMTU s) parent);
     (case saved of None \<Rightarrow> return ()
      | Some orig \<Rightarrow>
        if orig \<ge> li_MTU info then return ()
        else do {
          r \<leftarrow> sysRoutes E parent;
          (case r of Inl _ \<Rightarrow> return ()
           | Inr routes \<Rightarrow> for_each routes (\<lambda>route.
               if re_MTU route \<noteq> 0 \<and> re_MTU route \<le> orig then return ()
               else if isMeshUnderlayRoute E (re_Dst route) then return ()
               else do { act E (CPinRouteMTU parent route orig); return () }))
        })
   }"

definition applyLinkMTU :: "env \<Rightarrow> macsecLink \<Rightarrow> int \<Rightarrow> linkInfo \<Rightarrow> unit go" where
  "applyLinkMTU E link linkMTU parent =
    (let limit = li_MTU parent - macsecOverhead;
         target = (if limit < linkMTU then limit else linkMTU)
     in if target < macsecMinLinkMTU \<or> ml_MTU link = target then return ()
        else do { act E (CSetMTU (ml_Name link) target); return () })"

lemmas mtu_op_defs = saveOrigMTU_def loadOrigMTU_def raiseParentMTUTo_def raiseParentMTU_def
  restoreOne_def restoreUnusedMTU_def pinPlaintextRoutes_def applyLinkMTU_def

section \<open>Footprints\<close>

lemma emits_mtu [frame]:
  "(\<And>m. P (CSaveMTU m)) \<Longrightarrow> emits P (saveOrigMTU E)"
  "P (CReadFile ''macsec_mtu.json'') \<Longrightarrow> emits P (loadOrigMTU E)"
  "(\<And>m. P (CSaveMTU m)) \<Longrightarrow> (\<And>i. P (CSetMTU p i)) \<Longrightarrow> P CNow \<Longrightarrow> emits P (raiseParentMTUTo E p info t)"
  "(\<And>m. P (CSaveMTU m)) \<Longrightarrow> (\<And>i. P (CSetMTU p i)) \<Longrightarrow> P CNow \<Longrightarrow> emits P (raiseParentMTU E p info)"
  "(\<And>m. P (CSaveMTU m)) \<Longrightarrow> (\<And>n i. P (CSetMTU n i)) \<Longrightarrow> (\<And>n. P (CLinkInfo n)) \<Longrightarrow>
     (\<And>n. P (CCmd ''ethtool'' [''-r'', n])) \<Longrightarrow> emits P (restoreUnusedMTU E)"
  "P (CRoutes p) \<Longrightarrow> (\<And>r i. P (CPinRouteMTU p r i)) \<Longrightarrow> emits P (pinPlaintextRoutes E p info)"
  "(\<And>i. P (CSetMTU (ml_Name l) i)) \<Longrightarrow> emits P (applyLinkMTU E l i info)"
  by (auto simp: mtu_op_defs Let_def intro!: emits_rules frame)

lemma keeps_mtu [frame]:
  assumes "\<And>s h. f (s\<lparr>w_hist := h\<rparr>) = f s"
  shows "(\<And>s m. f (s\<lparr>w_mtuFile := m\<rparr>) = f s) \<Longrightarrow> keeps f (saveOrigMTU E)"
    "(\<And>s m. f (s\<lparr>m_mtuLoaded := m\<rparr>) = f s) \<Longrightarrow> (\<And>s m. f (s\<lparr>m_origMTU := m\<rparr>) = f s) \<Longrightarrow>
       keeps f (loadOrigMTU E)"
    "keeps f (pinPlaintextRoutes E p info)" "keeps f (applyLinkMTU E l i info)"
  using assms by (auto simp: mtu_op_defs Let_def intro!: keeps_rules frame split: option.split)

lemma keeps_mtu_raise [frame]:
  assumes "\<And>s h. f (s\<lparr>w_hist := h\<rparr>) = f s" "\<And>s m. f (s\<lparr>w_mtuFile := m\<rparr>) = f s"
    "\<And>s m. f (s\<lparr>m_origMTU := m\<rparr>) = f s" "\<And>s m. f (s\<lparr>m_mtuRaised := m\<rparr>) = f s"
  shows "(\<And>s m. f (s\<lparr>m_mtuInUse := m\<rparr>) = f s) \<Longrightarrow> keeps f (raiseParentMTUTo E p info t)"
    "(\<And>s m. f (s\<lparr>m_mtuInUse := m\<rparr>) = f s) \<Longrightarrow> keeps f (raiseParentMTU E p info)"
    "keeps f (restoreUnusedMTU E)"
  using assms by (auto simp: raiseParentMTU_def raiseParentMTUTo_def restoreUnusedMTU_def
      restoreOne_def Let_def intro!: keeps_rules frame)

section \<open>Raising\<close>

text \<open>
  A raise never overwrites a remembered MTU, reports a bigger MTU only after remembering the
  smaller one, and stays within the target and the device's maximum.
\<close>

lemma wp_raiseParentMTUTo:
  "wp (raiseParentMTUTo E p info target) (\<lambda>r t.
     p \<in> m_mtuInUse t \<and>
     (\<forall>q v. mget (m_origMTU s) q = Some v \<longrightarrow> mget (m_origMTU t) q = Some v) \<and>
     (\<forall>q. q \<noteq> p \<longrightarrow> mget (m_origMTU t) q = mget (m_origMTU s) q) \<and>
     (mwf (m_origMTU s) \<longrightarrow> mwf (m_origMTU t)) \<and>
     (r = info \<or>
       (\<exists>m. r = info\<lparr>li_MTU := m\<rparr> \<and> li_MTU info < m \<and> m \<le> target \<and>
          (li_MaxMTU info > 0 \<longrightarrow> m \<le> li_MaxMTU info) \<and>
          mget (m_origMTU t) p = Some (case mget (m_origMTU s) p of None \<Rightarrow> li_MTU info | Some v \<Rightarrow> v) \<and>
          mget (m_mtuRaised t) p \<noteq> None))) s"
  by (auto simp: raiseParentMTUTo_def saveOrigMTU_def wp_simps Let_def gomap.wf_put split: option.splits)

section \<open>Recovery after a restart\<close>

lemma adoptMTU_keeps: "mget m k = Some v \<Longrightarrow> mget (adoptMTU q m) k = Some v"
  by (auto simp: adoptMTU_def)

lemma fold_adopt_keeps: "mget m k = Some v \<Longrightarrow> mget (fold adoptMTU ps m) k = Some v"
  by (induction ps arbitrary: m) (auto intro: adoptMTU_keeps)

lemma fold_adopt_get:
  assumes "mwf ps" "mget ps k = Some v" "valid_iface k" "576 \<le> v" "mget m k = None"
  shows "mget (fold adoptMTU ps m) k = Some v"
  using assms
proof (induction ps arbitrary: m)
  case Nil
  then show ?case by simp
next
  case (Cons p ps)
  show ?case
  proof (cases "fst p = k")
    case True
    then have "mget (adoptMTU p m) k = Some v"
      using Cons.prems by (cases p) (auto simp: adoptMTU_def mget_def mput_def update_conv')
    then show ?thesis by (auto intro: fold_adopt_keeps)
  next
    case False
    then have "mget (adoptMTU p m) k = None" "mget ps k = Some v" "mwf ps"
      using Cons.prems by (cases p; auto simp: adoptMTU_def mget_def mwf_def mput_def update_conv')+
    with Cons.IH Cons.prems(3,4) show ?thesis by simp
  qed
qed

text \<open>What a fresh manager learns from the file.\<close>

lemma wp_loadOrigMTU_fresh:
  assumes "w_mtuFile s = Some m" "\<not> m_mtuLoaded s"
    and "e_Err E (w_hist s) (CReadFile ''macsec_mtu.json'') = None"
  shows "wp (loadOrigMTU E) (\<lambda>_ t. m_origMTU t = fold adoptMTU m (m_origMTU s)) s"
  using assms by (simp add: loadOrigMTU_def wp_simps)

text \<open>A first raise whose save succeeds leaves the original in the file.\<close>

lemma wp_raise_file:
  assumes "mget (m_origMTU s) p = None" "mwf (m_origMTU s)"
    and "\<And>h m. e_Err E h (CSaveMTU m) = None"
  shows "wp (raiseParentMTUTo E p info target) (\<lambda>r t. r \<noteq> info \<longrightarrow>
     (\<exists>m. w_mtuFile t = Some m \<and> mwf m \<and> mget m p = Some (li_MTU info))) s"
  using assms
  by (auto simp: raiseParentMTUTo_def saveOrigMTU_def wp_simps Let_def gomap.wf_put split: option.splits)

section \<open>Restoring\<close>

lemma wp_restoreOne:
  "wp (restoreOne E p b) (\<lambda>_ t. m_mtuInUse t = m_mtuInUse s \<and> hist_ext (\<lambda>_. True) s t \<and>
     (\<forall>k. mget (m_origMTU t) k =
        (if k = fst p \<and> k \<notin> m_mtuInUse s then None else mget (m_origMTU s) k)) \<and>
     (fst p \<notin> m_mtuInUse s \<and> is_ok (e_LinkInfo E (w_hist s) (fst p)) \<longrightarrow>
        made s t (CSetMTU (fst p) (snd p)))) s"
  by (auto simp: restoreOne_def wp_simps hist_ext_def made_def)

lemma restore_loop_frame:
  "keeps m_mtuInUse (for_fold ps b (restoreOne E))"
  "emits (\<lambda>_. True) (for_fold ps b (restoreOne E))"
  by (auto simp: restoreOne_def intro!: keeps_rules emits_rules frame)

lemma wp_restore_map:
  "wp (for_fold ps b (restoreOne E)) (\<lambda>_ t. \<forall>k. mget (m_origMTU t) k =
     (if k \<in> set (mkeys ps) \<and> k \<notin> m_mtuInUse s then None else mget (m_origMTU s) k)) s"
proof (induction ps arbitrary: b s)
  case Nil
  then show ?case by (simp add: wp_simps)
next
  case (Cons p ps)
  show ?case
    unfolding for_fold.simps wp_bind
    by (rule wp_mono [OF wp_restoreOne]) (auto intro!: wp_mono [OF Cons.IH])
qed

lemma wp_restore_calls:
  assumes "(k, v) \<in> set ps" "k \<notin> m_mtuInUse s" "\<And>h. is_ok (e_LinkInfo E h k)"
  shows "wp (for_fold ps b (restoreOne E)) (\<lambda>_ t. made s t (CSetMTU k v)) s"
  using assms(1,2)
proof (induction ps arbitrary: b s)
  case Nil
  then show ?case by simp
next
  case (Cons p ps)
  show ?case
    unfolding for_fold.simps wp_bind
  proof (rule wp_mono [OF wp_restoreOne])
    fix b' and t :: st
    assume t: "m_mtuInUse t = m_mtuInUse s \<and> hist_ext (\<lambda>_. True) s t \<and>
      (\<forall>k. mget (m_origMTU t) k =
        (if k = fst p \<and> k \<notin> m_mtuInUse s then None else mget (m_origMTU s) k)) \<and>
      (fst p \<notin> m_mtuInUse s \<and> is_ok (e_LinkInfo E (w_hist s) (fst p)) \<longrightarrow>
        made s t (CSetMTU (fst p) (snd p)))"
    show "wp (for_fold ps b' (restoreOne E)) (\<lambda>_ u. made s u (CSetMTU k v)) t"
    proof (cases "(k, v) = p")
      case True
      with t Cons.prems assms(3) have "made s t (CSetMTU k v)" by auto
      then show ?thesis
        by (intro wp_mono [OF emits.in_wp [OF restore_loop_frame(2)]]) (rule made_left)
    next
      case False
      with Cons.prems t have "wp (for_fold ps b' (restoreOne E)) (\<lambda>_ u. made t u (CSetMTU k v)) t"
        by (intro Cons.IH) auto
      then show ?thesis by (rule wp_mono) (use t in \<open>auto intro: made_right\<close>)
    qed
  qed
qed

text \<open>
  \<open>restoreUnusedMTU\<close>: the table keeps the parents in use and forgets the others, each of which
  (when its device exists) is set back to the remembered MTU.
\<close>

lemma wp_restoreUnusedMTU:
  "wp (restoreUnusedMTU E) (\<lambda>_ t. \<forall>k. mget (m_origMTU t) k =
     (if k \<in> m_mtuInUse s then mget (m_origMTU s) k else None)) s"
proof -
  have "wp (for_fold (m_origMTU s) False (restoreOne E)) (\<lambda>_ t. \<forall>k. mget (m_origMTU t) k =
     (if k \<in> m_mtuInUse s then mget (m_origMTU s) k else None)) s"
    by (rule wp_mono [OF wp_restore_map]) (auto simp: mget_mkeys [symmetric])
  then show ?thesis
    unfolding restoreUnusedMTU_def wp_bind wp_gets
    by (rule wp_mono) (auto simp: saveOrigMTU_def wp_simps)
qed

lemma wp_restoreUnusedMTU_calls:
  assumes "mget (m_origMTU s) k = Some v" "k \<notin> m_mtuInUse s" "\<And>h. is_ok (e_LinkInfo E h k)"
  shows "wp (restoreUnusedMTU E) (\<lambda>_ t. made s t (CSetMTU k v)) s"
proof -
  have kv: "(k, v) \<in> set (m_origMTU s)" using assms(1) by (auto simp: mget_def dest: map_of_SomeD)
  have save: "hist_ext (\<lambda>_. True) t u" if "run_state (doif b (saveOrigMTU E)) t = (r, u)" for b t r u
  proof -
    have "emits (\<lambda>_. True) (doif b (saveOrigMTU E))" by (intro emits_rules frame) simp_all
    from emits.in_wp [OF this] that show ?thesis by (rule wp_runD)
  qed
  show ?thesis
    unfolding restoreUnusedMTU_def wp_bind wp_gets
    by (rule wp_mono [OF wp_restore_calls [OF kv assms(2,3)]])
      (auto intro!: wp_runI dest!: save intro: made_left)
qed

end
