(* ===== verification/Mka.thy ===== *)
theory Mka
  imports Footprint
begin

text \<open>
  The key agreement participants of \<open>macsec_runtime.go\<close>: starting one \<open>wpa_supplicant\<close> per link,
  replacing it when its configuration, parent or address changes, stopping those no longer
  wanted, and the timers that report and restart a link that does not come up.
\<close>

section \<open>Operations\<close>

definition macsecRunDir :: "env \<Rightarrow> string" where
  "macsecRunDir E = e_Getenv E ''TEST_PREFIX'' @ ''/run/spr-mesh-macsec''"

definition deleteSecY :: "env \<Rightarrow> string \<Rightarrow> 64 word \<Rightarrow> unit go" where
  "deleteSecY E parent sci = do {
     r \<leftarrow> sysLinks E;
     (case r of Inl _ \<Rightarrow> return ()
      | Inr links \<Rightarrow> for_each links (\<lambda>link.
          if ml_Parent link = parent \<and> ml_SCI link = sci
          then do { act E (CDeleteLink (ml_Name link)); return () } else return ()))
   }"

definition stopMKA :: "env \<Rightarrow> string \<Rightarrow> unit go" where
  "stopMKA E pid = do {
     r \<leftarrow> gets (\<lambda>s. mget (m_procs s) pid);
     (case r of None \<Rightarrow> return ()
      | Some running \<Rightarrow> do {
          procStop (mr_proc running);
          deleteSecY E (mr_parent running) (mr_sci running);
          act E (CRemove (mr_confPath running));
          modify (\<lambda>s. s\<lparr>m_procs := mdel pid (m_procs s)\<rparr>)
        })
   }"

definition stopAllMKA :: "env \<Rightarrow> string set \<Rightarrow> unit go" where
  "stopAllMKA E keep = do {
     ids \<leftarrow> gets (\<lambda>s. mkeys (m_procs s));
     for_each ids (\<lambda>pid. if pid \<notin> keep then stopMKA E pid else return ())
   }"

definition mkaCurrent :: "env \<Rightarrow> mkaInstance \<Rightarrow> byte list \<Rightarrow> byte list \<Rightarrow> bool go" where
  "mkaCurrent E inst hash parentMAC = do {
     r \<leftarrow> gets (\<lambda>s. mget (m_procs s) (mi_ID inst));
     (case r of None \<Rightarrow> return False
      | Some running \<Rightarrow> do {
          gone \<leftarrow> procExited E (mr_proc running);
          if \<not> gone \<and> mr_confHash running = hash \<and> mr_parent running = mi_Parent inst \<and>
             mr_parentMAC running = mac_string parentMAC
          then return True
          else do { stopMKA E (mi_ID inst); return False }
        })
   }"

text \<open>
  The second half of \<open>ensureMKA\<close>: a fresh secY, the secret configuration file, the process and
  its entry in the table.
\<close>

definition spawnMKA :: "env \<Rightarrow> mkaInstance \<Rightarrow> string \<Rightarrow> 64 word \<Rightarrow> byte list \<Rightarrow> string \<Rightarrow> (bool \<times> err) go" where
  "spawnMKA E inst conf sci parentMAC path = do {
     r \<leftarrow> sysStartMKA E (mi_Parent inst) path;
     (case r of Inl e \<Rightarrow> return (False, Some e)
      | Inr p \<Rightarrow> do {
          modify (\<lambda>s. s\<lparr>m_procs := mput (mi_ID inst)
            \<lparr>mr_proc = p, mr_confHash = e_sha256 E conf, mr_parent = mi_Parent inst,
             mr_parentMAC = mac_string parentMAC, mr_sci = sci, mr_confPath = path\<rparr>
            (m_procs s)\<rparr>);
          return (True, None)
        })
   }"

definition launchMKA :: "env \<Rightarrow> mkaInstance \<Rightarrow> string \<Rightarrow> 64 word \<Rightarrow> byte list \<Rightarrow> (bool \<times> err) go" where
  "launchMKA E inst conf sci parentMAC =
    (let path = macsecRunDir E @ ''/'' @ mi_ID inst @ ''.conf'' in do {
       deleteSecY E (mi_Parent inst) sci;
       e \<leftarrow> act E (CWriteSecret path conf);
       (case e of Some e \<Rightarrow> return (False, Some e)
        | None \<Rightarrow> spawnMKA E inst conf sci parentMAC path)
     })"

definition ensureMKA :: "env \<Rightarrow> mkaInstance \<Rightarrow> byte list \<Rightarrow> (bool \<times> err) go" where
  "ensureMKA E inst parentMAC =
    (case renderWPAConf inst of Inl e \<Rightarrow> return (False, Some e)
     | Inr conf \<Rightarrow>
    (case macsecSCI parentMAC (mi_Port inst) of Inl e \<Rightarrow> return (False, Some e)
     | Inr sci \<Rightarrow> do {
         current \<leftarrow> mkaCurrent E inst (e_sha256 E conf) parentMAC;
         if current then return (True, None) else launchMKA E inst conf sci parentMAC
       }))"

definition restartIfStuck :: "env \<Rightarrow> string \<Rightarrow> bool \<Rightarrow> unit go" where
  "restartIfStuck E pid secured =
    (if secured then modify (\<lambda>s. s\<lparr>m_restarted := mdel pid (m_restarted s)\<rparr>)
     else do {
       r \<leftarrow> gets (\<lambda>s. mget (m_unsecured s) pid);
       (case r of None \<Rightarrow> return ()
        | Some since \<Rightarrow> do {
            last \<leftarrow> gets (\<lambda>s. mget (m_restarted s) pid);
            let since = (case last of None \<Rightarrow> since | Some l \<Rightarrow> if l > since then l else since);
            t \<leftarrow> now E;
            if t - since < macsecMKARestart then return ()
            else do {
              running \<leftarrow> gets (\<lambda>s. mget (m_procs s) pid);
              (case running of None \<Rightarrow> return ()
               | Some _ \<Rightarrow> do {
                   stopMKA E pid;
                   t \<leftarrow> now E;
                   modify (\<lambda>s. s\<lparr>m_restarted := mput pid t (m_restarted s)\<rparr>)
                 })
            }
          })
     })"

definition noPeerErrorFor :: "env \<Rightarrow> string \<Rightarrow> string \<Rightarrow> string \<Rightarrow> bool \<Rightarrow> string go" where
  "noPeerErrorFor E label pid parent secured =
    (if secured then do {
       modify (\<lambda>s. s\<lparr>m_unsecured := mdel pid (m_unsecured s)\<rparr>); return []
     } else do {
       r \<leftarrow> gets (\<lambda>s. mget (m_unsecured s) pid);
       (case r of None \<Rightarrow> do {
           t \<leftarrow> now E;
           modify (\<lambda>s. s\<lparr>m_unsecured := mput pid t (m_unsecured s)\<rparr>); return []
         }
        | Some since \<Rightarrow> do {
            t \<leftarrow> now E;
            return (if t - since < macsecNoPeerAfter then [] else label @ '' not up on '' @ parent)
          })
     })"

definition noPeerError :: "env \<Rightarrow> string \<Rightarrow> string \<Rightarrow> bool \<Rightarrow> string go" where
  "noPeerError E pid parent secured = noPeerErrorFor E (backhaulLabel backhaulMACsec) pid parent secured"

section \<open>Footprints\<close>

lemma emits_deleteSecY [frame]:
  "P CLinks \<Longrightarrow> (\<And>n. P (CDeleteLink n)) \<Longrightarrow> emits P (deleteSecY E p c)"
  by (auto simp: deleteSecY_def intro!: emits_rules frame)

lemma emits_stopMKA [frame]:
  "P CLinks \<Longrightarrow> (\<And>n. P (CDeleteLink n)) \<Longrightarrow> (\<And>j. P (CStopMKA j)) \<Longrightarrow> (\<And>f. P (CRemove f)) \<Longrightarrow>
    emits P (stopMKA E i)"
  by (auto simp: stopMKA_def intro!: emits_rules frame)

lemma emits_stopAllMKA [frame]:
  "P CLinks \<Longrightarrow> (\<And>n. P (CDeleteLink n)) \<Longrightarrow> (\<And>j. P (CStopMKA j)) \<Longrightarrow> (\<And>f. P (CRemove f)) \<Longrightarrow>
    emits P (stopAllMKA E k)"
  by (auto simp: stopAllMKA_def intro!: emits_rules frame)

lemma emits_mkaCurrent [frame]:
  "P CLinks \<Longrightarrow> (\<And>n. P (CDeleteLink n)) \<Longrightarrow> (\<And>j. P (CStopMKA j)) \<Longrightarrow> (\<And>f. P (CRemove f)) \<Longrightarrow>
    (\<And>j. P (CExited j)) \<Longrightarrow> emits P (mkaCurrent E i h a)"
  by (auto simp: mkaCurrent_def intro!: emits_rules frame)

lemma emits_ensureMKA [frame]:
  "P CLinks \<Longrightarrow> (\<And>n. P (CDeleteLink n)) \<Longrightarrow> (\<And>j. P (CStopMKA j)) \<Longrightarrow> (\<And>f. P (CRemove f)) \<Longrightarrow>
    (\<And>j. P (CExited j)) \<Longrightarrow> (\<And>f c. P (CWriteSecret f c)) \<Longrightarrow> (\<And>n f j. P (CStartMKA n f j)) \<Longrightarrow>
    emits P (ensureMKA E i a)"
  by (auto simp: ensureMKA_def launchMKA_def spawnMKA_def Let_def intro!: emits_rules frame)

lemma emits_restartIfStuck [frame]:
  "P CLinks \<Longrightarrow> (\<And>n. P (CDeleteLink n)) \<Longrightarrow> (\<And>j. P (CStopMKA j)) \<Longrightarrow> (\<And>f. P (CRemove f)) \<Longrightarrow>
    P CNow \<Longrightarrow> emits P (restartIfStuck E i b)"
  by (auto simp: restartIfStuck_def Let_def intro!: emits_rules frame)

lemma emits_noPeerError [frame]:
  "P CNow \<Longrightarrow> emits P (noPeerErrorFor E l i p b)" "P CNow \<Longrightarrow> emits P (noPeerError E i p b)"
  by (auto simp: noPeerErrorFor_def noPeerError_def intro!: emits_rules frame)

lemma keeps_deleteSecY [frame]:
  "(\<And>s h. f (s\<lparr>w_hist := h\<rparr>) = f s) \<Longrightarrow> keeps f (deleteSecY E p c)"
  by (auto simp: deleteSecY_def intro!: keeps_rules frame)

lemma keeps_mka [frame]:
  assumes "\<And>s h. f (s\<lparr>w_hist := h\<rparr>) = f s" "\<And>s h. f (s\<lparr>m_procs := h\<rparr>) = f s"
  shows "keeps f (stopMKA E i)" "keeps f (stopAllMKA E k)" "keeps f (mkaCurrent E j h a)"
    "keeps f (ensureMKA E j a)"
    "(\<And>s h. f (s\<lparr>m_restarted := h\<rparr>) = f s) \<Longrightarrow> keeps f (restartIfStuck E i b)"
  using assms
  by (auto simp: stopMKA_def stopAllMKA_def mkaCurrent_def ensureMKA_def launchMKA_def spawnMKA_def restartIfStuck_def Let_def
      intro!: keeps_rules frame)

lemma keeps_noPeerError [frame]:
  assumes "\<And>s h. f (s\<lparr>w_hist := h\<rparr>) = f s" "\<And>s h. f (s\<lparr>m_unsecured := h\<rparr>) = f s"
  shows "keeps f (noPeerErrorFor E l i p b)" "keeps f (noPeerError E i p b)"
  using assms by (auto simp: noPeerErrorFor_def noPeerError_def intro!: keeps_rules frame)

end
