(* ===== verification/Backhaul.thy ===== *)
theory Backhaul
  imports Guard LinkMTU Mka
begin

text \<open>
  The stateful half of \<open>backhaul_wg.go\<close>: the long term WireGuard key, the underlay address and
  host route, the WireGuard interface and its peers, the VXLAN devices, and the two sides of a
  link (\<open>mainWGLeaf\<close> on the main router, \<open>leafWG\<close> on the leaf). Commands that succeeded are
  remembered in \<open>wgApplied\<close> and not repeated.
\<close>

section \<open>The WireGuard key\<close>

definition parseWGKey :: "env \<Rightarrow> string \<Rightarrow> byte list res" where
  "parseWGKey E key =
    (case e_b64dec E key of
       None \<Rightarrow> Inl ''invalid WireGuard key''
     | Some raw \<Rightarrow> if length raw \<noteq> 32 then Inl ''invalid WireGuard key'' else Inr raw)"

definition clampX25519 :: "byte list \<Rightarrow> byte list" where
  "clampX25519 k = (let k' = k[0 := (k ! 0) AND 248] in k'[31 := ((k' ! 31) AND 127) OR 64])"

definition loadOrCreateWGKey :: "env \<Rightarrow> string res go" where
  "loadOrCreateWGKey E = do {
     e \<leftarrow> act E (CReadFile ''wg_private.key'');
     (case e of Some e \<Rightarrow> return (Inl e)
      | None \<Rightarrow> do {
     saved \<leftarrow> gets w_wgKey;
     (case saved of
        Some text \<Rightarrow> return
          (case parseWGKey E (trim_space text) of
             Inl e \<Rightarrow> Inl e
           | Inr raw \<Rightarrow> (case e_x25519 E raw of Inl e \<Rightarrow> Inl e | Inr pub \<Rightarrow> Inr (e_b64enc E pub)))
      | None \<Rightarrow>
          bindr (ask (CRand 32) (\<lambda>h. e_Rand E h 32)) Inl (\<lambda>raw.
            let raw = clampX25519 raw in
            (case e_x25519 E raw of Inl e \<Rightarrow> return (Inl e)
             | Inr pub \<Rightarrow>
                check (act E CWriteWGKey) Inl (do {
                  modify (\<lambda>s. s\<lparr>w_wgKey := Some (e_b64enc E raw @ [CHR 0x0A])\<rparr>);
                  return (Inr (e_b64enc E pub))
                }))))
     })
   }"

definition deriveWGPSK :: "env \<Rightarrow> string \<Rightarrow> string \<Rightarrow> string res" where
  "deriveWGPSK E secret nonceHex =
    (case deriveMACsecKeys (e_hkdf E) secret nonceHex of
       Inl e \<Rightarrow> Inl e
     | Inr _ \<Rightarrow>
        (case e_hkdf E (str_bytes secret)
                (case decodeMACsecNonce nonceHex of Inl _ \<Rightarrow> [] | Inr n \<Rightarrow> n)
                (macsecKDFLabel @ '' wg psk'') 32 of
           Inl e \<Rightarrow> Inl e
         | Inr psk \<Rightarrow> Inr (e_b64enc E psk)))"

section \<open>Handshakes\<close>

text \<open>\<open>strconv.ParseInt(s, 10, 64)\<close>, \<open>None\<close> for its error.\<close>

fun parse_digits :: "nat \<Rightarrow> string \<Rightarrow> nat option" where
  "parse_digits a [] = Some a"
| "parse_digits a (c # s) =
    (let n = (of_char c :: nat) in
     if 48 \<le> n \<and> n \<le> 57 then parse_digits (a * 10 + (n - 48)) s else None)"

definition parse_int64 :: "string \<Rightarrow> int option" where
  "parse_int64 s =
    (let neg = has_prefix s ''-'';
         d = (if neg \<or> has_prefix s ''+'' then drop 1 s else s)
     in if d = [] then None
        else case parse_digits 0 d of
          None \<Rightarrow> None
        | Some n \<Rightarrow>
            if neg then (if n \<le> 2 ^ 63 then Some (- int n) else None)
            else (if n < 2 ^ 63 then Some (int n) else None))"

text \<open>\<open>bufio.Scanner\<close> stops at the first line that does not fit its 64 KiB buffer.\<close>

definition scan_lines :: "string \<Rightarrow> string list" where
  "scan_lines s = takeWhile (\<lambda>l. length l < 65536) (split_on CHR 0x0A s)"

fun addHandshake :: "string list \<Rightarrow> (string, int) gomap \<Rightarrow> (string, int) gomap" where
  "addHandshake [pub, ts] hs = (case parse_int64 ts of None \<Rightarrow> hs | Some t \<Rightarrow> mput pub t hs)"
| "addHandshake _ hs = hs"

definition parseWGHandshakes :: "string \<Rightarrow> (string, int) gomap" where
  "parseWGHandshakes out = fold (\<lambda>l. addHandshake (str_fields l)) (scan_lines out) []"

text \<open>\<open>t - ts\<close> is \<open>time.Time.Sub\<close>; the handshake time is in seconds.\<close>

definition handshakeAge :: "int \<Rightarrow> int \<Rightarrow> int" where
  "handshakeAge t ts = t - ts * second"

definition wgHandshakeFresh :: "env \<Rightarrow> string \<Rightarrow> bool go" where
  "wgHandshakeFresh E pub =
    bindr (sysOutput E ''wg'' [''show'', meshWGIface, ''latest-handshakes'']) (\<lambda>_. False) (\<lambda>out.
      (case mget (parseWGHandshakes out) pub of
         None \<Rightarrow> return False
       | Some ts \<Rightarrow>
           if ts = 0 then return False
           else do { t \<leftarrow> now E; return (handshakeAge t ts < meshWGFresh) }))"

section \<open>Commands applied once\<close>

definition Cmd :: "env \<Rightarrow> string \<Rightarrow> string list \<Rightarrow> err go" where
  "Cmd E name args = act E (CCmd name args)"

definition linkExists :: "env \<Rightarrow> string \<Rightarrow> bool go" where
  "linkExists E name = do { r \<leftarrow> sysLinkInfo E name; return (is_ok r) }"

definition applyOnce :: "string \<Rightarrow> string \<Rightarrow> err go \<Rightarrow> err go" where
  "applyOnce key val apply = do {
     cur \<leftarrow> gets (\<lambda>s. mget (m_wgApplied s) key);
     if (case cur of None \<Rightarrow> [] | Some v \<Rightarrow> v) = val then return None
     else check apply Some (do {
       modify (\<lambda>s. s\<lparr>m_wgApplied := mput key val (m_wgApplied s)\<rparr>);
       return None
     })
   }"

definition hasHostRoute :: "env \<Rightarrow> string \<Rightarrow> string \<Rightarrow> bool go" where
  "hasHostRoute E dev dst =
    bindr (sysRoutes E dev) (\<lambda>_. True) (\<lambda>routes.
      return (list_ex (\<lambda>r. re_Family r = 4 \<and> trim_suffix (re_Dst r) ''/32'' = dst) routes))"

definition ensureUnderlay :: "env \<Rightarrow> string \<Rightarrow> string \<Rightarrow> string \<Rightarrow> string \<Rightarrow> string \<Rightarrow> err go" where
  "ensureUnderlay E key val dev local peer = do {
     cur \<leftarrow> gets (\<lambda>s. mget (m_wgApplied s) key);
     doif ((case cur of None \<Rightarrow> [] | Some v \<Rightarrow> v) = val) (do {
       have \<leftarrow> hasHostRoute E dev peer;
       doif (\<not> have) (modify (\<lambda>s. s\<lparr>m_wgApplied := mdel key (m_wgApplied s)\<rparr>))
     });
     applyOnce key val
       (check (Cmd E ''ip'' [''addr'', ''replace'', local @ ''/32'', ''dev'', dev]) Some
         (Cmd E ''ip'' [''route'', ''replace'', peer @ ''/32'', ''dev'', dev, ''src'', local]))
   }"

definition meshWGKeyPath :: "env \<Rightarrow> string" where
  "meshWGKeyPath E = e_Getenv E ''TEST_PREFIX'' @ ''/configs/mesh/wg_private.key''"

text \<open>A device that had to be created again carries none of what was applied to the old one.\<close>

definition forgetWGDevice :: "(string, string) gomap \<Rightarrow> (string, string) gomap" where
  "forgetWGDevice m = filter (\<lambda>p. \<not> (fst p = ''wg-iface'' \<or> has_prefix (fst p) ''peer-'')) m"

definition setMTUUp :: "env \<Rightarrow> string \<Rightarrow> int \<Rightarrow> err go" where
  "setMTUUp E name mtu = do {
     r \<leftarrow> sysLinkInfo E name;
     (case r of Inl _ \<Rightarrow> return ()
      | Inr info \<Rightarrow> doif (li_MTU info \<noteq> mtu) (drop_result (act E (CSetMTU name mtu))));
     act E (CSetUp name)
   }"

definition ensureWGIface :: "env \<Rightarrow> string \<Rightarrow> int \<Rightarrow> err go" where
  "ensureWGIface E localTunnelIP mtu = do {
     ok \<leftarrow> linkExists E meshWGIface;
     check (if ok then return None
            else check (Cmd E ''ip'' [''link'', ''add'', meshWGIface, ''type'', ''wireguard'']) Some (do {
              modify (\<lambda>s. s\<lparr>m_wgApplied := forgetWGDevice (m_wgApplied s)\<rparr>);
              return None
            })) Some
    (check (applyOnce ''wg-iface'' (meshWGKeyPath E @ localTunnelIP)
       (check (Cmd E ''wg'' [''set'', meshWGIface, ''private-key'', meshWGKeyPath E, ''listen-port'', itoa meshWGPort]) Some
         (Cmd E ''ip'' [''addr'', ''replace'', localTunnelIP @ ''/32'', ''dev'', meshWGIface]))) Some
    (setMTUUp E meshWGIface mtu))
   }"

definition ensureWGPeer :: "env \<Rightarrow> string \<Rightarrow> string \<Rightarrow> string \<Rightarrow> string \<Rightarrow> string \<Rightarrow> err go" where
  "ensureWGPeer E pub pskPath peerTunnelIP endpoint localTunnelIP =
    applyOnce (''peer-'' @ pub) (join '' '' [pskPath, peerTunnelIP, endpoint, localTunnelIP])
      (check (Cmd E ''wg'' [''set'', meshWGIface, ''peer'', pub, ''preshared-key'', pskPath,
          ''allowed-ips'', peerTunnelIP @ ''/32'', ''endpoint'', endpoint @ '':'' @ itoa meshWGPort,
          ''persistent-keepalive'', ''15'']) Some
        (Cmd E ''ip'' [''route'', ''replace'', peerTunnelIP @ ''/32'', ''dev'', meshWGIface, ''src'', localTunnelIP]))"

definition ensureVXLAN :: "env \<Rightarrow> string \<Rightarrow> int \<Rightarrow> string \<Rightarrow> string \<Rightarrow> int \<Rightarrow> err go" where
  "ensureVXLAN E name vni local remote mtu = do {
     ok \<leftarrow> linkExists E name;
     check (if ok then return None
            else Cmd E ''ip'' [''link'', ''add'', name, ''type'', ''vxlan'', ''id'', itoa vni,
              ''local'', local, ''remote'', remote, ''dstport'', itoa meshVXLANPort, ''nolearning'']) Some
    (setMTUUp E name mtu)
   }"

definition writePSK :: "env \<Rightarrow> int \<Rightarrow> string \<Rightarrow> string res go" where
  "writePSK E port psk =
    (let path = macsecRunDir E @ ''/psk-'' @ itoa port in
     check (act E (CWriteSecret path (psk @ [CHR 0x0A]))) Inl (return (Inr path)))"

section \<open>The two sides of a link\<close>

text \<open>
  \<open>prepareWG\<close> is the common start of \<open>mainWGLeaf\<close> and \<open>leafWG\<close>: port, peer key, own key,
  preshared key and its file. Its value is the file's path.
\<close>

definition prepareWG :: "env \<Rightarrow> int \<Rightarrow> string \<Rightarrow> string \<Rightarrow> string \<Rightarrow> string res go" where
  "prepareWG E port peerKey secret nonceHex =
    (if \<not> validWGPort port then return (Inl (''invalid mesh port '' @ itoa port))
     else case parseWGKey E peerKey of
       Inl e \<Rightarrow> return (Inl e)
     | Inr _ \<Rightarrow>
         bindr (loadOrCreateWGKey E) Inl (\<lambda>_.
           (case deriveWGPSK E secret nonceHex of
              Inl e \<Rightarrow> return (Inl e)
            | Inr psk \<Rightarrow> writePSK E port psk)))"

text \<open>\<open>cfg\<close> is \<open>leaf.MACsec\<close>, which the only caller has checked not to be nil.\<close>

definition mainWGLeaf :: "env \<Rightarrow> LeafRouter \<Rightarrow> LeafMACsec \<Rightarrow> MACsecLinkStatus \<Rightarrow> (MACsecLinkStatus \<times> err) go" where
  "mainWGLeaf E leaf cfg lst =
    (let fail = (\<lambda>e. (lst, Some e)); port = lm_Port cfg;
         underlay = meshUnderlay (lm_Jumbo cfg) (lm_UnderlayMTU cfg);
         name = meshVXLANMain port in
     bindr (prepareWG E port (lm_LeafPublicKey cfg) (lr_APIToken leaf) (lm_KeyNonce cfg)) fail (\<lambda>pskPath.
     check (ensureUnderlay E (''underlay-'' @ lm_Parent cfg @ ''-'' @ itoa port) ''set''
       (lm_Parent cfg) (meshUnderlayIP meshMainSide) (meshUnderlayIP port)) fail (do {
     modify (\<lambda>s. s\<lparr>m_wgParents := (if lm_Parent cfg \<in> set (m_wgParents s) then m_wgParents s
       else m_wgParents s @ [lm_Parent cfg])\<rparr>);
     mtu \<leftarrow> gets m_wgMainMTU;
     check (ensureWGIface E (meshTunnelIP meshMainSide) mtu) fail
    (check (ensureWGPeer E (lm_LeafPublicKey cfg) pskPath (meshTunnelIP port) (meshUnderlayIP port)
       (meshTunnelIP meshMainSide)) fail
    (check (ensureVXLAN E name port (meshTunnelIP meshMainSide) (meshTunnelIP port) (wgInnerMTU underlay)) fail (do {
     fresh \<leftarrow> wgHandshakeFresh E (lm_LeafPublicKey cfg);
     return (lst\<lparr>st_Member := name, st_Secured := fresh\<rparr>, None)
   })))})))"

definition vxlanNames :: "string \<Rightarrow> string list" where
  "vxlanNames out = List.map_filter
     (\<lambda>line. case str_fields line of
        _ # f # _ \<Rightarrow>
          (let name = trim_suffix f '':'';
               name = (case cut_at CHR ''@'' name of None \<Rightarrow> name | Some (a, _) \<Rightarrow> a)
           in if valid_iface name then Some name else None)
      | _ \<Rightarrow> None)
     (split_on CHR 0x0A out)"

definition removePeers :: "env \<Rightarrow> string set \<Rightarrow> string list \<Rightarrow> unit go" where
  "removePeers E desiredPeers pubs = for_each pubs (\<lambda>pub.
     if pub \<notin> desiredPeers then do {
       drop_result (Cmd E ''wg'' [''set'', meshWGIface, ''peer'', pub, ''remove'']);
       modify (\<lambda>s. s\<lparr>m_wgApplied := mdel (''peer-'' @ pub) (m_wgApplied s)\<rparr>)
     } else return ())"

definition cleanupMainWG :: "env \<Rightarrow> string set \<Rightarrow> string set \<Rightarrow> unit go" where
  "cleanupMainWG E desiredPeers desiredVX = do {
     peers \<leftarrow> sysOutput E ''wg'' [''show'', meshWGIface, ''peers''];
     (case peers of Inl _ \<Rightarrow> return () | Inr out \<Rightarrow> removePeers E desiredPeers (str_fields out));
     vx \<leftarrow> sysOutput E ''ip'' [''-o'', ''link'', ''show'', ''type'', ''vxlan''];
     (case vx of Inl _ \<Rightarrow> return ()
      | Inr out \<Rightarrow> for_each (vxlanNames out) (\<lambda>name.
          if has_prefix name meshVXLANPrefix \<and> name \<notin> desiredVX
          then drop_result (act E (CDeleteLink name)) else return ()));
     doif (desiredPeers = {}) (do {
       ok \<leftarrow> linkExists E meshWGIface;
       doif ok (drop_result (act E (CDeleteLink meshWGIface)));
       parents \<leftarrow> gets m_wgParents;
       for_each parents (\<lambda>parent. drop_result (Cmd E ''ip''
         [''addr'', ''del'', meshUnderlayIP meshMainSide @ ''/32'', ''dev'', parent]));
       modify (\<lambda>s. s\<lparr>m_wgParents := [], m_wgApplied := []\<rparr>)
     })
   }"

text \<open>The last step of \<open>leafWG\<close>: a device with a fresh handshake joins the bridge.\<close>

definition joinBridge :: "env \<Rightarrow> bool \<Rightarrow> err go" where
  "joinBridge E secured =
    (if \<not> secured then return None
     else do {
       r \<leftarrow> sysLinkInfo E meshVXLANLeaf;
       (case r of Inl _ \<Rightarrow> return None
        | Inr info \<Rightarrow>
            if li_Master info \<noteq> BRIDGE_IFACE then act E (CSetMaster meshVXLANLeaf BRIDGE_IFACE)
            else return None)
     })"

definition leafWG ::
  "env \<Rightarrow> LeafSideMACsec \<Rightarrow> string \<Rightarrow> string \<Rightarrow> MACsecLinkStatus \<Rightarrow> (bool \<times> err \<times> MACsecLinkStatus) go" where
  "leafWG E cfg wanif token lst =
    (let fail = (\<lambda>e. (False, Some e, lst)); port = ls_Port cfg;
         underlay = meshUnderlay (ls_Jumbo cfg) (ls_UnderlayMTU cfg);
         local = meshUnderlayIP port; lst' = lst\<lparr>st_Interface := meshVXLANLeaf\<rparr> in
     bindr (prepareWG E port (ls_MainPublicKey cfg) token (ls_KeyNonce cfg)) fail (\<lambda>pskPath.
     check (ensureUnderlay E (''underlay-'' @ wanif) local wanif local (meshUnderlayIP meshMainSide)) fail
    (check (ensureWGIface E (meshTunnelIP port) (underlay - meshWGOverhead)) fail
    (check (ensureWGPeer E (ls_MainPublicKey cfg) pskPath (meshTunnelIP meshMainSide)
       (meshUnderlayIP meshMainSide) (meshTunnelIP port)) fail
    (check (ensureVXLAN E meshVXLANLeaf port (meshTunnelIP port) (meshTunnelIP meshMainSide)
       (wgInnerMTU underlay)) fail (do {
     secured \<leftarrow> wgHandshakeFresh E (ls_MainPublicKey cfg);
     check (joinBridge E secured) (\<lambda>e. (False, Some e, lst')) (return (secured, None, lst'))
   }))))))"

definition teardownWG :: "env \<Rightarrow> string \<Rightarrow> unit go" where
  "teardownWG E wanif = do {
     for_each [meshVXLANLeaf, meshWGIface] (\<lambda>name. do {
       ok \<leftarrow> linkExists E name;
       doif ok (drop_result (act E (CDeleteLink name)))
     });
     doif (valid_iface wanif) (do {
       r \<leftarrow> sysOutput E ''ip'' [''-4'', ''-o'', ''addr'', ''show'', ''dev'', wanif];
       (case r of Inl _ \<Rightarrow> return ()
        | Inr out \<Rightarrow> for_each (str_fields out) (\<lambda>f.
            if has_prefix f ''169.254.83.''
            then drop_result (Cmd E ''ip'' [''addr'', ''del'', f, ''dev'', wanif]) else return ()))
     });
     modify (\<lambda>s. s\<lparr>m_wgApplied := []\<rparr>)
   }"

lemmas wg_defs = loadOrCreateWGKey_def wgHandshakeFresh_def Cmd_def linkExists_def applyOnce_def
  hasHostRoute_def ensureUnderlay_def setMTUUp_def ensureWGIface_def ensureWGPeer_def
  ensureVXLAN_def writePSK_def prepareWG_def

section \<open>Footprints\<close>

text \<open>The calls the tunnel code makes: it starts no process and bridges nothing by itself.\<close>

definition wg_call :: "sysCall \<Rightarrow> bool" where
  "wg_call c = (case c of
     CReadFile f \<Rightarrow> True | CRand n \<Rightarrow> True | CWriteWGKey \<Rightarrow> True | CWriteSecret f x \<Rightarrow> True
   | CLinkInfo n \<Rightarrow> True | CRoutes d \<Rightarrow> True | CCmd n a \<Rightarrow> True | COutput n a \<Rightarrow> True
   | CNow \<Rightarrow> True | CSetMTU n i \<Rightarrow> True | CSetUp n \<Rightarrow> True | CDeleteLink n \<Rightarrow> True | _ \<Rightarrow> False)"

lemma wg_call_simps [simp]:
  "wg_call (CReadFile f)" "wg_call (CRand k)" "wg_call CWriteWGKey" "wg_call (CWriteSecret f x)"
  "wg_call (CLinkInfo n)" "wg_call (CRoutes n)" "wg_call (CCmd n a)" "wg_call (COutput n a)"
  "wg_call CNow" "wg_call (CSetMTU n i)" "wg_call (CSetUp n)" "wg_call (CDeleteLink n)"
  "\<not> wg_call (CSetMaster n m)"
  by (simp_all add: wg_call_def)

lemma emits_Cmd [frame]: "P (CCmd n a) \<Longrightarrow> emits P (Cmd E n a)"
  by (simp add: Cmd_def emits_sys)

lemma emits_linkExists [frame]: "P (CLinkInfo n) \<Longrightarrow> emits P (linkExists E n)"
  by (auto simp: linkExists_def intro!: emits_rules frame)

lemma emits_applyOnce [frame]: "emits P m \<Longrightarrow> emits P (applyOnce k v m)"
  by (auto simp: applyOnce_def intro!: emits_rules frame)

lemma emits_wg_steps [frame]:
  "emits wg_call (loadOrCreateWGKey E)" "emits wg_call (wgHandshakeFresh E pub)"
  "emits wg_call (hasHostRoute E d p)" "emits wg_call (setMTUUp E n i)" "emits wg_call (writePSK E j k)"
  by (auto simp: wg_defs Let_def intro!: emits_rules frame)

lemma emits_wg_ensure [frame]:
  "emits wg_call (ensureUnderlay E k v d l p)" "emits wg_call (ensureWGIface E l i)"
  "emits wg_call (ensureWGPeer E pub k a b c)" "emits wg_call (ensureVXLAN E n j l r i)"
  "emits wg_call (prepareWG E j pk sec nh)"
  by (auto simp: ensureUnderlay_def ensureWGIface_def ensureWGPeer_def ensureVXLAN_def prepareWG_def
      intro!: emits_rules frame)

lemma emits_wg_main [frame]:
  "emits wg_call (mainWGLeaf E leaf cfg lst)" "emits wg_call (cleanupMainWG E p v)"
  "emits wg_call (teardownWG E w)"
  by (auto simp: mainWGLeaf_def cleanupMainWG_def removePeers_def teardownWG_def Let_def
      intro!: emits_rules frame)

lemma keeps_Cmd [frame]:
  assumes "\<And>s h. f (s\<lparr>w_hist := h\<rparr>) = f s"
  shows "keeps f (Cmd E n a)" "keeps f (linkExists E n)" "keeps f (wgHandshakeFresh E pub)"
    "keeps f (hasHostRoute E d p)" "keeps f (setMTUUp E n i)" "keeps f (writePSK E j k)"
    "keeps f (ensureVXLAN E n j l r i)" "keeps f (joinBridge E b)"
  using assms by (auto simp: Cmd_def linkExists_def wgHandshakeFresh_def hasHostRoute_def setMTUUp_def
      writePSK_def ensureVXLAN_def joinBridge_def Let_def intro!: keeps_rules frame)

lemma keeps_applyOnce [frame]:
  "(\<And>s h. f (s\<lparr>m_wgApplied := h\<rparr>) = f s) \<Longrightarrow> keeps f m \<Longrightarrow> keeps f (applyOnce k v m)"
  by (auto simp: applyOnce_def intro!: keeps_rules frame)

lemma keeps_wgKey [frame]:
  assumes "\<And>s h. f (s\<lparr>w_hist := h\<rparr>) = f s" "\<And>s h. f (s\<lparr>w_wgKey := h\<rparr>) = f s"
  shows "keeps f (loadOrCreateWGKey E)" "keeps f (prepareWG E j pk sec nh)"
  using assms by (auto simp: loadOrCreateWGKey_def prepareWG_def Let_def intro!: keeps_rules frame)

lemma keeps_wg_ensure [frame]:
  assumes "\<And>s h. f (s\<lparr>w_hist := h\<rparr>) = f s" "\<And>s h. f (s\<lparr>m_wgApplied := h\<rparr>) = f s"
  shows "keeps f (ensureUnderlay E k v d l p)" "keeps f (ensureWGIface E l i)"
    "keeps f (ensureWGPeer E pub k a b c)" "keeps f (teardownWG E w)"
    "(\<And>s h. f (s\<lparr>m_wgParents := h\<rparr>) = f s) \<Longrightarrow> keeps f (cleanupMainWG E dp x)"
    "(\<And>s h. f (s\<lparr>w_wgKey := h\<rparr>) = f s) \<Longrightarrow> keeps f (leafWG E cfg w tok lst)"
    "(\<And>s h. f (s\<lparr>m_wgParents := h\<rparr>) = f s) \<Longrightarrow> (\<And>s h. f (s\<lparr>w_wgKey := h\<rparr>) = f s) \<Longrightarrow>
       keeps f (mainWGLeaf E leaf mc lst)"
  using assms by (auto simp: ensureUnderlay_def ensureWGIface_def ensureWGPeer_def teardownWG_def
      cleanupMainWG_def removePeers_def leafWG_def mainWGLeaf_def Let_def intro!: keeps_rules frame)

section \<open>The key stays the same\<close>

text \<open>Documented behaviour of \<open>encoding/base64\<close>: decoding undoes encoding, and no byte of an
  encoding is white space.\<close>

definition b64_ok :: "env \<Rightarrow> bool" where
  "b64_ok E \<longleftrightarrow> (\<forall>bs. e_b64dec E (e_b64enc E bs) = Some bs \<and> list_all (\<lambda>c. \<not> is_space c) (e_b64enc E bs))"

lemma dropWhile_none: "list_all (\<lambda>c. \<not> P c) s \<Longrightarrow> dropWhile P s = s"
  by (cases s) auto

lemma trim_space_line:
  assumes "list_all (\<lambda>c. \<not> is_space c) s"
  shows "trim_space (s @ [CHR 0x0A]) = s"
proof (cases s)
  case Nil
  then show ?thesis by (simp add: trim_space_def is_space_def)
next
  case (Cons c r)
  have "dropWhile is_space (s @ [CHR 0x0A]) = s @ [CHR 0x0A]"
    using assms Cons by simp
  moreover have "list_all (\<lambda>c. \<not> is_space c) (rev s)" using assms by (simp add: list_all_iff)
  ultimately show ?thesis
    by (simp add: trim_space_def is_space_def [of "CHR 0x0A"] dropWhile_none)
qed

lemma length_clampX25519 [simp]: "length (clampX25519 k) = length k"
  by (simp add: clampX25519_def Let_def)

text \<open>The stored text yields the key it was made from.\<close>

lemma parse_stored_key:
  "b64_ok E \<Longrightarrow> length raw = 32 \<Longrightarrow>
    parseWGKey E (trim_space (e_b64enc E raw @ [CHR 0x0A])) = Inr raw"
  by (simp add: parseWGKey_def b64_ok_def trim_space_line)

definition key_readable :: "env \<Rightarrow> bool" where
  "key_readable E \<longleftrightarrow> (\<forall>h. e_Err E h (CReadFile ''wg_private.key'') = None)"

definition rand_ok :: "env \<Rightarrow> bool" where
  "rand_ok E \<longleftrightarrow> (\<forall>h n bs. e_Rand E h n = Inr bs \<longrightarrow> length bs = n)"

text \<open>What a stored key means: the public key every later call returns.\<close>

definition key_gives :: "env \<Rightarrow> st \<Rightarrow> string \<Rightarrow> bool" where
  "key_gives E s pub \<longleftrightarrow> (\<exists>text raw p. w_wgKey s = Some text \<and> parseWGKey E (trim_space text) = Inr raw \<and>
     e_x25519 E raw = Inr p \<and> pub = e_b64enc E p)"

lemma wp_loadOrCreateWGKey:
  assumes "b64_ok E" "rand_ok E"
  shows "wp (loadOrCreateWGKey E) (\<lambda>r t. case r of Inr pub \<Rightarrow> key_gives E t pub | Inl _ \<Rightarrow> w_wgKey t = w_wgKey s) s"
  using assms(2)
  by (auto simp: loadOrCreateWGKey_def wp_simps key_gives_def rand_ok_def
      parse_stored_key [OF assms(1)] Let_def split: option.splits sum.splits)

lemma wp_loadWGKey_again:
  assumes "key_readable E" "key_gives E s pub"
  shows "wp (loadOrCreateWGKey E) (\<lambda>r _. r = Inr pub) s"
  using assms
  by (auto simp: loadOrCreateWGKey_def wp_simps key_gives_def key_readable_def)

text \<open>Bits of a clamped scalar (RFC 7748): the low three are clear, bit 254 is the highest set.\<close>

lemma clampX25519_bits:
  assumes "length k = 32"
  shows "clampX25519 k ! 0 AND 7 = 0" "clampX25519 k ! 31 AND 192 = 64"
proof -
  have "(x AND 248) AND 7 = 0" for x :: byte
    by (simp add: and.assoc)
  moreover have "((x AND 127) OR 64) AND 192 = 64" for x :: byte
    by (simp add: word_ao_dist and.assoc word_ao_absorbs)
  ultimately show "clampX25519 k ! 0 AND 7 = 0" "clampX25519 k ! 31 AND 192 = 64"
    using assms by (simp_all add: clampX25519_def Let_def)
qed

section \<open>The leaf bridges its tunnel only on a fresh handshake\<close>

definition fresh_at :: "env \<Rightarrow> string \<Rightarrow> hist \<Rightarrow> bool" where
  "fresh_at E pub h \<longleftrightarrow> (\<exists>h0 out ts.
     h = CNow # COutput ''wg'' [''show'', meshWGIface, ''latest-handshakes''] # h0 \<and>
     e_Output E h0 ''wg'' [''show'', meshWGIface, ''latest-handshakes''] = Inr out \<and>
     mget (parseWGHandshakes out) pub = Some ts \<and> ts \<noteq> 0 \<and>
     handshakeAge (e_Now E (tl h)) ts < meshWGFresh)"

lemma wp_wgHandshakeFresh:
  "wp (wgHandshakeFresh E pub) (\<lambda>b t. b \<longrightarrow> fresh_at E pub (w_hist t)) s"
  by (auto simp: wgHandshakeFresh_def wp_simps fresh_at_def split: sum.splits option.splits)

text \<open>
  Evidence for bridging the tunnel device: a fresh handshake, with nothing between it and now
  but the calls of \<open>joinBridge\<close>.
\<close>

definition join_call :: "sysCall \<Rightarrow> bool" where
  "join_call c = (c = CLinkInfo meshVXLANLeaf \<or> c = CSetMaster meshVXLANLeaf BRIDGE_IFACE)"

definition tunnel_evidence :: "env \<Rightarrow> string \<Rightarrow> hist \<Rightarrow> bool" where
  "tunnel_evidence E pub h \<longleftrightarrow> (\<exists>h' cs. h = cs @ h' \<and> fresh_at E pub h' \<and> list_all join_call cs)"

lemma tunnel_evidence_fresh: "fresh_at E pub h \<Longrightarrow> tunnel_evidence E pub h"
  unfolding tunnel_evidence_def by force

lemma tunnel_evidence_cons:
  "tunnel_evidence E pub h \<Longrightarrow> join_call c \<Longrightarrow> tunnel_evidence E pub (c # h)"
  unfolding tunnel_evidence_def by (metis append_Cons list.pred_inject(2))

lemma tunnel_evidence_ext:
  "tunnel_evidence E pub (w_hist s) \<Longrightarrow> hist_ext join_call s t \<Longrightarrow> tunnel_evidence E pub (w_hist t)"
  unfolding tunnel_evidence_def hist_ext_def by (metis append.assoc list_all_append)

lemma emits_joinBridge [frame]: "emits join_call (joinBridge E b)"
  by (auto simp: joinBridge_def join_call_def intro!: emits_rules frame)

definition leaf_tunnel_ok :: "env \<Rightarrow> string \<Rightarrow> sysCall \<Rightarrow> hist \<Rightarrow> bool" where
  "leaf_tunnel_ok E pub c h \<longleftrightarrow> wg_call c \<or>
     (c = CSetMaster meshVXLANLeaf BRIDGE_IFACE \<and> tunnel_evidence E pub h)"

lemma wg_calls: "emits wg_call m \<Longrightarrow> calls (leaf_tunnel_ok E pub) m"
  by (erule calls_emits) (simp add: leaf_tunnel_ok_def)

lemma wp_joinBridge:
  assumes "b \<longrightarrow> fresh_at E pub (w_hist s)"
  shows "wp (joinBridge E b) (\<lambda>_ t. call_ext (leaf_tunnel_ok E pub) s t \<and>
    (b \<longrightarrow> tunnel_evidence E pub (w_hist t))) s"
proof -
  have "call_ext (leaf_tunnel_ok E pub) s t"
    if "w_hist t = CSetMaster meshVXLANLeaf BRIDGE_IFACE # CLinkInfo meshVXLANLeaf # w_hist s" "b" for t
    unfolding call_ext_def
    by (rule exI [of _ "[CSetMaster meshVXLANLeaf BRIDGE_IFACE, CLinkInfo meshVXLANLeaf]"])
      (use that assms in \<open>simp add: leaf_tunnel_ok_def tunnel_evidence_cons tunnel_evidence_fresh join_call_def\<close>)
  then have "wp (joinBridge E b) (\<lambda>_ t. call_ext (leaf_tunnel_ok E pub) s t) s"
    by (auto simp: joinBridge_def wp_simps call_ext_cons leaf_tunnel_ok_def split: sum.splits)
  moreover have "wp (joinBridge E b) (\<lambda>_ t. b \<longrightarrow> tunnel_evidence E pub (w_hist t)) s"
    by (rule wp_mono [OF emits.in_wp [OF emits_joinBridge]])
      (use assms in \<open>auto intro: tunnel_evidence_ext tunnel_evidence_fresh\<close>)
  ultimately show ?thesis by (simp add: wp_conj)
qed

lemma finishLeafWG_calls:
  "calls (leaf_tunnel_ok E pub)
    (do { secured \<leftarrow> wgHandshakeFresh E pub; check (joinBridge E secured) g (return (k secured)) })"
proof (rule calls.bind_post [where Q = "\<lambda>b t. b \<longrightarrow> fresh_at E pub (w_hist t)"])
  show "calls (leaf_tunnel_ok E pub) (wgHandshakeFresh E pub)"
    by (intro wg_calls frame)
  show "wp (wgHandshakeFresh E pub) (\<lambda>b t. b \<longrightarrow> fresh_at E pub (w_hist t)) s" for s
    by (rule wp_wgHandshakeFresh)
  show "wp (check (joinBridge E b) g (return (k b))) (\<lambda>_. call_ext (leaf_tunnel_ok E pub) t) t"
    if "b \<longrightarrow> fresh_at E pub (w_hist t)" for b t
    unfolding wp_check wp_return
    by (rule wp_mono [OF wp_joinBridge [OF that]]) (auto split: option.splits)
qed

lemma leafWG_calls: "calls (leaf_tunnel_ok E (ls_MainPublicKey cfg)) (leafWG E cfg wanif token lst)"
  unfolding leafWG_def Let_def
  by (intro calls_rules finishLeafWG_calls wg_calls frame)

text \<open>\<open>leafWG\<close> reports a secured link only after such a handshake, and never with an error.\<close>

lemma wp_leafWG:
  "wp (leafWG E cfg wanif token lst)
    (\<lambda>(b, e, _) t. b \<longrightarrow> e = None \<and> tunnel_evidence E (ls_MainPublicKey cfg) (w_hist t)) s"
proof -
  let ?Q = "\<lambda>(b, e, _ :: MACsecLinkStatus) t. b \<longrightarrow> e = None \<and> tunnel_evidence E (ls_MainPublicKey cfg) (w_hist t)"
  have skip: "wp (check m (\<lambda>e. (False, Some e, lst)) k) ?Q u" if "\<And>t. wp k ?Q t" for m k u
    unfolding wp_check by (rule wp_runI) (use that in \<open>auto split: option.splits\<close>)
  have skipr: "wp (bindr m (\<lambda>e. (False, Some e, lst)) f) ?Q u" if "\<And>x t. wp (f x) ?Q t" for m f u
    unfolding wp_bindr by (rule wp_runI) (use that in \<open>auto split: sum.splits\<close>)
  have "wp (do { secured \<leftarrow> wgHandshakeFresh E (ls_MainPublicKey cfg);
      check (joinBridge E secured) (\<lambda>e. (False, Some e, lst')) (return (secured, None, lst')) }) ?Q u" for u lst'
    unfolding wp_bind
  proof (rule wp_mono [OF wp_wgHandshakeFresh])
    fix b and t :: st
    assume b: "b \<longrightarrow> fresh_at E (ls_MainPublicKey cfg) (w_hist t)"
    show "wp (check (joinBridge E b) (\<lambda>e. (False, Some e, lst')) (return (b, None, lst'))) ?Q t"
      unfolding wp_check wp_return
      by (rule wp_mono [OF wp_joinBridge [OF b]]) (auto split: option.splits)
  qed
  then show ?thesis
    unfolding leafWG_def Let_def by (intro skip skipr)
qed

end
