(* ===== verification/Bridge.thy ===== *)
theory Bridge
  imports Backhaul
begin

text \<open>
  \<open>mesh_bridge.go\<close>: the main router's bridge of encrypted links, its guard (a member may only
  send from its own leaf's address, members cannot reach each other) and the loop that attaches
  the secured members and detaches the others.
\<close>

section \<open>The guard\<close>

definition meshBridge :: string where "meshBridge = ''mshbr0''"
definition meshBridgeGuardTable :: string where "meshBridgeGuardTable = ''mesh_bridge_guard''"

record meshBridgePin =
  pin_Port :: string
  pin_MAC :: string

definition pin_mac :: "meshBridgePin \<Rightarrow> byte list option" where
  "pin_mac pin =
    (case parse_mac (pin_MAC pin) of
       None \<Rightarrow> None
     | Some mac \<Rightarrow>
         if length mac \<noteq> 6 \<or> (pin_Port pin \<noteq> [] \<and> \<not> valid_iface (pin_Port pin)) then None else Some mac)"

definition drop_rule :: "byte list \<Rightarrow> string \<Rightarrow> string" where
  "drop_rule mac port = ''meta ibrname '' @ quote meshBridge @ '' ether saddr '' @ mac_string mac @ port @ '' drop''"

fun pin_rules :: "meshBridgePin list \<Rightarrow> string res" where
  "pin_rules [] = Inr []"
| "pin_rules (pin # pins) =
    (case pin_mac pin of
       None \<Rightarrow> Inl (''invalid bridge pin '' @ quote (pin_MAC pin) @ '' on '' @ quote (pin_Port pin))
     | Some mac \<Rightarrow>
         (let port = (if pin_Port pin \<noteq> [] then '' iifname != '' @ quote (pin_Port pin) else [])
          in case pin_rules pins of
               Inl e \<Rightarrow> Inl e
             | Inr rules \<Rightarrow> Inr (ln 2 (drop_rule mac port) @ rules)))"

definition renderBridgeGuard :: "byte list \<Rightarrow> meshBridgePin list \<Rightarrow> string res" where
  "renderBridgeGuard own pins =
    (case pin_rules pins of
       Inl e \<Rightarrow> Inl e
     | Inr rules \<Rightarrow> Inr (table_head ''bridge'' meshBridgeGuardTable @
         ln 1 ''chain input {'' @ ln 2 ''type filter hook input priority -200; policy accept;'' @
         ln 2 (drop_rule own []) @ rules @ ln 1 ''}'' @
         ln 1 ''chain forward {'' @ ln 2 ''type filter hook forward priority -200; policy accept;'' @
         ln 2 (''meta ibrname '' @ quote meshBridge @ '' drop'') @ ln 1 ''}'' @ ln 0 ''}''))"

section \<open>Operations\<close>

definition removeMeshBridge :: "env \<Rightarrow> unit go" where
  "removeMeshBridge E = do {
     gone \<leftarrow> gets m_bridgeGone;
     if gone then return ()
     else do {
       ok \<leftarrow> linkExists E meshBridge;
       guard \<leftarrow> gets m_bridgeGuard;
       doif (ok \<or> guard \<noteq> []) (do {
         drop_result (act E (CDeleteLink meshBridge));
         drop_result (act E (CNFTDeleteTable ''bridge'' meshBridgeGuardTable))
       });
       modify (\<lambda>s. s\<lparr>m_bridgeGuard := [], m_bridgeGuardLive := [], m_bridgeGone := True\<rparr>)
     }
   }"

definition onBridge :: "MACsecLinkStatus \<Rightarrow> bool" where
  "onBridge lst = (\<not> st_Pending lst \<and> st_Parent lst \<noteq> [])"

definition bridgePins :: "MACsecLinkStatus list \<Rightarrow> meshBridgePin list" where
  "bridgePins links = map (\<lambda>lst. \<lparr>pin_Port = st_Member lst, pin_MAC = st_LeafMAC lst\<rparr>)
     (filter (\<lambda>lst. st_LeafMAC lst \<noteq> []) (filter onBridge links))"

text \<open>The bridge device, created with the first parent's address when it does not exist.\<close>

definition bridgeInfo :: "env \<Rightarrow> string \<Rightarrow> linkInfo res go" where
  "bridgeInfo E parent = do {
     r \<leftarrow> sysLinkInfo E meshBridge;
     (case r of
        Inr info \<Rightarrow> return (Inr info)
      | Inl _ \<Rightarrow> do {
          p \<leftarrow> sysLinkInfo E parent;
          (case p of Inl _ \<Rightarrow> return ()
           | Inr pinfo \<Rightarrow> drop_result (Cmd E ''ip'' [''link'', ''add'', meshBridge, ''address'',
               mac_string (li_MAC pinfo), ''type'', ''bridge'']));
          sysLinkInfo E meshBridge
        })
   }"

definition bridgeReady :: "env \<Rightarrow> string \<Rightarrow> meshBridgePin list \<Rightarrow> err go" where
  "bridgeReady E parent pins =
    bindr (bridgeInfo E parent) Some (\<lambda>info.
    check (act E (CSetUp meshBridge)) Some
    (case renderBridgeGuard (li_MAC info) pins of
       Inl e \<Rightarrow> return (Some e)
     | Inr ruleset \<Rightarrow> installTable E ''bridge'' meshBridgeGuardTable ruleset bridgeSlot))"

text \<open>One member: \<open>ok\<close> is whether the bridge and its guard are in place.\<close>

definition attachMember :: "env \<Rightarrow> bool \<Rightarrow> MACsecLinkStatus \<Rightarrow> MACsecLinkStatus go" where
  "attachMember E ok lst = do {
     port \<leftarrow> sysLinkInfo E (st_Member lst);
     (case port of
        Inl _ \<Rightarrow> return (lst\<lparr>st_Secured := False\<rparr>)
      | Inr info \<Rightarrow>
          let secured = (st_Secured lst \<and> ok) in
          if secured \<and> li_Master info \<noteq> meshBridge then do {
            e \<leftarrow> act E (CSetMaster (st_Member lst) meshBridge);
            if e \<noteq> None then return (lst\<lparr>st_Secured := False\<rparr>)
            else do {
              e \<leftarrow> Cmd E ''bridge'' [''link'', ''set'', ''dev'', st_Member lst, ''isolated'', ''on''];
              doif (e \<noteq> None) (drop_result (act E (CSetMaster (st_Member lst) [])));
              return (lst\<lparr>st_Secured := (e = None)\<rparr>)
            }
          } else do {
            doif (\<not> secured \<and> li_Master info = meshBridge) (drop_result (act E (CSetMaster (st_Member lst) [])));
            return (lst\<lparr>st_Secured := secured\<rparr>)
          })
   }"

definition attachMembers :: "env \<Rightarrow> bool \<Rightarrow> MACsecLinkStatus list \<Rightarrow> MACsecLinkStatus list go" where
  "attachMembers E ok links = for_fold links [] (\<lambda>lst acc.
     if onBridge lst then do { l \<leftarrow> attachMember E ok (lst\<lparr>st_Interface := meshBridge\<rparr>); return (acc @ [l]) }
     else return (acc @ [lst]))"

definition reconcileMeshBridge :: "env \<Rightarrow> MACsecLinkStatus list \<Rightarrow> MACsecLinkStatus list go" where
  "reconcileMeshBridge E links =
    (case filter onBridge links of
       [] \<Rightarrow> do { removeMeshBridge E; return links }
     | first # _ \<Rightarrow> do {
         modify (\<lambda>s. s\<lparr>m_bridgeGone := False\<rparr>);
         e \<leftarrow> bridgeReady E (st_Parent first) (bridgePins links);
         attachMembers E (e = None) links
       })"

section \<open>Footprints\<close>

definition bridge_call :: "sysCall \<Rightarrow> bool" where
  "bridge_call c = (case c of
     CLinkInfo n \<Rightarrow> True | CCmd n a \<Rightarrow> True | CSetUp n \<Rightarrow> True | CSetMaster n m \<Rightarrow> m = meshBridge \<or> m = []
   | CDeleteLink n \<Rightarrow> n = meshBridge | CNFT r \<Rightarrow> True | CNFTList f t \<Rightarrow> True
   | CNFTDeleteTable f t \<Rightarrow> f = ''bridge'' \<and> t = meshBridgeGuardTable | _ \<Rightarrow> False)"

lemma bridge_call_simps [simp]:
  "bridge_call (CLinkInfo n)" "bridge_call (CCmd n a)" "bridge_call (CSetUp n)"
  "bridge_call (CSetMaster n meshBridge)" "bridge_call (CSetMaster n [])"
  "bridge_call (CDeleteLink meshBridge)" "bridge_call (CNFT r)" "bridge_call (CNFTList f t)"
  "bridge_call (CNFTDeleteTable ''bridge'' meshBridgeGuardTable)"
  by (simp_all add: bridge_call_def)

lemma emits_bridge [frame]:
  "emits bridge_call (removeMeshBridge E)" "emits bridge_call (bridgeInfo E p)"
  "emits bridge_call (attachMember E b lst)" "emits bridge_call (bridgeReady E p pins)"
  "emits bridge_call (attachMembers E b ls)" "emits bridge_call (reconcileMeshBridge E ls)"
proof -
  show a: "emits bridge_call (removeMeshBridge E)" "emits bridge_call (bridgeInfo E p)"
    "emits bridge_call (attachMember E b lst)" for b lst p
    unfolding removeMeshBridge_def bridgeInfo_def attachMember_def Let_def
    by (intro emits_rules frame; simp)+
  show b: "emits bridge_call (bridgeReady E p pins)" for p pins
    unfolding bridgeReady_def by (intro emits_rules a bridgeGuard.install_footprint frame) simp_all
  show c: "emits bridge_call (attachMembers E b ls)" for b
    unfolding attachMembers_def by (intro emits_rules a)
  show "emits bridge_call (reconcileMeshBridge E ls)"
    unfolding reconcileMeshBridge_def
    by (cases "filter onBridge ls") (auto intro!: emits_rules a b c frame)
qed

lemma keeps_bridge [frame]:
  assumes "\<And>s h. f (s\<lparr>w_hist := h\<rparr>) = f s" "\<And>s r. f (s\<lparr>m_bridgeGuard := r\<rparr>) = f s"
    "\<And>s r. f (s\<lparr>m_bridgeGuardLive := r\<rparr>) = f s" "\<And>s b. f (s\<lparr>m_bridgeGone := b\<rparr>) = f s"
  shows "keeps f (reconcileMeshBridge E ls)"
proof -
  have "keeps f (installTable E a b r bridgeSlot)" for a b r
    using assms by (auto simp: installTable_def tableFresh_def bridgeSlot_def intro!: keeps_rules frame)
  then show ?thesis
    using assms by (cases "filter onBridge ls")
      (auto simp: reconcileMeshBridge_def removeMeshBridge_def bridgeReady_def bridgeInfo_def
        attachMembers_def attachMember_def Let_def intro!: keeps_rules frame)
qed

section \<open>What the bridge promises\<close>

text \<open>A ready bridge has the guard for exactly these pins in the kernel.\<close>

definition bridge_guarded :: "env \<Rightarrow> meshBridgePin list \<Rightarrow> st \<Rightarrow> bool" where
  "bridge_guarded E pins s \<longleftrightarrow> (\<exists>own ruleset. renderBridgeGuard own pins = Inr ruleset \<and>
     confirmed E ''bridge'' meshBridgeGuardTable ruleset (m_bridgeGuard s, m_bridgeGuardLive s) (w_hist s))"

lemma bridge_guardedI:
  "renderBridgeGuard own pins = Inr ruleset \<Longrightarrow>
    confirmed E ''bridge'' meshBridgeGuardTable ruleset (m_bridgeGuard s, m_bridgeGuardLive s) (w_hist s) \<Longrightarrow>
    bridge_guarded E pins s"
  unfolding bridge_guarded_def by blast

lemma wp_bridgeReady:
  "wp (bridgeReady E parent pins) (\<lambda>e t. e = None \<longrightarrow> bridge_guarded E pins t) s"
proof -
  have "wp (installTable E ''bridge'' meshBridgeGuardTable ruleset bridgeSlot)
      (\<lambda>e t. e = None \<longrightarrow> bridge_guarded E pins t) u"
    if "renderBridgeGuard own pins = Inr ruleset" for own ruleset u
    by (rule wp_mono [OF bridgeGuard.install_contract])
      (use that in \<open>auto simp: bridgeSlot_def intro: bridge_guardedI\<close>)
  then show ?thesis
    unfolding bridgeReady_def wp_bindr
    by (intro wp_runI) (auto simp: wp_simps split: sum.splits option.splits)
qed

text \<open>
  A member the loop reports secured was secured before, its bridge is guarded, its device
  exists, and it either was on the bridge already or joined it isolated.
\<close>

definition joined_isolated :: "env \<Rightarrow> string \<Rightarrow> st \<Rightarrow> st \<Rightarrow> bool" where
  "joined_isolated E n s t \<longleftrightarrow> (\<exists>info. e_LinkInfo E (w_hist s) n = Inr info \<and>
     (li_Master info = meshBridge \<or>
      w_hist t = CCmd ''bridge'' [''link'', ''set'', ''dev'', n, ''isolated'', ''on''] #
        CSetMaster n meshBridge # CLinkInfo n # w_hist s \<and>
      e_Err E (CLinkInfo n # w_hist s) (CSetMaster n meshBridge) = None \<and>
      e_Err E (tl (w_hist t)) (hd (w_hist t)) = None))"

lemma wp_attachMember:
  "wp (attachMember E ok lst) (\<lambda>l t. (\<exists>b. l = lst\<lparr>st_Secured := b\<rparr>) \<and>
     (st_Secured l \<longrightarrow> st_Secured lst \<and> ok \<and> joined_isolated E (st_Member lst) s t) \<and>
     (\<not> st_Secured l \<longrightarrow> (\<forall>info. e_LinkInfo E (w_hist s) (st_Member lst) = Inr info \<longrightarrow>
        li_Master info = meshBridge \<longrightarrow> made s t (CSetMaster (st_Member lst) [])))) s"
proof (cases "e_LinkInfo E (w_hist s) (st_Member lst)")
  case (Inl e)
  then show ?thesis by (auto simp: attachMember_def wp_simps)
next
  case (Inr info)
  show ?thesis
  proof (cases "st_Secured lst \<and> ok \<and> li_Master info \<noteq> meshBridge")
    case True
    with Inr show ?thesis
      by (auto simp: attachMember_def Cmd_def wp_simps joined_isolated_def)
  next
    case False
    have "made s t c" if "w_hist t = c # CLinkInfo n # w_hist s" for t c n
      using that unfolding made_def by (intro exI [of _ "[c, CLinkInfo n]"]) simp
    with False Inr show ?thesis
      by (auto simp: attachMember_def wp_simps joined_isolated_def)
  qed
qed

end
