(* ===== verification/MkaInv.thy ===== *)
theory MkaInv
  imports Mka
begin

text \<open>
  Process accounting: the participants that were started and not stopped, read off the
  history, are exactly those in the manager's table. So no \<open>wpa_supplicant\<close> is ever leaked or
  tracked twice, whatever the kernel answers; and after a successful \<open>ensureMKA\<close> the
  participant in the table runs on the requested configuration.
\<close>

section \<open>Live processes\<close>

fun alive :: "env \<Rightarrow> hist \<Rightarrow> nat set" where
  "alive E [] = {}"
| "alive E (c # h) =
    (case c of
       CStartMKA p f j \<Rightarrow> if e_Err E h c = None then insert j (alive E h) else alive E h
     | CStopMKA j \<Rightarrow> alive E h - {j}
     | _ \<Rightarrow> alive E h)"

definition quiet_call :: "sysCall \<Rightarrow> bool" where
  "quiet_call c = (case c of CStartMKA p f j \<Rightarrow> False | CStopMKA j \<Rightarrow> False | _ \<Rightarrow> True)"

definition handles :: "(string, mkaRunning) gomap \<Rightarrow> nat list" where
  "handles m = map (\<lambda>p. mr_proc (snd p)) m"

lemma handles_simps [simp]:
  "handles [] = []" "handles (p # m) = mr_proc (snd p) # handles m"
  "handles (m @ n) = handles m @ handles n"
  by (simp_all add: handles_def)

definition proc_inv :: "env \<Rightarrow> st \<Rightarrow> bool" where
  "proc_inv E s \<longleftrightarrow> mwf (m_procs s) \<and> distinct (handles (m_procs s)) \<and>
     alive E (w_hist s) = set (handles (m_procs s)) \<and>
     (\<forall>j \<in> set (handles (m_procs s)). j < length (w_hist s))"

lemma alive_quiet: "quiet_call c \<Longrightarrow> alive E (c # h) = alive E h"
  by (cases c) (simp_all add: quiet_call_def)

lemma alive_quiet_append: "list_all quiet_call cs \<Longrightarrow> alive E (cs @ h) = alive E h"
  by (induction cs) (simp_all add: alive_quiet del: alive.simps)

lemma quiet_simps [simp]:
  "quiet_call CLinks" "quiet_call (CLinkInfo n)" "quiet_call (CRouteDev n)" "quiet_call (CSetMTU n i)"
  "quiet_call (CSetMaster n m)" "quiet_call (CSetUp n)" "quiet_call (CDeleteLink n)"
  "quiet_call (CDisableIPv6 n)" "quiet_call (CNFT r)" "quiet_call (CNFTDeleteTable f t)"
  "quiet_call (CNFTList f t)" "quiet_call (CExited j)" "quiet_call CHelp" "quiet_call (CLookPath n)"
  "quiet_call (CRoutes n)" "quiet_call (CPinRouteMTU n re i)" "quiet_call (CCmd n a)"
  "quiet_call (COutput n a)" "quiet_call (CSendFrame n b)" "quiet_call (CExchange n b)"
  "quiet_call (CRecvFrames n)" "quiet_call CNow" "quiet_call (CRand k)" "quiet_call (CReadFile f)"
  "quiet_call CTokens" "quiet_call (CWriteSecret f x)" "quiet_call (CRemove f)"
  "quiet_call (CWriteFlag b')" "quiet_call CSaveConfig" "quiet_call (CSaveMTU mm)"
  "quiet_call CWriteWGKey" "quiet_call (CGoCtlListen n)" "quiet_call (CGoTestMTU n)"
  "quiet_call CKick" "quiet_call (CKickAfter i)" "quiet_call (CCallLeaf n rq)"
  "quiet_call (CWriteFile n f)" "quiet_call (CHTTP n f n' f' n2)" "quiet_call (CFetchCert n)"
  "quiet_call (CHostapd n f)" "quiet_call (CGoParent n f)" "quiet_call CGoSync" "quiet_call (CSaveNeighbors nb)" "quiet_call (CRename n f)"
  by (simp_all add: quiet_call_def)

lemma hist_ext_quiet:
  "hist_ext quiet_call s t \<Longrightarrow> alive E (w_hist t) = alive E (w_hist s) \<and> length (w_hist s) \<le> length (w_hist t)"
  by (auto simp: hist_ext_def alive_quiet_append)

lemma proc_inv_frame:
  "proc_inv E s \<Longrightarrow> hist_ext quiet_call s t \<Longrightarrow> m_procs t = m_procs s \<Longrightarrow> proc_inv E t"
  by (auto simp: proc_inv_def dest!: hist_ext_quiet [where E = E])

text \<open>Every operation that starts and stops nothing keeps the invariant.\<close>

lemma preserves_proc_inv:
  assumes "emits quiet_call m" and "keeps m_procs m"
  shows "preserves (proc_inv E) m"
proof (rule preservesI)
  fix s
  assume "proc_inv E s"
  moreover have "wp m (\<lambda>_ t. hist_ext quiet_call s t \<and> m_procs t = m_procs s) s"
    using emits.in_wp [OF assms(1)] keeps.in_wp [OF assms(2)] by (simp add: wp_conj)
  ultimately show "wp m (\<lambda>_. proc_inv E) s"
    by (auto intro: wp_mono proc_inv_frame)
qed

section \<open>Stopping\<close>

lemma mdel_absent: "mget m k = None \<Longrightarrow> mdel k m = m"
  by (induction m) (auto simp: mdel_Cons mget_def split: if_splits)

lemma handles_mdel:
  assumes "mwf m" "distinct (handles m)" "mget m k = Some r"
  shows "set (handles (mdel k m)) = set (handles m) - {mr_proc r} \<and> distinct (handles (mdel k m))"
  using assms
proof (induction m)
  case Nil
  then show ?case by (simp add: mget_def)
next
  case (Cons p m)
  show ?case
  proof (cases "fst p = k")
    case True
    then have "mget m k = None"
      using Cons.prems(1) by (auto simp: mwf_def mget_def map_of_eq_None_iff)
    with True Cons.prems show ?thesis
      by (cases p) (auto simp: mdel_Cons mdel_absent mget_def)
  next
    case False
    then have k: "mget m k = Some r" using Cons.prems(3) by (cases p) (simp add: mget_def)
    then have "(k, r) \<in> set m" by (auto simp: mget_def dest: map_of_SomeD)
    then have r: "mr_proc r \<in> set (handles m)" by (force simp: handles_def)
    have IH: "set (handles (mdel k m)) = set (handles m) - {mr_proc r}" "distinct (handles (mdel k m))"
      using Cons.IH Cons.prems k by (simp_all add: mwf_def)
    have p: "mr_proc (snd p) \<notin> set (handles m)" using Cons.prems(2) by simp
    with r have "mr_proc (snd p) \<noteq> mr_proc r" by metis
    moreover have "mdel k (p # m) = p # mdel k m" using False by (simp add: mdel_Cons)
    ultimately show ?thesis using p by (simp add: IH insert_Diff_if)
  qed
qed

text \<open>What \<open>stopMKA\<close> does to the table and to the live set.\<close>

lemma wp_stopMKA:
  "wp (stopMKA E i) (\<lambda>_ t. m_procs t = mdel i (m_procs s) \<and>
      length (w_hist s) \<le> length (w_hist t) \<and>
      alive E (w_hist t) = (case mget (m_procs s) i of None \<Rightarrow> alive E (w_hist s)
        | Some r \<Rightarrow> alive E (w_hist s) - {mr_proc r})) s"
proof (cases "mget (m_procs s) i")
  case None
  then show ?thesis by (simp add: stopMKA_def wp_simps mdel_absent)
next
  case (Some r)
  let ?s1 = "s\<lparr>w_hist := CStopMKA (mr_proc r) # w_hist s\<rparr>"
  have "wp (deleteSecY E (mr_parent r) (mr_sci r))
      (\<lambda>_ t. m_procs t = m_procs ?s1 \<and> hist_ext quiet_call ?s1 t) ?s1"
    unfolding wp_conj by (intro conjI keeps_wp emits.in_wp frame) simp_all
  then have "wp (deleteSecY E (mr_parent r) (mr_sci r))
      (\<lambda>_ t. m_procs t = m_procs s \<and> length (w_hist s) \<le> length (w_hist t) \<and>
        alive E (w_hist t) = alive E (w_hist s) - {mr_proc r}) ?s1"
    by (rule wp_mono) (auto dest!: hist_ext_quiet [where E = E])
  then show ?thesis
    unfolding stopMKA_def wp_simps Some option.case by (rule wp_mono) simp
qed

lemma stopMKA_inv: "preserves (proc_inv E) (stopMKA E i)"
proof (rule preservesI)
  fix s
  assume inv: "proc_inv E s"
  show "wp (stopMKA E i) (\<lambda>_. proc_inv E) s"
    using wp_stopMKA [where s = s]
  proof (rule wp_mono)
    fix t :: st
    assume t: "m_procs t = mdel i (m_procs s) \<and> length (w_hist s) \<le> length (w_hist t) \<and>
      alive E (w_hist t) = (case mget (m_procs s) i of None \<Rightarrow> alive E (w_hist s)
        | Some r \<Rightarrow> alive E (w_hist s) - {mr_proc r})"
    show "proc_inv E t"
    proof (cases "mget (m_procs s) i")
      case None
      with t inv show ?thesis by (auto simp: proc_inv_def mdel_absent)
    next
      case (Some r)
      with inv have "set (handles (mdel i (m_procs s))) = set (handles (m_procs s)) - {mr_proc r}"
        "distinct (handles (mdel i (m_procs s)))"
        using handles_mdel by (auto simp: proc_inv_def)
      with t Some inv show ?thesis
        by (auto simp: proc_inv_def gomap.wf_del)
    qed
  qed
qed

lemma stopAllMKA_inv: "preserves (proc_inv E) (stopAllMKA E keep)"
  unfolding stopAllMKA_def by (intro preserves_rules stopMKA_inv)

text \<open>After \<open>stopAllMKA\<close> the table is the old one restricted to what was to be kept.\<close>

lemma wp_stopAll_loop:
  "wp (for_each ids (\<lambda>i. if i \<notin> keep then stopMKA E i else return ()))
     (\<lambda>_ t. \<forall>k. mget (m_procs t) k =
        (if k \<in> set ids \<and> k \<notin> keep then None else mget (m_procs s) k)) s"
proof (induction ids arbitrary: s)
  case Nil
  then show ?case by (simp add: wp_simps)
next
  case (Cons i ids)
  have "wp (if i \<notin> keep then stopMKA E i else return ())
      (\<lambda>_ t. m_procs t = (if i \<notin> keep then mdel i (m_procs s) else m_procs s)) s"
    by (auto simp: wp_simps intro: wp_mono [OF wp_stopMKA])
  then show ?case
    unfolding for_each.simps wp_bind
    by (rule wp_mono) (rule wp_mono [OF Cons.IH], auto)
qed

lemma wp_stopAllMKA:
  "wp (stopAllMKA E keep) (\<lambda>_ t. \<forall>k. mget (m_procs t) k =
     (if k \<in> keep then mget (m_procs s) k else None)) s"
  unfolding stopAllMKA_def wp_bind wp_gets
  by (rule wp_mono [OF wp_stopAll_loop]) (auto simp: mget_mkeys [symmetric])

section \<open>Starting\<close>

lemma mput_absent: "mget m k = None \<Longrightarrow> mput k v m = m @ [(k, v)]"
  by (induction m) (auto simp: mput_def mget_def split: if_splits)

lemma proc_inv_put:
  assumes inv: "proc_inv E s" and absent: "mget (m_procs s) i = None"
    and ok: "e_Err E (w_hist s) (CStartMKA p f (length (w_hist s))) = None"
    and r: "mr_proc r = length (w_hist s)"
  shows "proc_inv E (s\<lparr>w_hist := CStartMKA p f (length (w_hist s)) # w_hist s,
    m_procs := mput i r (m_procs s)\<rparr>)"
proof -
  have "mput i r (m_procs s) = m_procs s @ [(i, r)]"
    using absent by (rule mput_absent)
  with assms show ?thesis
    by (auto simp: proc_inv_def mwf_def mget_def map_of_eq_None_iff)
qed

definition runs :: "env \<Rightarrow> mkaInstance \<Rightarrow> string \<Rightarrow> byte list \<Rightarrow> st \<Rightarrow> bool" where
  "runs E inst conf mac s \<longleftrightarrow> (\<exists>r. mget (m_procs s) (mi_ID inst) = Some r \<and>
     mr_confHash r = e_sha256 E conf \<and> mr_parent r = mi_Parent inst \<and>
     mr_parentMAC r = mac_string mac \<and> mr_proc r \<in> alive E (w_hist s))"

lemma proc_inv_alive:
  "proc_inv E s \<Longrightarrow> mget (m_procs s) i = Some r \<Longrightarrow> mr_proc r \<in> alive E (w_hist s)"
  by (force simp: proc_inv_def mget_def handles_def dest: map_of_SomeD)

lemma proc_inv_call: "proc_inv E s \<Longrightarrow> quiet_call c \<Longrightarrow> proc_inv E (s\<lparr>w_hist := c # w_hist s\<rparr>)"
  by (erule proc_inv_frame) (simp_all add: hist_ext_cons)

lemma wp_mkaCurrent:
  assumes inv: "proc_inv E s"
  shows "wp (mkaCurrent E inst (e_sha256 E conf) mac)
    (\<lambda>b t. proc_inv E t \<and> (if b then runs E inst conf mac t else mget (m_procs t) (mi_ID inst) = None)) s"
proof (cases "mget (m_procs s) (mi_ID inst)")
  case None
  then show ?thesis by (simp add: mkaCurrent_def wp_simps inv)
next
  case (Some r)
  let ?s1 = "s\<lparr>w_hist := CExited (mr_proc r) # w_hist s\<rparr>"
  have inv1: "proc_inv E ?s1" using inv by (simp add: proc_inv_call)
  have "wp (stopMKA E (mi_ID inst)) (\<lambda>_ t. proc_inv E t \<and> mget (m_procs t) (mi_ID inst) = None) ?s1"
    unfolding wp_conj
    by (intro conjI preserves_wp [OF stopMKA_inv inv1] wp_mono [OF wp_stopMKA]) auto
  moreover have "mr_proc r \<in> alive E (w_hist s)" using inv Some by (rule proc_inv_alive)
  ultimately show ?thesis
    using Some inv1 by (auto simp: mkaCurrent_def wp_simps runs_def)
qed

lemma wp_spawnMKA:
  assumes inv: "proc_inv E s" and absent: "mget (m_procs s) (mi_ID inst) = None"
  shows "wp (spawnMKA E inst conf sci mac path)
    (\<lambda>x t. proc_inv E t \<and> (x = (True, None) \<and> runs E inst conf mac t \<or>
       (\<exists>e. x = (False, Some e)) \<and> mget (m_procs t) (mi_ID inst) = None)) s"
proof (cases "e_Err E (w_hist s) (CStartMKA (mi_Parent inst) path (length (w_hist s)))")
  case None
  then show ?thesis
    using proc_inv_put [OF inv absent None] by (simp add: spawnMKA_def wp_simps runs_def)
next
  case (Some e)
  then have "proc_inv E (s\<lparr>w_hist := CStartMKA (mi_Parent inst) path (length (w_hist s)) # w_hist s\<rparr>)"
    using inv by (auto simp: proc_inv_def intro: less_SucI)
  with Some absent show ?thesis by (simp add: spawnMKA_def wp_simps)
qed

lemma wp_launchMKA:
  assumes inv: "proc_inv E s" and absent: "mget (m_procs s) (mi_ID inst) = None"
  shows "wp (launchMKA E inst conf sci mac)
    (\<lambda>x t. proc_inv E t \<and> (x = (True, None) \<and> runs E inst conf mac t \<or>
       (\<exists>e. x = (False, Some e)) \<and> mget (m_procs t) (mi_ID inst) = None)) s"
proof -
  have "wp (deleteSecY E (mi_Parent inst) sci) (\<lambda>_ u. hist_ext quiet_call s u \<and> m_procs u = m_procs s) s"
    unfolding wp_conj by (intro conjI keeps_wp emits.in_wp frame) simp_all
  then have "wp (deleteSecY E (mi_Parent inst) sci)
      (\<lambda>_ u. proc_inv E u \<and> mget (m_procs u) (mi_ID inst) = None) s"
    by (rule wp_mono) (use inv absent in \<open>auto intro: proc_inv_frame\<close>)
  then show ?thesis
    unfolding launchMKA_def Let_def wp_bind
    by (rule wp_mono)
      (auto simp: wp_sys wp_option wp_return proc_inv_call split: option.split intro!: wp_spawnMKA)
qed

text \<open>
  The contract of \<open>ensureMKA\<close>: the invariant holds; success means the requested participant
  runs; failure leaves the table as it was (a request that never was valid) or without an
  entry for the identity, so a participant on outdated keys is not kept.
\<close>

lemma wp_ensureMKA:
  assumes inv: "proc_inv E s"
  shows "wp (ensureMKA E inst mac)
    (\<lambda>x t. proc_inv E t \<and>
      ((x = (True, None) \<and> runs E inst (wpa_text inst) mac t) \<or>
       (\<exists>e. x = (False, Some e)) \<and> (t = s \<or> mget (m_procs t) (mi_ID inst) = None))) s"
proof (cases "renderWPAConf inst")
  case (Inl e)
  then show ?thesis by (simp add: ensureMKA_def wp_simps inv)
next
  case (Inr conf)
  then have conf: "conf = wpa_text inst" by (auto simp: renderWPAConf_def split: option.splits)
  show ?thesis
  proof (cases "macsecSCI mac (mi_Port inst)")
    case (Inl e)
    then show ?thesis by (simp add: ensureMKA_def wp_simps inv Inr)
  next
    case (Inr sci)
    let ?Q = "\<lambda>x t. proc_inv E t \<and>
      ((x = (True, None) \<and> runs E inst (wpa_text inst) mac t) \<or>
       (\<exists>e. x = (False, Some e)) \<and> (t = s \<or> mget (m_procs t) (mi_ID inst) = None))"
    have "wp (if b then return (True, None) else launchMKA E inst conf sci mac) ?Q t"
      if "proc_inv E t \<and> (if b then runs E inst conf mac t else mget (m_procs t) (mi_ID inst) = None)"
      for b and t :: st
      using that conf by (cases b) (auto simp: wp_simps intro!: wp_mono [OF wp_launchMKA])
    then show ?thesis
      unfolding ensureMKA_def \<open>renderWPAConf inst = Inr conf\<close> Inr sum.case wp_bind
      by (rule wp_mono [OF wp_mkaCurrent [OF inv]])
  qed
qed

lemma ensureMKA_inv: "preserves (proc_inv E) (ensureMKA E inst mac)"
  by (rule preservesI) (auto intro: wp_mono [OF wp_ensureMKA])

lemma restartIfStuck_inv: "preserves (proc_inv E) (restartIfStuck E i b)"
  unfolding restartIfStuck_def Let_def
  by (intro preserves_rules stopMKA_inv preserves_proc_inv frame) simp_all

end
