(* ===== verification/Leaf.thy ===== *)
theory Leaf
  imports Backhaul MkaInv
begin

text \<open>
  The leaf side of the reconcile loop in \<open>macsec_runtime.go\<close>: \<open>reconcileLeaf\<close>, the three minute
  confirmation window (\<open>confirmOrRevert\<close>) and the way back to the plaintext uplink
  (\<open>teardownLeaf\<close>). The two deferred functions of \<open>reconcileLeaf\<close> run after its body, the
  confirmation first and the status last; the body is therefore a program that yields what
  they read, the link's status and whether it is secured.
\<close>

section \<open>Operations\<close>

definition deleteLinksOn :: "env \<Rightarrow> (macsecLink \<Rightarrow> bool) \<Rightarrow> macsecLink list \<Rightarrow> unit go" where
  "deleteLinksOn E which links = for_each links (\<lambda>link.
     if which link then drop_result (act E (CDeleteLink (ml_Name link))) else return ())"

definition deleteUplinkLinks :: "env \<Rightarrow> string \<Rightarrow> unit go" where
  "deleteUplinkLinks E wanif = do {
     r \<leftarrow> sysLinks E;
     (case r of Inl _ \<Rightarrow> return ()
      | Inr links \<Rightarrow> deleteLinksOn E (\<lambda>link. ml_Parent link = wanif) links)
   }"

definition teardownLeaf :: "env \<Rightarrow> string \<Rightarrow> unit go" where
  "teardownLeaf E wanif = do {
     stopAllMKA E {};
     doif (valid_iface wanif) (deleteUplinkLinks E wanif);
     teardownWG E wanif;
     drop_result (act E (CNFTDeleteTable ''netdev'' macsecGuardTable));
     modify (\<lambda>s. s\<lparr>m_guardRules := [], m_guardLive := []\<rparr>);
     drop_result (act E (CNFTDeleteTable ''bridge'' macsecMSSTable));
     modify (\<lambda>s. s\<lparr>m_mssMTU := 0, m_mtuInUse := m_mtuInUse s - {wanif}\<rparr>);
     restoreUnusedMTU E;
     leaf \<leftarrow> isLeafRouter;
     doif (valid_iface wanif \<and> leaf) (do {
       r \<leftarrow> sysLinkInfo E BRIDGE_IFACE;
       doif (is_ok r) (do {
         drop_result (act E (CSetMaster wanif BRIDGE_IFACE));
         drop_result (act E (CSetUp wanif))
       })
     });
     setMACsecRequiredFlag E False;
     modify (\<lambda>s. s\<lparr>m_leafActive := False\<rparr>)
   }"

text \<open>
  The two halves of \<open>confirmOrRevert\<close>, each one critical section of \<open>Configmtx\<close> that reads the
  file again; the value is \<open>*cfg\<close> after the call.
\<close>

definition confirmLeaf :: "env \<Rightarrow> LeafSideMACsec \<Rightarrow> LeafSideMACsec go" where
  "confirmLeaf E cfg = do {
     lockConfig E;
     config \<leftarrow> loadConfigLocked;
     if ls_Enabled (mc_LeafMACsec config) \<and> ls_KeyNonce (mc_LeafMACsec config) = ls_KeyNonce cfg then do {
       saveConfigLocked E (config\<lparr>mc_LeafMACsec := (mc_LeafMACsec config)\<lparr>ls_Confirmed := True\<rparr>\<rparr>);
       return (cfg\<lparr>ls_Confirmed := True\<rparr>)
     } else return cfg
   }"

definition revertLeaf :: "env \<Rightarrow> LeafSideMACsec \<Rightarrow> string \<Rightarrow> LeafSideMACsec go" where
  "revertLeaf E cfg wanif = do {
     lockConfig E;
     config \<leftarrow> loadConfigLocked;
     cfg' \<leftarrow> (if ls_Enabled (mc_LeafMACsec config) \<and> \<not> ls_Confirmed (mc_LeafMACsec config) \<and>
                ls_KeyNonce (mc_LeafMACsec config) = ls_KeyNonce cfg then do {
         saveConfigLocked E (config\<lparr>mc_LeafMACsec := noLeafSide\<rparr>);
         return (cfg\<lparr>ls_Enabled := False\<rparr>)
       } else return cfg);
     doif (\<not> ls_Enabled cfg') (teardownLeaf E wanif);
     return cfg'
   }"

definition confirmOrRevert :: "env \<Rightarrow> LeafSideMACsec \<Rightarrow> bool \<Rightarrow> string \<Rightarrow> LeafSideMACsec go" where
  "confirmOrRevert E cfg secured wanif =
    (if ls_Confirmed cfg then return cfg
     else if secured then confirmLeaf E cfg
     else do {
       t \<leftarrow> now E;
       if t - ls_EnabledAt cfg * second < macsecConfirmTimeout then return cfg
       else revertLeaf E cfg wanif
     })"

text \<open>\<open>if msg != "" && st.Error == "" { st.Error = msg }\<close>\<close>

definition setError :: "string \<Rightarrow> MACsecLinkStatus \<Rightarrow> MACsecLinkStatus" where
  "setError msg lst = (if msg \<noteq> [] \<and> st_Error lst = [] then lst\<lparr>st_Error := msg\<rparr> else lst)"

definition leafGuard :: "env \<Rightarrow> LeafSideMACsec \<Rightarrow> string \<Rightarrow> MACsecLinkStatus \<Rightarrow> MACsecLinkStatus go" where
  "leafGuard E cfg wanif lst = do {
     guardErr \<leftarrow> (if storedMode (ls_Mode cfg) = backhaulWireGuard
       then applyGuardWG E wanif (ls_Port cfg) else applyGuard E wanif);
     return (case guardErr of None \<Rightarrow> lst | Some e \<Rightarrow> lst\<lparr>st_Error := ''guard: '' @ e\<rparr>)
   }"

text \<open>The uplink made ready: \<open>None\<close> is an early return.\<close>

definition leafUplink :: "env \<Rightarrow> LeafSideMACsec \<Rightarrow> string \<Rightarrow> MACsecLinkStatus \<Rightarrow> (linkInfo option \<times> MACsecLinkStatus) go" where
  "leafUplink E cfg wanif lst =
    bindr (sysLinkInfo E wanif) (\<lambda>_. (None, lst\<lparr>st_Error := ''uplink interface unavailable''\<rparr>)) (\<lambda>info.
    check (if li_Master info \<noteq> [] then act E (CSetMaster wanif []) else return None)
      (\<lambda>e. (None, lst\<lparr>st_Error := ''unbridge uplink: '' @ e\<rparr>)) (do {
     drop_result (act E (CDisableIPv6 wanif));
     drop_result (act E (CSetUp wanif));
     info \<leftarrow> (if ls_Jumbo cfg \<and> storedMode (ls_Mode cfg) = backhaulWireGuard
         then raiseParentMTUTo E wanif info meshJumboMTU
       else if ls_Jumbo cfg then raiseParentMTU E wanif info
       else return info);
     return (Some info, lst)
   }))"

definition startCtl :: "env \<Rightarrow> string \<Rightarrow> macsecCtlKeys \<Rightarrow> byte list \<Rightarrow> unit go" where
  "startCtl E wanif ctl mac = do {
     modify (\<lambda>s. s\<lparr>m_leafCtl := Some ctl, m_leafCtlMAC := mac, m_ctlOffAt := None\<rparr>);
     start \<leftarrow> gets (\<lambda>s. \<not> m_ctlRunning s \<and> \<not> m_noCtlLoop s);
     doif start (do {
       modify (\<lambda>s. s\<lparr>m_ctlRunning := True\<rparr>);
       emit (CGoCtlListen wanif)
     })
   }"

definition leafWGLink ::
  "env \<Rightarrow> LeafSideMACsec \<Rightarrow> string \<Rightarrow> string \<Rightarrow> MACsecLinkStatus \<Rightarrow> (bool \<times> MACsecLinkStatus) go" where
  "leafWGLink E cfg wanif token lst =
    (let lst = lst\<lparr>st_Mode := backhaulWireGuard, st_Port := ls_Port cfg\<rparr>;
         lst = (if ls_Jumbo cfg then lst\<lparr>st_Underlay := ls_UnderlayMTU cfg\<rparr> else lst) in do {
     stopAllMKA E {};
     deleteUplinkLinks E wanif;
     r \<leftarrow> leafWG E cfg wanif token lst;
     (case r of (secured, e, lst) \<Rightarrow> do {
       let lst = (case e of Some e \<Rightarrow> lst\<lparr>st_Error := e\<rparr> | None \<Rightarrow> lst\<lparr>st_Running := True\<rparr>);
       msg \<leftarrow> noPeerErrorFor E (backhaulLabel backhaulWireGuard) ''leaf-wg'' wanif secured;
       applyMSSClamp E (effectiveLinkMTU (ls_Mode cfg) (ls_Jumbo cfg) (ls_UnderlayMTU cfg) (ls_LinkMTU cfg));
       return (secured, setError msg (lst\<lparr>st_Secured := secured\<rparr>))
     })
   })"

text \<open>Whether the secure channel joins or leaves the bridge.\<close>

definition bridgeSecY :: "env \<Rightarrow> macsecLink \<Rightarrow> MACsecLinkStatus \<Rightarrow> (bool \<times> MACsecLinkStatus) go" where
  "bridgeSecY E link lst =
    (if link_Forwarding link then
       (if ml_Master link \<noteq> BRIDGE_IFACE then do {
          e \<leftarrow> act E (CSetMaster (ml_Name link) BRIDGE_IFACE);
          return (case e of None \<Rightarrow> (True, lst) | Some e \<Rightarrow> (False, lst\<lparr>st_Error := ''bridge secY: '' @ e\<rparr>))
        } else return (True, lst))
     else if ml_AdminUp link \<and> ml_Master link = BRIDGE_IFACE then do {
       e \<leftarrow> act E (CSetMaster (ml_Name link) []);
       return (False, (case e of None \<Rightarrow> lst | Some e \<Rightarrow> lst\<lparr>st_Error := ''unbridge insecure secY: '' @ e\<rparr>))
     } else return (False, lst))"

definition sciOrZero :: "byte list \<Rightarrow> int \<Rightarrow> 64 word" where
  "sciOrZero mac port = (case macsecSCI mac port of Inl _ \<Rightarrow> 0 | Inr sci \<Rightarrow> sci)"

definition leafSecY :: "env \<Rightarrow> LeafSideMACsec \<Rightarrow> string \<Rightarrow> linkInfo \<Rightarrow> MACsecLinkStatus \<Rightarrow> (bool \<times> MACsecLinkStatus) go" where
  "leafSecY E cfg wanif info lst =
    bindr (sysLinks E) (\<lambda>e. (False, lst\<lparr>st_Error := e\<rparr>)) (\<lambda>links. do {
      let sci = sciOrZero (li_MAC info) macsecLeafPort;
      deleteLinksOn E (\<lambda>link. ml_Parent link = wanif \<and> ml_SCI link \<noteq> sci) links;
      r \<leftarrow> (case findMACsecLink links wanif sci of
          None \<Rightarrow> return (False, lst)
        | Some link \<Rightarrow> do {
            applyLinkMTU E link (ls_LinkMTU cfg) info;
            bridgeSecY E link (lst\<lparr>st_Interface := ml_Name link\<rparr>)
          });
      (case r of (secured, lst) \<Rightarrow> do {
        msg \<leftarrow> noPeerError E ''leaf'' wanif secured;
        restartIfStuck E ''leaf'' secured;
        applyMSSClamp E (effectiveLinkMTU (ls_Mode cfg) (ls_Jumbo cfg) (ls_UnderlayMTU cfg) (ls_LinkMTU cfg));
        return (secured, setError msg (lst\<lparr>st_Secured := secured\<rparr>))
      })
    })"

definition leafMACsecLink ::
  "env \<Rightarrow> LeafSideMACsec \<Rightarrow> string \<Rightarrow> macsecKeys \<Rightarrow> linkInfo \<Rightarrow> MACsecLinkStatus \<Rightarrow> (bool \<times> MACsecLinkStatus) go" where
  "leafMACsecLink E cfg wanif keys info lst = do {
     wg \<leftarrow> linkExists E meshWGIface;
     doif wg (teardownWG E wanif);
     r \<leftarrow> ensureMKA E \<lparr>mi_ID = ''leaf'', mi_Parent = wanif, mi_Port = macsecLeafPort,
       mi_Priority = macsecPrioLeaf, mi_Keys = keys\<rparr> (li_MAC info);
     (case r of (running, e) \<Rightarrow> do {
       let lst = lst\<lparr>st_Running := running\<rparr>;
       (case e of Some e \<Rightarrow> return (False, lst\<lparr>st_Error := e\<rparr>)
        | None \<Rightarrow> do { stopAllMKA E {''leaf''}; leafSecY E cfg wanif info lst })
     })
   }"

text \<open>The part between the uplink and the link: pairing token and keys.\<close>

definition leafKeyed ::
  "env \<Rightarrow> LeafSideMACsec \<Rightarrow> string \<Rightarrow> linkInfo \<Rightarrow> MACsecLinkStatus \<Rightarrow> (bool \<times> MACsecLinkStatus) go" where
  "leafKeyed E cfg wanif info lst =
    bindr (getToken E DOWNHAUL_TOKEN_NAME) (\<lambda>_. (False, lst\<lparr>st_Error := ''pairing token unavailable''\<rparr>)) (\<lambda>token.
      (case deriveMACsecKeys (e_hkdf E) (tk_Token token) (ls_KeyNonce cfg) of
         Inl e \<Rightarrow> return (False, lst\<lparr>st_Error := e\<rparr>)
       | Inr keys \<Rightarrow> do {
           (case deriveMACsecCtlKeys (e_hkdf E) (tk_Token token) (ls_KeyNonce cfg) of
              Inl _ \<Rightarrow> return ()
            | Inr ctl \<Rightarrow> startCtl E wanif ctl (li_MAC info));
           if storedMode (ls_Mode cfg) = backhaulWireGuard then leafWGLink E cfg wanif (tk_Token token) lst
           else leafMACsecLink E cfg wanif keys info lst
         }))"

definition leafBody :: "env \<Rightarrow> LeafSideMACsec \<Rightarrow> string \<Rightarrow> MACsecLinkStatus \<Rightarrow> (bool \<times> MACsecLinkStatus) go" where
  "leafBody E cfg wanif lst =
    (if \<not> valid_iface wanif then return (False, lst\<lparr>st_Error := ''uplink interface unknown''\<rparr>)
     else do {
       lst \<leftarrow> leafGuard E cfg wanif lst;
       r \<leftarrow> leafUplink E cfg wanif lst;
       (case r of
          (None, lst) \<Rightarrow> return (False, lst)
        | (Some info, lst) \<Rightarrow> leafKeyed E cfg wanif info lst)
     })"

definition leafStatus :: "bool \<Rightarrow> bool \<Rightarrow> MACsecLinkStatus list \<Rightarrow> MACsecStatus" where
  "leafStatus enabled conf links = noStatus\<lparr>ms_Role := ''leaf'', ms_Enabled := enabled,
     ms_Confirmed := conf, ms_Links := links\<rparr>"

text \<open>The two early ends of \<open>reconcileLeaf\<close>: switched off, and within the apply delay.\<close>

definition leafOff :: "env \<Rightarrow> string \<Rightarrow> unit go" where
  "leafOff E wanif = do {
     modify (\<lambda>s. if m_ctlOffAt s = None then s\<lparr>m_leafCtl := None\<rparr> else s);
     flag \<leftarrow> macsecRequiredFlagSet;
     active \<leftarrow> gets (\<lambda>s. m_leafActive s \<or> flag \<or> m_procs s \<noteq> []);
     doif active (teardownLeaf E wanif);
     modify (\<lambda>s. s\<lparr>m_status := leafStatus False False []\<rparr>)
   }"

definition leafWaits :: "env \<Rightarrow> LeafSideMACsec \<Rightarrow> bool go" where
  "leafWaits E cfg = do {
     active \<leftarrow> gets m_leafActive;
     if active \<or> ls_Confirmed cfg then return False
     else do { t \<leftarrow> now E; return (t - ls_EnabledAt cfg * second < macsecApplyDelay) }
   }"

definition leafOn :: "env \<Rightarrow> LeafSideMACsec \<Rightarrow> string \<Rightarrow> unit go" where
  "leafOn E cfg wanif = do {
     modify (\<lambda>s. s\<lparr>m_leafActive := True\<rparr>);
     setMACsecRequiredFlag E True;
     r \<leftarrow> leafBody E cfg wanif
       (noLinkStatus\<lparr>st_Parent := wanif, st_Port := macsecLeafPort, st_LinkMTU := ls_LinkMTU cfg\<rparr>);
     (case r of (secured, lst) \<Rightarrow> do {
       cfg' \<leftarrow> (if ls_Enabled cfg then confirmOrRevert E cfg secured wanif else return cfg);
       modify (\<lambda>s. s\<lparr>m_status := leafStatus (ls_Enabled cfg') (ls_Confirmed cfg') [lst]\<rparr>)
     })
   }"

definition reconcileLeaf :: "env \<Rightarrow> MeshConfig \<Rightarrow> unit go" where
  "reconcileLeaf E config = do {
     let cfg = mc_LeafMACsec config;
     wanif \<leftarrow> meshWANIF E;
     if \<not> ls_Enabled cfg then leafOff E wanif
     else do {
       waits \<leftarrow> leafWaits E cfg;
       if waits then modify (\<lambda>s. s\<lparr>m_status := leafStatus True False []\<rparr>)
       else leafOn E cfg wanif
     }
   }"

end
