(* ===== verification/LeafSafety.thy ===== *)
theory LeafSafety
  imports Leaf
begin

text \<open>
  Safety of the leaf. Whatever the kernel and the tools answer: a device joins the bridge only
  on evidence that it is encrypted, and the uplink guard is given up only when the
  confirmation window of an unconfirmed link has passed. \<open>calls P m\<close> ties each call to the
  history before it, so the evidence is part of the statement.
\<close>

section \<open>Evidence\<close>

text \<open>The latest listing of the links.\<close>

fun last_links :: "env \<Rightarrow> hist \<Rightarrow> macsecLink list res option" where
  "last_links E [] = None"
| "last_links E (c # h) = (if c = CLinks then Some (e_Links E h) else last_links E h)"

definition secy_evidence :: "env \<Rightarrow> string \<Rightarrow> hist \<Rightarrow> bool" where
  "secy_evidence E n h \<longleftrightarrow> (\<exists>links l. last_links E h = Some (Inr links) \<and> l \<in> set links \<and>
     ml_Name l = n \<and> link_Forwarding l)"

lemma last_links_append:
  "list_all (\<lambda>c. c \<noteq> CLinks) cs \<Longrightarrow> last_links E (cs @ h) = last_links E h"
  by (induction cs) auto

lemma last_links_ext: "hist_ext (\<lambda>c. c \<noteq> CLinks) s t \<Longrightarrow> last_links E (w_hist t) = last_links E (w_hist s)"
  by (auto simp: hist_ext_def last_links_append)

definition bridge_evidence :: "env \<Rightarrow> LeafSideMACsec \<Rightarrow> string \<Rightarrow> hist \<Rightarrow> bool" where
  "bridge_evidence E cfg n h \<longleftrightarrow>
    (if storedMode (ls_Mode cfg) = backhaulWireGuard
     then n = meshVXLANLeaf \<and> tunnel_evidence E (ls_MainPublicKey cfg) h
     else secy_evidence E n h)"

text \<open>A call that neither bridges a device nor drops the guard.\<close>

definition plain_call :: "sysCall \<Rightarrow> bool" where
  "plain_call c \<longleftrightarrow> c \<noteq> CNFTDeleteTable ''netdev'' macsecGuardTable \<and> (\<forall>n m. m \<noteq> [] \<longrightarrow> c \<noteq> CSetMaster n m)"

definition guarded_call :: "env \<Rightarrow> LeafSideMACsec \<Rightarrow> sysCall \<Rightarrow> hist \<Rightarrow> bool" where
  "guarded_call E cfg c h \<longleftrightarrow> plain_call c \<or>
     (\<exists>n. c = CSetMaster n BRIDGE_IFACE \<and> bridge_evidence E cfg n h)"

text \<open>The confirmation window of an unconfirmed link has passed.\<close>

definition window_passed :: "env \<Rightarrow> LeafSideMACsec \<Rightarrow> hist \<Rightarrow> bool" where
  "window_passed E cfg h \<longleftrightarrow> \<not> ls_Confirmed cfg \<and>
     (\<exists>h'. grows (CNow # h') h \<and> macsecConfirmTimeout \<le> e_Now E h' - ls_EnabledAt cfg * second)"

definition leaf_call :: "env \<Rightarrow> LeafSideMACsec \<Rightarrow> sysCall \<Rightarrow> hist \<Rightarrow> bool" where
  "leaf_call E cfg c h \<longleftrightarrow> guarded_call E cfg c h \<or> window_passed E cfg h"

lemma plain_simps [simp]:
  "plain_call CLinks" "plain_call (CLinkInfo n)" "plain_call (CRouteDev n)" "plain_call (CSetMTU n i)"
  "plain_call (CSetMaster n [])" "plain_call (CSetUp n)" "plain_call (CDeleteLink n)"
  "plain_call (CDisableIPv6 n)" "plain_call (CNFT r)" "plain_call (CNFTDeleteTable ''bridge'' t)"
  "plain_call (CNFTList f t)" "plain_call (CExited j)" "plain_call CHelp" "plain_call (CLookPath n)"
  "plain_call (CRoutes n)" "plain_call (CPinRouteMTU n re i)" "plain_call (CCmd n a)"
  "plain_call (COutput n a)" "plain_call (CSendFrame n b)" "plain_call (CExchange n b)"
  "plain_call (CRecvFrames n)" "plain_call CNow" "plain_call (CRand k)" "plain_call (CReadFile f)"
  "plain_call CTokens" "plain_call (CWriteSecret f x)" "plain_call (CRemove f)"
  "plain_call (CWriteFlag b')" "plain_call CSaveConfig" "plain_call (CSaveMTU mm)"
  "plain_call CWriteWGKey" "plain_call (CGoCtlListen n)" "plain_call (CGoTestMTU n)"
  "plain_call CKick" "plain_call (CKickAfter i)" "plain_call (CCallLeaf n rq)"
  "plain_call (CStartMKA n f j)" "plain_call (CStopMKA j)"
  "plain_call (CWriteFile n f)" "plain_call (CHTTP n f n' f' n2)" "plain_call (CFetchCert n)"
  "plain_call (CHostapd n f)" "plain_call (CGoParent n f)" "plain_call CGoSync" "plain_call (CSaveNeighbors nb)" "plain_call (CRename n f)"
  by (simp_all add: plain_call_def)

lemma wg_plain: "wg_call c \<Longrightarrow> plain_call c"
  by (cases c) (simp_all add: wg_call_def)

lemma last_links_keep:
  "hist_ext (\<lambda>c. plain_call c \<and> c \<noteq> CLinks) s t \<Longrightarrow> last_links E (w_hist t) = last_links E (w_hist s)"
  by (rule last_links_ext, erule hist_ext_mono) simp

lemma guarded_plain: "emits plain_call m \<Longrightarrow> calls (guarded_call E cfg) m"
  by (erule calls_emits) (simp add: guarded_call_def)

lemma guarded_wg: "emits wg_call m \<Longrightarrow> calls (guarded_call E cfg) m"
  by (erule guarded_plain [OF emits_mono]) (rule wg_plain)

section \<open>Footprints of the leaf's operations\<close>

lemma emits_deleteLinks [frame]:
  assumes "\<And>n. P (CDeleteLink n)"
  shows "emits P (deleteLinksOn E w ls)" "P CLinks \<Longrightarrow> emits P (deleteUplinkLinks E n)"
  using assms by (auto simp: deleteLinksOn_def deleteUplinkLinks_def intro!: emits_rules frame)

lemma keeps_deleteLinks [frame]:
  assumes "\<And>s h. f (s\<lparr>w_hist := h\<rparr>) = f s"
  shows "keeps f (deleteLinksOn E w ls)" "keeps f (deleteUplinkLinks E n)"
  using assms by (auto simp: deleteLinksOn_def deleteUplinkLinks_def intro!: keeps_rules frame)

lemma plain_uplink:
  "emits plain_call (leafGuard E cfg w lst)" "emits plain_call (leafUplink E cfg w lst)"
  "emits plain_call (startCtl E w ctl mac)"
  by (auto simp: leafGuard_def leafUplink_def startCtl_def intro!: emits_rules frame)

lemma plain_mka: "emits plain_call (ensureMKA E inst mac)" "emits plain_call (stopAllMKA E k)"
  by (intro frame; simp)+

section \<open>The link\<close>

lemma leafWGLink_calls:
  assumes "storedMode (ls_Mode cfg) = backhaulWireGuard"
  shows "calls (guarded_call E cfg) (leafWGLink E cfg wanif token lst)"
proof -
  have wg: "calls (guarded_call E cfg) (leafWG E cfg wanif token l)" for l
    by (rule calls_mono [OF leafWG_calls])
      (auto simp: leaf_tunnel_ok_def guarded_call_def bridge_evidence_def assms intro: wg_plain)
  show ?thesis
    unfolding leafWGLink_def Let_def
    by (intro calls_rules wg guarded_plain frame) simp_all
qed

lemma wp_bridgeSecY:
  assumes "link_Forwarding link \<longrightarrow> secy_evidence E (ml_Name link) (w_hist s)"
    and "storedMode (ls_Mode cfg) \<noteq> backhaulWireGuard"
  shows "wp (bridgeSecY E link lst) (\<lambda>(b, _) t. call_ext (guarded_call E cfg) s t \<and>
    hist_ext (\<lambda>c. c \<noteq> CLinks) s t \<and> (b \<longrightarrow> link_Forwarding link)) s"
  using assms
  by (auto simp: bridgeSecY_def wp_simps guarded_call_def bridge_evidence_def
      intro!: call_ext_cons hist_ext_cons split: option.splits)

text \<open>Secured is reported only for a link the latest listing shows forwarding.\<close>

lemma wp_leafSecY:
  assumes mode: "storedMode (ls_Mode cfg) \<noteq> backhaulWireGuard"
  shows "wp (leafSecY E cfg wanif info lst) (\<lambda>_ t. call_ext (guarded_call E cfg) s t) s"
proof -
  let ?Q = "\<lambda>_ t. call_ext (guarded_call E cfg) s t"
  let ?u = "s\<lparr>w_hist := CLinks # w_hist s\<rparr>"
  have u: "call_ext (guarded_call E cfg) s ?u"
    by (simp add: call_ext_cons guarded_call_def)
  have rest: "calls (guarded_call E cfg) (do {
        msg \<leftarrow> noPeerError E ''leaf'' wanif secured;
        restartIfStuck E ''leaf'' secured;
        applyMSSClamp E i;
        return (secured, setError msg (l\<lparr>st_Secured := secured\<rparr>)) })" for secured i and l :: MACsecLinkStatus
    by (intro calls_rules guarded_plain frame) simp_all
  show ?thesis
  proof (cases "e_Links E (w_hist s)")
    case (Inl e)
    with u show ?thesis by (simp add: leafSecY_def wp_simps)
  next
    case (Inr links)
    define sci where "sci = sciOrZero (li_MAC info) macsecLeafPort"
    have del: "wp (deleteLinksOn E w links) (\<lambda>_ t. call_ext (guarded_call E cfg) s t \<and>
        last_links E (w_hist t) = Some (Inr links)) ?u" for w
    proof -
      have "wp (deleteLinksOn E w links) (\<lambda>_ t. hist_ext (\<lambda>c. plain_call c \<and> c \<noteq> CLinks) ?u t) ?u"
        by (intro emits.in_wp frame) simp
      then show ?thesis
      proof (rule wp_mono)
        fix x and t :: st
        assume t: "hist_ext (\<lambda>c. plain_call c \<and> c \<noteq> CLinks) ?u t"
        then have "last_links E (w_hist t) = Some (Inr links)"
          by (simp add: last_links_keep Inr)
        moreover have "call_ext (guarded_call E cfg) ?u t"
          by (rule call_ext_hist [OF t]) (simp add: guarded_call_def)
        ultimately show "call_ext (guarded_call E cfg) s t \<and> last_links E (w_hist t) = Some (Inr links)"
          using calls.trans [OF u] by blast
      qed
    qed
    have link: "wp (case findMACsecLink links wanif sci of
          None \<Rightarrow> return (False, lst)
        | Some link \<Rightarrow> do {
            applyLinkMTU E link (ls_LinkMTU cfg) info;
            bridgeSecY E link (lst\<lparr>st_Interface := ml_Name link\<rparr>)
          }) ?Q t" if t: "call_ext (guarded_call E cfg) s t" "last_links E (w_hist t) = Some (Inr links)" for t
    proof (cases "findMACsecLink links wanif sci")
      case None
      with t show ?thesis by (simp add: wp_simps)
    next
      case (Some link)
      then have mem: "link \<in> set links" by (auto dest: findMACsecLink_Some)
      have "wp (applyLinkMTU E link (ls_LinkMTU cfg) info)
          (\<lambda>_ t'. hist_ext (\<lambda>c. plain_call c \<and> c \<noteq> CLinks) t t') t"
        by (intro emits.in_wp frame) simp
      then show ?thesis
        unfolding Some option.case wp_bind
      proof (rule wp_mono)
        fix x and t' :: st
        assume t': "hist_ext (\<lambda>c. plain_call c \<and> c \<noteq> CLinks) t t'"
        then have "last_links E (w_hist t') = Some (Inr links)"
          using t(2) by (simp add: last_links_keep)
        then have ev: "link_Forwarding link \<longrightarrow> secy_evidence E (ml_Name link) (w_hist t')"
          using mem by (auto simp: secy_evidence_def)
        have "call_ext (guarded_call E cfg) s t'"
          by (rule calls.trans [OF t(1) call_ext_hist [OF t']]) (simp add: guarded_call_def)
        then show "wp (bridgeSecY E link (lst\<lparr>st_Interface := ml_Name link\<rparr>)) ?Q t'"
          by (intro wp_mono [OF wp_bridgeSecY [OF ev mode]]) (auto intro: calls.trans)
      qed
    qed
    show ?thesis
      unfolding leafSecY_def wp_bindr wp_sys Inr sum.case Let_def wp_bind sci_def [symmetric]
    proof (rule wp_mono [OF del], rule wp_mono [OF link], blast, blast)
      fix x y and t u :: st
      assume t: "call_ext (guarded_call E cfg) s u"
      show "wp (case y of (secured, lst) \<Rightarrow> do {
          msg \<leftarrow> noPeerError E ''leaf'' wanif secured;
          restartIfStuck E ''leaf'' secured;
          applyMSSClamp E (effectiveLinkMTU (ls_Mode cfg) (ls_Jumbo cfg) (ls_UnderlayMTU cfg) (ls_LinkMTU cfg));
          return (secured, setError msg (lst\<lparr>st_Secured := secured\<rparr>)) }) ?Q u"
        unfolding prod.case_eq_if
        by (rule wp_mono [OF calls.in_wp [OF rest]]) (rule calls.trans [OF t])
    qed
  qed
qed

lemma leafSecY_calls:
  "storedMode (ls_Mode cfg) \<noteq> backhaulWireGuard \<Longrightarrow> calls (guarded_call E cfg) (leafSecY E cfg wanif info lst)"
  unfolding within_def by (auto intro: wp_leafSecY)

lemma leafMACsecLink_calls:
  "storedMode (ls_Mode cfg) \<noteq> backhaulWireGuard \<Longrightarrow>
    calls (guarded_call E cfg) (leafMACsecLink E cfg wanif keys info lst)"
  unfolding leafMACsecLink_def Let_def
  by (intro calls_rules leafSecY_calls guarded_wg guarded_plain plain_mka frame) simp_all

lemma leafBody_calls: "calls (guarded_call E cfg) (leafBody E cfg wanif lst)"
  unfolding leafBody_def leafKeyed_def
  by (intro calls_rules leafWGLink_calls leafMACsecLink_calls guarded_plain plain_uplink frame) simp_all

section \<open>The confirmation window\<close>

text \<open>Everything after the clock shows the window has passed counts as a revert.\<close>

lemma window_calls:
  assumes "emits (\<lambda>_. True) m" "window_passed E cfg (w_hist s)"
  shows "wp m (\<lambda>_ t. call_ext (leaf_call E cfg) s t) s"
proof (rule wp_mono [OF emits.in_wp [OF assms(1)]])
  fix x and t :: st
  assume "hist_ext (\<lambda>_. True) s t"
  then obtain cs where cs: "w_hist t = cs @ w_hist s" by (auto simp: hist_ext_def)
  have "window_passed E cfg (ds @ w_hist s)" for ds
    using assms(2) unfolding window_passed_def grows_def by (metis append.assoc)
  then have "hist_all (leaf_call E cfg) cs (w_hist s)"
    by (induction cs) (auto simp: leaf_call_def)
  with cs show "call_ext (leaf_call E cfg) s t"
    by (auto simp: call_ext_def)
qed

lemma emits_teardownLeaf: "emits (\<lambda>_. True) (teardownLeaf E wanif)"
  unfolding teardownLeaf_def
  by (intro emits_rules frame emits_any [OF emits_wg_main(3)]) simp_all

lemma guarded_leaf: "calls (guarded_call E cfg) m \<Longrightarrow> calls (leaf_call E cfg) m"
  by (erule calls_mono) (simp add: leaf_call_def)

lemma emits_revert: "emits (\<lambda>_. True) (revertLeaf E cfg wanif)"
  unfolding revertLeaf_def by (intro emits_rules frame emits_teardownLeaf) simp_all

lemma confirmOrRevert_calls: "calls (leaf_call E cfg) (confirmOrRevert E cfg secured wanif)"
proof -
  have "calls (leaf_call E cfg) (do {
      t \<leftarrow> now E;
      if t - ls_EnabledAt cfg * second < macsecConfirmTimeout then return cfg else revertLeaf E cfg wanif })"
    if "\<not> ls_Confirmed cfg"
  proof (rule calls.bind_post [where Q = "\<lambda>t u. \<exists>h. w_hist u = CNow # h \<and> t = e_Now E h"])
    show "calls (leaf_call E cfg) (now E)"
      by (intro guarded_leaf guarded_plain frame) simp
    show "wp (now E) (\<lambda>t u. \<exists>h. w_hist u = CNow # h \<and> t = e_Now E h) s" for s
      by (simp add: wp_simps)
    show "wp (if t - ls_EnabledAt cfg * second < macsecConfirmTimeout then return cfg else revertLeaf E cfg wanif)
        (\<lambda>_ v. call_ext (leaf_call E cfg) u v) u"
      if "\<exists>h. w_hist u = CNow # h \<and> t = e_Now E h" for t and u :: st
      using that \<open>\<not> ls_Confirmed cfg\<close>
      by (auto simp: wp_simps window_passed_def intro!: window_calls [OF emits_revert] exI [of _ "tl (w_hist u)"])
  qed
  moreover have "calls (leaf_call E cfg) (confirmLeaf E cfg)"
    unfolding confirmLeaf_def by (intro calls_rules guarded_leaf [OF guarded_plain] frame) simp_all
  ultimately show ?thesis
    by (simp add: confirmOrRevert_def calls.return_in)
qed

lemma leafOn_calls: "calls (leaf_call E cfg) (leafOn E cfg wanif)"
  unfolding leafOn_def
  by (intro calls_rules confirmOrRevert_calls guarded_leaf [OF leafBody_calls]
      guarded_leaf [OF guarded_plain] frame) simp_all

lemma reconcileLeaf_calls:
  "ls_Enabled (mc_LeafMACsec config) \<Longrightarrow>
    calls (leaf_call E (mc_LeafMACsec config)) (reconcileLeaf E config)"
  unfolding reconcileLeaf_def leafWaits_def Let_def
  by (intro calls_rules leafOn_calls guarded_leaf [OF guarded_plain] frame) simp_all

text \<open>A confirmed link stays guarded: no revert, whatever happens.\<close>

lemma reconcileLeaf_confirmed:
  "ls_Enabled (mc_LeafMACsec config) \<Longrightarrow> ls_Confirmed (mc_LeafMACsec config) \<Longrightarrow>
    calls (guarded_call E (mc_LeafMACsec config)) (reconcileLeaf E config)"
  by (rule calls_mono [OF reconcileLeaf_calls]) (auto simp: leaf_call_def window_passed_def)

section \<open>What a teardown leaves\<close>

lemma gomap_empty:
  assumes "\<And>k. mget m k = None"
  shows "m = []"
proof (cases m)
  case (Cons p ps)
  then show ?thesis using assms [of "fst p"] by (simp add: mget_def split_beta)
qed

lemma wp_stopEverything: "wp (stopAllMKA E {}) (\<lambda>_ t. m_procs t = []) s"
  by (rule wp_mono [OF wp_stopAllMKA]) (auto intro: gomap_empty)

text \<open>Each field is set by one step and kept by those after it.\<close>

lemma teardown_procs: "wp (teardownLeaf E wanif) (\<lambda>_ t. m_procs t = []) s"
  unfolding teardownLeaf_def
  by (rule wp_stays [where f = m_procs, OF wp_stopEverything]) (intro keeps_rules frame; simp)

lemma wp_teardownWG: "wp (teardownWG E wanif) (\<lambda>_ t. m_wgApplied t = []) s"
  unfolding teardownWG_def by (rule wp_skip)+ (simp add: wp_simps)

lemma teardown_applied: "wp (teardownLeaf E wanif) (\<lambda>_ t. m_wgApplied t = []) s"
  unfolding teardownLeaf_def
  by (rule wp_skip, rule wp_skip, rule wp_stays [where f = m_wgApplied, OF wp_teardownWG])
    (intro keeps_rules frame; simp)

lemma teardown_guard:
  "wp (teardownLeaf E wanif) (\<lambda>_ t. (m_guardRules t, m_guardLive t) = ([], [])) s"
  unfolding teardownLeaf_def
  by (rule wp_skip, rule wp_skip, rule wp_skip, rule wp_skip,
      rule wp_stays [where f = "\<lambda>t. (m_guardRules t, m_guardLive t)"], simp add: wp_simps)
    (intro keeps_rules frame; simp)

lemma teardown_mtu:
  "wp (teardownLeaf E wanif) (\<lambda>_ t. fst (m_mssMTU t, m_mtuInUse t) = 0 \<and> wanif \<notin> snd (m_mssMTU t, m_mtuInUse t)) s"
  unfolding teardownLeaf_def
  by (rule wp_skip, rule wp_skip, rule wp_skip, rule wp_skip, rule wp_skip, rule wp_skip,
      rule wp_stays [where f = "\<lambda>t. (m_mssMTU t, m_mtuInUse t)" and
        P = "\<lambda>p. fst p = 0 \<and> wanif \<notin> snd p"], simp add: wp_simps)
    (intro keeps_rules frame; simp)

lemma teardown_inactive: "wp (teardownLeaf E wanif) (\<lambda>_ t. \<not> m_leafActive t) s"
  unfolding teardownLeaf_def by (rule wp_skip)+ (simp add: wp_simps)

lemma teardown_flag:
  "wp (teardownLeaf E wanif) (\<lambda>_ t. w_reqFlag t = False \<or> (\<exists>h. e_Err E h (CWriteFlag False) \<noteq> None)) s"
  unfolding teardownLeaf_def setMACsecRequiredFlag_def
  by (rule wp_skip, rule wp_skip, rule wp_skip, rule wp_skip, rule wp_skip, rule wp_skip, rule wp_skip,
      rule wp_skip, rule wp_skip, rule wp_skip) (auto simp: wp_simps)

lemma teardown_calls:
  "wp (teardownLeaf E wanif) (\<lambda>_ t. made s t (CNFTDeleteTable ''netdev'' macsecGuardTable)) s"
  "wp (teardownLeaf E wanif) (\<lambda>_ t. made s t (CNFTDeleteTable ''bridge'' macsecMSSTable)) s"
  "wp (teardownLeaf E wanif) (\<lambda>_ t. made s t (CWriteFlag False)) s"
proof -
  note any = emits_rules frame emits_any [OF emits_wg_main(3)]
  show "wp (teardownLeaf E wanif) (\<lambda>_ t. made s t (CNFTDeleteTable ''netdev'' macsecGuardTable)) s"
    unfolding teardownLeaf_def
    by (rule wp_made_skip, (intro any; simp), rule wp_made_skip, (intro any; simp), rule wp_made_skip,
        (intro any; simp), rule wp_made_drop, (intro any; simp))
  show "wp (teardownLeaf E wanif) (\<lambda>_ t. made s t (CNFTDeleteTable ''bridge'' macsecMSSTable)) s"
    unfolding teardownLeaf_def
    by (rule wp_made_skip, (intro any; simp), rule wp_made_skip, (intro any; simp), rule wp_made_skip,
        (intro any; simp), rule wp_made_skip, (intro any; simp), rule wp_made_skip, (intro any; simp),
        rule wp_made_drop, (intro any; simp))
  show "wp (teardownLeaf E wanif) (\<lambda>_ t. made s t (CWriteFlag False)) s"
    unfolding teardownLeaf_def
    by (rule wp_made_skip, (intro any; simp), rule wp_made_skip, (intro any; simp), rule wp_made_skip,
        (intro any; simp), rule wp_made_skip, (intro any; simp), rule wp_made_skip, (intro any; simp),
        rule wp_made_skip, (intro any; simp), rule wp_made_skip, (intro any; simp), rule wp_made_skip,
        (intro any; simp), rule wp_made_skip, (intro any; simp), rule wp_made_skip, (intro any; simp))
      (simp add: setMACsecRequiredFlag_def wp_simps made_def)
qed

definition torn_down :: "string \<Rightarrow> st \<Rightarrow> bool" where
  "torn_down wanif = (\<lambda>s. m_procs s = [] \<and> m_wgApplied s = [] \<and> m_guardRules s = [] \<and> m_guardLive s = [] \<and>
     m_mssMTU s = 0 \<and> wanif \<notin> m_mtuInUse s \<and> \<not> m_leafActive s)"

lemma wp_teardownLeaf: "wp (teardownLeaf E wanif) (\<lambda>_. torn_down wanif) s"
  using teardown_procs teardown_applied teardown_guard teardown_mtu teardown_inactive
  by (simp add: torn_down_def wp_conj)

section \<open>The configuration file\<close>

text \<open>
  What \<open>confirmOrRevert\<close> may do to the file it finds under the lock: nothing, confirm the
  pairing it worked on, or clear that pairing while it is still unconfirmed.
\<close>

definition side_after :: "LeafSideMACsec \<Rightarrow> bool \<Rightarrow> cfgFile \<Rightarrow> cfgFile \<Rightarrow> bool" where
  "side_after cfg secured f g \<longleftrightarrow> g = f \<or>
     (let config = cfg_load f; side = mc_LeafMACsec config in
      ls_Enabled side \<and> ls_KeyNonce side = ls_KeyNonce cfg \<and>
      (secured \<and> g = CfgOk (config\<lparr>mc_LeafMACsec := side\<lparr>ls_Confirmed := True\<rparr>\<rparr>) \<or>
       \<not> secured \<and> \<not> ls_Confirmed side \<and> g = CfgOk (config\<lparr>mc_LeafMACsec := noLeafSide\<rparr>)))"

lemma keeps_teardown_cfg: "keeps w_cfg (teardownLeaf E wanif)"
  unfolding teardownLeaf_def by (intro keeps_rules frame; simp)

lemma wp_revertLeaf_cfg:
  assumes "\<And>h f. e_Race E h f = f"
  shows "wp (revertLeaf E cfg wanif) (\<lambda>_ t. side_after cfg False (w_cfg s) (w_cfg t)) s"
proof -
  have "wp (teardownLeaf E wanif) (\<lambda>_ u. side_after cfg False (w_cfg s) (w_cfg u)) t"
    if "side_after cfg False (w_cfg s) (w_cfg t)" for t
    by (rule wp_mono [OF keeps_wp [OF keeps_teardown_cfg]]) (use that in simp)
  then show ?thesis
    by (auto simp: revertLeaf_def wp_simps assms Let_def side_after_def)
qed

lemma wp_confirmOrRevert_cfg:
  assumes "\<And>h f. e_Race E h f = f"
  shows "wp (confirmOrRevert E cfg secured wanif) (\<lambda>_ t. side_after cfg secured (w_cfg s) (w_cfg t)) s"
proof -
  have "wp (confirmLeaf E cfg) (\<lambda>_ t. side_after cfg True (w_cfg s) (w_cfg t)) s"
    by (auto simp: confirmLeaf_def wp_simps assms Let_def side_after_def)
  moreover have "wp (revertLeaf E cfg wanif) (\<lambda>_ t. side_after cfg False (w_cfg s) (w_cfg t))
      (s\<lparr>w_hist := h\<rparr>)" for h
    using wp_revertLeaf_cfg [OF assms, of cfg wanif "s\<lparr>w_hist := h\<rparr>"] by simp
  ultimately show ?thesis
    by (auto simp: confirmOrRevert_def wp_simps side_after_def)
qed

section \<open>Process accounting\<close>

lemma quiet_wg: "wg_call c \<Longrightarrow> quiet_call c"
  by (cases c) (simp_all add: wg_call_def)

lemma wg_quiet: "emits wg_call m \<Longrightarrow> emits quiet_call m"
  by (erule emits_mono) (rule quiet_wg)

lemma join_quiet: "emits join_call m \<Longrightarrow> emits quiet_call m"
  by (erule emits_mono) (auto simp: join_call_def)

lemmas quiet_wg_ops = emits_wg_main [THEN wg_quiet] emits_wg_steps [THEN wg_quiet]
  emits_wg_ensure [THEN wg_quiet] emits_joinBridge [THEN join_quiet]

lemma quiet_leafWG: "emits quiet_call (leafWG E cfg wanif token lst)"
  unfolding leafWG_def Let_def by (intro emits_rules quiet_wg_ops)

lemma quiet_bridgeSecY: "emits quiet_call (bridgeSecY E link lst)"
  unfolding bridgeSecY_def by (intro emits_rules frame) simp_all

lemma quiet_uplink:
  "emits quiet_call (leafGuard E cfg w lst)" "emits quiet_call (leafUplink E cfg w lst)"
  "emits quiet_call (startCtl E w ctl mac)"
  by (auto simp: leafGuard_def leafUplink_def startCtl_def intro!: emits_rules frame)

lemma keeps_uplink [frame]:
  assumes "\<And>s h. f (s\<lparr>w_hist := h\<rparr>) = f s"
  shows "keeps f (bridgeSecY E link lst)"
    "(\<And>s r. f (s\<lparr>m_guardRules := r\<rparr>) = f s) \<Longrightarrow> (\<And>s r. f (s\<lparr>m_guardLive := r\<rparr>) = f s) \<Longrightarrow>
       (\<And>s b. f (s\<lparr>m_noEgress := b\<rparr>) = f s) \<Longrightarrow> keeps f (leafGuard E cfg w lst)"
    "(\<And>s m. f (s\<lparr>w_mtuFile := m\<rparr>) = f s) \<Longrightarrow> (\<And>s m. f (s\<lparr>m_origMTU := m\<rparr>) = f s) \<Longrightarrow>
       (\<And>s m. f (s\<lparr>m_mtuRaised := m\<rparr>) = f s) \<Longrightarrow> (\<And>s m. f (s\<lparr>m_mtuInUse := m\<rparr>) = f s) \<Longrightarrow>
       keeps f (leafUplink E cfg w lst)"
    "(\<And>s k a. f (s\<lparr>m_leafCtl := Some k, m_leafCtlMAC := a, m_ctlOffAt := None\<rparr>) = f s) \<Longrightarrow>
       (\<And>s b. f (s\<lparr>m_ctlRunning := b\<rparr>) = f s) \<Longrightarrow> keeps f (startCtl E w ctl mac)"
  using assms by (auto simp: bridgeSecY_def leafGuard_def leafUplink_def startCtl_def
      intro!: keeps_rules frame)

lemmas quiet_leaf_ops = quiet_wg_ops quiet_leafWG quiet_bridgeSecY quiet_uplink

lemma teardownLeaf_inv: "preserves (proc_inv E) (teardownLeaf E wanif)"
  unfolding teardownLeaf_def
  by (intro preserves_rules stopAllMKA_inv preserves_proc_inv quiet_leaf_ops frame) simp_all

lemma leafBody_inv: "preserves (proc_inv E) (leafBody E cfg wanif lst)"
  unfolding leafBody_def leafKeyed_def leafWGLink_def leafMACsecLink_def leafSecY_def Let_def
  by (intro preserves_rules stopAllMKA_inv ensureMKA_inv restartIfStuck_inv preserves_proc_inv
      quiet_leaf_ops frame) simp_all

lemma confirmOrRevert_inv: "preserves (proc_inv E) (confirmOrRevert E cfg secured wanif)"
  unfolding confirmOrRevert_def confirmLeaf_def revertLeaf_def
  by (intro preserves_rules teardownLeaf_inv preserves_proc_inv frame) simp_all

lemma reconcileLeaf_inv: "preserves (proc_inv E) (reconcileLeaf E config)"
  unfolding reconcileLeaf_def leafOff_def leafWaits_def leafOn_def Let_def
  by (intro preserves_rules teardownLeaf_inv leafBody_inv confirmOrRevert_inv preserves_proc_inv frame)
    simp_all

end
