(* ===== verification/MainRec.thy ===== *)
theory MainRec
  imports Bridge LeafSafety
begin

text \<open>
  The main router's side of the reconcile loop in \<open>macsec_runtime.go\<close> and \<open>reconcile\<close> itself.
  The local variables of \<open>reconcileMain\<close> that its loop over the leaves updates are the record
  \<open>mainLoop\<close>; one round of the loop is \<open>mainStep\<close>, which ends at each \<open>continue\<close>.
\<close>

section \<open>Loop state\<close>

record mainLoop =
  ml_desired :: "string set"
  ml_pinned :: "string set"
  ml_wgPeers :: "string set"
  ml_wgVX :: "string set"
  ml_links :: "macsecLink list res option"
  ml_enabled :: nat
  ml_status :: "MACsecLinkStatus list"

definition mainLoop0 :: mainLoop where
  "mainLoop0 = \<lparr>ml_desired = {}, ml_pinned = {}, ml_wgPeers = {}, ml_wgVX = {}, ml_links = None,
     ml_enabled = 0, ml_status = []\<rparr>"

definition addStatus :: "MACsecLinkStatus \<Rightarrow> mainLoop \<Rightarrow> mainLoop" where
  "addStatus lst acc = acc\<lparr>ml_status := ml_status acc @ [lst]\<rparr>"

definition withError :: "string \<Rightarrow> MACsecLinkStatus \<Rightarrow> MACsecLinkStatus" where
  "withError e lst = lst\<lparr>st_Error := e\<rparr>"

section \<open>One leaf\<close>

definition macsecPendingError :: "string \<Rightarrow> string go" where
  "macsecPendingError ip =
     gets (\<lambda>s. case mget (w_pendingErrors s) ip of None \<Rightarrow> [] | Some e \<Rightarrow> e)"

text \<open>A missing raise time is Go's zero time, long past.\<close>

definition jumboTestDue :: "env \<Rightarrow> LeafRouter \<Rightarrow> LeafMACsec \<Rightarrow> bool \<Rightarrow> bool go" where
  "jumboTestDue E leaf cfg secured = do {
     testing \<leftarrow> gets (\<lambda>s. lr_IP leaf \<in> m_mtuTesting s);
     if secured \<and> lm_Jumbo cfg \<and> lm_UnderlayMTU cfg = 0 \<and> \<not> testing then do {
       t \<leftarrow> now E;
       raised \<leftarrow> gets (\<lambda>s. mget (m_mtuRaised s) (lm_Parent cfg));
       return (case raised of None \<Rightarrow> True | Some r \<Rightarrow> t - r \<ge> meshJumboSettle)
     } else return False
   }"

definition maybeTestMTU :: "env \<Rightarrow> LeafRouter \<Rightarrow> LeafMACsec \<Rightarrow> bool \<Rightarrow> unit go" where
  "maybeTestMTU E leaf cfg secured = do {
     off \<leftarrow> gets m_noCtlLoop;
     if off then return ()
     else do {
       due \<leftarrow> jumboTestDue E leaf cfg secured;
       doif due (do {
         modify (\<lambda>s. s\<lparr>m_mtuTesting := insert (lr_IP leaf) (m_mtuTesting s)\<rparr>);
         emit (CGoTestMTU (lr_IP leaf))
       })
     }
   }"

definition pinOnce :: "env \<Rightarrow> string \<Rightarrow> linkInfo \<Rightarrow> mainLoop \<Rightarrow> mainLoop go" where
  "pinOnce E parent info acc =
    (if parent \<in> ml_pinned acc then return acc
     else do {
       pinPlaintextRoutes E parent info;
       return (acc\<lparr>ml_pinned := insert parent (ml_pinned acc)\<rparr>)
     })"

definition mainStatus :: "LeafRouter \<Rightarrow> LeafMACsec \<Rightarrow> MACsecLinkStatus" where
  "mainStatus leaf cfg = noLinkStatus\<lparr>st_LeafIP := lr_IP leaf, st_Parent := lm_Parent cfg,
     st_Port := lm_Port cfg, st_LeafMAC := lm_LeafMAC cfg,
     st_LinkMTU := effectiveLinkMTU (lm_Mode cfg) (lm_Jumbo cfg) (lm_UnderlayMTU cfg) (lm_LinkMTU cfg),
     st_Mode := storedMode (lm_Mode cfg)\<rparr>"

text \<open>The rest of a round after \<open>mainWGLeaf\<close>, whose result is \<open>r\<close>.\<close>

definition finishMainWG ::
  "env \<Rightarrow> LeafRouter \<Rightarrow> LeafMACsec \<Rightarrow> mainLoop \<Rightarrow> MACsecLinkStatus \<times> err \<Rightarrow> mainLoop go" where
  "finishMainWG E leaf cfg acc r =
    (let lst = (case snd r of Some e \<Rightarrow> withError e (fst r) | None \<Rightarrow> (fst r)\<lparr>st_Running := True\<rparr>) in do {
       msg \<leftarrow> noPeerErrorFor E (backhaulLabel backhaulWireGuard) (''wg-'' @ itoa (lm_Port cfg))
         (lm_Parent cfg) (st_Secured lst);
       maybeTestMTU E leaf cfg (st_Secured lst);
       return (addStatus (setError msg lst) acc)
     })"

definition wantWG :: "LeafMACsec \<Rightarrow> mainLoop \<Rightarrow> mainLoop" where
  "wantWG cfg acc = acc\<lparr>ml_wgPeers := insert (lm_LeafPublicKey cfg) (ml_wgPeers acc),
     ml_wgVX := insert (meshVXLANMain (lm_Port cfg)) (ml_wgVX acc)\<rparr>"

definition mainWGStep :: "env \<Rightarrow> LeafRouter \<Rightarrow> LeafMACsec \<Rightarrow> mainLoop \<Rightarrow> mainLoop go" where
  "mainWGStep E leaf cfg acc =
    (let lst = mainStatus leaf cfg;
         lst = (if lm_Jumbo cfg then lst\<lparr>st_Underlay := lm_UnderlayMTU cfg\<rparr> else lst) in
     bindr (sysLinkInfo E (lm_Parent cfg))
       (\<lambda>_. addStatus (withError ''parent interface unavailable'' lst) acc) (\<lambda>info. do {
       info \<leftarrow> (if lm_Jumbo cfg then raiseParentMTUTo E (lm_Parent cfg) info meshJumboMTU else return info);
       acc \<leftarrow> pinOnce E (lm_Parent cfg) info acc;
       r \<leftarrow> mainWGLeaf E leaf cfg lst;
       finishMainWG E leaf cfg (wantWG cfg acc) r
     }))"

definition loadLinksOnce :: "env \<Rightarrow> mainLoop \<Rightarrow> (macsecLink list res \<times> mainLoop) go" where
  "loadLinksOnce E acc =
    (case ml_links acc of
       Some links \<Rightarrow> return (links, acc)
     | None \<Rightarrow> do { links \<leftarrow> sysLinks E; return (links, acc\<lparr>ml_links := Some links\<rparr>) })"

definition mainMember :: "env \<Rightarrow> LeafMACsec \<Rightarrow> linkInfo \<Rightarrow> macsecLink list res \<Rightarrow> MACsecLinkStatus \<Rightarrow> MACsecLinkStatus go" where
  "mainMember E cfg info links lst =
    (case links of Inl _ \<Rightarrow> return lst
     | Inr ls \<Rightarrow>
        (case findMACsecLink ls (lm_Parent cfg) (sciOrZero (li_MAC info) (lm_Port cfg)) of
           None \<Rightarrow> return lst
         | Some link \<Rightarrow> do {
             applyLinkMTU E link (lm_LinkMTU cfg) info;
             return (lst\<lparr>st_Member := ml_Name link, st_Secured := link_Forwarding link\<rparr>)
           }))"

definition mainInstance :: "LeafMACsec \<Rightarrow> macsecKeys \<Rightarrow> mkaInstance" where
  "mainInstance cfg keys = \<lparr>mi_ID = ''main-'' @ itoa (lm_Port cfg), mi_Parent = lm_Parent cfg,
     mi_Port = lm_Port cfg, mi_Priority = macsecPrioMain, mi_Keys = keys\<rparr>"

text \<open>The rest of a round after \<open>ensureMKA\<close>, whose result is \<open>r\<close>.\<close>

definition finishMainMACsec ::
  "env \<Rightarrow> LeafRouter \<Rightarrow> LeafMACsec \<Rightarrow> string \<Rightarrow> linkInfo \<Rightarrow> mainLoop \<Rightarrow> bool \<times> err \<Rightarrow> mainLoop go" where
  "finishMainMACsec E leaf cfg pid info acc r =
    (let lst = (mainStatus leaf cfg)\<lparr>st_Running := fst r\<rparr>;
         lst = (case snd r of Some e \<Rightarrow> withError e lst | None \<Rightarrow> lst) in do {
       la \<leftarrow> loadLinksOnce E acc;
       lst \<leftarrow> mainMember E cfg info (fst la) lst;
       msg \<leftarrow> noPeerError E pid (lm_Parent cfg) (st_Secured lst);
       restartIfStuck E pid (st_Secured lst);
       return (addStatus (setError msg lst) (snd la))
     })"

definition wantMKA :: "string \<Rightarrow> mainLoop \<Rightarrow> mainLoop" where
  "wantMKA pid acc = acc\<lparr>ml_desired := insert pid (ml_desired acc)\<rparr>"

definition mainMACsecStep :: "env \<Rightarrow> LeafRouter \<Rightarrow> LeafMACsec \<Rightarrow> mainLoop \<Rightarrow> mainLoop go" where
  "mainMACsecStep E leaf cfg acc =
    (let fail = (\<lambda>e. addStatus (withError e (mainStatus leaf cfg)) acc) in
     (case deriveMACsecKeys (e_hkdf E) (lr_APIToken leaf) (lm_KeyNonce cfg) of
        Inl e \<Rightarrow> return (fail e)
      | Inr keys \<Rightarrow>
     (let inst = mainInstance cfg keys in
     (case mka_validate inst of
        Some e \<Rightarrow> return (fail e)
      | None \<Rightarrow>
     bindr (sysLinkInfo E (lm_Parent cfg)) (\<lambda>_. fail ''parent interface unavailable'') (\<lambda>info. do {
       info \<leftarrow> (if lm_Jumbo cfg then raiseParentMTU E (lm_Parent cfg) info else return info);
       acc \<leftarrow> pinOnce E (lm_Parent cfg) info acc;
       r \<leftarrow> ensureMKA E inst (li_MAC info);
       finishMainMACsec E leaf cfg (mi_ID inst) info (wantMKA (mi_ID inst) acc) r
     })))))"

definition leaf_enabled :: "LeafRouter \<Rightarrow> LeafMACsec option" where
  "leaf_enabled leaf =
    (case lr_MACsec leaf of None \<Rightarrow> None | Some cfg \<Rightarrow> if lm_Enabled cfg then Some cfg else None)"

definition mainStep :: "env \<Rightarrow> LeafRouter \<Rightarrow> mainLoop \<Rightarrow> mainLoop go" where
  "mainStep E leaf acc =
    (case leaf_enabled leaf of
       None \<Rightarrow>
         (if lr_MACsecPending leaf then do {
            e \<leftarrow> macsecPendingError (lr_IP leaf);
            return (addStatus (noLinkStatus\<lparr>st_LeafIP := lr_IP leaf, st_Pending := True, st_Error := e\<rparr>) acc)
          } else return acc)
     | Some cfg \<Rightarrow>
         let acc = acc\<lparr>ml_enabled := ml_enabled acc + 1\<rparr> in
         if storedMode (lm_Mode cfg) = backhaulWireGuard then mainWGStep E leaf cfg acc
         else mainMACsecStep E leaf cfg acc)"

section \<open>The whole pass\<close>

text \<open>The smallest MTU of the WireGuard interface over the enabled leaves, 0 when there is none.\<close>

definition wgMainMTU :: "LeafRouter list \<Rightarrow> int" where
  "wgMainMTU leaves = fold (\<lambda>leaf m.
     case leaf_enabled leaf of
       None \<Rightarrow> m
     | Some cfg \<Rightarrow>
        if storedMode (lm_Mode cfg) = backhaulWireGuard then
          (let mtu = meshUnderlay (lm_Jumbo cfg) (lm_UnderlayMTU cfg) - meshWGOverhead
           in if m = 0 \<or> mtu < m then mtu else m)
        else m) leaves 0"

text \<open>What is left from a time as a leaf: torn down, and cleared from the file once the leaf flag is gone.\<close>

definition leaveLeafMode :: "env \<Rightarrow> MeshConfig \<Rightarrow> unit go" where
  "leaveLeafMode E config = do {
     flag \<leftarrow> macsecRequiredFlagSet;
     active \<leftarrow> gets m_leafActive;
     doif (active \<or> flag \<or> ls_Enabled (mc_LeafMACsec config)) (do {
       wanif \<leftarrow> meshWANIF E;
       teardownLeaf E wanif;
       gone \<leftarrow> gets (\<lambda>s. w_leafFlag s = Absent);
       doif (ls_Enabled (mc_LeafMACsec config) \<and> gone) (do {
         lockConfig E;
         current \<leftarrow> loadMeshConfigChecked;
         (case current of Inl _ \<Rightarrow> return ()
          | Inr current \<Rightarrow> doif (ls_Enabled (mc_LeafMACsec current))
              (saveConfigLocked E (current\<lparr>mc_LeafMACsec := noLeafSide\<rparr>)))
       })
     })
   }"

definition reconcileMain :: "env \<Rightarrow> MeshConfig \<Rightarrow> unit go" where
  "reconcileMain E config = do {
     leaveLeafMode E config;
     modify (\<lambda>s. s\<lparr>m_wgMainMTU := wgMainMTU (mc_LeafRouters config)\<rparr>);
     acc \<leftarrow> for_fold (mc_LeafRouters config) mainLoop0 (mainStep E);
     stopAllMKA E (ml_desired acc);
     seen \<leftarrow> gets m_wgSeen;
     doif (ml_wgPeers acc \<noteq> {} \<or> seen) (do {
       cleanupMainWG E (ml_wgPeers acc) (ml_wgVX acc);
       modify (\<lambda>s. s\<lparr>m_wgSeen := (ml_wgPeers acc \<noteq> {})\<rparr>)
     });
     links \<leftarrow> reconcileMeshBridge E (ml_status acc);
     modify (\<lambda>s. s\<lparr>m_status := noStatus\<lparr>ms_Role := ''main'',
       ms_Strict := (mc_LeafRouters config \<noteq> [] \<and> ml_enabled acc = length (mc_LeafRouters config)),
       ms_Links := links\<rparr>\<rparr>)
   }"

definition reconcile :: "env \<Rightarrow> unit go" where
  "reconcile E = do {
     lockConfig E;
     r \<leftarrow> loadMeshConfigChecked;
     (case r of Inl _ \<Rightarrow> return ()
      | Inr config \<Rightarrow> do {
          modify (\<lambda>s. s\<lparr>m_mtuInUse := {}\<rparr>);
          loadOrigMTU E;
          leaf \<leftarrow> isLeafRouter;
          (if leaf then reconcileLeaf E config else reconcileMain E config);
          restoreUnusedMTU E;
          modify (\<lambda>s. s\<lparr>m_ready := True\<rparr>)
        })
   }"

end
