(* ===== verification/MainSafety.thy ===== *)
theory MainSafety
  imports MainRec
begin

text \<open>
  What a pass of the main router guarantees: the status lists exactly the enabled and the
  pending leaves, in order; \<open>Strict\<close> holds exactly when every leaf is enabled; a member is shown
  secured only behind the bridge guard; and the process table stays exact through every
  reconcile pass, on either side.
\<close>

section \<open>Status\<close>

definition status_key :: "MACsecLinkStatus \<Rightarrow> string \<times> bool \<times> string \<times> int" where
  "status_key l = (st_LeafIP l, st_Pending l, st_Parent l, st_Port l)"

definition leaf_keys :: "LeafRouter \<Rightarrow> (string \<times> bool \<times> string \<times> int) list" where
  "leaf_keys leaf =
    (case leaf_enabled leaf of
       Some cfg \<Rightarrow> [(lr_IP leaf, False, lm_Parent cfg, lm_Port cfg)]
     | None \<Rightarrow> if lr_MACsecPending leaf then [(lr_IP leaf, True, [], 0)] else [])"

definition counted :: "LeafRouter \<Rightarrow> mainLoop \<Rightarrow> mainLoop \<Rightarrow> bool" where
  "counted leaf acc acc' \<longleftrightarrow>
     ml_enabled acc' = ml_enabled acc + (if leaf_enabled leaf = None then 0 else 1) \<and>
     map status_key (ml_status acc') = map status_key (ml_status acc) @ leaf_keys leaf"

lemma status_key_simps [simp]:
  "status_key (lst\<lparr>st_Error := e\<rparr>) = status_key lst" "status_key (lst\<lparr>st_Running := b\<rparr>) = status_key lst"
  "status_key (lst\<lparr>st_Secured := b\<rparr>) = status_key lst" "status_key (lst\<lparr>st_Member := n\<rparr>) = status_key lst"
  "status_key (lst\<lparr>st_Interface := n\<rparr>) = status_key lst" "status_key (lst\<lparr>st_Underlay := i\<rparr>) = status_key lst"
  "status_key (withError e lst) = status_key lst" "status_key (setError e lst) = status_key lst"
  "status_key (mainStatus leaf cfg) = (lr_IP leaf, False, lm_Parent cfg, lm_Port cfg)"
  by (simp_all add: status_key_def withError_def setError_def mainStatus_def noLinkStatus_def)

lemma addStatus_simps [simp]:
  "ml_enabled (addStatus l acc) = ml_enabled acc" "ml_status (addStatus l acc) = ml_status acc @ [l]"
  by (simp_all add: addStatus_def)

text \<open>
  What the result of a program satisfies whatever the state: \<open>yields P m\<close>. A step whose result
  does not matter is skipped.
\<close>

definition yields :: "('a \<Rightarrow> bool) \<Rightarrow> 'a go \<Rightarrow> bool" where
  "yields P m \<longleftrightarrow> (\<forall>s. wp m (\<lambda>r _. P r) s)"

lemma yields_return: "P x \<Longrightarrow> yields P (return x)"
  by (simp add: yields_def wp_simps)

lemma yields_gets: "(\<And>s. P (f s)) \<Longrightarrow> yields P (gets f)"
  by (simp add: yields_def wp_simps)

lemma yields_bind: "yields Q m \<Longrightarrow> (\<And>x. Q x \<Longrightarrow> yields P (k x)) \<Longrightarrow> yields P (State_Monad.bind m k)"
  unfolding yields_def wp_bind by (rule allI, rule wp_mono, erule spec) blast

lemma yields_mono: "yields P m \<Longrightarrow> (\<And>r. P r \<Longrightarrow> Q r) \<Longrightarrow> yields Q m"
  unfolding yields_def by (rule allI, rule wp_mono, erule spec) blast

lemma yields_skip: "(\<And>x. yields P (k x)) \<Longrightarrow> yields P (State_Monad.bind m k)"
  unfolding yields_def by (auto intro: wp_skip)

lemma yields_check: "yields P k \<Longrightarrow> (\<And>e. P (h e)) \<Longrightarrow> yields P (check m h k)"
  unfolding check_def by (rule yields_skip) (auto intro: yields_return split: option.split)

lemma yields_bindr: "(\<And>x. yields P (f x)) \<Longrightarrow> (\<And>e. P (h e)) \<Longrightarrow> yields P (bindr m h f)"
  unfolding bindr_def by (rule yields_skip) (auto intro: yields_return split: sum.split)

lemma yields_if: "(b \<Longrightarrow> yields P m) \<Longrightarrow> (\<not> b \<Longrightarrow> yields P n) \<Longrightarrow> yields P (if b then m else n)"
  by simp

lemma yields_option:
  "(x = None \<Longrightarrow> yields P m) \<Longrightarrow> (\<And>a. x = Some a \<Longrightarrow> yields P (f a)) \<Longrightarrow>
    yields P (case x of None \<Rightarrow> m | Some a \<Rightarrow> f a)"
  by (simp split: option.split)

lemma yields_sum:
  "(\<And>a. x = Inl a \<Longrightarrow> yields P (f a)) \<Longrightarrow> (\<And>b. x = Inr b \<Longrightarrow> yields P (g b)) \<Longrightarrow>
    yields P (case x of Inl a \<Rightarrow> f a | Inr b \<Rightarrow> g b)"
  by (simp split: sum.split)

lemma yields_fold:
  assumes "\<And>x b. x \<in> set xs \<Longrightarrow> I b \<Longrightarrow> yields I (f x b)" and "I b"
  shows "yields I (for_fold xs b f)"
  using assms by (induction xs arbitrary: b) (auto intro!: yields_return intro: yields_bind)

lemmas yields_rules = yields_return yields_check yields_bindr yields_if yields_option yields_sum yields_skip

lemma yields_wp: "yields P m \<Longrightarrow> wp m (\<lambda>r _. P r) s"
  by (simp add: yields_def)

lemma mainWGLeaf_key: "yields (\<lambda>p. status_key (fst p) = status_key lst) (mainWGLeaf E leaf cfg lst)"
  unfolding mainWGLeaf_def Let_def by (intro yields_rules) simp_all

definition same_count :: "mainLoop \<Rightarrow> mainLoop \<Rightarrow> bool" where
  "same_count acc acc' \<longleftrightarrow> ml_enabled acc' = ml_enabled acc \<and> ml_status acc' = ml_status acc"

lemma same_count_simps [simp]:
  "same_count acc acc" "same_count acc (wantWG cfg acc') = same_count acc acc'"
  "same_count acc (wantMKA i acc') = same_count acc acc'"
  by (simp_all add: same_count_def wantWG_def wantMKA_def)

lemma pinOnce_count: "yields (same_count acc) (pinOnce E p info acc)"
  unfolding pinOnce_def by (intro yields_rules) (simp_all add: same_count_def)

lemma loadLinksOnce_count: "yields (\<lambda>p. same_count acc (snd p)) (loadLinksOnce E acc)"
  unfolding loadLinksOnce_def by (intro yields_rules) (simp_all add: same_count_def)

lemma mainMember_key: "yields (\<lambda>l. status_key l = status_key lst) (mainMember E cfg info links lst)"
  unfolding mainMember_def by (intro yields_rules) simp_all

definition one_more :: "LeafRouter \<Rightarrow> LeafMACsec \<Rightarrow> mainLoop \<Rightarrow> mainLoop \<Rightarrow> bool" where
  "one_more leaf cfg acc acc' \<longleftrightarrow> ml_enabled acc' = ml_enabled acc \<and>
     map status_key (ml_status acc') =
       map status_key (ml_status acc) @ [(lr_IP leaf, False, lm_Parent cfg, lm_Port cfg)]"

lemma one_moreI:
  "same_count acc acc' \<Longrightarrow> status_key l = (lr_IP leaf, False, lm_Parent cfg, lm_Port cfg) \<Longrightarrow>
    one_more leaf cfg acc (addStatus l acc')"
  by (simp add: one_more_def same_count_def)

lemma finishMainWG_one:
  assumes "same_count acc acc'" "status_key (fst r) = (lr_IP leaf, False, lm_Parent cfg, lm_Port cfg)"
  shows "yields (one_more leaf cfg acc) (finishMainWG E leaf cfg acc' r)"
  unfolding finishMainWG_def Let_def
  by (intro yields_rules one_moreI) (use assms in \<open>simp_all split: option.split\<close>)

lemma mainWGStep_one: "yields (one_more leaf cfg acc) (mainWGStep E leaf cfg acc)"
  unfolding mainWGStep_def Let_def
  by (intro yields_bindr yields_skip [where m = "if b then m1 else m2" for b m1 m2]
      yields_bind [OF pinOnce_count] yields_bind [OF mainWGLeaf_key] finishMainWG_one one_moreI) simp_all

lemma finishMainMACsec_one:
  assumes "same_count acc acc'"
  shows "yields (one_more leaf cfg acc) (finishMainMACsec E leaf cfg i info acc' r)"
proof -
  have s: "same_count acc acc''" if "same_count acc' acc''" for acc''
    using assms that by (simp add: same_count_def)
  show ?thesis
    unfolding finishMainMACsec_def Let_def
    by (intro yields_bind [OF loadLinksOnce_count] yields_bind [OF mainMember_key] yields_skip yields_return
        one_moreI s) (simp_all split: option.split)
qed

lemma mainMACsecStep_one: "yields (one_more leaf cfg acc) (mainMACsecStep E leaf cfg acc)"
  unfolding mainMACsecStep_def Let_def
  by (intro yields_sum yields_option yields_return yields_bindr
      yields_skip [where m = "if b then m1 else m2" for b m1 m2]
      yields_bind [OF pinOnce_count] yields_skip [where m = "ensureMKA E i a" for i a]
      finishMainMACsec_one one_moreI) simp_all

lemma mainStep_counted: "yields (counted leaf acc) (mainStep E leaf acc)"
proof (cases "leaf_enabled leaf")
  case None
  then show ?thesis
    by (auto simp: mainStep_def counted_def leaf_keys_def status_key_def noLinkStatus_def intro!: yields_rules)
next
  case (Some cfg)
  have "yields (counted leaf acc) m"
    if "yields (one_more leaf cfg (acc\<lparr>ml_enabled := ml_enabled acc + 1\<rparr>)) m" for m
    using that unfolding yields_def
    by (auto elim!: wp_mono simp: one_more_def counted_def leaf_keys_def Some)
  then show ?thesis
    using mainWGStep_one mainMACsecStep_one by (simp add: mainStep_def Some Let_def)
qed

text \<open>Over all leaves: the count of the enabled ones, and the keys of the statuses in order.\<close>

definition enabled_count :: "LeafRouter list \<Rightarrow> nat" where
  "enabled_count leaves = length (filter (\<lambda>l. leaf_enabled l \<noteq> None) leaves)"

lemma mainLoop_counted:
  "yields (\<lambda>acc'. ml_enabled acc' = ml_enabled acc + enabled_count leaves \<and>
     map status_key (ml_status acc') = map status_key (ml_status acc) @ concat (map leaf_keys leaves))
   (for_fold leaves acc (mainStep E))"
proof (induction leaves arbitrary: acc)
  case Nil
  then show ?case by (simp add: yields_return enabled_count_def)
next
  case (Cons leaf leaves)
  show ?case
    unfolding for_fold.simps
    by (rule yields_bind [OF mainStep_counted], rule yields_mono [OF Cons.IH])
      (auto simp: counted_def enabled_count_def)
qed

lemma enabled_count_all:
  "enabled_count leaves = length leaves \<longleftrightarrow> (\<forall>l \<in> set leaves. leaf_enabled l \<noteq> None)"
  unfolding enabled_count_def
proof (induction leaves)
  case (Cons leaf leaves)
  have "length (filter (\<lambda>l. \<exists>y. leaf_enabled l = Some y) leaves) \<noteq> Suc (length leaves)"
    by (metis length_filter_le not_less_eq_eq order_refl)
  with Cons show ?case by auto
qed simp

section \<open>Which participants are wanted\<close>

definition want_ids :: "LeafRouter \<Rightarrow> string set" where
  "want_ids leaf =
    (case leaf_enabled leaf of
       None \<Rightarrow> {}
     | Some cfg \<Rightarrow> if storedMode (lm_Mode cfg) = backhaulWireGuard then {} else {''main-'' @ itoa (lm_Port cfg)})"

lemma desired_simps [simp]:
  "ml_desired (addStatus l acc) = ml_desired acc" "ml_desired (wantWG cfg acc) = ml_desired acc"
  "ml_desired (wantMKA i acc) = insert i (ml_desired acc)"
  by (simp_all add: addStatus_def wantWG_def wantMKA_def)

lemma pinOnce_desired: "yields (\<lambda>acc'. ml_desired acc' = ml_desired acc) (pinOnce E p info acc)"
  unfolding pinOnce_def by (intro yields_rules) simp_all

lemma loadLinksOnce_desired: "yields (\<lambda>p. ml_desired (snd p) = ml_desired acc) (loadLinksOnce E acc)"
  unfolding loadLinksOnce_def by (intro yields_rules) simp_all

lemma mainWGStep_desired: "yields (\<lambda>acc'. ml_desired acc' = ml_desired acc) (mainWGStep E leaf cfg acc)"
  unfolding mainWGStep_def finishMainWG_def Let_def
  by (intro yields_bindr yields_skip [where m = "if b then m1 else m2" for b m1 m2]
      yields_bind [OF pinOnce_desired] yields_skip yields_return) simp_all

lemma mainMACsecStep_desired:
  "yields (\<lambda>acc'. ml_desired acc' \<subseteq> insert (''main-'' @ itoa (lm_Port cfg)) (ml_desired acc))
    (mainMACsecStep E leaf cfg acc)"
  unfolding mainMACsecStep_def finishMainMACsec_def Let_def
  by (intro yields_sum yields_option yields_return yields_bindr
      yields_skip [where m = "if b then m1 else m2" for b m1 m2]
      yields_bind [OF pinOnce_desired] yields_skip [where m = "ensureMKA E i a" for i a]
      yields_bind [OF loadLinksOnce_desired] yields_skip) (auto simp: mainInstance_def)

lemma mainStep_desired: "yields (\<lambda>acc'. ml_desired acc' \<subseteq> ml_desired acc \<union> want_ids leaf) (mainStep E leaf acc)"
proof (cases "leaf_enabled leaf")
  case None
  then show ?thesis by (auto simp: mainStep_def intro!: yields_rules)
next
  case (Some cfg)
  show ?thesis
    using yields_mono [OF mainWGStep_desired [of "acc\<lparr>ml_enabled := ml_enabled acc + 1\<rparr>" E leaf cfg],
        of "\<lambda>acc'. ml_desired acc' \<subseteq> ml_desired acc"]
      yields_mono [OF mainMACsecStep_desired [of cfg "acc\<lparr>ml_enabled := ml_enabled acc + 1\<rparr>" E leaf],
        of "\<lambda>acc'. ml_desired acc' \<subseteq> insert (''main-'' @ itoa (lm_Port cfg)) (ml_desired acc)"]
    by (auto simp: mainStep_def Some Let_def want_ids_def)
qed

lemma mainLoop_desired:
  "yields (\<lambda>acc'. ml_desired acc' \<subseteq> ml_desired acc \<union> \<Union> (want_ids ` set leaves)) (for_fold leaves acc (mainStep E))"
proof (induction leaves arbitrary: acc)
  case Nil
  then show ?case by (simp add: yields_return)
next
  case (Cons leaf leaves)
  show ?case
    unfolding for_fold.simps
    by (rule yields_bind [OF mainStep_desired], rule yields_mono [OF Cons.IH]) auto
qed

section \<open>The bridge of encrypted links\<close>

text \<open>The calls that attach and detach members: the guard is not touched.\<close>

definition member_call :: "sysCall \<Rightarrow> bool" where
  "member_call c \<longleftrightarrow> (\<exists>n. c = CLinkInfo n \<or> c = CSetMaster n meshBridge \<or> c = CSetMaster n [] \<or>
     c = CCmd ''bridge'' [''link'', ''set'', ''dev'', n, ''isolated'', ''on''])"

lemma member_call_simps [simp]:
  "member_call (CLinkInfo n)" "member_call (CSetMaster n meshBridge)" "member_call (CSetMaster n [])"
  "member_call (CCmd ''bridge'' [''link'', ''set'', ''dev'', n, ''isolated'', ''on''])"
  by (auto simp: member_call_def)

lemma emits_members: "emits member_call (attachMembers E ok links)"
  unfolding attachMembers_def attachMember_def Let_def by (intro emits_rules frame) simp_all

lemma keeps_members:
  "(\<And>s h. f (s\<lparr>w_hist := h\<rparr>) = f s) \<Longrightarrow> keeps f (attachMembers E ok links)"
  by (auto simp: attachMembers_def attachMember_def Let_def intro!: keeps_rules frame)

text \<open>What one status may become: everything but the device name and the flag stays; the flag
  is only ever cleared, and stays set only on a good bridge.\<close>

definition attached :: "bool \<Rightarrow> MACsecLinkStatus \<Rightarrow> MACsecLinkStatus \<Rightarrow> bool" where
  "attached ok a b \<longleftrightarrow> status_key b = status_key a \<and> st_Member b = st_Member a \<and>
     st_LeafMAC b = st_LeafMAC a \<and> (if onBridge a then st_Secured b \<longrightarrow> st_Secured a \<and> ok else b = a)"

lemma wp_attachMember_attached:
  "onBridge lst \<Longrightarrow> wp (attachMember E ok (lst\<lparr>st_Interface := meshBridge\<rparr>)) (\<lambda>l _. attached ok lst l) s"
  by (rule wp_mono [OF wp_attachMember]) (auto simp: attached_def)

lemma wp_attachMembers:
  "wp (attachMembers E ok links) (\<lambda>ls _. list_all2 (attached ok) links ls) s"
proof -
  have "wp (for_fold links acc (\<lambda>lst acc.
      if onBridge lst then do { l \<leftarrow> attachMember E ok (lst\<lparr>st_Interface := meshBridge\<rparr>); return (acc @ [l]) }
      else return (acc @ [lst]))) (\<lambda>ls _. \<exists>out. ls = acc @ out \<and> list_all2 (attached ok) links out) u" for acc u
  proof (induction links arbitrary: acc u)
    case Nil
    then show ?case by (simp add: wp_simps)
  next
    case (Cons lst links acc u)
    have step: "wp (if onBridge lst then do { l \<leftarrow> attachMember E ok (lst\<lparr>st_Interface := meshBridge\<rparr>); return (acc @ [l]) }
        else return (acc @ [lst])) (\<lambda>a _. \<exists>l. a = acc @ [l] \<and> attached ok lst l) u"
    proof (cases "onBridge lst")
      case True
      then show ?thesis by (simp add: wp_simps wp_attachMember_attached)
    next
      case False
      then show ?thesis by (simp add: wp_simps attached_def)
    qed
    show ?case
      unfolding for_fold.simps wp_bind
    proof (rule wp_mono [OF step])
      fix a t
      assume "\<exists>l. a = acc @ [l] \<and> attached ok lst l"
      then show "wp (for_fold links a (\<lambda>lst acc.
          if onBridge lst then do { l \<leftarrow> attachMember E ok (lst\<lparr>st_Interface := meshBridge\<rparr>); return (acc @ [l]) }
          else return (acc @ [lst]))) (\<lambda>ls _. \<exists>out. ls = acc @ out \<and> list_all2 (attached ok) (lst # links) out) t"
        by (intro wp_mono [OF Cons.IH]) auto
    qed
  qed
  from this [of "[]"] show ?thesis
    unfolding attachMembers_def by (rule wp_mono) auto
qed

text \<open>
  After \<open>reconcileMeshBridge\<close>: a member shown secured was found secured, and when it was attached
  the guard for exactly the present pins had just been confirmed in the kernel.
\<close>

definition behind_guard :: "env \<Rightarrow> meshBridgePin list \<Rightarrow> st \<Rightarrow> bool" where
  "behind_guard E pins t \<longleftrightarrow> (\<exists>u. bridge_guarded E pins u \<and> hist_ext member_call u t \<and>
     m_bridgeGuard t = m_bridgeGuard u \<and> m_bridgeGuardLive t = m_bridgeGuardLive u)"

lemma wp_reconcileMeshBridge:
  "wp (reconcileMeshBridge E links) (\<lambda>ls t. \<exists>ok. list_all2 (attached ok) links ls \<and>
     (ok \<longrightarrow> behind_guard E (bridgePins links) t)) s"
proof (cases "filter onBridge links")
  case Nil
  then have "list_all2 (attached False) links links"
    by (auto simp: attached_def list_all2_same filter_empty_conv)
  then show ?thesis
    by (auto simp: reconcileMeshBridge_def Nil wp_return intro!: wp_skip)
next
  case (Cons first rest)
  have attach: "wp (attachMembers E (e = None) links) (\<lambda>ls t. \<exists>ok. list_all2 (attached ok) links ls \<and>
     (ok \<longrightarrow> behind_guard E (bridgePins links) t)) u"
    if u: "e = None \<longrightarrow> bridge_guarded E (bridgePins links) u" for e and u :: st
  proof -
    have k: "keeps (\<lambda>t. (m_bridgeGuard t, m_bridgeGuardLive t)) (attachMembers E (e = None) links)"
      by (rule keeps_members) simp
    have "wp (attachMembers E (e = None) links) (\<lambda>ls t. list_all2 (attached (e = None)) links ls \<and>
        hist_ext member_call u t \<and> (m_bridgeGuard t, m_bridgeGuardLive t) = (m_bridgeGuard u, m_bridgeGuardLive u)) u"
      unfolding wp_conj
      by (intro conjI wp_attachMembers emits.in_wp emits_members keeps_wp [OF k])
    then show ?thesis
      by (rule wp_mono) (use u in \<open>auto simp: behind_guard_def\<close>)
  qed
  show ?thesis
    unfolding reconcileMeshBridge_def Cons list.case
    by (rule wp_skip, unfold wp_bind, rule wp_mono [OF wp_bridgeReady], rule attach)
qed

lemma attached_keys: "list_all2 (attached ok) links ls \<Longrightarrow> map status_key ls = map status_key links"
  by (induction rule: list_all2_induct) (auto simp: attached_def)

lemma attached_pins: "list_all2 (attached ok) links ls \<Longrightarrow> bridgePins ls = bridgePins links"
  by (induction rule: list_all2_induct) (auto simp: attached_def bridgePins_def onBridge_def status_key_def)

lemma attached_secured:
  "list_all2 (attached ok) links ls \<Longrightarrow> l \<in> set ls \<Longrightarrow> onBridge l \<Longrightarrow> st_Secured l \<Longrightarrow> ok"
  by (induction rule: list_all2_induct) (auto simp: attached_def onBridge_def status_key_def split: if_splits)

section \<open>A pass of the main router\<close>

definition main_status_ok :: "env \<Rightarrow> MeshConfig \<Rightarrow> st \<Rightarrow> bool" where
  "main_status_ok E config t \<longleftrightarrow>
     (let leaves = mc_LeafRouters config; links = ms_Links (m_status t) in
      ms_Role (m_status t) = ''main'' \<and>
      map status_key links = concat (map leaf_keys leaves) \<and>
      (ms_Strict (m_status t) \<longleftrightarrow> leaves \<noteq> [] \<and> (\<forall>leaf \<in> set leaves. leaf_enabled leaf \<noteq> None)) \<and>
      (\<forall>l \<in> set links. onBridge l \<and> st_Secured l \<longrightarrow> behind_guard E (bridgePins links) t))"

lemma behind_guard_status: "behind_guard E pins t \<Longrightarrow> behind_guard E pins (t\<lparr>m_status := x\<rparr>)"
  by (auto simp: behind_guard_def hist_ext_def)

lemma wp_reconcileMain_status: "wp (reconcileMain E config) (\<lambda>_ t. main_status_ok E config t) s"
proof -
  have last: "wp (do {
      links \<leftarrow> reconcileMeshBridge E (ml_status acc);
      modify (\<lambda>s. s\<lparr>m_status := noStatus\<lparr>ms_Role := ''main'',
        ms_Strict := (mc_LeafRouters config \<noteq> [] \<and> ml_enabled acc = length (mc_LeafRouters config)),
        ms_Links := links\<rparr>\<rparr>) }) (\<lambda>_ t. main_status_ok E config t) u"
    if acc: "ml_enabled acc = enabled_count (mc_LeafRouters config)"
      "map status_key (ml_status acc) = concat (map leaf_keys (mc_LeafRouters config))" for acc and u :: st
    unfolding wp_bind
    by (rule wp_mono [OF wp_reconcileMeshBridge])
      (use acc in \<open>auto simp: wp_modify main_status_ok_def Let_def enabled_count_all attached_keys
        attached_pins dest: attached_secured intro: behind_guard_status\<close>)
  show ?thesis
    unfolding reconcileMain_def
    by (rule wp_skip, rule wp_skip, unfold wp_bind [of "for_fold xs b f" for xs b f],
        rule wp_mono [OF yields_wp [OF mainLoop_counted]], rule wp_skip, rule wp_skip, rule wp_skip,
        rule last)
      (simp_all add: mainLoop0_def)
qed

text \<open>Only the participants of enabled MACsec leaves still run.\<close>

lemma wp_reconcileMain_procs:
  "wp (reconcileMain E config) (\<lambda>_ t. \<forall>k. mget (m_procs t) k \<noteq> None \<longrightarrow>
     k \<in> \<Union> (want_ids ` set (mc_LeafRouters config))) s"
proof -
  have stop: "wp (stopAllMKA E ids) (\<lambda>_ t. (\<lambda>procs. \<forall>k. mget procs k \<noteq> None \<longrightarrow> k \<in> W) (m_procs t)) u"
    if "ids \<subseteq> W" for ids W u
    by (rule wp_mono [OF wp_stopAllMKA]) (use that in \<open>auto split: if_splits\<close>)
  show ?thesis
    unfolding reconcileMain_def
    apply (rule wp_skip, rule wp_skip, unfold wp_bind [of "for_fold xs b f" for xs b f])
    apply (rule wp_mono [OF yields_wp [OF mainLoop_desired]])
    apply (rule wp_stays [where f = m_procs, OF stop])
     apply (simp add: mainLoop0_def)
    apply (intro keeps_rules frame; simp)
    done
qed

section \<open>Process accounting through a pass\<close>

lemma bridge_quiet: "emits bridge_call m \<Longrightarrow> emits quiet_call m"
  by (erule emits_mono) (auto simp: bridge_call_def split: sysCall.splits)

lemma leaveLeafMode_inv: "preserves (proc_inv E) (leaveLeafMode E config)"
  unfolding leaveLeafMode_def
  by (intro preserves_rules teardownLeaf_inv preserves_proc_inv frame) simp_all

lemma keeps_mainparts [frame]:
  assumes "\<And>s h. f (s\<lparr>w_hist := h\<rparr>) = f s"
  shows "keeps f (pinOnce E p info acc)" "keeps f (loadLinksOnce E acc)" "keeps f (mainMember E cfg info ls lst)"
    "keeps f (macsecPendingError ip)"
    "(\<And>s m. f (s\<lparr>m_mtuTesting := m\<rparr>) = f s) \<Longrightarrow> keeps f (maybeTestMTU E leaf cfg b)"
  using assms by (auto simp: pinOnce_def loadLinksOnce_def mainMember_def macsecPendingError_def
      maybeTestMTU_def jumboTestDue_def intro!: keeps_rules frame)

lemma quiet_mainparts:
  "emits quiet_call (pinOnce E p info acc)" "emits quiet_call (loadLinksOnce E acc)"
  "emits quiet_call (mainMember E cfg info ls lst)" "emits quiet_call (macsecPendingError ip)"
  "emits quiet_call (maybeTestMTU E leaf cfg b)"
  by (auto simp: pinOnce_def loadLinksOnce_def mainMember_def macsecPendingError_def
      maybeTestMTU_def jumboTestDue_def intro!: emits_rules frame)

lemma mainStep_inv: "preserves (proc_inv E) (mainStep E leaf acc)"
  unfolding mainStep_def mainWGStep_def mainMACsecStep_def finishMainWG_def finishMainMACsec_def Let_def
  by (intro preserves_rules ensureMKA_inv restartIfStuck_inv preserves_proc_inv quiet_mainparts
      quiet_wg_ops frame) simp_all

lemma reconcileMain_inv: "preserves (proc_inv E) (reconcileMain E config)"
  unfolding reconcileMain_def
  by (intro preserves_rules leaveLeafMode_inv mainStep_inv stopAllMKA_inv preserves_proc_inv
      quiet_wg_ops bridge_quiet frame) simp_all

lemma reconcile_inv: "preserves (proc_inv E) (reconcile E)"
  unfolding reconcile_def
  by (intro preserves_rules reconcileLeaf_inv reconcileMain_inv preserves_proc_inv frame) simp_all

end
