(* ===== verification/CtlProto.thy ===== *)
theory CtlProto
  imports MainSafety
begin

text \<open>
  The stateful half of \<open>macsec_ctl.go\<close>: the leaf's listener (\<open>ctlKeys\<close>, \<open>handleLeafCtl\<close>), the main
  router's switch-off over the wire (\<open>disableOverWire\<close>), and the MTU test (\<open>probeFrame\<close>,
  \<open>testUnderlayMTU\<close>). A receive is the frames that arrive until the timeout and the error the
  socket layer then returns; the handler sees them in order and the first it accepts ends the
  wait.
\<close>

section \<open>The leaf's listener\<close>

definition macsecCtlAckWindow :: int where "macsecCtlAckWindow = 30 * second"

definition ctlKeys :: "env \<Rightarrow> macsecCtlKeys option go" where
  "ctlKeys E = do {
     keys \<leftarrow> gets m_leafCtl;
     off \<leftarrow> gets m_ctlOffAt;
     (case (keys, off) of
        (Some _, Some since) \<Rightarrow> do {
          t \<leftarrow> now E;
          doif (t - since > macsecCtlAckWindow) (modify (\<lambda>s. s\<lparr>m_leafCtl := None\<rparr>))
        }
      | _ \<Rightarrow> return ());
     keys \<leftarrow> gets m_leafCtl;
     doif (keys = None) (modify (\<lambda>s. s\<lparr>m_ctlRunning := False\<rparr>));
     return keys
   }"

definition sendFrame :: "env \<Rightarrow> string \<Rightarrow> byte list option \<Rightarrow> unit go" where
  "sendFrame E dev frame =
    (case frame of None \<Rightarrow> return () | Some f \<Rightarrow> drop_result (act E (CSendFrame dev f)))"

text \<open>The file is cleared for the pairing whose key signed the frame, and only once.\<close>

definition switchOff :: "env \<Rightarrow> macsecCtlKeys \<Rightarrow> unit go" where
  "switchOff E keys = do {
     lockConfig E;
     config \<leftarrow> loadMeshConfigChecked;
     (case config of Inl _ \<Rightarrow> return ()
      | Inr config \<Rightarrow>
          doif (ls_Enabled (mc_LeafMACsec config) \<and> ls_KeyNonce (mc_LeafMACsec config) = ck_Nonce keys)
            (saveConfigLocked E (config\<lparr>mc_LeafMACsec := noLeafSide\<rparr>)))
   }"

definition handleLeafCtl :: "env \<Rightarrow> string \<Rightarrow> byte list \<Rightarrow> bool go" where
  "handleLeafCtl E wanif frame = do {
     ks \<leftarrow> ctlKeys E;
     (case ks of None \<Rightarrow> return False
      | Some keys \<Rightarrow>
     (case parseMACsecCtlFrameSized (e_hmac E) frame keys of None \<Rightarrow> return False
      | Some (cmd, src, challenge, tot) \<Rightarrow>
          if cmd = macsecCtlProbe then do {
            mac \<leftarrow> gets m_leafCtlMAC;
            sendFrame E wanif (buildMACsecCtlFrameSized (e_hmac E) src mac macsecCtlProbeReply keys challenge tot);
            return False
          } else if cmd \<noteq> macsecCtlDisable then return False
          else do {
            mac \<leftarrow> gets m_leafCtlMAC;
            sendFrame E wanif (buildMACsecCtlFrame (e_hmac E) src mac macsecCtlAck keys challenge);
            off \<leftarrow> gets m_ctlOffAt;
            if off \<noteq> None then return True
            else do {
              t \<leftarrow> now E;
              modify (\<lambda>s. s\<lparr>m_ctlOffAt := Some t\<rparr>);
              switchOff E keys;
              Kick;
              return True
            }
          }))
   }"

text \<open>
  One round of \<open>ctlListen\<close> up to the receive: whether it goes on. The frames of the receive are
  handled one by one by \<open>handleLeafCtl\<close>, none of them ends it.
\<close>

definition listenTop :: "env \<Rightarrow> string \<Rightarrow> bool go" where
  "listenTop E wanif = do {
     keys \<leftarrow> ctlKeys E;
     if keys = None then return False
     else do { emit (CRecvFrames wanif); return True }
   }"

section \<open>The main router's side\<close>

definition accepted :: "(byte list \<Rightarrow> 'a option) \<Rightarrow> byte list list \<times> string \<Rightarrow> 'a res" where
  "accepted handle r =
    (case List.map_filter handle (fst r) of [] \<Rightarrow> Inl (snd r) | x # _ \<Rightarrow> Inr x)"

definition RecvFrames :: "env \<Rightarrow> string \<Rightarrow> (byte list \<Rightarrow> 'a option) \<Rightarrow> 'a res go" where
  "RecvFrames E dev handle =
     ask (CRecvFrames dev) (\<lambda>h. accepted handle (e_Frames E (CRecvFrames dev # h) dev))"

definition Exchange :: "env \<Rightarrow> string \<Rightarrow> byte list \<Rightarrow> (byte list \<Rightarrow> 'a option) \<Rightarrow> 'a res go" where
  "Exchange E dev frame handle =
     ask (CExchange dev frame) (\<lambda>h. accepted handle (e_Frames E (CExchange dev frame # h) dev))"

definition newMACsecChallenge :: "env \<Rightarrow> byte list res go" where
  "newMACsecChallenge E = ask (CRand macsecCtlChallengeLen) (\<lambda>h. e_Rand E h macsecCtlChallengeLen)"

definition broadcastMAC :: "byte list" where
  "broadcastMAC = replicate 6 0xff"

definition frameBytes :: "byte list option \<Rightarrow> byte list" where
  "frameBytes f = (case f of None \<Rightarrow> [] | Some b \<Rightarrow> b)"

definition isAck :: "env \<Rightarrow> macsecCtlKeys \<Rightarrow> byte list \<Rightarrow> byte list \<Rightarrow> unit option" where
  "isAck E keys challenge reply =
    (case parseMACsecCtlFrame (e_hmac E) reply keys of None \<Rightarrow> None
     | Some (cmd, _, echoed) \<Rightarrow> if cmd = macsecCtlAck \<and> echoed = challenge then Some () else None)"

text \<open>
  While \<open>disableOverWire\<close> waits, a goroutine sends the frame again at each tick of a second; how many
  ticks pass before the wait ends is up to the environment.
\<close>

definition resendFrame :: "env \<Rightarrow> string \<Rightarrow> byte list \<Rightarrow> unit go" where
  "resendFrame E dev frame = do {
     n \<leftarrow> gets (\<lambda>s. e_Ticks E (w_hist s));
     for_each [0..<n] (\<lambda>_. drop_result (act E (CSendFrame dev frame)))
   }"

definition disableOverWire :: "env \<Rightarrow> LeafRouter \<Rightarrow> (bool \<times> err) go" where
  "disableOverWire E leaf =
    (let fail = (\<lambda>e. (False, Some e)) in
     (case lr_MACsec leaf of None \<Rightarrow> return (fail ''no MACsec association'')
      | Some cfg \<Rightarrow>
     (case deriveMACsecCtlKeys (e_hkdf E) (lr_APIToken leaf) (lm_KeyNonce cfg) of Inl e \<Rightarrow> return (fail e)
      | Inr keys \<Rightarrow>
     bindr (sysLinkInfo E (lm_Parent cfg)) fail (\<lambda>info.
     bindr (newMACsecChallenge E) fail (\<lambda>challenge.
     let frame = frameBytes (buildMACsecCtlFrame (e_hmac E) broadcastMAC (li_MAC info) macsecCtlDisable keys challenge) in
     check (act E (CSendFrame (lm_Parent cfg) frame)) fail (do {
       resendFrame E (lm_Parent cfg) frame;
       r \<leftarrow> RecvFrames E (lm_Parent cfg) (isAck E keys challenge);
       return (True, case r of Inl e \<Rightarrow> Some e | Inr _ \<Rightarrow> None)
     }))))))"

text \<open>The reply a probe waits for: its value is the sender.\<close>

definition isProbeReply :: "env \<Rightarrow> macsecCtlKeys \<Rightarrow> byte list \<Rightarrow> nat \<Rightarrow> byte list \<Rightarrow> byte list option" where
  "isProbeReply E keys challenge tot reply =
    (case parseMACsecCtlFrameSized (e_hmac E) reply keys of None \<Rightarrow> None
     | Some (cmd, s, echoed, t) \<Rightarrow>
         if cmd = macsecCtlProbeReply \<and> t = tot \<and> echoed = challenge then Some s else None)"

definition probeFrame ::
  "env \<Rightarrow> string \<Rightarrow> macsecCtlKeys \<Rightarrow> byte list \<Rightarrow> byte list \<Rightarrow> int \<Rightarrow> byte list option go" where
  "probeFrame E parent keys src dst sz =
     bindr (newMACsecChallenge E) (\<lambda>_. None) (\<lambda>challenge.
       let tot = nat (14 + sz);
           frame = frameBytes (buildMACsecCtlFrameSized (e_hmac E) dst src macsecCtlProbe keys challenge tot)
       in do {
         r \<leftarrow> Exchange E parent frame (isProbeReply E keys challenge tot);
         (case r of
            Inr from \<Rightarrow> return (Some from)
          | Inl _ \<Rightarrow> do {
              r \<leftarrow> Exchange E parent frame (isProbeReply E keys challenge tot);
              return (case r of Inr from \<Rightarrow> Some from | Inl _ \<Rightarrow> None)
            })
       })"

section \<open>The binary search\<close>

text \<open>\<open>for hi-lo > 8\<close>, over any probe.\<close>

function bisect :: "(int \<Rightarrow> bool go) \<Rightarrow> int \<Rightarrow> int \<Rightarrow> int go" where
  "bisect probe lo hi =
    (if hi - lo > 8 then do {
       ok \<leftarrow> probe ((lo + hi) div 2);
       if ok then bisect probe ((lo + hi) div 2) hi else bisect probe lo ((lo + hi) div 2)
     } else return lo)"
  by pat_completeness auto
termination
  by (relation "measure (\<lambda>(probe, lo, hi). nat (hi - lo))") auto

declare bisect.simps [simp del]

definition testUnderlayMTU :: "env \<Rightarrow> LeafRouter \<Rightarrow> int res go" where
  "testUnderlayMTU E leaf =
    (case leaf_enabled leaf of
       None \<Rightarrow> return (Inl ''encryption is not enabled for this mesh node'')
     | Some cfg \<Rightarrow>
     (case deriveMACsecCtlKeys (e_hkdf E) (lr_APIToken leaf) (lm_KeyNonce cfg) of Inl e \<Rightarrow> return (Inl e)
      | Inr keys \<Rightarrow>
     bindr (sysLinkInfo E (lm_Parent cfg)) Inl (\<lambda>info. do {
       node \<leftarrow> probeFrame E (lm_Parent cfg) keys (li_MAC info) broadcastMAC macsecEthernetMTU;
       (case node of None \<Rightarrow> return (Inl ''mesh node did not answer the MTU test'')
        | Some nodeMAC \<Rightarrow>
            let max = (if li_MTU info > meshJumboMTU then meshJumboMTU else li_MTU info);
                probe = (\<lambda>size. do {
                  r \<leftarrow> probeFrame E (lm_Parent cfg) keys (li_MAC info) nodeMAC size;
                  return (r \<noteq> None) })
            in if max \<le> macsecEthernetMTU then return (Inr macsecEthernetMTU)
               else do {
                 ok \<leftarrow> probe max;
                 if ok then return (Inr max)
                 else do { r \<leftarrow> bisect probe macsecEthernetMTU max; return (Inr r) }
               })
     })))"

end
