(* ===== verification/CtlSafety.thy ===== *)
theory CtlSafety
  imports CtlProto
begin

text \<open>
  What the control protocol guarantees: frames without the pairing key's tag change nothing, a
  switch-off clears only the pairing that signed it, answers are never larger than requests,
  both ends of an exchange agree (through the interface \<open>frame_codec\<close>), and the MTU test returns a
  size inside its bounds that a signed answer of that size confirmed.
\<close>

section \<open>The listener's keys\<close>

text \<open>\<open>ctlKeys\<close> hands out the keys in place and only ever forgets them.\<close>

lemma wp_ctlKeys:
  "wp (ctlKeys E) (\<lambda>ks t. ks = m_leafCtl t \<and> (ks = None \<or> ks = m_leafCtl s) \<and>
     hist_ext (\<lambda>c. c = CNow) s t \<and> w_cfg t = w_cfg s \<and> m_ctlOffAt t = m_ctlOffAt s \<and>
     m_leafCtlMAC t = m_leafCtlMAC s \<and> (m_ctlOffAt s = None \<longrightarrow> ks = m_leafCtl s)) s"
  by (auto simp: ctlKeys_def wp_simps hist_ext_cons hist_ext_same split: option.splits)

lemma wp_handle_none:
  assumes "\<And>keys. m_leafCtl s = Some keys \<Longrightarrow> parseMACsecCtlFrameSized (e_hmac E) frame keys = None"
  shows "wp (handleLeafCtl E wanif frame) (\<lambda>r t. r = False \<and> hist_ext (\<lambda>c. c = CNow) s t \<and>
     w_cfg t = w_cfg s \<and> m_ctlOffAt t = m_ctlOffAt s) s"
  unfolding handleLeafCtl_def wp_bind
  by (rule wp_mono [OF wp_ctlKeys]) (use assms in \<open>auto simp: wp_simps split: option.split\<close>)

text \<open>A frame that no key holder made is ignored.\<close>

lemma wp_handle_forged:
  assumes "\<And>keys. m_leafCtl s = Some keys \<Longrightarrow> \<not> tagged (e_hmac E, keys) frame"
  shows "wp (handleLeafCtl E wanif frame) (\<lambda>r t. r = False \<and> hist_ext (\<lambda>c. c = CNow) s t \<and>
     w_cfg t = w_cfg s \<and> m_ctlOffAt t = m_ctlOffAt s) s"
  by (rule wp_handle_none) (use assms ctl.untagged in \<open>auto simp: parse_msg_def\<close>)

section \<open>Switching off\<close>

text \<open>What the listener may do to the file it finds under the lock.\<close>

definition switched_off :: "env \<Rightarrow> byte list \<Rightarrow> st \<Rightarrow> st \<Rightarrow> bool" where
  "switched_off E frame s t \<longleftrightarrow> w_cfg t = w_cfg s \<or>
     (\<exists>keys src challenge tot config. m_leafCtl s = Some keys \<and> m_ctlOffAt s = None \<and>
        parseMACsecCtlFrameSized (e_hmac E) frame keys = Some (macsecCtlDisable, src, challenge, tot) \<and>
        cfg_checked (w_cfg s) = Inr config \<and> ls_Enabled (mc_LeafMACsec config) \<and>
        ls_KeyNonce (mc_LeafMACsec config) = ck_Nonce keys \<and>
        w_cfg t = CfgOk (config\<lparr>mc_LeafMACsec := noLeafSide\<rparr>))"

lemma wp_sendFrame [wp_simps]:
  "wp (sendFrame E dev f) Q s =
    (case f of None \<Rightarrow> Q () s | Some b \<Rightarrow> Q () (s\<lparr>w_hist := CSendFrame dev b # w_hist s\<rparr>))"
  by (simp add: sendFrame_def wp_simps split: option.split)

lemma wp_switchOff:
  assumes "\<And>h f. e_Race E h f = f"
  shows "wp (switchOff E keys) (\<lambda>_ t. w_cfg t = w_cfg s \<or> (\<exists>config. cfg_checked (w_cfg s) = Inr config \<and>
     ls_Enabled (mc_LeafMACsec config) \<and> ls_KeyNonce (mc_LeafMACsec config) = ck_Nonce keys \<and>
     w_cfg t = CfgOk (config\<lparr>mc_LeafMACsec := noLeafSide\<rparr>))) s"
  by (auto simp: switchOff_def wp_simps assms Let_def split: sum.split)

lemma wp_handle_off:
  assumes "\<And>h f. e_Race E h f = f"
  shows "wp (handleLeafCtl E wanif frame) (\<lambda>_ t. switched_off E frame s t) s"
proof -
  note off = wp_switchOff [OF assms]
  show ?thesis
    unfolding handleLeafCtl_def wp_bind
  proof (rule wp_mono [OF wp_ctlKeys], goal_cases)
    case (1 ks t)
    show ?case
    proof (cases ks)
      case None
      with 1 show ?thesis by (simp add: wp_simps switched_off_def)
    next
      case (Some keys)
      then have keys: "m_leafCtl s = Some keys" using 1 by auto
      have last: "wp (switchOff E keys) (\<lambda>_ t. switched_off E frame s (t\<lparr>w_hist := CKick # w_hist t\<rparr>))
          (t\<lparr>w_hist := h, m_ctlOffAt := Some n\<rparr>)"
        if "parseMACsecCtlFrameSized (e_hmac E) frame keys = Some (macsecCtlDisable, src, ch, tot)"
          "m_ctlOffAt t = None" for h n src ch tot
        by (rule wp_mono [OF off]) (use that 1 keys in \<open>auto simp: wp_simps switched_off_def\<close>)
      have same: "switched_off E frame s (t\<lparr>w_hist := h\<rparr>)" "switched_off E frame s t" for h
        using 1 by (auto simp: switched_off_def)
      show ?thesis
        using last same by (auto simp: Some wp_simps split: option.splits)
    qed
  qed
qed

section \<open>No amplification\<close>

lemma build_length:
  "hmac_ok H \<Longrightarrow> length (ck_CKN keys) = 16 \<Longrightarrow> length ch = 16 \<Longrightarrow>
    buildMACsecCtlFrameSized H dst src cmd keys ch tot = Some f \<Longrightarrow> length f = max tot 89"
  by (auto simp: buildMACsecCtlFrameSized_def Let_def ctl_head_length hmac_ok_def macsecCtlTag_def
      macsecCtlMACLen_def max_def split: if_splits)

definition small_send :: "string \<Rightarrow> nat \<Rightarrow> sysCall \<Rightarrow> bool" where
  "small_send wanif n c \<longleftrightarrow> (\<forall>d f. c = CSendFrame d f \<longrightarrow> d = wanif \<and> length f \<le> n)"

lemma emits_switchOff: "emits (small_send wanif n) (switchOff E keys)"
  unfolding switchOff_def by (intro emits_rules frame) (simp add: small_send_def)

lemma emits_ctlKeys: "emits (small_send wanif n) (ctlKeys E)"
  unfolding ctlKeys_def by (auto simp: small_send_def intro!: emits_rules frame)

lemma emits_send: "(\<And>b. f = Some b \<Longrightarrow> length b \<le> n) \<Longrightarrow> emits (small_send d n) (sendFrame E d f)"
  unfolding sendFrame_def by (auto simp: small_send_def intro!: emits_rules frame)

lemma handle_sends:
  assumes H: "hmac_ok (e_hmac E)"
  shows "emits (small_send wanif (length frame)) (handleLeafCtl E wanif frame)"
proof -
  have b: "length g \<le> length frame"
    if "parseMACsecCtlFrameSized (e_hmac E) frame keys = Some (cmd, src, ch, tot)"
      "buildMACsecCtlFrameSized (e_hmac E) src mac c keys ch n = Some g" "n = tot \<or> n = 89"
    for keys cmd src ch tot mac c n g
    using build_length [OF H _ _ that(2)] parse_accepts [OF that(1)] that(3) by auto
  show ?thesis
    unfolding handleLeafCtl_def
    by (intro emits_rules emits_ctlKeys emits_switchOff emits_send frame)
      (auto simp: small_send_def buildMACsecCtlFrame_def intro: b)
qed

section \<open>Both ends agree\<close>

text \<open>
  The main router's switch-off frame, delivered to the leaf it is paired with: the leaf's
  acknowledgement is one the main router accepts.
\<close>

lemma disable_acked:
  assumes k: "key_ok (e_hmac E, keys)" and l: "length src = 6" "length own = 6" "length ch = 16"
  obtains f g where "buildMACsecCtlFrame (e_hmac E) broadcastMAC src macsecCtlDisable keys ch = Some f"
    "parseMACsecCtlFrameSized (e_hmac E) f keys = Some (macsecCtlDisable, src, ch, 89)"
    "buildMACsecCtlFrame (e_hmac E) src own macsecCtlAck keys ch = Some g"
    "isAck E keys ch g = Some ()"
proof -
  let ?m = "\<lparr>cm_dst = broadcastMAC, cm_src = src, cm_cmd = macsecCtlDisable, cm_challenge = ch, cm_total = 89\<rparr>"
  have m: "msg_ok ?m" using l by (simp add: msg_ok_def broadcastMAC_def)
  obtain f g where "build_msg (e_hmac E, keys) ?m = Some f"
    "build_msg (e_hmac E, keys) (reply_to own macsecCtlAck (cm_cmd ?m, cm_src ?m, cm_challenge ?m, cm_total ?m)) = Some g"
    "parse_msg (e_hmac E, keys) f = Some (cm_cmd ?m, cm_src ?m, cm_challenge ?m, cm_total ?m)"
    "parse_msg (e_hmac E, keys) g = Some (macsecCtlAck, own, cm_challenge ?m, cm_total ?m)"
    by (rule ctl.exchange [OF k m l(2)])
  then show ?thesis
    by (intro that [of f g])
      (simp_all add: build_msg_def parse_msg_def reply_to_def buildMACsecCtlFrame_def isAck_def
        parseMACsecCtlFrame_def)
qed

lemma wp_handle_disable:
  assumes "parseMACsecCtlFrameSized (e_hmac E) f keys = Some (macsecCtlDisable, src, ch, tot)"
    and "buildMACsecCtlFrame (e_hmac E) src (m_leafCtlMAC s) macsecCtlAck keys ch = Some g"
    and "m_leafCtl s = Some keys" "m_ctlOffAt s = None" "cfg_checked (w_cfg s) = Inr config"
    and "\<And>h. e_Race E h (w_cfg s) = w_cfg s" "\<And>h. e_Err E h CSaveConfig = None"
    and "ls_Enabled (mc_LeafMACsec config)" "ls_KeyNonce (mc_LeafMACsec config) = ck_Nonce keys"
  shows "wp (handleLeafCtl E wanif f) (\<lambda>_ t. w_cfg t = CfgOk (config\<lparr>mc_LeafMACsec := noLeafSide\<rparr>) \<and>
    CSendFrame wanif g \<in> set (w_hist t)) s"
  using assms by (simp add: handleLeafCtl_def ctlKeys_def switchOff_def wp_simps macsecCtlDisable_def macsecCtlProbe_def)

section \<open>The MTU test\<close>

text \<open>The search stays between its bounds, whatever the probe answers.\<close>

lemma wp_bisect_bounds: "lo < hi \<Longrightarrow> wp (bisect probe lo hi) (\<lambda>r _. lo \<le> r \<and> r < hi) s"
proof (induction probe lo hi arbitrary: s rule: bisect.induct)
  case (1 probe lo hi)
  show ?case
  proof (cases "hi - lo > 8")
    case True
    have "wp (if ok then bisect probe ((lo + hi) div 2) hi else bisect probe lo ((lo + hi) div 2))
        (\<lambda>r _. lo \<le> r \<and> r < hi) t" for ok t
      using True
      by (cases ok) (auto intro!: wp_mono [OF 1(1) [OF True]] wp_mono [OF 1(2) [OF True]])
    then show ?thesis
      using True by (subst bisect.simps) (auto intro: wp_skip)
  next
    case False
    with 1(3) show ?thesis by (subst bisect.simps) (simp add: wp_simps)
  qed
qed

text \<open>Against a path that carries exactly the sizes up to a limit, it is at most 7 bytes short.\<close>

lemma wp_bisect_limit:
  assumes "\<And>n s. wp (probe n) (\<lambda>ok _. ok \<longleftrightarrow> n \<le> limit) s" "lo \<le> limit" "limit < hi"
  shows "wp (bisect probe lo hi) (\<lambda>r _. r \<le> limit \<and> limit < r + 8) s"
  using assms
proof (induction probe lo hi arbitrary: s rule: bisect.induct)
  case (1 probe lo hi)
  show ?case
  proof (cases "hi - lo > 8")
    case True
    have "wp (if ok then bisect probe ((lo + hi) div 2) hi else bisect probe lo ((lo + hi) div 2))
        (\<lambda>r _. r \<le> limit \<and> limit < r + 8) t" if "ok \<longleftrightarrow> (lo + hi) div 2 \<le> limit" for ok t
      using that 1 True by (cases ok) auto
    then show ?thesis
      using True unfolding bisect.simps [of probe lo hi]
      by (auto simp: wp_bind intro: wp_mono [OF 1(3)])
  next
    case False
    with 1(4,5) show ?thesis by (subst bisect.simps) (simp add: wp_simps)
  qed
qed

text \<open>A signed answer of exactly the probed size, received on the parent.\<close>

definition answered :: "env \<Rightarrow> string \<Rightarrow> macsecCtlKeys \<Rightarrow> int \<Rightarrow> hist \<Rightarrow> bool" where
  "answered E parent keys sz h \<longleftrightarrow> (\<exists>h' f from challenge. grows h' h \<and> f \<in> set (fst (e_Frames E h' parent)) \<and>
     parseMACsecCtlFrameSized (e_hmac E) f keys = Some (macsecCtlProbeReply, from, challenge, nat (14 + sz)))"

lemma answered_mono: "answered E p k n h \<Longrightarrow> grows h h' \<Longrightarrow> answered E p k n h'"
  unfolding answered_def using grows_trans by blast

lemma accepted_Inr: "accepted handle r = Inr x \<Longrightarrow> \<exists>f \<in> set (fst r). handle f = Some x"
  unfolding accepted_def
  by (induction "fst r" arbitrary: r) (auto simp: map_filter_simps split: option.splits list.splits)

lemma isProbeReply_Some:
  "isProbeReply E keys ch n f = Some mac \<longleftrightarrow>
    parseMACsecCtlFrameSized (e_hmac E) f keys = Some (macsecCtlProbeReply, mac, ch, n)"
  by (auto simp: isProbeReply_def split: option.splits if_splits)

lemma wp_probeFrame:
  "wp (probeFrame E parent keys src dst sz) (\<lambda>r t. grows (w_hist s) (w_hist t) \<and>
     (r \<noteq> None \<longrightarrow> answered E parent keys sz (w_hist t))) s"
proof -
  have reply: "answered E parent keys sz h"
    if "accepted (isProbeReply E keys ch (nat (14 + sz))) (e_Frames E h parent) = Inr mac"
    for ch h mac
    using accepted_Inr [OF that] grows_refl unfolding isProbeReply_Some answered_def by blast
  show ?thesis
    by (auto simp: probeFrame_def newMACsecChallenge_def Exchange_def wp_simps Let_def grows_cons_r
        dest: reply split: sum.splits)
qed

lemma wp_bisect_answered:
  assumes "\<And>n s. wp (probe n) (\<lambda>ok t. grows (w_hist s) (w_hist t) \<and>
      (ok \<longrightarrow> answered E parent keys n (w_hist t))) s"
    and "answered E parent keys lo (w_hist s)"
  shows "wp (bisect probe lo hi) (\<lambda>r t. answered E parent keys r (w_hist t)) s"
  using assms
proof (induction probe lo hi arbitrary: s rule: bisect.induct)
  case (1 probe lo hi)
  show ?case
  proof (cases "hi - lo > 8")
    case True
    have "wp (if ok then bisect probe ((lo + hi) div 2) hi else bisect probe lo ((lo + hi) div 2))
        (\<lambda>r t. answered E parent keys r (w_hist t)) t"
      if "grows (w_hist s) (w_hist t)" "ok \<longrightarrow> answered E parent keys ((lo + hi) div 2) (w_hist t)" for ok and t :: st
      using that 1(1,2) [OF True] 1(3,4) answered_mono by (cases ok) auto
    then show ?thesis
      using True unfolding bisect.simps [of probe lo hi]
      by (auto simp: wp_bind intro: wp_mono [OF 1(3)])
  next
    case False
    with 1(4) show ?thesis by (subst bisect.simps) (simp add: wp_simps)
  qed
qed

text \<open>
  The result of the MTU test: between 1500 and the smaller of the interface's MTU and 9000 (or
  exactly 1500), and confirmed by a signed answer of that very size.
\<close>

lemma wp_testUnderlayMTU:
  "wp (testUnderlayMTU E leaf) (\<lambda>r t. \<forall>mtu. r = Inr mtu \<longrightarrow>
     macsecEthernetMTU \<le> mtu \<and> mtu \<le> meshJumboMTU \<and>
     (\<exists>cfg keys. leaf_enabled leaf = Some cfg \<and>
        deriveMACsecCtlKeys (e_hkdf E) (lr_APIToken leaf) (lm_KeyNonce cfg) = Inr keys \<and>
        answered E (lm_Parent cfg) keys mtu (w_hist t))) s"
proof (cases "leaf_enabled leaf")
  case None
  then show ?thesis by (simp add: testUnderlayMTU_def wp_simps)
next
  case (Some cfg)
  show ?thesis
  proof (cases "deriveMACsecCtlKeys (e_hkdf E) (lr_APIToken leaf) (lm_KeyNonce cfg)")
    case (Inl e)
    then show ?thesis by (simp add: testUnderlayMTU_def Some wp_simps)
  next
    case (Inr keys)
    let ?p = "lm_Parent cfg"
    let ?ans = "answered E ?p keys"
    define Q where "Q r t \<longleftrightarrow> (\<forall>mtu. r = Inr mtu \<longrightarrow> macsecEthernetMTU \<le> mtu \<and> mtu \<le> meshJumboMTU \<and> ?ans mtu (w_hist t))"
      for r :: "int res" and t :: st
    define probe where "probe mac dst n = do {
        r \<leftarrow> probeFrame E ?p keys mac dst n; return (r \<noteq> None) }" for mac dst n
    have probe: "wp (probe mac dst n) (\<lambda>ok t. grows (w_hist u) (w_hist t) \<and> (ok \<longrightarrow> ?ans n (w_hist t))) u"
      for mac dst n u
      unfolding probe_def wp_bind wp_return by (rule wp_mono [OF wp_probeFrame]) auto
    have search: "wp (bisect (probe mac dst) macsecEthernetMTU hi) (\<lambda>r t. Q (Inr r) t) u"
      if "?ans macsecEthernetMTU (w_hist u)" "macsecEthernetMTU < hi" "hi \<le> meshJumboMTU" for mac dst hi u
    proof -
      have "wp (bisect (probe mac dst) macsecEthernetMTU hi) (\<lambda>r t. ?ans r (w_hist t) \<and>
          macsecEthernetMTU \<le> r \<and> r < hi) u"
        unfolding wp_conj [of _ "\<lambda>r t. ?ans r (w_hist t)"]
        using that by (intro conjI wp_bisect_answered [OF probe] wp_bisect_bounds)
      then show ?thesis by (rule wp_mono) (use that in \<open>auto simp: Q_def\<close>)
    qed
    have tail: "wp (if hi \<le> macsecEthernetMTU then return (Inr macsecEthernetMTU)
        else do { ok \<leftarrow> probe mac dst hi;
          if ok then return (Inr hi)
          else do { r \<leftarrow> bisect (probe mac dst) macsecEthernetMTU hi; return (Inr r) } }) Q u"
      if a: "?ans macsecEthernetMTU (w_hist u)" "hi \<le> meshJumboMTU" for mac dst hi and u :: st
    proof (cases "hi \<le> macsecEthernetMTU")
      case True
      with a show ?thesis by (simp add: wp_simps Q_def mtu_consts)
    next
      case False
      have "wp (if ok then return (Inr hi)
          else do { r \<leftarrow> bisect (probe mac dst) macsecEthernetMTU hi; return (Inr r) }) Q t"
        if "grows (w_hist u) (w_hist t) \<and> (ok \<longrightarrow> ?ans hi (w_hist t))" for ok and t :: st
        using that a False search [OF answered_mono [OF a(1)]]
        by (cases ok) (simp_all add: wp_simps Q_def)
      then show ?thesis
        using False by (simp add: wp_bind wp_mono [OF probe])
    qed
    have "wp (testUnderlayMTU E leaf) Q s"
      unfolding testUnderlayMTU_def Some option.case Inr sum.case Let_def probe_def [symmetric]
    proof (simp only: wp_bindr wp_sys, cases "e_LinkInfo E (w_hist s) ?p", goal_cases)
      case (1 e)
      then show ?case by (simp add: Q_def)
    next
      case (2 info)
      show ?case
        unfolding 2 sum.case wp_bind [of "probeFrame E p k m d n" for p k m d n]
      proof (rule wp_mono [OF wp_probeFrame], goal_cases)
        case (1 r t)
        show ?case
        proof (cases r)
          case None
          then show ?thesis by (simp add: wp_return Q_def)
        next
          case (Some mac)
          with 1 show ?thesis
            by (simp only: Some option.case) (rule tail; simp)
        qed
      qed
    qed
    then show ?thesis
      by (rule wp_mono) (auto simp: Q_def Some Inr)
  qed
qed

section \<open>How long the test may take\<close>

text \<open>
  The exchanges of a history. A probe makes at most two, and halving an interval of at most
  \<open>8 * 2 ^ n\<close> takes at most \<open>n\<close> probes.
\<close>

definition exchanges :: "hist \<Rightarrow> nat" where
  "exchanges h = length (filter (\<lambda>c. case c of CExchange d f \<Rightarrow> True | _ \<Rightarrow> False) h)"

lemma wp_probe_exchanges:
  "wp (probeFrame E parent keys src dst sz) (\<lambda>_ t. exchanges (w_hist t) \<le> exchanges (w_hist s) + 2) s"
  by (auto simp: probeFrame_def newMACsecChallenge_def Exchange_def wp_simps Let_def exchanges_def split: sum.split)

lemma wp_bisect_count:
  assumes "\<And>n s. wp (probe n) (\<lambda>_ t. cnt t \<le> cnt s + k) s" "hi - lo \<le> 8 * 2 ^ n"
  shows "wp (bisect probe lo hi) (\<lambda>_ t. cnt t \<le> cnt s + k * n) s"
  using assms
proof (induction n arbitrary: lo hi s)
  case 0
  then show ?case by (subst bisect.simps) (simp add: wp_simps)
next
  case (Suc n)
  have half: "hi - (lo + hi) div 2 \<le> 8 * 2 ^ n" "(lo + hi) div 2 - lo \<le> 8 * 2 ^ n"
    using Suc.prems(2) by auto
  have rest: "wp (bisect probe l h) (\<lambda>_ u. cnt u \<le> cnt s + k * Suc n) t"
    if "h - l \<le> 8 * 2 ^ n" "cnt t \<le> cnt s + k" for l h t
    by (rule wp_mono [OF Suc.IH [OF Suc.prems(1) that(1)]]) (use that(2) in simp)
  show ?case
    by (subst bisect.simps)
      (use half rest in \<open>auto simp: wp_simps intro!: wp_mono [OF Suc.prems(1)]\<close>)
qed

lemma wp_testUnderlay_exchanges:
  "wp (testUnderlayMTU E leaf) (\<lambda>_ t. exchanges (w_hist t) \<le> exchanges (w_hist s) + 24) s"
proof -
  let ?n = "exchanges (w_hist s)"
  define probe where "probe p keys mac dst n = do {
      r \<leftarrow> probeFrame E p keys mac dst n; return (r \<noteq> None) }" for p keys mac dst n
  have probe: "wp (probe p keys mac dst n) (\<lambda>_ t. exchanges (w_hist t) \<le> exchanges (w_hist u) + 2) u"
    for p keys mac dst n u
    unfolding probe_def wp_bind wp_return by (rule wp_probe_exchanges)
  have search: "wp (bisect (probe p keys mac dst) macsecEthernetMTU hi) (\<lambda>_ t. exchanges (w_hist t) \<le> ?n + 24) u"
    if "hi \<le> meshJumboMTU" "exchanges (w_hist u) \<le> ?n + 4" for p keys mac dst hi u
    by (rule wp_mono [OF wp_bisect_count [where n = 10, OF probe]])
      (use that in \<open>simp_all add: meshJumboMTU_def macsecEthernetMTU_def\<close>)
  have tail: "wp (probe p keys mac dst hi) (\<lambda>ok. wp (if ok then return (Inr hi)
        else do { r \<leftarrow> bisect (probe p keys mac dst) macsecEthernetMTU hi; return (Inr r) })
      (\<lambda>_ t. exchanges (w_hist t) \<le> ?n + 24)) u"
    if "hi \<le> meshJumboMTU" "exchanges (w_hist u) \<le> Suc (Suc ?n)" for p keys mac dst hi u
    by (rule wp_mono [OF probe]) (use that in \<open>auto simp: wp_return wp_bind intro!: search\<close>)
  have cons: "exchanges (CLinkInfo p # h) = exchanges h" for p h by (simp add: exchanges_def)
  show ?thesis
    unfolding testUnderlayMTU_def Let_def probe_def [symmetric]
    by (auto simp: wp_bindr wp_sys wp_return wp_bind wp_prod cons split: option.split sum.split
        intro!: wp_mono [OF wp_probe_exchanges] tail)
qed

end
