(* ===== verification/Probe.thy ===== *)
theory Probe
  imports Footprint
begin

text \<open>
  The tests for kernel and tool support of \<open>execMACsecSys\<close> (\<open>Probe\<close> in \<open>macsec_runtime.go\<close>, \<open>ProbeWG\<close>
  in \<open>backhaul_wg.go\<close>): each creates throw-away interfaces and removes them again.
\<close>

definition macsecProbeParent :: string where "macsecProbeParent = ''sprmsprobe''"
definition macsecProbeLink :: string where "macsecProbeLink = ''sprmsprobe0''"
definition wgProbeLink :: string where "wgProbeLink = ''sprwgprobe''"
definition vxProbeLink :: string where "vxProbeLink = ''sprvxprobe''"

text \<open>\<open>bytes.Contains\<close>.\<close>

definition contains :: "string \<Rightarrow> string \<Rightarrow> bool" where
  "contains s p = list_ex (\<lambda>i. has_prefix (drop i s) p) [0..<Suc (length s)]"

definition runQuiet :: "env \<Rightarrow> string \<Rightarrow> string list \<Rightarrow> err go" where
  "runQuiet E name args = do {
     e \<leftarrow> act E (CCmd name args);
     return (map_option (\<lambda>e. name @ '' '' @ join '' '' args @ '': '' @ e) e)
   }"

definition delLink :: "env \<Rightarrow> string \<Rightarrow> unit go" where
  "delLink E name = drop_result (act E (CCmd ''ip'' [''link'', ''del'', ''dev'', name]))"

definition Probe :: "env \<Rightarrow> err go" where
  "Probe E = do {
     help \<leftarrow> ask CHelp (e_Help E);
     if \<not> contains help ''macsec_linux''
     then return (Some ''wpa_supplicant with the macsec_linux driver is not installed'')
     else do {
       delLink E macsecProbeParent;
       check (runQuiet E ''ip'' [''link'', ''add'', ''name'', macsecProbeParent, ''type'', ''dummy'']) (\<lambda>e. Some (''probe: '' @ e))
       (do {
         e \<leftarrow> runQuiet E ''ip'' [''link'', ''add'', ''link'', macsecProbeParent, ''name'', macsecProbeLink, ''type'', ''macsec''];
         delLink E macsecProbeParent;
         return (map_option (\<lambda>_. ''kernel MACsec support (macsec module) is unavailable'') e)
       })
     }
   }"

definition ProbeWG :: "env \<Rightarrow> err go" where
  "ProbeWG E =
     check (act E (CLookPath ''wg'')) (\<lambda>_. Some ''wireguard-tools is not installed'')
     (do {
       delLink E wgProbeLink;
       check (runQuiet E ''ip'' [''link'', ''add'', wgProbeLink, ''type'', ''wireguard''])
         (\<lambda>_. Some ''kernel WireGuard support is unavailable'')
       (do {
         delLink E wgProbeLink;
         delLink E vxProbeLink;
         check (runQuiet E ''ip'' [''link'', ''add'', vxProbeLink, ''type'', ''vxlan'', ''id'', ''4094'', ''dstport'',
             itoa meshVXLANPort, ''local'', ''127.0.0.1'']) (\<lambda>_. Some ''kernel VXLAN support is unavailable'')
         (do {
           delLink E vxProbeLink;
           return None
         })
       })
     })"

section \<open>Nothing is left behind\<close>

text \<open>
  The interfaces that exist after a history, when a command that reports success does what it
  says: a name is there when its last successful addition is not followed by its removal.
\<close>

definition adds_link :: "string \<Rightarrow> sysCall \<Rightarrow> bool" where
  "adds_link n c \<longleftrightarrow> (\<exists>args. c = CCmd ''ip'' (''link'' # ''add'' # args) \<and> n \<in> set args)"

definition dels_link :: "string \<Rightarrow> sysCall \<Rightarrow> bool" where
  "dels_link n c \<longleftrightarrow> c = CCmd ''ip'' [''link'', ''del'', ''dev'', n]"

lemma link_calls [simp]:
  "adds_link n (CCmd ''ip'' (''link'' # ''add'' # args)) \<longleftrightarrow> n \<in> set args"
  "\<not> adds_link n (CCmd ''ip'' (''link'' # ''del'' # args))"
  "dels_link n (CCmd ''ip'' [''link'', ''del'', ''dev'', m]) \<longleftrightarrow> m = n"
  "\<not> dels_link n (CCmd ''ip'' (''link'' # ''add'' # args))"
  "\<not> adds_link n CHelp" "\<not> dels_link n CHelp" "\<not> adds_link n (CLookPath p)" "\<not> dels_link n (CLookPath p)"
  by (auto simp: adds_link_def dels_link_def)

fun left_over :: "env \<Rightarrow> string \<Rightarrow> hist \<Rightarrow> bool" where
  "left_over E n [] = False"
| "left_over E n (c # h) =
    (if dels_link n c then False
     else if adds_link n c \<and> e_Err E h c = None then True
     else left_over E n h)"

definition gone :: "env \<Rightarrow> string \<Rightarrow> st \<Rightarrow> bool" where
  "gone E n s \<longleftrightarrow> \<not> left_over E n (w_hist s)"

lemma wp_delLink_gone: "gone E n s \<or> m = n \<Longrightarrow> wp (delLink E m) (\<lambda>_. gone E n) s"
  by (auto simp: delLink_def wp_simps gone_def)

lemma wp_addLink_gone:
  "gone E n s \<Longrightarrow> wp (runQuiet E ''ip'' (''link'' # ''add'' # args))
    (\<lambda>e t. e \<noteq> None \<or> n \<notin> set args \<longrightarrow> gone E n t) s"
  by (auto simp: runQuiet_def wp_simps gone_def)

lemma wp_ask_gone: "gone E n s \<Longrightarrow> \<not> adds_link n c \<Longrightarrow> wp (ask c f) (\<lambda>_. gone E n) s"
  by (simp add: wp_ask gone_def)

lemma wg_not_vxlan: "wgProbeLink \<notin> set [vxProbeLink, ''type'', ''vxlan'', ''id'', ''4094'', ''dstport'',
    itoa meshVXLANPort, ''local'', ''127.0.0.1'']"
  and vx_not_wg: "vxProbeLink \<notin> set [wgProbeLink, ''type'', ''wireguard'']"
  by (simp_all add: wgProbeLink_def vxProbeLink_def meshVXLANPort_def itoa_def dec_nat.simps digit_def)

lemma wp_Probe_clean:
  assumes "gone E macsecProbeParent s"
  shows "wp (Probe E) (\<lambda>_. gone E macsecProbeParent) s"
proof -
  note del = wp_delLink_gone [where n = macsecProbeParent]
    and add = wp_addLink_gone [where n = macsecProbeParent]
  have last: "wp (do { e \<leftarrow> m; delLink E macsecProbeParent; return (k e) }) (\<lambda>_. gone E macsecProbeParent) t"
    for t and m :: "err go" and k :: "err \<Rightarrow> err"
    by (rule wp_skip) (auto simp: wp_bind wp_return intro!: wp_mono [OF del])
  show ?thesis
    unfolding Probe_def wp_bind [of "ask c f" for c f] wp_if wp_bind [of "delLink E m" for m] wp_check
    by (rule wp_mono [OF wp_ask_gone [OF assms]], simp)
      (auto simp: wp_return split: option.split intro!: last wp_mono [OF del] wp_mono [OF add])
qed

lemma wp_ProbeWG_clean:
  assumes "n = wgProbeLink \<or> n = vxProbeLink" "gone E n s"
  shows "wp (ProbeWG E) (\<lambda>_. gone E n) s"
proof -
  note del = wp_delLink_gone [where n = n] and add = wp_addLink_gone [where n = n]
  show ?thesis
    unfolding ProbeWG_def wp_bind wp_check act_def
    by (rule wp_mono [OF wp_ask_gone [OF assms(2)]], simp)
      (use assms(1) wg_not_vxlan vx_not_wg in \<open>auto simp del: set_simps simp: wp_return wp_bind wp_check
        split: option.split intro!: wp_mono [OF del] wp_mono [OF add]\<close>)
qed

lemma emits_Probe [frame]:
  assumes "P CHelp" "P (CLookPath ''wg'')" "\<And>args. P (CCmd ''ip'' args)"
  shows "emits P (Probe E)" "emits P (ProbeWG E)"
  unfolding Probe_def ProbeWG_def runQuiet_def delLink_def by (intro emits_rules frame assms)+

lemma keeps_Probe [frame]:
  assumes "\<And>s h. f (s\<lparr>w_hist := h\<rparr>) = f s"
  shows "keeps f (Probe E)" "keeps f (ProbeWG E)"
  unfolding Probe_def ProbeWG_def runQuiet_def delLink_def by (intro keeps_rules frame assms)+

end
