(* ===== verification/Api.thy ===== *)
theory Api
  imports CtlSafety Probe
begin

text \<open>
  \<open>macsec_api.go\<close>: how a link is switched on, changed and switched off. The main router prepares a
  pairing, asks the leaf (\<open>macsecPeer\<close> is the leaf's handler of that request) and only then
  stores it, after reading the configuration again. A handler's result is an HTTP status with an
  error; decoding the request body and the TLS connection are outside the model, the leaf's
  answer to a request (status and body) is the parameter \<open>e_CallLeaf\<close>.
\<close>

section \<open>Helpers\<close>

definition macsecProtocolVersion :: int where "macsecProtocolVersion = 1"

definition httpStatusOK :: int where "httpStatusOK = 200"

text \<open>\<open>callLeafMACsecPeer\<close>: \<open>e_CallLeaf\<close> is the status and body of the request, \<open>e_peerReply\<close> the decoder.\<close>

definition macsecCallLeaf :: "env \<Rightarrow> LeafRouter \<Rightarrow> macsecPeerRequest \<Rightarrow> macsecPeerResponse res go" where
  "macsecCallLeaf E leaf request =
    (case e_parseIP E (lr_IP leaf) of
       None \<Rightarrow> return (Inl ''invalid leaf ip'')
     | Some _ \<Rightarrow>
         if lr_TLSCA leaf = [] then return (Inl ''leaf TLS CA unknown'')
         else bindr (ask (CCallLeaf (lr_IP leaf) request) (\<lambda>h. e_CallLeaf E h leaf request))
           (\<lambda>e. Inl (''leaf '' @ lr_IP leaf @ '' unreachable: '' @ e)) (\<lambda>r.
             let data = take 65536 (snd r);
                 mode = (case lr_MACsec leaf of None \<Rightarrow> rq_Mode request
                   | Some m \<Rightarrow> if \<not> rq_Enable request then lm_Mode m else rq_Mode request)
             in return (if fst r \<noteq> httpStatusOK
               then Inl (''leaf '' @ lr_IP leaf @ '' refused '' @ backhaulLabel mode @ '' change: '' @
                 itoa (fst r) @ '' '' @ trim_space data)
               else (case e_peerReply E data of
                   None \<Rightarrow> Inl (''leaf '' @ lr_IP leaf @ '' sent an invalid '' @ backhaulLabel mode @ '' reply'')
                 | Some response \<Rightarrow> Inr response))))"

fun findLeafByIP :: "LeafRouter list \<Rightarrow> string \<Rightarrow> nat option" where
  "findLeafByIP [] ip = None"
| "findLeafByIP (leaf # leaves) ip =
    (if lr_IP leaf = ip then Some 0 else map_option Suc (findLeafByIP leaves ip))"

definition sameLeaf :: "LeafRouter \<Rightarrow> LeafRouter \<Rightarrow> bool" where
  "sameLeaf a b = (lr_IP a = lr_IP b \<and> lr_APIToken a = lr_APIToken b)"

definition newMACsecNonce :: "env \<Rightarrow> string res go" where
  "newMACsecNonce E =
     bindr (ask (CRand macsecNonceLen) (\<lambda>h. e_Rand E h macsecNonceLen)) Inl (\<lambda>raw. return (Inr (hex_encode raw)))"

definition lockedConfig :: "env \<Rightarrow> MeshConfig go" where
  "lockedConfig E = do { lockConfig E; loadConfigLocked }"

section \<open>Switching a link on, from the main router\<close>

definition checkParent :: "env \<Rightarrow> string \<Rightarrow> string res go" where
  "checkParent E parent =
    (if \<not> valid_iface parent then return (Inl (''invalid parent interface '' @ quote parent))
     else if parent = e_Getenv E ''WANIF'' \<or> parent = BRIDGE_IFACE \<or> parent = ''lo''
     then return (Inl (''Invalid '' @ parent @ '' for mesh''))
     else do {
       links \<leftarrow> sysLinks E;
       return (case links of
           Inl _ \<Rightarrow> Inr parent
         | Inr ls \<Rightarrow> if list_ex (\<lambda>l. ml_Name l = parent) ls
             then Inl (parent @ '' is already an '' @ backhaulLabel backhaulMACsec @ '' interface'')
             else Inr parent)
     })"

definition macsecParentFor :: "env \<Rightarrow> LeafRouter \<Rightarrow> string \<Rightarrow> string res go" where
  "macsecParentFor E leaf requested =
    (let parent = (if requested = [] then (case lr_MACsec leaf of None \<Rightarrow> [] | Some m \<Rightarrow> lm_Parent m)
       else requested) in
     if parent = [] then
       bindr (ask (CRouteDev (lr_IP leaf)) (\<lambda>h. e_RouteDev E h (lr_IP leaf)))
         (\<lambda>_. Inl ''could not determine the interface facing the leaf; pass Parent'') (checkParent E)
     else checkParent E parent)"

text \<open>The association that is kept when the same mode is asked for again.\<close>

definition sameAssociation :: "LeafRouter \<Rightarrow> string \<Rightarrow> LeafMACsec option" where
  "sameAssociation leaf mode =
    (case lr_MACsec leaf of
       Some m \<Rightarrow> if lm_Enabled m \<and> lm_KeyNonce m \<noteq> [] \<and> storedMode (lm_Mode m) = mode then Some m else None
     | None \<Rightarrow> None)"

definition keyNonceFor :: "env \<Rightarrow> LeafRouter \<Rightarrow> string \<Rightarrow> string res go" where
  "keyNonceFor E leaf mode =
    (case sameAssociation leaf mode of Some m \<Rightarrow> return (Inr (lm_KeyNonce m)) | None \<Rightarrow> newMACsecNonce E)"

definition portFor :: "LeafRouter \<Rightarrow> LeafRouter list \<Rightarrow> int res" where
  "portFor leaf leaves =
    (case lr_MACsec leaf of
       Some m \<Rightarrow> if validMACsecPort (lm_Port m) \<and> lm_Port m \<ge> macsecMainPortFirst then Inr (lm_Port m)
                 else allocateMACsecPort leaves
     | None \<Rightarrow> allocateMACsecPort leaves)"

definition wasJumbo :: "LeafRouter \<Rightarrow> bool" where
  "wasJumbo leaf = (case lr_MACsec leaf of Some m \<Rightarrow> lm_Enabled m \<and> lm_Jumbo m | None \<Rightarrow> False)"

definition localMTUFor :: "LeafRouter \<Rightarrow> int \<Rightarrow> linkInfo \<Rightarrow> int" where
  "localMTUFor leaf requestedMTU info =
    (let mtu = (if wasJumbo leaf then parentCapableMTU info else macsecCapableMTU macsecEthernetMTU)
     in if requestedMTU \<noteq> 0 \<and> requestedMTU < mtu then requestedMTU else mtu)"

text \<open>What the leaf answered, turned into the pairing to store.\<close>

definition acceptReply :: "env \<Rightarrow> string \<Rightarrow> int \<Rightarrow> LeafMACsec \<Rightarrow> macsecPeerResponse \<Rightarrow> LeafMACsec res" where
  "acceptReply E mode localMTU nxt reply =
    (if rp_Version reply \<noteq> macsecProtocolVersion then
       Inl (''leaf speaks '' @ backhaulLabel mode @ '' protocol '' @ itoa (rp_Version reply) @ '', need '' @
         itoa macsecProtocolVersion @ ''; update the leaf'')
     else case parse_mac (rp_BridgeMAC reply) of
       None \<Rightarrow> Inl ''leaf sent an invalid bridge MAC''
     | Some mac \<Rightarrow>
         if length mac \<noteq> 6 then Inl ''leaf sent an invalid bridge MAC''
         else let nxt = nxt\<lparr>lm_LeafMAC := mac_string mac\<rparr> in
           if mode = backhaulWireGuard then
             (case parseWGKey E (rp_LeafPublicKey reply) of
                Inl _ \<Rightarrow> Inl ''leaf sent an invalid WireGuard key''
              | Inr _ \<Rightarrow> Inr (nxt\<lparr>lm_LeafPublicKey := rp_LeafPublicKey reply,
                  lm_LinkMTU := wgInnerMTU (meshUnderlay (lm_Jumbo nxt) (lm_UnderlayMTU nxt))\<rparr>))
           else
             (case macsecLinkMTU localMTU (rp_MaxMTU reply) of
                Inl e \<Rightarrow> Inl e | Inr mtu \<Rightarrow> Inr (nxt\<lparr>lm_LinkMTU := mtu\<rparr>)))"

definition peerRequestFor :: "LeafRouter \<Rightarrow> LeafMACsec \<Rightarrow> int \<Rightarrow> macsecPeerRequest" where
  "peerRequestFor leaf nxt localMTU = noPeerRequest\<lparr>rq_Token := lr_APIToken leaf, rq_Enable := True,
     rq_KeyNonce := lm_KeyNonce nxt, rq_PeerMTU := localMTU, rq_Mode := lm_Mode nxt, rq_Jumbo := lm_Jumbo nxt\<rparr>"

definition wgRequest :: "macsecPeerRequest \<Rightarrow> LeafMACsec \<Rightarrow> string \<Rightarrow> macsecPeerRequest" where
  "wgRequest request nxt pub = request\<lparr>rq_PeerMTU := 0, rq_Port := lm_Port nxt,
     rq_UnderlayMTU := lm_UnderlayMTU nxt, rq_MainPublicKey := pub\<rparr>"

text \<open>The last part of \<open>enableLeafMACsec\<close>: the request, the leaf's answer, the pairing.\<close>

definition askLeaf :: "env \<Rightarrow> LeafRouter \<Rightarrow> string \<Rightarrow> int \<Rightarrow> LeafMACsec \<Rightarrow> LeafMACsec res go" where
  "askLeaf E leaf mode localMTU nxt =
    (let request = peerRequestFor leaf nxt localMTU in
     bindr (if mode = backhaulWireGuard
            then bindr (loadOrCreateWGKey E) Inl (\<lambda>pub. return (Inr (wgRequest request nxt pub)))
            else return (Inr request)) Inl (\<lambda>request.
     bindr (macsecCallLeaf E leaf request) Inl (\<lambda>reply.
       return (acceptReply E mode localMTU nxt reply))))"

text \<open>The middle part: the pairing to propose, its key nonce and port.\<close>

definition proposal :: "LeafRouter \<Rightarrow> string \<Rightarrow> string \<Rightarrow> string \<Rightarrow> int \<Rightarrow> LeafMACsec" where
  "proposal leaf mode parent nonce port =
     noLeafMACsec\<lparr>lm_Enabled := True, lm_Parent := parent, lm_Jumbo := wasJumbo leaf,
       lm_Mode := (if mode = backhaulWireGuard then backhaulWireGuard else []),
       lm_KeyNonce := nonce, lm_Port := port,
       lm_UnderlayMTU := (case sameAssociation leaf mode of Some m \<Rightarrow> lm_UnderlayMTU m | None \<Rightarrow> 0)\<rparr>"

definition proposeLink ::
  "env \<Rightarrow> LeafRouter \<Rightarrow> LeafRouter list \<Rightarrow> string \<Rightarrow> string \<Rightarrow> int \<Rightarrow> LeafMACsec res go" where
  "proposeLink E leaf leaves mode parent localMTU =
     bindr (keyNonceFor E leaf mode) Inl (\<lambda>nonce.
       (case portFor leaf leaves of
          Inl e \<Rightarrow> return (Inl e)
        | Inr port \<Rightarrow>
            if mode = backhaulWireGuard \<and> \<not> validWGPort port
            then return (Inl (''too many mesh nodes for '' @ backhaulLabel mode))
            else (case deriveMACsecKeys (e_hkdf E) (lr_APIToken leaf) nonce of
                    Inl e \<Rightarrow> return (Inl e)
                  | Inr _ \<Rightarrow> askLeaf E leaf mode localMTU (proposal leaf mode parent nonce port))))"

definition enableLeafMACsec ::
  "env \<Rightarrow> LeafRouter \<Rightarrow> LeafRouter list \<Rightarrow> string \<Rightarrow> int \<Rightarrow> string \<Rightarrow> LeafMACsec res go" where
  "enableLeafMACsec E leaf leaves requestedParent requestedMTU requestedModeName =
    (let mode = requestedMode requestedModeName in
     if requestedMTU \<noteq> 0 \<and> (requestedMTU < macsecMinLinkMTU \<or> requestedMTU > macsecEthernetMTU)
     then return (Inl (''MTU must be between '' @ itoa macsecMinLinkMTU @ '' and '' @ itoa macsecEthernetMTU))
     else if length (lr_APIToken leaf) < macsecMinSecretLen
     then return (Inl (''Repair mesh, token too short for '' @ backhaulLabel mode))
     else bindr (macsecParentFor E leaf requestedParent) Inl (\<lambda>parent.
       check (if mode = backhaulWireGuard then ProbeWG E else Probe E)
         (\<lambda>e. Inl (backhaulLabel mode @ '' unsupported on this router: '' @ e))
      (bindr (sysLinkInfo E parent) (\<lambda>_. Inl (''parent interface '' @ parent @ '' unavailable'')) (\<lambda>info.
         let localMTU = localMTUFor leaf requestedMTU info in
         if localMTU < macsecMinLinkMTU
         then return (Inl (''parent interface '' @ parent @ '' MTU too small for '' @ backhaulLabel mode))
         else proposeLink E leaf leaves mode parent localMTU))))"

section \<open>Storing the result\<close>

definition setLeafAt :: "nat \<Rightarrow> (LeafRouter \<Rightarrow> LeafRouter) \<Rightarrow> MeshConfig \<Rightarrow> MeshConfig" where
  "setLeafAt i f config =
     config\<lparr>mc_LeafRouters := (mc_LeafRouters config)[i := f (mc_LeafRouters config ! i)]\<rparr>"

definition clearMACsecPendingError :: "string \<Rightarrow> unit go" where
  "clearMACsecPendingError ip = modify (\<lambda>s. s\<lparr>w_pendingErrors := mdel ip (w_pendingErrors s)\<rparr>)"

text \<open>Whether another leaf of the configuration has the port.\<close>

definition portTaken :: "LeafRouter list \<Rightarrow> nat \<Rightarrow> int \<Rightarrow> bool" where
  "portTaken leaves index port = list_ex (\<lambda>i. i \<noteq> index \<and>
     (case lr_MACsec (leaves ! i) of Some m \<Rightarrow> lm_Port m = port | None \<Rightarrow> False)) [0..<length leaves]"

definition portConflict :: "LeafRouter list \<Rightarrow> nat \<Rightarrow> LeafMACsec option \<Rightarrow> bool" where
  "portConflict leaves index nxt = (case nxt of None \<Rightarrow> False | Some m \<Rightarrow> portTaken leaves index (lm_Port m))"

text \<open>The second critical section of \<open>macsecSetLeaf\<close>; \<open>nxt\<close> is nil when the link is switched off.\<close>

definition storeLeaf :: "env \<Rightarrow> string \<Rightarrow> LeafRouter \<Rightarrow> LeafMACsec option \<Rightarrow> err \<Rightarrow> (int \<times> err) go" where
  "storeLeaf E ip leaf nxt notAcked = do {
     config \<leftarrow> lockedConfig E;
     (case findLeafByIP (mc_LeafRouters config) ip of
        None \<Rightarrow> return (409, Some ''leaf router changed during the request'')
      | Some index \<Rightarrow>
          if \<not> sameLeaf (mc_LeafRouters config ! index) leaf
          then return (409, Some ''leaf router changed during the request'')
          else if portConflict (mc_LeafRouters config) index nxt
          then return (409, Some (backhaulLabel (case nxt of None \<Rightarrow> [] | Some m \<Rightarrow> lm_Mode m) @ '' port conflict, retry''))
          else do {
            saveConfigLocked E (setLeafAt index (\<lambda>l. l\<lparr>lr_MACsec := nxt, lr_MACsecPending := False\<rparr>) config);
            clearMACsecPendingError ip;
            Kick;
            return (case notAcked of Some e \<Rightarrow> (502, Some e) | None \<Rightarrow> (200, None))
          })
   }"

text \<open>Telling the leaf that its link is off, by the API and then over the wire.\<close>

definition disableLeaf :: "env \<Rightarrow> LeafRouter \<Rightarrow> err go" where
  "disableLeaf E leaf =
    (case leaf_enabled leaf of None \<Rightarrow> return None
     | Some m \<Rightarrow> do {
         r \<leftarrow> macsecCallLeaf E leaf (noPeerRequest\<lparr>rq_Token := lr_APIToken leaf\<rparr>);
         (case r of Inr _ \<Rightarrow> return None
          | Inl _ \<Rightarrow> do {
              w \<leftarrow> disableOverWire E leaf;
              return (if snd w = None then None
                else Some (backhaulLabel (lm_Mode m) @
                  '' is off on this router and did not get confirmation from node. Check mesh node at '' @ lr_IP leaf))
            })
       })"

definition macsecSetLeaf :: "env \<Rightarrow> leafMACsecRequest \<Rightarrow> (int \<times> err) go" where
  "macsecSetLeaf E request = do {
     isLeaf \<leftarrow> isLeafRouter;
     if isLeaf then return (400, Some ''Encrypted Link is managed from the main router'')
     else if e_parseIP E (lq_IP request) = None then return (400, Some ''invalid ip'')
     else do {
       config \<leftarrow> lockedConfig E;
       (case findLeafByIP (mc_LeafRouters config) (lq_IP request) of
          None \<Rightarrow> return (404, Some ''unknown leaf router'')
        | Some index \<Rightarrow>
            let leaf = mc_LeafRouters config ! index in
            if lq_Enable request then
              bindr (enableLeafMACsec E leaf (mc_LeafRouters config) (lq_Parent request) (lq_MTU request) (lq_Mode request))
                (\<lambda>e. (400, Some e)) (\<lambda>m. storeLeaf E (lq_IP request) leaf (Some m) None)
            else do {
              notAcked \<leftarrow> disableLeaf E leaf;
              storeLeaf E (lq_IP request) leaf None notAcked
            })
     }
   }"

definition retryPendingMACsec :: "env \<Rightarrow> unit go" where
  "retryPendingMACsec E = do {
     isLeaf \<leftarrow> isLeafRouter;
     if isLeaf then return ()
     else do {
       config \<leftarrow> lockedConfig E;
       for_each (mc_LeafRouters config) (\<lambda>leaf.
         if \<not> lr_MACsecPending leaf \<or> leaf_enabled leaf \<noteq> None then return ()
         else do {
           r \<leftarrow> macsecSetLeaf E \<lparr>lq_IP = lr_IP leaf, lq_Enable = True, lq_Mode = [], lq_Parent = [], lq_MTU = 0, lq_Jumbo = False\<rparr>;
           modify (\<lambda>s. s\<lparr>w_pendingErrors := (case snd r of
               Some e \<Rightarrow> mput (lr_IP leaf) e (w_pendingErrors s)
             | None \<Rightarrow> mdel (lr_IP leaf) (w_pendingErrors s))\<rparr>)
         })
     }
   }"

section \<open>MTU changes\<close>

definition updateRequest :: "LeafRouter \<Rightarrow> LeafMACsec \<Rightarrow> macsecPeerRequest" where
  "updateRequest leaf nxt = noPeerRequest\<lparr>rq_Token := lr_APIToken leaf, rq_Enable := True,
     rq_KeyNonce := lm_KeyNonce nxt, rq_Mode := lm_Mode nxt, rq_Jumbo := lm_Jumbo nxt\<rparr>"

text \<open>The third part of \<open>pushLeafUpdate\<close>: stored only if the pairing is still the same.\<close>

definition storeUpdate :: "env \<Rightarrow> LeafRouter \<Rightarrow> LeafMACsec \<Rightarrow> unit go" where
  "storeUpdate E leaf nxt = do {
     config \<leftarrow> lockedConfig E;
     (case findLeafByIP (mc_LeafRouters config) (lr_IP leaf) of
        None \<Rightarrow> return ()
      | Some index \<Rightarrow>
          let cur = mc_LeafRouters config ! index in
          doif (sameLeaf cur leaf \<and> (case lr_MACsec cur of Some m \<Rightarrow> lm_KeyNonce m = lm_KeyNonce nxt | None \<Rightarrow> False))
            (saveConfigLocked E (setLeafAt index (\<lambda>l. l\<lparr>lr_MACsec := Some nxt\<rparr>) config)))
   }"

definition pushRequest :: "env \<Rightarrow> LeafRouter \<Rightarrow> LeafMACsec \<Rightarrow> macsecPeerRequest res go" where
  "pushRequest E leaf nxt =
    (if storedMode (lm_Mode nxt) = backhaulWireGuard
     then bindr (loadOrCreateWGKey E) Inl (\<lambda>pub.
       return (Inr ((updateRequest leaf nxt)\<lparr>rq_Port := lm_Port nxt, rq_UnderlayMTU := lm_UnderlayMTU nxt,
         rq_MainPublicKey := pub\<rparr>)))
     else return (Inr ((updateRequest leaf nxt)\<lparr>rq_PeerMTU := lm_LinkMTU nxt\<rparr>)))"

definition pushLeafUpdate :: "env \<Rightarrow> LeafRouter \<Rightarrow> LeafMACsec \<Rightarrow> (int \<times> err) go" where
  "pushLeafUpdate E leaf nxt =
    (if lr_MACsec leaf = Some nxt then return (200, None)
     else bindr (pushRequest E leaf nxt) (\<lambda>e. (500, Some e)) (\<lambda>request.
       bindr (macsecCallLeaf E leaf request) (\<lambda>e. (502, Some e)) (\<lambda>_. do {
         storeUpdate E leaf nxt;
         Kick;
         return (200, None)
       })))"

text \<open>The pairing \<open>macsecTestMTU\<close> and \<open>macsecSetJumbo\<close> change: found, and enabled.\<close>

definition enabledLeaf :: "env \<Rightarrow> string \<Rightarrow> ((int \<times> string) + (LeafRouter \<times> LeafMACsec)) go" where
  "enabledLeaf E ip = do {
     isLeaf \<leftarrow> isLeafRouter;
     if isLeaf then return (Inl (400, ''Encrypted Link is managed from the main router''))
     else do {
       config \<leftarrow> lockedConfig E;
       return (case findLeafByIP (mc_LeafRouters config) ip of
           None \<Rightarrow> Inl (404, ''unknown leaf router'')
         | Some index \<Rightarrow>
             let leaf = mc_LeafRouters config ! index in
             (case leaf_enabled leaf of
                None \<Rightarrow> Inl (400, ''encryption is not enabled for this mesh node'')
              | Some m \<Rightarrow> Inr (leaf, m)))
     }
   }"

definition testedLink :: "LeafMACsec \<Rightarrow> int \<Rightarrow> LeafMACsec" where
  "testedLink m underlay =
    (let nxt = m\<lparr>lm_UnderlayMTU := underlay\<rparr> in
     nxt\<lparr>lm_LinkMTU := (if storedMode (lm_Mode nxt) = backhaulWireGuard
       then wgInnerMTU (meshUnderlay (lm_Jumbo nxt) underlay)
       else effectiveLinkMTU (lm_Mode nxt) (lm_Jumbo nxt) underlay (macsecCapableMTU underlay))\<rparr>)"

record macsecMTUResult =
  mt_UnderlayMTU :: int
  mt_Jumbo :: bool
  mt_LinkMTU :: int

definition macsecTestMTU :: "env \<Rightarrow> string \<Rightarrow> ((int \<times> string) + macsecMTUResult) go" where
  "macsecTestMTU E ip = do {
     r \<leftarrow> enabledLeaf E ip;
     (case r of Inl e \<Rightarrow> return (Inl e)
      | Inr (leaf, m) \<Rightarrow>
          bindr (testUnderlayMTU E leaf) (\<lambda>e. Inl (502, e)) (\<lambda>underlay. do {
            let nxt = testedLink m underlay;
            p \<leftarrow> pushLeafUpdate E leaf nxt;
            return (case snd p of
                Some e \<Rightarrow> Inl (fst p, e)
              | None \<Rightarrow> Inr \<lparr>mt_UnderlayMTU = underlay, mt_Jumbo = (underlay \<ge> meshJumboMTU), mt_LinkMTU = lm_LinkMTU nxt\<rparr>)
          }))
   }"

definition macsecSetJumbo :: "env \<Rightarrow> string \<Rightarrow> bool \<Rightarrow> (int \<times> err) go" where
  "macsecSetJumbo E ip jumbo = do {
     r \<leftarrow> enabledLeaf E ip;
     (case r of Inl (code, e) \<Rightarrow> return (code, Some e)
      | Inr (leaf, m) \<Rightarrow>
          if lm_Jumbo m = jumbo then return (200, None)
          else if storedMode (lm_Mode m) = backhaulWireGuard
          then pushLeafUpdate E leaf (m\<lparr>lm_Jumbo := jumbo, lm_UnderlayMTU := 0, lm_LinkMTU := wgInnerMTU (meshUnderlay jumbo 0)\<rparr>)
          else do {
            info \<leftarrow> sysLinkInfo E (lm_Parent m);
            pushLeafUpdate E leaf (m\<lparr>lm_Jumbo := jumbo, lm_UnderlayMTU := 0,
              lm_LinkMTU := (case info of Inr i \<Rightarrow> if jumbo then parentCapableMTU i else macsecCapableMTU macsecEthernetMTU
                | Inl _ \<Rightarrow> macsecCapableMTU macsecEthernetMTU)\<rparr>)
          })
   }"

text \<open>What the goroutine of \<open>maybeTestMTU\<close> runs.\<close>

definition runMTUTest :: "env \<Rightarrow> string \<Rightarrow> unit go" where
  "runMTUTest E ip = do {
     drop_result (macsecTestMTU E ip);
     modify (\<lambda>s. s\<lparr>m_mtuTesting := m_mtuTesting s - {ip}\<rparr>)
   }"

section \<open>The leaf's handler\<close>

definition peerRefused :: "env \<Rightarrow> macsecPeerRequest \<Rightarrow> (int \<times> string) option go" where
  "peerRefused E request =
    (if storedMode (rq_Mode request) = backhaulWireGuard then
       (if \<not> is_ok (parseWGKey E (rq_MainPublicKey request)) \<or> \<not> validWGPort (rq_Port request)
        then return (Some (400, ''invalid WireGuard settings''))
        else if rq_UnderlayMTU request \<noteq> 0 \<and>
          (rq_UnderlayMTU request < macsecEthernetMTU \<or> rq_UnderlayMTU request > meshJumboMTU)
        then return (Some (400, ''invalid underlay MTU''))
        else do {
          e \<leftarrow> ProbeWG E;
          return (map_option (\<lambda>e. (400, backhaulLabel backhaulWireGuard @ '' unsupported on this leaf: '' @ e)) e)
        })
     else if rq_PeerMTU request < macsecMinLinkMTU \<or> rq_PeerMTU request > macsecEthernetMTU
     then return (Some (400, ''invalid peer MTU''))
     else do {
       e \<leftarrow> Probe E;
       return (map_option (\<lambda>e. (400, backhaulLabel backhaulMACsec @ '' unsupported on this leaf: '' @ e)) e)
     })"

definition peerReply :: "env \<Rightarrow> macsecPeerRequest \<Rightarrow> linkInfo \<Rightarrow> ((int \<times> string) + macsecPeerResponse) go" where
  "peerReply E request uplink =
    (let reply = noPeerResponse\<lparr>rp_Version := macsecProtocolVersion\<rparr> in
     if storedMode (rq_Mode request) = backhaulWireGuard then
       bindr (loadOrCreateWGKey E) (\<lambda>_. Inl (500, ''WireGuard key unavailable'')) (\<lambda>pub.
         return (Inr (reply\<lparr>rp_MaxMTU := wgCapableUnderlay uplink,
           rp_LinkMTU := wgInnerMTU (meshUnderlay (rq_Jumbo request) (rq_UnderlayMTU request)),
           rp_LeafPublicKey := pub\<rparr>)))
     else
       (let maxMTU = (if rq_Jumbo request then parentCapableMTU uplink else macsecCapableMTU macsecEthernetMTU)
        in return (case macsecLinkMTU maxMTU (rq_PeerMTU request) of
             Inl e \<Rightarrow> Inl (400, e)
           | Inr mtu \<Rightarrow> Inr (reply\<lparr>rp_MaxMTU := maxMTU, rp_LinkMTU := mtu\<rparr>))))"

text \<open>The leaf's side of the new pairing; an unchanged pairing keeps its confirmation.\<close>

definition newLeafSide :: "macsecPeerRequest \<Rightarrow> int \<Rightarrow> int \<Rightarrow> LeafSideMACsec \<Rightarrow> LeafSideMACsec" where
  "newLeafSide request linkMTU unix previous =
    (let nxt = noLeafSide\<lparr>ls_Enabled := True, ls_KeyNonce := rq_KeyNonce request, ls_LinkMTU := linkMTU,
           ls_Jumbo := rq_Jumbo request, ls_EnabledAt := unix\<rparr>;
         nxt = (if storedMode (rq_Mode request) = backhaulWireGuard
           then nxt\<lparr>ls_Mode := backhaulWireGuard, ls_Port := rq_Port request,
             ls_MainPublicKey := rq_MainPublicKey request, ls_UnderlayMTU := rq_UnderlayMTU request\<rparr>
           else nxt)
     in if ls_Enabled previous \<and> ls_KeyNonce previous = rq_KeyNonce request \<and> ls_Mode previous = ls_Mode nxt
        then nxt\<lparr>ls_Confirmed := ls_Confirmed previous, ls_EnabledAt := ls_EnabledAt previous\<rparr>
        else nxt)"

definition storePeer :: "env \<Rightarrow> macsecPeerRequest \<Rightarrow> macsecPeerResponse \<Rightarrow> ((int \<times> string) + macsecPeerResponse) go" where
  "storePeer E request reply = do {
     config \<leftarrow> lockedConfig E;
     t \<leftarrow> now E;
     saveConfigLocked E (config\<lparr>mc_LeafMACsec :=
       newLeafSide request (rp_LinkMTU reply) (t div second) (mc_LeafMACsec config)\<rparr>);
     KickAfter macsecApplyDelay;
     return (Inr reply)
   }"

definition answerPeer :: "env \<Rightarrow> macsecPeerRequest \<Rightarrow> ((int \<times> string) + macsecPeerResponse) go" where
  "answerPeer E request = do {
     wanif \<leftarrow> meshWANIF E;
     bindr (sysLinkInfo E wanif) (\<lambda>_. Inl (400, ''uplink interface unavailable'')) (\<lambda>uplink.
     bindr (sysLinkInfo E BRIDGE_IFACE) (\<lambda>_. Inl (400, ''mesh bridge unavailable'')) (\<lambda>bridge. do {
       r \<leftarrow> peerReply E request uplink;
       (case r of Inl ce \<Rightarrow> return (Inl ce)
        | Inr reply \<Rightarrow> storePeer E request (reply\<lparr>rp_BridgeMAC := mac_string (li_MAC bridge)\<rparr>))
     }))
   }"

definition enablePeer :: "env \<Rightarrow> string \<Rightarrow> macsecPeerRequest \<Rightarrow> ((int \<times> string) + macsecPeerResponse) go" where
  "enablePeer E token request =
    (case deriveMACsecKeys (e_hkdf E) token (rq_KeyNonce request) of
       Inl e \<Rightarrow> return (Inl (400, e))
     | Inr _ \<Rightarrow> do {
         refused \<leftarrow> peerRefused E request;
         (case refused of Some ce \<Rightarrow> return (Inl ce) | None \<Rightarrow> answerPeer E request)
       })"

definition macsecPeer :: "env \<Rightarrow> macsecPeerRequest \<Rightarrow> ((int \<times> string) + macsecPeerResponse) go" where
  "macsecPeer E request = do {
     isLeaf \<leftarrow> isLeafRouter;
     if \<not> isLeaf then return (Inl (400, ''not a mesh leaf''))
     else do {
       token \<leftarrow> getToken E DOWNHAUL_TOKEN_NAME;
       (case token of
          Inl _ \<Rightarrow> return (Inl (403, ''invalid pairing token''))
        | Inr tok \<Rightarrow>
            if tk_Token tok = [] \<or> tk_Token tok \<noteq> rq_Token request
            then return (Inl (403, ''invalid pairing token''))
            else if \<not> rq_Enable request then do {
              config \<leftarrow> lockedConfig E;
              saveConfigLocked E (config\<lparr>mc_LeafMACsec := noLeafSide\<rparr>);
              KickAfter macsecApplyDelay;
              return (Inr (noPeerResponse\<lparr>rp_Version := macsecProtocolVersion\<rparr>))
            } else enablePeer E (tk_Token tok) request)
     }
   }"

text \<open>The status, refused until the first pass is over, and the handlers that answer with it.\<close>

definition Status :: "MACsecStatus go" where
  "Status = gets m_status"

definition Ready :: "bool go" where
  "Ready = gets m_ready"

definition macsecStatusHandler :: "((int \<times> string) + MACsecStatus) go" where
  "macsecStatusHandler = do {
     ready \<leftarrow> Ready;
     if \<not> ready then return (Inl (503, ''starting'')) else do { r \<leftarrow> Status; return (Inr r) }
   }"

definition leafRouterMACsec :: "env \<Rightarrow> leafMACsecRequest \<Rightarrow> ((int \<times> string) + MACsecStatus) go" where
  "leafRouterMACsec E request = do {
     r \<leftarrow> macsecSetLeaf E request;
     (case snd r of Some e \<Rightarrow> return (Inl (fst r, e)) | None \<Rightarrow> do { x \<leftarrow> Status; return (Inr x) })
   }"

definition leafRouterJumbo :: "env \<Rightarrow> leafMACsecRequest \<Rightarrow> ((int \<times> string) + MACsecStatus) go" where
  "leafRouterJumbo E request = do {
     r \<leftarrow> macsecSetJumbo E (lq_IP request) (lq_Jumbo request);
     (case snd r of Some e \<Rightarrow> return (Inl (fst r, e)) | None \<Rightarrow> do { x \<leftarrow> Status; return (Inr x) })
   }"

definition leafRouterMTUTest :: "env \<Rightarrow> leafMACsecRequest \<Rightarrow> ((int \<times> string) + macsecMTUResult) go" where
  "leafRouterMTUTest E request = macsecTestMTU E (lq_IP request)"

lemma wp_lockedConfig [wp_simps]:
  "wp (lockedConfig E) Q s =
    (let f = e_Race E (w_hist s) (w_cfg s) in Q (cfg_load f) (s\<lparr>w_cfg := f\<rparr>))"
  by (simp add: lockedConfig_def wp_simps Let_def)

lemma wp_KickAfter [wp_simps]: "wp (KickAfter d) Q s = Q () (s\<lparr>w_hist := CKickAfter d # w_hist s\<rparr>)"
  by (simp add: KickAfter_def wp_simps)

end
