(* ===== verification/ApiSafety.thy ===== *)
theory ApiSafety
  imports Api
begin

text \<open>
  What the handlers guarantee: link MTUs and ports stay in bounds, both routers compute the same
  link MTU, ports stay distinct, only the holder of the pairing token changes the leaf, and an
  unchanged pairing keeps its confirmation.
\<close>

section \<open>MTU budgets\<close>

lemma macsecLinkMTU_comm: "macsecLinkMTU a b = Inr m \<longleftrightarrow> macsecLinkMTU b a = Inr m"
  by (auto simp: macsecLinkMTU_def Let_def split: if_splits)

lemma macsecLinkMTU_bounds:
  "macsecLinkMTU a b = Inr m \<Longrightarrow> macsecMinLinkMTU \<le> m \<and> m \<le> macsecEthernetMTU \<and> m \<le> a \<and> m \<le> b"
  by (auto simp: macsecLinkMTU_def Let_def mtu_consts split: if_splits)

lemma wgInnerMTU_bounds:
  "wgInnerMTU (meshUnderlay j u) \<le> macsecEthernetMTU \<and>
   wgInnerMTU (meshUnderlay j u) \<ge> 1390 \<and>
   wgInnerMTU (meshUnderlay j u) + meshWGOverhead + meshVXLANOverhead \<le> meshUnderlay j u"
  by (auto simp: wgInnerMTU_def meshUnderlay_def underlayOrDefault_def Let_def mtu_consts)

section \<open>Ports\<close>

text \<open>The allocator returns the lowest port no leaf uses.\<close>

lemma freePort_lowest:
  "freePort used p = Inr r \<Longrightarrow> p \<le> r \<and> r \<le> macsecMainPortLast \<and> r \<notin> used \<and> {p..<r} \<subseteq> used"
proof (induction used p rule: freePort.induct)
  case (1 used p)
  show ?case
  proof (cases "p \<le> macsecMainPortLast \<and> p \<in> used")
    case True
    with 1 have "p + 1 \<le> r \<and> r \<le> macsecMainPortLast \<and> r \<notin> used \<and> {p + 1..<r} \<subseteq> used"
      by (simp add: freePort.simps [of used p])
    moreover have "{p..<r} \<subseteq> insert p {p + 1..<r}" by auto
    ultimately show ?thesis using True by auto
  next
    case False
    with 1(2) show ?thesis by (auto simp: freePort.simps [of used p] split: if_splits)
  qed
qed

lemma freePort_fails: "freePort used p = Inl e \<Longrightarrow> {p..macsecMainPortLast} \<subseteq> used"
proof (induction used p rule: freePort.induct)
  case (1 used p)
  show ?case
  proof (cases "p \<le> macsecMainPortLast")
    case True
    with 1 have "p \<in> used" "{p + 1..macsecMainPortLast} \<subseteq> used"
      by (auto simp: freePort.simps [of used p] split: if_splits)
    moreover have "{p..macsecMainPortLast} \<subseteq> insert p {p + 1..macsecMainPortLast}" by auto
    ultimately show ?thesis by auto
  next
    case False
    then show ?thesis by auto
  qed
qed

definition has_port :: "LeafRouter \<Rightarrow> int \<Rightarrow> bool" where
  "has_port leaf port = (case lr_MACsec leaf of Some m \<Rightarrow> lm_Port m = port | None \<Rightarrow> False)"

lemma usedPorts_iff: "p \<in> usedPorts leaves \<longleftrightarrow> p \<noteq> 0 \<and> (\<exists>leaf \<in> set leaves. has_port leaf p)"
  unfolding usedPorts_def has_port_def
  by (induction leaves) (auto simp: map_filter_simps split: option.splits if_splits)

lemma allocate_lowest:
  assumes "allocateMACsecPort leaves = Inr p"
  shows "macsecMainPortFirst \<le> p" "p \<le> macsecMainPortLast" "\<not> (\<exists>leaf \<in> set leaves. has_port leaf p)"
    "\<And>q. macsecMainPortFirst \<le> q \<Longrightarrow> q < p \<Longrightarrow> \<exists>leaf \<in> set leaves. has_port leaf q"
proof -
  note a = freePort_lowest [OF assms [unfolded allocateMACsecPort_def]]
  show b: "macsecMainPortFirst \<le> p" and "p \<le> macsecMainPortLast"
    using a by auto
  show "\<not> (\<exists>leaf \<in> set leaves. has_port leaf p)"
    using a b usedPorts_iff [of p leaves] by (auto simp: port_consts)
  show "\<exists>leaf \<in> set leaves. has_port leaf q" if "macsecMainPortFirst \<le> q" "q < p" for q
    using a that usedPorts_iff [of q leaves] by (auto simp: subset_iff)
qed

text \<open>Distinct ports over the leaves of a configuration.\<close>

definition ports_distinct :: "LeafRouter list \<Rightarrow> bool" where
  "ports_distinct leaves \<longleftrightarrow> (\<forall>i j p. i < length leaves \<longrightarrow> j < length leaves \<longrightarrow> i \<noteq> j \<longrightarrow>
     \<not> (has_port (leaves ! i) p \<and> has_port (leaves ! j) p))"

lemma portTaken_iff:
  "portTaken leaves i p \<longleftrightarrow> (\<exists>j < length leaves. j \<noteq> i \<and> has_port (leaves ! j) p)"
  by (auto simp: portTaken_def list_ex_iff has_port_def)

lemma findLeafByIP_Some:
  "findLeafByIP leaves ip = Some i \<Longrightarrow> i < length leaves \<and> lr_IP (leaves ! i) = ip \<and>
    (\<forall>j < i. lr_IP (leaves ! j) \<noteq> ip)"
proof (induction leaves arbitrary: i)
  case Nil
  then show ?case by simp
next
  case (Cons leaf leaves)
  show ?case
  proof (cases "lr_IP leaf = ip")
    case True
    with Cons.prems show ?thesis by simp
  next
    case False
    with Cons.prems obtain j where j: "findLeafByIP leaves ip = Some j" "i = Suc j" by auto
    have "\<forall>k < Suc j. lr_IP ((leaf # leaves) ! k) \<noteq> ip"
    proof (intro allI impI)
      fix k assume "k < Suc j"
      then show "lr_IP ((leaf # leaves) ! k) \<noteq> ip"
        using Cons.IH [OF j(1)] False by (cases k) auto
    qed
    with Cons.IH [OF j(1)] j(2) show ?thesis by simp
  qed
qed

lemma ports_distinct_set:
  assumes "ports_distinct leaves" "\<not> portConflict leaves i nxt"
  shows "ports_distinct (leaves[i := l\<lparr>lr_MACsec := nxt, lr_MACsecPending := False\<rparr>])"
proof -
  have new: "has_port (l\<lparr>lr_MACsec := nxt, lr_MACsecPending := False\<rparr>) p \<Longrightarrow>
      j < length leaves \<Longrightarrow> j \<noteq> i \<Longrightarrow> \<not> has_port (leaves ! j) p" for p j
    using assms(2) by (auto simp: portConflict_def portTaken_iff has_port_def split: option.splits)
  show ?thesis
    unfolding ports_distinct_def
  proof (intro allI impI)
    fix a b p
    assume "a < length (leaves[i := l\<lparr>lr_MACsec := nxt, lr_MACsecPending := False\<rparr>])"
      "b < length (leaves[i := l\<lparr>lr_MACsec := nxt, lr_MACsecPending := False\<rparr>])" "a \<noteq> b"
    then show "\<not> (has_port (leaves[i := l\<lparr>lr_MACsec := nxt, lr_MACsecPending := False\<rparr>] ! a) p \<and>
        has_port (leaves[i := l\<lparr>lr_MACsec := nxt, lr_MACsecPending := False\<rparr>] ! b) p)"
      using new [of p a] new [of p b] assms(1) [unfolded ports_distinct_def, rule_format, of a b p]
      by (cases "a = i"; cases "b = i") auto
  qed
qed

text \<open>
  Well formed leaves: distinct ports, and no two entries with the same address and pairing
  token.
\<close>

definition leaf_id :: "LeafRouter \<Rightarrow> string \<times> string" where
  "leaf_id leaf = (lr_IP leaf, lr_APIToken leaf)"

definition leaves_ok :: "LeafRouter list \<Rightarrow> bool" where
  "leaves_ok leaves \<longleftrightarrow> ports_distinct leaves \<and> distinct (map leaf_id leaves)"

lemma sameLeaf_id: "sameLeaf a b \<longleftrightarrow> leaf_id a = leaf_id b"
  by (simp add: sameLeaf_def leaf_id_def)

lemma leaves_ok_unique: "leaves_ok leaves \<Longrightarrow> a \<in> set leaves \<Longrightarrow> b \<in> set leaves \<Longrightarrow> sameLeaf a b \<Longrightarrow> a = b"
  by (auto simp: leaves_ok_def sameLeaf_id distinct_map inj_on_def)

lemma map_leaf_id_set: "leaf_id l = leaf_id (leaves ! i) \<Longrightarrow> map leaf_id (leaves[i := l]) = map leaf_id leaves"
  by (cases "i < length leaves") (simp_all add: map_update list_update_same_conv list_update_beyond)

lemma leaves_ok_set:
  assumes "leaves_ok leaves" "\<not> portConflict leaves i nxt"
  shows "leaves_ok (leaves[i := (leaves ! i)\<lparr>lr_MACsec := nxt, lr_MACsecPending := False\<rparr>])"
  using assms ports_distinct_set [of leaves i nxt "leaves ! i"]
  by (simp add: leaves_ok_def map_leaf_id_set leaf_id_def del: map_update)

text \<open>An invariant of the configuration file: every readable configuration satisfies \<open>P\<close>.\<close>

definition cfg_inv :: "(MeshConfig \<Rightarrow> bool) \<Rightarrow> st \<Rightarrow> bool" where
  "cfg_inv P s \<longleftrightarrow> P (cfg_load (w_cfg s))"

definition races_keep :: "env \<Rightarrow> (MeshConfig \<Rightarrow> bool) \<Rightarrow> bool" where
  "races_keep E P \<longleftrightarrow> (\<forall>h f. P (cfg_load f) \<longrightarrow> P (cfg_load (e_Race E h f)))"

lemma wp_storeLeaf_ports:
  assumes "races_keep E (\<lambda>c. leaves_ok (mc_LeafRouters c))"
    and "cfg_inv (\<lambda>c. leaves_ok (mc_LeafRouters c)) s"
  shows "wp (storeLeaf E ip leaf nxt notAcked) (\<lambda>_. cfg_inv (\<lambda>c. leaves_ok (mc_LeafRouters c))) s"
proof -
  let ?f = "e_Race E (w_hist s) (w_cfg s)"
  have "leaves_ok (mc_LeafRouters (cfg_load ?f))"
    using assms by (simp add: races_keep_def cfg_inv_def)
  then show ?thesis
    by (auto simp: storeLeaf_def wp_simps Let_def cfg_inv_def clearMACsecPendingError_def setLeafAt_def
        intro: leaves_ok_set split: option.split)
qed

section \<open>Footprints\<close>

lemma backhaul_nonempty [simp]: "backhaulWireGuard \<noteq> []" "[] \<noteq> backhaulWireGuard" "backhaulMACsec \<noteq> []"
  by (simp_all add: backhaulWireGuard_def backhaulMACsec_def)

lemma keeps_call [frame]:
  assumes "\<And>s h. f (s\<lparr>w_hist := h\<rparr>) = f s"
  shows "keeps f (macsecCallLeaf E leaf rq)" "keeps f (RecvFrames E d g)" "keeps f (newMACsecChallenge E)"
    "keeps f (Exchange E d b r)" "keeps f (newMACsecNonce E)" "keeps f (checkParent E p)"
  unfolding macsecCallLeaf_def RecvFrames_def newMACsecChallenge_def Exchange_def newMACsecNonce_def checkParent_def Let_def
  by (intro keeps_rules frame assms)+

lemma keeps_disable [frame]:
  assumes "\<And>s h. f (s\<lparr>w_hist := h\<rparr>) = f s"
  shows "keeps f (disableOverWire E leaf)" "keeps f (probeFrame E pp k a b i)"
    "keeps f (macsecParentFor E leaf p)" "keeps f (keyNonceFor E leaf p)"
  unfolding disableOverWire_def resendFrame_def probeFrame_def macsecParentFor_def keyNonceFor_def Let_def
  by (intro keeps_rules frame assms)+

lemma keeps_enable [frame]:
  assumes "\<And>s h. f (s\<lparr>w_hist := h\<rparr>) = f s"
  shows "keeps f (disableLeaf E leaf)"
    "(\<And>s h. f (s\<lparr>w_wgKey := h\<rparr>) = f s) \<Longrightarrow> keeps f (askLeaf E leaf m i nxt)"
    "(\<And>s h. f (s\<lparr>w_wgKey := h\<rparr>) = f s) \<Longrightarrow> keeps f (pushRequest E leaf nxt)"
  unfolding disableLeaf_def askLeaf_def pushRequest_def Let_def
  by (intro keeps_rules frame assms; simp)+

lemma keeps_enableLeaf [frame]:
  assumes "\<And>s h. f (s\<lparr>w_hist := h\<rparr>) = f s" "\<And>s h. f (s\<lparr>w_wgKey := h\<rparr>) = f s"
  shows "keeps f (enableLeafMACsec E leaf leaves p i m)"
  unfolding enableLeafMACsec_def proposeLink_def Let_def
  by (intro keeps_rules frame assms)

lemma cfg_inv_keeps: "keeps w_cfg m \<Longrightarrow> preserves (cfg_inv P) m"
  by (erule preserves_keeps) (simp add: cfg_inv_def)

lemma cfg_inv_lock: "races_keep E P \<Longrightarrow> preserves (cfg_inv P) (lockedConfig E)"
  by (rule preservesI) (simp add: wp_simps Let_def cfg_inv_def races_keep_def)

text \<open>\<open>macsecSetLeaf\<close>, and the loop that retries pending pairings, keep the leaves well formed.\<close>

abbreviation good_leaves :: "st \<Rightarrow> bool" where
  "good_leaves \<equiv> cfg_inv (\<lambda>c. leaves_ok (mc_LeafRouters c))"

lemma storeLeaf_ports:
  "races_keep E (\<lambda>c. leaves_ok (mc_LeafRouters c)) \<Longrightarrow> preserves good_leaves (storeLeaf E ip leaf nxt e)"
  by (intro preservesI wp_storeLeaf_ports)

lemma macsecSetLeaf_ports:
  "races_keep E (\<lambda>c. leaves_ok (mc_LeafRouters c)) \<Longrightarrow> preserves good_leaves (macsecSetLeaf E request)"
  unfolding macsecSetLeaf_def Let_def
  by (intro preserves_rules storeLeaf_ports cfg_inv_lock cfg_inv_keeps frame) simp_all

lemma retryPending_ports:
  "races_keep E (\<lambda>c. leaves_ok (mc_LeafRouters c)) \<Longrightarrow> preserves good_leaves (retryPendingMACsec E)"
  unfolding retryPendingMACsec_def
  by (intro preserves_rules macsecSetLeaf_ports cfg_inv_lock cfg_inv_keeps frame) simp_all

section \<open>What enabling a link proposes\<close>

text \<open>The pairing \<open>enableLeafMACsec\<close> returns is well formed.\<close>

definition pairing_ok :: "env \<Rightarrow> LeafRouter \<Rightarrow> string \<Rightarrow> LeafMACsec \<Rightarrow> bool" where
  "pairing_ok E leaf mode m \<longleftrightarrow> lm_Enabled m \<and> storedMode (lm_Mode m) = mode \<and>
     (\<exists>mac. length mac = 6 \<and> lm_LeafMAC m = mac_string mac) \<and>
     is_ok (deriveMACsecKeys (e_hkdf E) (lr_APIToken leaf) (lm_KeyNonce m)) \<and>
     macsecMainPortFirst \<le> lm_Port m \<and>
     (if mode = backhaulWireGuard
      then lm_Port m \<le> meshWGMaxPort \<and> is_ok (parseWGKey E (lm_LeafPublicKey m)) \<and>
        lm_LinkMTU m = wgInnerMTU (meshUnderlay (lm_Jumbo m) (lm_UnderlayMTU m))
      else macsecMinLinkMTU \<le> lm_LinkMTU m \<and> lm_LinkMTU m \<le> macsecEthernetMTU)"

lemma requestedMode_cases: "requestedMode m = backhaulMACsec \<or> requestedMode m = backhaulWireGuard"
  by (simp add: requestedMode_def)

lemma acceptReply_ok:
  assumes "acceptReply E mode localMTU nxt reply = Inr m" "lm_Enabled nxt" "storedMode (lm_Mode nxt) = mode"
    "is_ok (deriveMACsecKeys (e_hkdf E) (lr_APIToken leaf) (lm_KeyNonce nxt))"
    "macsecMainPortFirst \<le> lm_Port nxt" "mode = backhaulWireGuard \<longrightarrow> lm_Port nxt \<le> meshWGMaxPort"
  shows "pairing_ok E leaf mode m"
  using assms
  by (auto simp: acceptReply_def pairing_ok_def Let_def split: if_splits option.splits sum.splits
      dest: macsecLinkMTU_bounds)

lemma portFor_bounds: "portFor leaf leaves = Inr p \<Longrightarrow> macsecMainPortFirst \<le> p \<and> p \<le> 65534"
  by (auto simp: portFor_def validMACsecPort_def port_consts split: option.splits if_splits
      dest: allocate_lowest(1) allocate_lowest(2))

lemma askLeaf_ok:
  assumes "lm_Enabled nxt" "storedMode (lm_Mode nxt) = mode"
    "is_ok (deriveMACsecKeys (e_hkdf E) (lr_APIToken leaf) (lm_KeyNonce nxt))"
    "macsecMainPortFirst \<le> lm_Port nxt" "mode = backhaulWireGuard \<longrightarrow> lm_Port nxt \<le> meshWGMaxPort"
  shows "yields (\<lambda>r. \<forall>m. r = Inr m \<longrightarrow> pairing_ok E leaf mode m) (askLeaf E leaf mode localMTU nxt)"
  unfolding askLeaf_def Let_def
  by (intro yields_bindr yields_return) (use acceptReply_ok assms in auto)

lemma enable_ok:
  "yields (\<lambda>r. \<forall>m. r = Inr m \<longrightarrow> pairing_ok E leaf (requestedMode name) m)
    (enableLeafMACsec E leaf leaves parent mtu name)"
proof -
  have nxt: "yields (\<lambda>r. \<forall>m. r = Inr m \<longrightarrow> pairing_ok E leaf mode m)
      (askLeaf E leaf mode localMTU (proposal leaf mode par nonce port))"
    if "mode = backhaulMACsec \<or> mode = backhaulWireGuard"
      "deriveMACsecKeys (e_hkdf E) (lr_APIToken leaf) nonce = Inr k" "portFor leaf leaves = Inr port"
      "\<not> (mode = backhaulWireGuard \<and> \<not> validWGPort port)" for mode localMTU par nonce port k
    by (rule askLeaf_ok)
      (use that portFor_bounds [OF that(3)] in \<open>auto simp: proposal_def storedMode_def noLeafMACsec_def validWGPort_def\<close>)
  show ?thesis
    unfolding enableLeafMACsec_def proposeLink_def Let_def
    by (intro yields_if yields_bindr yields_check yields_sum yields_return nxt requestedMode_cases) auto
qed

section \<open>The leaf's handler\<close>

text \<open>Only who presents the pairing token changes the leaf's configuration.\<close>

definition has_token :: "env \<Rightarrow> hist \<Rightarrow> string \<Rightarrow> bool" where
  "has_token E h tok \<longleftrightarrow> tok \<noteq> [] \<and> (\<exists>tokens t. e_Tokens E h = Inr tokens \<and>
     find (\<lambda>x. tk_Name x = DOWNHAUL_TOKEN_NAME) tokens = Some t \<and> tk_Token t = tok)"

lemma wp_macsecPeer_token:
  assumes "\<not> has_token E (w_hist s) (rq_Token request)"
  shows "wp (macsecPeer E request) (\<lambda>r t. (\<exists>c e. r = Inl (c, e) \<and> (c = 400 \<or> c = 403)) \<and>
     t = s\<lparr>w_hist := w_hist t\<rparr> \<and> hist_ext (\<lambda>c. c = CTokens) s t) s"
  using assms
  by (auto simp: macsecPeer_def getToken_def wp_simps has_token_def hist_ext_cons
      split: sum.splits option.splits)

text \<open>Switching off needs nothing but the token.\<close>

lemma wp_macsecPeer_off:
  assumes "has_token E (w_hist s) (rq_Token request)" "\<not> rq_Enable request" "w_leafFlag s = Present"
    and "\<And>h. e_Err E h CSaveConfig = None"
  shows "wp (macsecPeer E request) (\<lambda>r t. (\<exists>reply. r = Inr reply) \<and>
     mc_LeafMACsec (cfg_load (w_cfg t)) = noLeafSide) s"
  using assms
  by (auto simp: macsecPeer_def getToken_def wp_simps has_token_def Let_def split: sum.splits option.splits)

section \<open>The confirmation of an unchanged pairing\<close>

lemma newLeafSide_same:
  assumes "ls_Enabled old" "ls_KeyNonce old = rq_KeyNonce rq"
    "ls_Mode old = (if storedMode (rq_Mode rq) = backhaulWireGuard then backhaulWireGuard else [])"
  shows "ls_Confirmed (newLeafSide rq mtu u old) = ls_Confirmed old \<and>
    ls_EnabledAt (newLeafSide rq mtu u old) = ls_EnabledAt old"
  using assms by (auto simp: newLeafSide_def Let_def noLeafSide_def)

lemma newLeafSide_new:
  assumes "\<not> ls_Enabled old \<or> ls_KeyNonce old \<noteq> rq_KeyNonce rq"
  shows "\<not> ls_Confirmed (newLeafSide rq mtu u old) \<and> ls_EnabledAt (newLeafSide rq mtu u old) = u"
  using assms by (auto simp: newLeafSide_def Let_def noLeafSide_def)

lemma newLeafSide_fields:
  "ls_Enabled (newLeafSide rq mtu u old)" "ls_KeyNonce (newLeafSide rq mtu u old) = rq_KeyNonce rq"
  "ls_LinkMTU (newLeafSide rq mtu u old) = mtu" "ls_Jumbo (newLeafSide rq mtu u old) = rq_Jumbo rq"
  "storedMode (ls_Mode (newLeafSide rq mtu u old)) = storedMode (rq_Mode rq)"
  "storedMode (rq_Mode rq) = backhaulWireGuard \<Longrightarrow> ls_Port (newLeafSide rq mtu u old) = rq_Port rq \<and>
     ls_MainPublicKey (newLeafSide rq mtu u old) = rq_MainPublicKey rq \<and>
     ls_UnderlayMTU (newLeafSide rq mtu u old) = rq_UnderlayMTU rq"
  by (auto simp: newLeafSide_def Let_def noLeafSide_def storedMode_def)

text \<open>What the leaf stores is well formed.\<close>

definition side_ok :: "env \<Rightarrow> string \<Rightarrow> LeafSideMACsec \<Rightarrow> bool" where
  "side_ok E token side \<longleftrightarrow> ls_Enabled side \<and>
     is_ok (deriveMACsecKeys (e_hkdf E) token (ls_KeyNonce side)) \<and>
     ls_LinkMTU side \<le> macsecEthernetMTU \<and>
     (if storedMode (ls_Mode side) = backhaulWireGuard
      then validWGPort (ls_Port side) \<and> is_ok (parseWGKey E (ls_MainPublicKey side)) \<and>
        ls_UnderlayMTU side \<le> meshJumboMTU \<and>
        ls_LinkMTU side = wgInnerMTU (meshUnderlay (ls_Jumbo side) (ls_UnderlayMTU side))
      else macsecMinLinkMTU \<le> ls_LinkMTU side)"

definition peer_request_ok :: "env \<Rightarrow> macsecPeerRequest \<Rightarrow> bool" where
  "peer_request_ok E rq \<longleftrightarrow>
     (if storedMode (rq_Mode rq) = backhaulWireGuard
      then is_ok (parseWGKey E (rq_MainPublicKey rq)) \<and> validWGPort (rq_Port rq) \<and>
        rq_UnderlayMTU rq \<le> meshJumboMTU
      else macsecMinLinkMTU \<le> rq_PeerMTU rq \<and> rq_PeerMTU rq \<le> macsecEthernetMTU)"

lemma peerRefused_ok: "yields (\<lambda>r. r = None \<longrightarrow> peer_request_ok E rq) (peerRefused E rq)"
  unfolding peerRefused_def
  by (intro yields_if yields_skip yields_return) (auto simp: peer_request_ok_def mtu_consts)

text \<open>The leaf's reply: the link MTU of the two sides' smaller offer, or the tunnel's.\<close>

definition reply_for :: "macsecPeerRequest \<Rightarrow> macsecPeerResponse \<Rightarrow> bool" where
  "reply_for rq reply \<longleftrightarrow> rp_Version reply = macsecProtocolVersion \<and>
     (if storedMode (rq_Mode rq) = backhaulWireGuard
      then rp_LinkMTU reply = wgInnerMTU (meshUnderlay (rq_Jumbo rq) (rq_UnderlayMTU rq))
      else macsecLinkMTU (rp_MaxMTU reply) (rq_PeerMTU rq) = Inr (rp_LinkMTU reply))"

lemma peerReply_for: "yields (\<lambda>r. \<forall>reply. r = Inr reply \<longrightarrow> reply_for rq reply) (peerReply E rq uplink)"
  unfolding peerReply_def Let_def
  by (intro yields_if yields_bindr yields_return)
    (auto simp: reply_for_def noPeerResponse_def split: sum.splits)

text \<open>What a successful switch-on stores on the leaf.\<close>

definition stored_for :: "env \<Rightarrow> macsecPeerRequest \<Rightarrow> macsecPeerResponse \<Rightarrow> LeafSideMACsec \<Rightarrow> bool" where
  "stored_for E rq reply side \<longleftrightarrow> reply_for rq reply \<and> peer_request_ok E rq \<and>
     is_ok (deriveMACsecKeys (e_hkdf E) (rq_Token rq) (rq_KeyNonce rq)) \<and>
     (\<exists>u old. side = newLeafSide rq (rp_LinkMTU reply) u old)"

lemma wp_yields_conj: "yields P m \<Longrightarrow> wp m Q s \<Longrightarrow> wp m (\<lambda>r t. P r \<and> Q r t) s"
  by (simp add: wp_conj yields_wp)

lemma wp_true: "wp m (\<lambda>_ _. True) s"
  by (simp add: wp_def split: prod.split)

lemma wp_storePeer:
  assumes "\<And>h. e_Err E h CSaveConfig = None" "reply_for rq reply" "peer_request_ok E rq"
    "is_ok (deriveMACsecKeys (e_hkdf E) (rq_Token rq) (rq_KeyNonce rq))"
  shows "wp (storePeer E rq reply) (\<lambda>r t. \<forall>reply. r = Inr reply \<longrightarrow>
     stored_for E rq reply (mc_LeafMACsec (cfg_load (w_cfg t)))) s"
  using assms(2-4) by (auto simp: storePeer_def wp_simps Let_def assms(1) stored_for_def)

lemma wp_answerPeer:
  assumes "\<And>h. e_Err E h CSaveConfig = None" "peer_request_ok E rq"
    "is_ok (deriveMACsecKeys (e_hkdf E) (rq_Token rq) (rq_KeyNonce rq))"
  shows "wp (answerPeer E rq) (\<lambda>r t. \<forall>reply. r = Inr reply \<longrightarrow>
     stored_for E rq reply (mc_LeafMACsec (cfg_load (w_cfg t)))) s"
proof -
  let ?Q = "\<lambda>r t. \<forall>reply. r = Inr reply \<longrightarrow> stored_for E rq reply (mc_LeafMACsec (cfg_load (w_cfg t)))"
  have store: "wp (case r of Inl ce \<Rightarrow> return (Inl ce)
      | Inr reply \<Rightarrow> storePeer E rq (reply\<lparr>rp_BridgeMAC := mac\<rparr>)) ?Q u"
    if "\<forall>reply. r = Inr reply \<longrightarrow> reply_for rq reply" for r :: "(int \<times> string) + macsecPeerResponse" and mac u
    using that
    by (cases r) (auto simp: wp_return reply_for_def intro!: wp_storePeer [OF assms(1) _ assms(2,3)])
  have reply: "wp (peerReply E rq uplink \<bind> (\<lambda>r. case r of Inl ce \<Rightarrow> return (Inl ce)
      | Inr reply \<Rightarrow> storePeer E rq (reply\<lparr>rp_BridgeMAC := mac\<rparr>))) ?Q u" for uplink mac u
    unfolding wp_bind by (rule wp_mono [OF yields_wp [OF peerReply_for]], rule store)
  show ?thesis
    unfolding answerPeer_def
    by (rule wp_skip) (auto simp: wp_bindr wp_sys intro!: reply split: sum.split)
qed

lemma wp_enablePeer:
  assumes "\<And>h. e_Err E h CSaveConfig = None"
  shows "wp (enablePeer E (rq_Token rq) rq) (\<lambda>r t. \<forall>reply. r = Inr reply \<longrightarrow>
     stored_for E rq reply (mc_LeafMACsec (cfg_load (w_cfg t)))) s"
proof (cases "deriveMACsecKeys (e_hkdf E) (rq_Token rq) (rq_KeyNonce rq)")
  case (Inl e)
  then show ?thesis by (simp add: enablePeer_def wp_simps)
next
  case (Inr keys)
  then have "wp (case refused of Some ce \<Rightarrow> return (Inl ce) | None \<Rightarrow> answerPeer E rq)
      (\<lambda>r t. \<forall>reply. r = Inr reply \<longrightarrow> stored_for E rq reply (mc_LeafMACsec (cfg_load (w_cfg t)))) u"
    if "refused = None \<longrightarrow> peer_request_ok E rq" for refused u
    using that by (cases refused) (auto simp: wp_return intro!: wp_answerPeer [OF assms])
  then show ?thesis
    unfolding enablePeer_def Inr sum.case wp_bind
    by (rule wp_mono [OF yields_wp [OF peerRefused_ok]])
qed

text \<open>The whole handler, for a request that switches the link on.\<close>

lemma wp_macsecPeer_on:
  assumes "\<And>h. e_Err E h CSaveConfig = None" "rq_Enable rq"
  shows "wp (macsecPeer E rq) (\<lambda>r t. \<forall>reply. r = Inr reply \<longrightarrow>
     stored_for E rq reply (mc_LeafMACsec (cfg_load (w_cfg t)))) s"
  unfolding macsecPeer_def
  by (intro wp_skip) (auto simp: getToken_def wp_simps assms(2) intro: wp_enablePeer [OF assms(1)]
    split: sum.splits option.splits)

lemma stored_side_ok: "stored_for E rq reply side \<Longrightarrow> side_ok E (rq_Token rq) side"
  using wgInnerMTU_bounds
  by (auto simp: stored_for_def side_ok_def newLeafSide_fields reply_for_def peer_request_ok_def
      dest: macsecLinkMTU_bounds split: if_splits)

section \<open>Both routers agree\<close>

text \<open>
  The request \<open>askLeaf\<close> sends, answered by a leaf that runs \<open>macsecPeer\<close>: the pairing the main
  router then stores and the side the leaf has stored describe the same link.
\<close>

definition sent_request :: "LeafRouter \<Rightarrow> string \<Rightarrow> int \<Rightarrow> LeafMACsec \<Rightarrow> string \<Rightarrow> macsecPeerRequest" where
  "sent_request leaf mode localMTU nxt pub =
    (let rq = peerRequestFor leaf nxt localMTU in if mode = backhaulWireGuard then wgRequest rq nxt pub else rq)"

definition agree :: "LeafMACsec \<Rightarrow> LeafSideMACsec \<Rightarrow> bool" where
  "agree m side \<longleftrightarrow> ls_Enabled side \<and> lm_Enabled m \<and> ls_KeyNonce side = lm_KeyNonce m \<and>
     storedMode (ls_Mode side) = storedMode (lm_Mode m) \<and> ls_LinkMTU side = lm_LinkMTU m \<and>
     ls_Jumbo side = lm_Jumbo m \<and>
     (storedMode (lm_Mode m) = backhaulWireGuard \<longrightarrow> ls_Port side = lm_Port m \<and> ls_UnderlayMTU side = lm_UnderlayMTU m)"

lemma agreement:
  assumes "stored_for EL (sent_request leaf mode localMTU nxt pub) reply side"
    "acceptReply E mode localMTU nxt reply = Inr m"
    "lm_Enabled nxt" "storedMode (lm_Mode nxt) = mode"
  shows "agree m side"
  using assms
  by (auto simp: macsecLinkMTU_comm [of "rp_MaxMTU reply"] stored_for_def sent_request_def Let_def agree_def newLeafSide_fields acceptReply_def
      reply_for_def peerRequestFor_def wgRequest_def noPeerRequest_def
      split: if_splits option.splits sum.splits)

end
