(* ===== verification/Mesh.thy ===== *)
theory Mesh
  imports ApiSafety
begin

text \<open>
  The handlers of \<open>mesh.go\<close>: adding and removing mesh nodes with the trust in their TLS
  certificate, parent credentials, one time password settings, leaf mode, Wi-Fi stations and the
  bridge access map, and the requests the main router makes to its nodes. What the code takes
  from \<open>crypto/x509\<close>, \<open>encoding/pem\<close>, \<open>encoding/json\<close> and the HTTP client is the record \<open>meshWorld\<close>.
\<close>

section \<open>Certificates and requests\<close>

record x509 =
  xc_IsCA :: bool
  xc_Subject :: string
  xc_Issuer :: string
  xc_NotBefore :: int
  xc_NotAfter :: int
  xc_MaxPathLen :: int
  xc_MaxPathLenZero :: bool
  xc_Raw :: "byte list"

text \<open>The reply to the certificate request; the TLS handshake captured the server's certificate.\<close>

record certReply =
  cr_Status :: int
  cr_HMAC :: string
  cr_Body :: string
  cr_Server :: "x509 option"

datatype json = JStr string | JArr "json list" | JObj "(string \<times> json) list" | JOther

record InterfaceConfig =
  if_Name :: string
  if_Type :: string
  if_Enabled :: bool

text \<open>An entry of \<open>interfaces.json\<close> and how many extra access points it lists.\<close>

record apEntry = InterfaceConfig +
  if_ExtraBSS :: nat

record MeshBSS =
  bss_Interface :: string
  bss_BSSID :: string
  bss_SSID :: string
  bss_NR :: string
  bss_Security :: string

record WifiConnectEvent =
  ev_Event :: string
  ev_Iface :: string
  ev_Mac :: string
  ev_Router :: string

record WifiConnectFailureEvent =
  fe_Iface :: string
  fe_Type :: string
  fe_MAC :: string
  fe_Reason :: string
  fe_Status :: string
  fe_Router :: string

text \<open>
  \<open>mw_pem\<close> is the block \<open>pem.Decode\<close> finds, \<open>mw_x509\<close> \<open>ParseCertificate\<close>, \<open>mw_checkSig\<close>
  \<open>CheckSignature\<close> of a certificate on itself, \<open>mw_verify\<close> \<open>Verify\<close> against a pool of one root,
  \<open>mw_http\<close> the status and body of a request (or its failure), \<open>mw_otp\<close> the number of users in
  decoded one time password settings with the error, \<open>mw_hostapd\<close> the bytes the control socket of an
  access point answers to a command (or the socket's error), the rest JSON.
\<close>

record meshWorld =
  mw_pem :: "string \<Rightarrow> byte list option"
  mw_x509 :: "byte list \<Rightarrow> x509 res"
  mw_checkSig :: "x509 \<Rightarrow> err"
  mw_verify :: "x509 \<Rightarrow> x509 \<Rightarrow> err"
  mw_cert :: "hist \<Rightarrow> string \<Rightarrow> certReply res"
  mw_http :: "hist \<Rightarrow> sysCall \<Rightarrow> (int \<times> string) res"
  mw_json :: "string \<Rightarrow> json res"
  mw_interfaces :: "string \<Rightarrow> InterfaceConfig list res"
  mw_stations :: "string \<Rightarrow> (string, (string \<times> string) list) gomap res"
  mw_event :: "WifiConnectEvent \<Rightarrow> string"
  mw_failure :: "WifiConnectFailureEvent \<Rightarrow> string"
  mw_otp :: "string \<Rightarrow> nat \<times> err"
  mw_aps :: "string \<Rightarrow> apEntry list res"
  mw_hostapd :: "hist \<Rightarrow> string \<Rightarrow> string \<Rightarrow> string res"
  mw_bss :: "string \<Rightarrow> MeshBSS list res"

datatype httpMethod = GET | PUT | DELETE

section \<open>Certificate authorities\<close>

definition validateCert :: "env \<Rightarrow> meshWorld \<Rightarrow> x509 \<Rightarrow> err go" where
  "validateCert E W cert =
    (if \<not> xc_IsCA cert then return (Some ''certificate is not a CA certificate'')
     else if xc_Subject cert \<noteq> xc_Issuer cert
     then return (Some ''certificate is not self-signed (subject and issuer do not match)'')
     else (case mw_checkSig W cert of
         Some e \<Rightarrow> return (Some (''certificate signature verification failed: '' @ e))
       | None \<Rightarrow> do {
           t \<leftarrow> now E;
           return (if t < xc_NotBefore cert \<or> t > xc_NotAfter cert
             then Some ''certificate is not valid at the current time''
             else if xc_MaxPathLen cert = 0 \<and> \<not> xc_MaxPathLenZero cert
             then Some ''CA certificate does not have basic constraints set properly''
             else None)
         }))"

definition validateCA :: "env \<Rightarrow> meshWorld \<Rightarrow> string \<Rightarrow> err go" where
  "validateCA E W certPEM =
    (if certPEM = [] then return (Some ''Missing CA String'')
     else (case mw_pem W certPEM of None \<Rightarrow> return (Some ''failed to parse certificate PEM'')
     | Some block \<Rightarrow>
        (case mw_x509 W block of
           Inl e \<Rightarrow> return (Some (''failed to parse certificate: '' @ e))
         | Inr cert \<Rightarrow> validateCert E W cert)))"

definition CAPoolFromCABytes :: "env \<Rightarrow> meshWorld \<Rightarrow> string \<Rightarrow> x509 res go" where
  "CAPoolFromCABytes E W data = do {
     e \<leftarrow> validateCA E W data;
     return (case e of Some e \<Rightarrow> Inl e
       | None \<Rightarrow> (case mw_pem W data of None \<Rightarrow> Inl ''failed to parse certificate PEM''
           | Some block \<Rightarrow> mw_x509 W block))
   }"

text \<open>The callback of \<open>CATLSVerifierTransport\<close>, on the first certificate the server sent.\<close>

definition verifyPeer :: "env \<Rightarrow> meshWorld \<Rightarrow> string \<Rightarrow> byte list \<Rightarrow> err go" where
  "verifyPeer E W TLSCA raw =
    (case mw_x509 W raw of Inl e \<Rightarrow> return (Some e)
     | Inr cert \<Rightarrow> bindr (CAPoolFromCABytes E W TLSCA) Some (\<lambda>ca. return (mw_verify W cert ca)))"

definition createHMACSignatureWithData :: "env \<Rightarrow> string \<Rightarrow> string \<Rightarrow> string" where
  "createHMACSignatureWithData E data keymaterial =
     hex_encode (e_hmac E (e_sha256 E keymaterial) (str_bytes data))"

text \<open>The trust in a node's certificate: signed with the pairing token, valid, and the server's own.\<close>

definition certKeyMaterial :: "string \<Rightarrow> string" where
  "certKeyMaterial token = ''X-MESH|'' @ DOWNHAUL_TOKEN_NAME @ ''|'' @ token"

definition checkCertReply :: "env \<Rightarrow> meshWorld \<Rightarrow> LeafRouter \<Rightarrow> certReply \<Rightarrow> string res go" where
  "checkCertReply E W node r =
    (if cr_Status r \<noteq> httpStatusOK
     then return (Inl (''wrong error code for cert request: '' @ itoa (cr_Status r)))
     else if cr_HMAC r = [] then return (Inl ''missing hmac'')
     else if cr_HMAC r \<noteq> createHMACSignatureWithData E (cr_Body r) (certKeyMaterial (lr_APIToken node))
     then return (Inl ''invalid hmac'')
     else (case cr_Server r of None \<Rightarrow> return (Inl ''server certificate not captured'')
     | Some server \<Rightarrow>
         bindr (CAPoolFromCABytes E W (cr_Body r)) Inl (\<lambda>ca.
           return (case mw_verify W server ca of
               Some _ \<Rightarrow> Inl ''server certificate not signed by provided CA''
             | None \<Rightarrow> Inr (cr_Body r)))))"

definition chainTrustForNodeTLS :: "env \<Rightarrow> meshWorld \<Rightarrow> LeafRouter \<Rightarrow> string res go" where
  "chainTrustForNodeTLS E W node =
    bindr (ask (CFetchCert (lr_IP node)) (\<lambda>h. mw_cert W h (lr_IP node))) (\<lambda>_. Inl ''failed make cert request'')
      (checkCertReply E W node)"

text \<open>The other end: the key the leaf signs its certificate with.\<close>

definition getCertApiKey :: "env \<Rightarrow> string go" where
  "getCertApiKey E = do {
     r \<leftarrow> getToken E DOWNHAUL_TOKEN_NAME;
     return (case r of Inr token \<Rightarrow> DOWNHAUL_TOKEN_NAME @ ''|'' @ tk_Token token | Inl _ \<Rightarrow> [])
   }"

text \<open>
  The header \<open>getCert\<close> sets, if any, and the body it serves, \<open>None\<close> when there is no such file. The file
  is read for the signature and again for the body.
\<close>

definition ApiTlsCaCert :: string where "ApiTlsCaCert = ''/configs/auth/cert/www-api-ca.crt''"

definition createHMACSignatureWithFile :: "env \<Rightarrow> string \<Rightarrow> string \<Rightarrow> string res go" where
  "createHMACSignatureWithFile E filename keymaterial =
    bindr (ask (CReadFile filename) (\<lambda>h. e_ReadFile E h filename)) Inl (\<lambda>data.
      return (Inr (createHMACSignatureWithData E data keymaterial)))"

definition getCert :: "env \<Rightarrow> (string option \<times> string option) go" where
  "getCert E = do {
     apikey \<leftarrow> getCertApiKey E;
     sig \<leftarrow> (if apikey = [] then return None
       else do {
         r \<leftarrow> createHMACSignatureWithFile E ApiTlsCaCert (''X-MESH|'' @ apikey);
         return (case r of Inl _ \<Rightarrow> None | Inr sig \<Rightarrow> Some sig)
       });
     body \<leftarrow> ask (CReadFile ApiTlsCaCert) (\<lambda>h. e_ReadFile E h ApiTlsCaCert);
     return (sig, case body of Inl _ \<Rightarrow> None | Inr data \<Rightarrow> Some data)
   }"

section \<open>Mesh nodes\<close>

definition macsecReleaseLeaf :: "env \<Rightarrow> LeafRouter \<Rightarrow> unit go" where
  "macsecReleaseLeaf E entry = do {
     config \<leftarrow> lockedConfig E;
     for_each (mc_LeafRouters config) (\<lambda>existing.
       if \<not> sameLeaf existing entry \<or> leaf_enabled existing = None then return ()
       else drop_result (macsecCallLeaf E existing (noPeerRequest\<lparr>rq_Token := lr_APIToken existing\<rparr>)))
   }"

definition otherLeaves :: "LeafRouter \<Rightarrow> LeafRouter list \<Rightarrow> LeafRouter list" where
  "otherLeaves entry leaves = filter (\<lambda>existing. \<not> sameLeaf existing entry) leaves"

definition preservedMACsec :: "LeafRouter \<Rightarrow> LeafRouter list \<Rightarrow> LeafMACsec option" where
  "preservedMACsec entry leaves =
     fold (\<lambda>existing p. if sameLeaf existing entry then lr_MACsec existing else p) leaves None"

definition storeLeaves :: "env \<Rightarrow> MeshConfig \<Rightarrow> LeafRouter list \<Rightarrow> (int \<times> err) go" where
  "storeLeaves E config leaves = do {
     saveConfigLocked E (config\<lparr>mc_LeafRouters := leaves\<rparr>);
     emit CGoSync;
     Kick;
     return (200, None)
   }"

definition newEntry :: "LeafRouter \<Rightarrow> string \<Rightarrow> LeafMACsec option \<Rightarrow> LeafRouter" where
  "newEntry entry ca preserved = entry\<lparr>lr_TLSCA := ca, lr_MACsec := preserved,
     lr_MACsecPending := (case preserved of
         Some m \<Rightarrow> if lm_Enabled m then False else lr_MACsecPending entry
       | None \<Rightarrow> lr_MACsecPending entry)\<rparr>"

definition leafRouter :: "env \<Rightarrow> meshWorld \<Rightarrow> httpMethod \<Rightarrow> LeafRouter \<Rightarrow> (int \<times> err) go" where
  "leafRouter E W method request = do {
     let entry = request\<lparr>lr_MACsec := None\<rparr>;
     doif (method = DELETE) (macsecReleaseLeaf E entry);
     config \<leftarrow> lockedConfig E;
     if method = PUT \<and> lr_TLSCA entry \<noteq> [] then return (400, Some ''Field not accepted'')
     else do {
       let leaves = mc_LeafRouters config;
       if method = PUT then
         bindr (chainTrustForNodeTLS E W (entry\<lparr>lr_TLSCA := []\<rparr>)) (\<lambda>e. (400, Some e)) (\<lambda>ca.
           if ca = [] then return (400, Some ''Failed to get mesh TLS Certificate'')
           else storeLeaves E config
             (otherLeaves entry leaves @ [newEntry entry ca (preservedMACsec entry leaves)]))
       else storeLeaves E config (otherLeaves entry leaves)
     }
   }"

section \<open>Parent credentials, one time passwords, leaf mode\<close>

definition setParentCredentials ::
  "env \<Rightarrow> meshWorld \<Rightarrow> httpMethod \<Rightarrow> string \<Rightarrow> string \<Rightarrow> string \<Rightarrow> (int \<times> err) go" where
  "setParentCredentials E W method ip token ca = do {
     config \<leftarrow> lockedConfig E;
     if method = DELETE then do {
       saveConfigLocked E (config\<lparr>mc_ParentIP := [], mc_ParentAPIToken := [], mc_ParentCA := []\<rparr>);
       return (200, None)
     }
     else if token = [] then return (400, Some ''Invalid API Token'')
     else if e_parseIP E ip = None then return (400, Some (''invalid ip '' @ ip))
     else if ca = [] then return (400, Some ''Missing CA for parent SPR'')
     else check (validateCA E W ca) (\<lambda>e. (400, Some e)) (do {
       saveConfigLocked E (config\<lparr>mc_ParentIP := ip, mc_ParentAPIToken := token, mc_ParentCA := ca\<rparr>);
       return (200, None)
     })
   }"

definition otpSaveLocked :: "env \<Rightarrow> string \<Rightarrow> err go" where
  "otpSaveLocked E settings = act E (CWriteFile ''otp_settings.json'' settings)"

definition setOTP :: "env \<Rightarrow> string \<Rightarrow> string \<Rightarrow> (int \<times> err) go" where
  "setOTP E token settings =
     bindr (getToken E DOWNHAUL_TOKEN_NAME) (\<lambda>e. (400, Some e)) (\<lambda>tok.
       if tk_Token tok \<noteq> token then return (400, Some ''Invalid token to set OTP'')
       else check (otpSaveLocked E settings) (\<lambda>e. (400, Some e)) (return (200, None)))"

definition setLeafRouter :: "env \<Rightarrow> bool \<Rightarrow> unit go" where
  "setLeafRouter E enabled =
    (if \<not> enabled then do {
       e \<leftarrow> act E (CRemove ''enabled'');
       doif (e = None) (modify (\<lambda>s. s\<lparr>w_leafFlag := Absent\<rparr>))
     } else do {
       e \<leftarrow> act E (CWriteFile ''enabled'' []);
       doif (e = None) (modify (\<lambda>s. s\<lparr>w_leafFlag := Present\<rparr>))
     })"

text \<open>The result: the status with an error, or the value for a \<open>GET\<close>.\<close>

definition leafMode :: "env \<Rightarrow> httpMethod \<Rightarrow> string \<Rightarrow> ((int \<times> err) + bool) go" where
  "leafMode E method action =
    (if method = PUT then
       (if action = ''enable'' then do { setLeafRouter E True; return (Inl (200, None)) }
        else if action = ''disable'' then do { setLeafRouter E False; return (Inl (200, None)) }
        else return (Inl (400, Some ''invalid enable param'')))
     else do { b \<leftarrow> isLeafRouter; return (Inr b) })"

section \<open>Stations on a leaf\<close>

definition LeafRouterID :: "env \<Rightarrow> string go" where
  "LeafRouterID E = do {
     r \<leftarrow> sysOutput E ''ip'' [''route'', ''get'', ''1.1.1.1''];
     return (case r of Inl _ \<Rightarrow> []
       | Inr out \<Rightarrow> (let pieces = split_on CHR '' '' out in if length pieces \<ge> 7 then pieces ! 6 else []))
   }"

fun jfield :: "json \<Rightarrow> string \<Rightarrow> json option" where
  "jfield (JObj members) k = map_of (rev members) k"
| "jfield _ k = None"

fun jarr :: "json option \<Rightarrow> json list option" where
  "jarr (Some (JArr xs)) = Some xs"
| "jarr _ = None"

text \<open>One element: \<open>[{"concat": [iface, mac, ...]}, ...]\<close>, or skipped.\<close>

fun elem_key :: "json \<Rightarrow> (string \<times> string) option" where
  "elem_key (JArr (e # _)) =
    (case jarr (jfield e ''concat'') of
       Some (JStr iface # JStr mac # _) \<Rightarrow> Some (iface, mac) | _ \<Rightarrow> None)"
| "elem_key _ = None"

definition bridgeSet_of :: "json \<Rightarrow> (string \<times> string) list" where
  "bridgeSet_of j =
    (case jarr (jfield j ''nftables'') of
       Some (_ # d # _) \<Rightarrow>
         (case jfield d ''map'' of None \<Rightarrow> []
          | Some m \<Rightarrow> (case jarr (jfield m ''elem'') of None \<Rightarrow> []
              | Some xs \<Rightarrow> List.map_filter elem_key xs))
     | _ \<Rightarrow> [])"

definition getExistingBridgeSet :: "env \<Rightarrow> meshWorld \<Rightarrow> (string \<times> string) list go" where
  "getExistingBridgeSet E W = do {
     r \<leftarrow> sysOutput E ''nft'' [''-j'', ''list'', ''map'', ''bridge'', ''filter'', ''bridge_access''];
     return (case r of Inl _ \<Rightarrow> []
       | Inr out \<Rightarrow> (case mw_json W out of Inl _ \<Rightarrow> [] | Inr j \<Rightarrow> bridgeSet_of j))
   }"

definition elemArgs :: "string \<Rightarrow> string \<times> string \<Rightarrow> string list" where
  "elemArgs verb k = [verb, ''element'', ''bridge'', ''filter'', ''bridge_access'',
     ''{'', fst k, ''.'', snd k, '':'', ''accept'', ''}'']"

definition dropElements :: "env \<Rightarrow> string \<Rightarrow> string \<Rightarrow> (string \<times> string) list \<Rightarrow> unit go" where
  "dropElements E iface mac existing = for_each existing (\<lambda>k.
     if fst k = iface \<or> snd k = mac then drop_result (act E (CCmd ''nft'' (elemArgs ''delete'' k))) else return ())"

definition updateBridgeAccess :: "env \<Rightarrow> meshWorld \<Rightarrow> string \<Rightarrow> string \<Rightarrow> string \<Rightarrow> unit go" where
  "updateBridgeAccess E W action iface mac = do {
     existing \<leftarrow> getExistingBridgeSet E W;
     if action = ''add'' then do {
       dropElements E iface mac existing;
       drop_result (act E (CCmd ''nft'' (elemArgs ''add'' (iface, mac))))
     }
     else doif (action = ''remove'') (dropElements E iface mac existing)
   }"

text \<open>Each event is sent to the parent by a goroutine of its own.\<close>

definition publishConnectEventParent :: "meshWorld \<Rightarrow> WifiConnectEvent \<Rightarrow> unit go" where
  "publishConnectEventParent W event = emit (CGoParent ''reportPSKAuthSuccess'' (mw_event W event))"

definition publishConnectFailureEventParent :: "meshWorld \<Rightarrow> WifiConnectFailureEvent \<Rightarrow> unit go" where
  "publishConnectFailureEventParent W event = emit (CGoParent ''reportPSKAuthFailure'' (mw_failure W event))"

definition publishDisconnectEventParent :: "meshWorld \<Rightarrow> WifiConnectEvent \<Rightarrow> unit go" where
  "publishDisconnectEventParent W event = emit (CGoParent ''reportDisconnect'' (mw_event W event))"

lemmas publish_defs = publishConnectEventParent_def publishConnectFailureEventParent_def publishDisconnectEventParent_def

definition wifiConnect :: "env \<Rightarrow> meshWorld \<Rightarrow> WifiConnectEvent \<Rightarrow> unit go" where
  "wifiConnect E W event = do {
     leaf \<leftarrow> isLeafRouter;
     if \<not> leaf then return ()
     else do {
       router \<leftarrow> LeafRouterID E;
       let event = event\<lparr>ev_Router := router\<rparr>;
       publishConnectEventParent W event;
       check (act E (CCmd ''ip'' [''link'', ''set'', ''dev'', ev_Iface event, ''master'', BRIDGE_IFACE])) (\<lambda>_. ())
      (check (act E (CCmd ''bridge'' [''link'', ''set'', ''dev'', ev_Iface event, ''isolated'', ''on''])) (\<lambda>_. ())
        (updateBridgeAccess E W ''add'' (ev_Iface event) (ev_Mac event)))
     }
   }"

definition wifiDisconnect :: "env \<Rightarrow> meshWorld \<Rightarrow> WifiConnectEvent \<Rightarrow> unit go" where
  "wifiDisconnect E W event = do {
     leaf \<leftarrow> isLeafRouter;
     if \<not> leaf then return ()
     else do {
       router \<leftarrow> LeafRouterID E;
       let event = event\<lparr>ev_Router := router\<rparr>;
       publishDisconnectEventParent W event;
       updateBridgeAccess E W ''remove'' (ev_Iface event) (ev_Mac event)
     }
   }"

definition wifiConnectFailure :: "env \<Rightarrow> meshWorld \<Rightarrow> WifiConnectFailureEvent \<Rightarrow> unit go" where
  "wifiConnectFailure E W event = do {
     leaf \<leftarrow> isLeafRouter;
     if \<not> leaf then return ()
     else do {
       router \<leftarrow> LeafRouterID E;
       publishConnectFailureEventParent W (event\<lparr>fe_Router := router\<rparr>)
     }
   }"

section \<open>Requests to other routers\<close>

text \<open>\<open>c.Do(req)\<close> over a client that trusts \<open>ca\<close>, with a bearer token.\<close>

definition httpDo :: "meshWorld \<Rightarrow> string \<Rightarrow> string \<Rightarrow> string \<Rightarrow> string \<Rightarrow> string \<Rightarrow> (int \<times> string) res go" where
  "httpDo W method host path token ca =
    (let c = CHTTP method host path token ca in ask c (\<lambda>h. mw_http W h c))"

definition callParentAPI :: "env \<Rightarrow> meshWorld \<Rightarrow> string \<Rightarrow> unit go" where
  "callParentAPI E W path = do {
     config \<leftarrow> lockedConfig E;
     if mc_ParentIP config = [] \<or> mc_ParentAPIToken config = [] then return ()
     else drop_result (httpDo W ''PUT'' (mc_ParentIP config) (''/'' @ path) (mc_ParentAPIToken config) (mc_ParentCA config))
   }"

definition callLeafAPI :: "meshWorld \<Rightarrow> LeafRouter \<Rightarrow> string \<Rightarrow> string \<Rightarrow> (int \<times> string) res go" where
  "callLeafAPI W leaf method path = httpDo W method (lr_IP leaf) path (lr_APIToken leaf) (lr_TLSCA leaf)"

definition callAPIDeviceSync :: "meshWorld \<Rightarrow> LeafRouter \<Rightarrow> unit go" where
  "callAPIDeviceSync W leaf = drop_result (callLeafAPI W leaf ''PUT'' ''/devices'')"

definition syncDevices :: "env \<Rightarrow> meshWorld \<Rightarrow> unit go" where
  "syncDevices E W = do {
     config \<leftarrow> lockedConfig E;
     for_each (mc_LeafRouters config) (callAPIDeviceSync W)
   }"

text \<open>The one time password settings, from the file to every node.\<close>

definition otpLoadLocked :: "env \<Rightarrow> meshWorld \<Rightarrow> (nat \<times> err) go" where
  "otpLoadLocked E W = do {
     r \<leftarrow> ask (CReadFile ''otp_settings.json'') (\<lambda>h. e_ReadFile E h ''otp_settings.json'');
     return (case r of Inl e \<Rightarrow> (0, Some e) | Inr data \<Rightarrow> mw_otp W data)
   }"

definition callAPISetOTP :: "env \<Rightarrow> meshWorld \<Rightarrow> LeafRouter \<Rightarrow> unit go" where
  "callAPISetOTP E W leaf = do {
     r \<leftarrow> otpLoadLocked E W;
     if snd r \<noteq> None \<and> fst r = 0 then return ()
     else drop_result (callLeafAPI W leaf ''PUT'' ''/plugins/mesh/setOTP'')
   }"

definition syncOTP :: "env \<Rightarrow> meshWorld \<Rightarrow> unit go" where
  "syncOTP E W = do {
     config \<leftarrow> lockedConfig E;
     for_each (mc_LeafRouters config) (\<lambda>leaf. callAPISetOTP E W leaf)
   }"

definition getMeshConfig :: "env \<Rightarrow> MeshConfig go" where
  "getMeshConfig E = lockedConfig E"

definition leafRouters :: "env \<Rightarrow> LeafRouter list go" where
  "leafRouters E = do { config \<leftarrow> lockedConfig E; return (mc_LeafRouters config) }"

definition callAPIGetInterfaces :: "meshWorld \<Rightarrow> LeafRouter \<Rightarrow> InterfaceConfig list go" where
  "callAPIGetInterfaces W leaf =
     bindr (callLeafAPI W leaf ''GET'' ''/interfacesConfiguration'') (\<lambda>_. []) (\<lambda>r.
       return (if fst r \<noteq> httpStatusOK then []
         else case mw_interfaces W (snd r) of Inl _ \<Rightarrow> [] | Inr ifaces \<Rightarrow> ifaces))"

definition ap_interface :: "InterfaceConfig \<Rightarrow> bool" where
  "ap_interface i = (if_Enabled i \<and> if_Type i = ''AP'')"

definition callAPISetSSID :: "meshWorld \<Rightarrow> LeafRouter \<Rightarrow> string \<Rightarrow> unit go" where
  "callAPISetSSID W leaf iface = drop_result (callLeafAPI W leaf ''PUT'' (''/hostapd/'' @ iface @ ''/config''))"

definition setSSID :: "env \<Rightarrow> meshWorld \<Rightarrow> string \<Rightarrow> unit go" where
  "setSSID E W SSID = do {
     config \<leftarrow> lockedConfig E;
     for_each (mc_LeafRouters config) (\<lambda>leaf. do {
       ifaces \<leftarrow> callAPIGetInterfaces W leaf;
       for_each ifaces (\<lambda>i.
         if ap_interface i then callAPISetSSID W leaf (if_Name i) else return ())
     })
   }"

record LeafStations =
  lt_LeafIP :: string
  lt_Stations :: "(string, (string \<times> string) list) gomap"
  lt_Error :: string

definition callAPIAllStations ::
  "meshWorld \<Rightarrow> LeafRouter \<Rightarrow> string \<Rightarrow> (string, (string \<times> string) list) gomap res go" where
  "callAPIAllStations W leaf iface =
     bindr (callLeafAPI W leaf ''GET'' (''/hostapd/'' @ iface @ ''/all_stations''))
       (\<lambda>e. Inl (''failed to poll '' @ lr_IP leaf @ '' interface '' @ iface @ '': '' @ e)) (\<lambda>r.
       return (if fst r \<noteq> httpStatusOK
         then Inl (''leaf '' @ lr_IP leaf @ '' returned status '' @ itoa (fst r) @ '' for interface '' @ iface)
         else case mw_stations W (snd r) of
             Inl e \<Rightarrow> Inl (''failed to decode response: '' @ e) | Inr m \<Rightarrow> Inr m))"

definition pollLeafRouterStations :: "meshWorld \<Rightarrow> LeafRouter \<Rightarrow> LeafStations go" where
  "pollLeafRouterStations W leaf = do {
     ifaces \<leftarrow> callAPIGetInterfaces W leaf;
     for_fold ifaces \<lparr>lt_LeafIP = lr_IP leaf, lt_Stations = [], lt_Error = []\<rparr> (\<lambda>i result.
       if \<not> ap_interface i then return result
       else do {
         r \<leftarrow> callAPIAllStations W leaf (if_Name i);
         return (case r of
             Inl e \<Rightarrow> result\<lparr>lt_Error := e\<rparr>
           | Inr stations \<Rightarrow> result\<lparr>lt_Stations := fold (\<lambda>p m. mput (fst p) (snd p) m) stations (lt_Stations result)\<rparr>)
       })
   }"

text \<open>The polls run concurrently and write nothing; here one after the other.\<close>

definition getAllLeafStations :: "env \<Rightarrow> meshWorld \<Rightarrow> (string, LeafStations) gomap go" where
  "getAllLeafStations E W = do {
     config \<leftarrow> lockedConfig E;
     for_fold (mc_LeafRouters config) [] (\<lambda>leaf results. do {
       r \<leftarrow> pollLeafRouterStations W leaf;
       return (mput (lt_LeafIP r) r results)
     })
   }"

record LeafTopology =
  tp_LeafIP :: string
  tp_Online :: bool
  tp_Topology :: "string option"

definition callAPIGetTopology :: "meshWorld \<Rightarrow> LeafRouter \<Rightarrow> LeafTopology go" where
  "callAPIGetTopology W leaf =
    (let result = (\<lambda>on t. \<lparr>tp_LeafIP = lr_IP leaf, tp_Online = on, tp_Topology = t\<rparr>) in
     bindr (callLeafAPI W leaf ''GET'' ''/topology'') (\<lambda>_. result False None) (\<lambda>r.
       return (if fst r \<noteq> httpStatusOK then result True None else result True (Some (snd r)))))"

text \<open>Byte order of Go strings; the polls' results are sorted by address.\<close>

fun str_less :: "string \<Rightarrow> string \<Rightarrow> bool" where
  "str_less s [] = False"
| "str_less [] (c # t) = True"
| "str_less (c # s) (d # t) = ((of_char c :: nat) < of_char d \<or> (c = d \<and> str_less s t))"

fun insertTopology :: "LeafTopology \<Rightarrow> LeafTopology list \<Rightarrow> LeafTopology list" where
  "insertTopology x [] = [x]"
| "insertTopology x (y # ys) =
    (if str_less (tp_LeafIP y) (tp_LeafIP x) then y # insertTopology x ys else x # y # ys)"

definition getAllLeafTopologies :: "env \<Rightarrow> meshWorld \<Rightarrow> LeafTopology list go" where
  "getAllLeafTopologies E W = do {
     config \<leftarrow> lockedConfig E;
     results \<leftarrow> for_fold (mc_LeafRouters config) [] (\<lambda>leaf results. do {
       r \<leftarrow> callAPIGetTopology W leaf;
       return (results @ [r])
     });
     return (foldr insertTopology results [])
   }"

end
