(* ===== verification/Neighbors.thy ===== *)
theory Neighbors
  imports Mesh "HOL-Library.List_Lexorder"
begin

text \<open>
  \<open>mesh_neighbors.go\<close>: the 802.11 neighbour reports of the mesh. A router lists its own access
  points from \<open>hostapd\<close>, the main router collects the lists of all nodes, and every router tells
  each of its access points about the compatible ones of the others and drops those it had
  told before that are gone. The socket exchange and JSON are ws of \<open>meshWorld\<close>; the file
  \<open>neighbors.json\<close> is \<open>w_neighbors\<close>, with whatever \<open>Unmarshal\<close> makes of its contents. The inventories
  of the nodes, which the code requests at the same time, are requested one after the other.
\<close>

section \<open>The control socket\<close>

definition hostapdRejects :: "string \<Rightarrow> bool" where
  "hostapdRejects response = (response = [] \<or> has_prefix response ''FAIL'' \<or> has_prefix response ''UNKNOWN COMMAND'')"

definition meshHostapdCommand :: "meshWorld \<Rightarrow> string \<Rightarrow> string \<Rightarrow> (string \<times> err) go" where
  "meshHostapdCommand W iface command =
    (if \<not> valid_iface iface then return ([], Some (''invalid AP interface '' @ quote iface))
     else do {
       r \<leftarrow> ask (CHostapd iface command) (\<lambda>h. mw_hostapd W h iface command);
       return (case r of Inl e \<Rightarrow> ([], Some e)
         | Inr buffer \<Rightarrow>
             let response = trim_space buffer
             in (response, if hostapdRejects response
                 then Some (''hostapd rejected '' @ hd (str_fields command) @ '' on '' @ iface @ '': '' @ response)
                 else None))
     })"

definition meshQuery :: "meshWorld \<Rightarrow> string \<Rightarrow> string \<Rightarrow> string res go" where
  "meshQuery W iface command = do {
     r \<leftarrow> meshHostapdCommand W iface command;
     return (case snd r of Some e \<Rightarrow> Inl e | None \<Rightarrow> Inr (fst r))
   }"

definition meshValues :: "string \<Rightarrow> (string, string) gomap" where
  "meshValues out = foldl (\<lambda>values line. (case cut_at CHR ''='' line of
       None \<Rightarrow> values | Some (key, value) \<Rightarrow> mput key value values)) [] (split_on CHR 0x0A out)"

text \<open>Indexing a Go map yields the zero value for a missing key.\<close>

definition mvalue :: "(string, string) gomap \<Rightarrow> string \<Rightarrow> string" where
  "mvalue values key = (case mget values key of None \<Rightarrow> [] | Some v \<Rightarrow> v)"

section \<open>The access points of this router\<close>

definition validMeshBSS :: "MeshBSS \<Rightarrow> bool" where
  "validMeshBSS bss =
    (case (parse_mac (bss_BSSID bss), hex_decode (bss_SSID bss), hex_decode (bss_NR bss)) of
       (Some mac, Some ssid, Some nr) \<Rightarrow>
         length mac = 6 \<and> 0 < length ssid \<and> length ssid \<le> 32 \<and> 13 \<le> length nr \<and> length nr \<le> 255 \<and>
         take 6 nr = mac \<and> nr ! 10 \<noteq> 0 \<and> nr ! 11 \<noteq> 0
     | _ \<Rightarrow> False)"

definition apNames :: "apEntry list \<Rightarrow> string list" where
  "apNames interfaces = concat (map (\<lambda>entry.
     if \<not> if_Enabled entry \<or> if_Type entry \<noteq> ''AP'' then []
     else if_Name entry # map (\<lambda>i. if_Name entry @ ''.ap'' @ itoa (int i)) [0..<if_ExtraBSS entry]) interfaces)"

definition localBSSID :: "(string, string) gomap \<Rightarrow> (string, string) gomap \<Rightarrow> string" where
  "localBSSID status live =
    (let bssid = mvalue live ''bssid'' in if bssid = [] then mvalue status ''bssid[0]'' else bssid)"

definition localSecurity :: "(string, string) gomap \<Rightarrow> string" where
  "localSecurity live = join ''|'' [mvalue live ''wpa'', join '' '' (sort (str_fields (mvalue live ''key_mgmt''))),
     mvalue live ''group_cipher'', mvalue live ''rsn_pairwise_cipher'']"

text \<open>The first line of the neighbour list that is about the access point itself.\<close>

definition selfReport :: "string \<Rightarrow> string \<Rightarrow> string \<Rightarrow> string \<Rightarrow> MeshBSS option" where
  "selfReport iface bssid security reports =
    (case find (\<lambda>ws. ws \<noteq> [] \<and> equal_fold (hd ws) bssid) (map str_fields (split_on CHR 0x0A reports)) of
       None \<Rightarrow> None
     | Some ws \<Rightarrow>
         let values = meshValues (join [CHR 0x0A] (tl ws));
             bss = \<lparr>bss_Interface = iface, bss_BSSID = hd ws, bss_SSID = mvalue values ''ssid'',
               bss_NR = mvalue values ''nr'', bss_Security = security\<rparr>
         in if validMeshBSS bss then Some bss else None)"

definition localBSS :: "meshWorld \<Rightarrow> string \<Rightarrow> MeshBSS option go" where
  "localBSS W iface =
    (if \<not> valid_iface iface then return None
     else bindr (meshQuery W iface ''STATUS'') (\<lambda>_. None) (\<lambda>statusRaw.
       let status = meshValues statusRaw in
       if mvalue status ''state'' \<noteq> ''ENABLED'' then return None
       else bindr (meshQuery W iface ''GET_CONFIG'') (\<lambda>_. None) (\<lambda>configRaw.
         let live = meshValues configRaw in
         bindr (meshQuery W iface ''SHOW_NEIGHBOR'') (\<lambda>_. None) (\<lambda>reports.
           return (selfReport iface (localBSSID status live) (localSecurity live) reports)))))"

definition meshLocalBSSes :: "env \<Rightarrow> meshWorld \<Rightarrow> MeshBSS list res go" where
  "meshLocalBSSes E W =
     bindr (ask (CReadFile ''interfaces.json'') (\<lambda>h. e_ReadFile E h ''interfaces.json''))
       (\<lambda>e. Inl (''read mesh interfaces: '' @ e)) (\<lambda>data.
     (case mw_aps W data of Inl e \<Rightarrow> return (Inl (''decode mesh interfaces: '' @ e))
      | Inr interfaces \<Rightarrow> do {
          bsses \<leftarrow> for_fold (apNames interfaces) [] (\<lambda>iface bsses. do {
            b \<leftarrow> localBSS W iface;
            return (case b of None \<Rightarrow> bsses | Some bss \<Rightarrow> bsses @ [bss])
          });
          return (Inr bsses)
        }))"

section \<open>Which access points may be neighbours\<close>

definition meshSecurityCompatible :: "string \<Rightarrow> string \<Rightarrow> bool" where
  "meshSecurityCompatible a b =
    (let left = split_on CHR ''|'' a; right = split_on CHR ''|'' b in
     if length left \<noteq> 4 \<or> length right \<noteq> 4 \<or> left ! 0 \<noteq> right ! 0 \<or> left ! 1 \<noteq> right ! 1 \<or> left ! 2 \<noteq> right ! 2
     then False
     else if left ! 3 = right ! 3 then True
     else list_ex (\<lambda>cipher. list_ex (\<lambda>other. cipher = other) (str_fields (right ! 3))) (str_fields (left ! 3)))"

definition bssMAC :: "MeshBSS \<Rightarrow> string" where
  "bssMAC bss = (case parse_mac (bss_BSSID bss) of None \<Rightarrow> [] | Some mac \<Rightarrow> mac_string mac)"

definition isNeighbor :: "MeshBSS \<Rightarrow> MeshBSS \<Rightarrow> bool" where
  "isNeighbor lcl peer = (\<not> (bssMAC peer = bssMAC lcl \<or> bss_SSID peer \<noteq> bss_SSID lcl \<or>
     \<not> meshSecurityCompatible (bss_Security peer) (bss_Security lcl)))"

type_synonym meshNeighborKey = "string \<times> string"

definition neighborKey :: "MeshBSS \<Rightarrow> meshNeighborKey" where
  "neighborKey peer = (bssMAC peer, bss_SSID peer)"

definition setNeighborCmd :: "MeshBSS \<Rightarrow> string" where
  "setNeighborCmd peer = ''SET_NEIGHBOR '' @ fst (neighborKey peer) @ '' ssid='' @ snd (neighborKey peer) @
     '' nr='' @ bss_NR peer"

definition removeNeighborCmd :: "meshNeighborKey \<Rightarrow> string" where
  "removeNeighborCmd key = ''REMOVE_NEIGHBOR '' @ fst key @ '' ssid='' @ snd key"

section \<open>Telling the access points\<close>

text \<open>The inner loop; the Go map \<open>want\<close> is the list of its keys without repetition, in an arbitrary order.\<close>

fun setNeighbors ::
  "meshWorld \<Rightarrow> MeshBSS \<Rightarrow> MeshBSS list \<Rightarrow> meshNeighborKey list \<Rightarrow> meshNeighborKey list res go" where
  "setNeighbors W lcl [] want = return (Inr want)"
| "setNeighbors W lcl (peer # peers) want =
    (if \<not> isNeighbor lcl peer then setNeighbors W lcl peers want
     else do {
       r \<leftarrow> meshHostapdCommand W (bss_Interface lcl) (setNeighborCmd peer);
       if snd r \<noteq> None \<or> fst r \<noteq> ''OK''
       then return (Inl (''set neighbor on '' @ bss_Interface lcl @ '': '' @
         (case snd r of None \<Rightarrow> ''<nil>'' | Some e \<Rightarrow> e) @ '' '' @ fst r))
       else setNeighbors W lcl peers (List.insert (neighborKey peer) want)
     })"

definition recordedFor :: "(string, meshNeighborKey list) gomap \<Rightarrow> string \<Rightarrow> meshNeighborKey list" where
  "recordedFor previous iface = (case mget previous iface of None \<Rightarrow> [] | Some keys \<Rightarrow> keys)"

definition applyLocal ::
  "meshWorld \<Rightarrow> MeshBSS list \<Rightarrow> MeshBSS \<Rightarrow> (string, meshNeighborKey list) gomap \<Rightarrow>
    (string, meshNeighborKey list) gomap res go" where
  "applyLocal W peers lcl previous =
     bindr (setNeighbors W lcl peers []) Inl (\<lambda>want. do {
       for_each (recordedFor previous (bss_Interface lcl)) (\<lambda>key.
         doif (key \<notin> set want)
           (drop_result (meshHostapdCommand W (bss_Interface lcl) (removeNeighborCmd key))));
       return (Inr (mput (bss_Interface lcl) want previous))
     })"

fun applyLocals ::
  "meshWorld \<Rightarrow> MeshBSS list \<Rightarrow> MeshBSS list \<Rightarrow> (string, meshNeighborKey list) gomap \<Rightarrow>
    (string, meshNeighborKey list) gomap res go" where
  "applyLocals W peers [] previous = return (Inr previous)"
| "applyLocals W peers (lcl # locals) previous =
     bindr (applyLocal W peers lcl previous) Inl (applyLocals W peers locals)"

definition saveNeighbors :: "env \<Rightarrow> (string, meshNeighborKey list) gomap \<Rightarrow> err go" where
  "saveNeighbors E previous = check (act E (CSaveNeighbors previous)) Some (do {
     e \<leftarrow> act E (CRename ''neighbors.json.tmp'' ''neighbors.json'');
     doif (e = None) (modify (\<lambda>s. s\<lparr>w_neighbors := Some previous\<rparr>));
     return e
   })"

definition meshApplyNeighbors :: "env \<Rightarrow> meshWorld \<Rightarrow> MeshBSS list \<Rightarrow> err go" where
  "meshApplyNeighbors E W peers =
    (if length peers > 128 then return (Some ''too many mesh APs'')
     else if \<not> list_all validMeshBSS peers then return (Some ''invalid mesh AP'')
     else bindr (meshLocalBSSes E W) Some (\<lambda>locals. do {
       file \<leftarrow> gets w_neighbors;
       bindr (applyLocals W peers locals (case file of None \<Rightarrow> [] | Some previous \<Rightarrow> previous)) Some (saveNeighbors E)
     }))"

section \<open>Over the mesh\<close>

definition meshRemote :: "meshWorld \<Rightarrow> LeafRouter \<Rightarrow> string \<Rightarrow> string \<Rightarrow> string res go" where
  "meshRemote W leaf method path =
     bindr (callLeafAPI W leaf method (''/plugins/mesh/'' @ path)) Inl (\<lambda>r.
       let data = take 65536 (snd r) in
       return (if fst r \<noteq> httpStatusOK then Inl (itoa (fst r) @ '': '' @ trim_space data) else Inr data))"

definition nodeInventory :: "meshWorld \<Rightarrow> LeafRouter \<Rightarrow> MeshBSS list go" where
  "nodeInventory W leaf = bindr (meshRemote W leaf ''GET'' ''bsses'') (\<lambda>_. []) (\<lambda>data.
     return (case mw_bss W data of Inl _ \<Rightarrow> []
       | Inr bsses \<Rightarrow> if list_all validMeshBSS bsses then bsses else []))"

definition syncMeshNeighbors :: "env \<Rightarrow> meshWorld \<Rightarrow> unit go" where
  "syncMeshNeighbors E W = do {
     isLeaf \<leftarrow> isLeafRouter;
     if isLeaf then return ()
     else bindr (meshLocalBSSes E W) (\<lambda>_. ()) (\<lambda>own.
       if own = [] then return ()
       else do {
         config \<leftarrow> lockedConfig E;
         inventories \<leftarrow> for_fold (mc_LeafRouters config) [] (\<lambda>leaf acc. do {
           bsses \<leftarrow> nodeInventory W leaf;
           return (acc @ [(leaf, bsses)])
         });
         drop_result (meshApplyNeighbors E W (own @ concat (map snd inventories)));
         for_each (map fst (filter (\<lambda>i. snd i \<noteq> []) inventories))
           (\<lambda>leaf. drop_result (meshRemote W leaf ''PUT'' ''neighbors''))
       })
   }"

section \<open>Handlers\<close>

definition meshBSSesHandler :: "env \<Rightarrow> meshWorld \<Rightarrow> ((int \<times> string) + MeshBSS list) go" where
  "meshBSSesHandler E W = bindr (meshLocalBSSes E W) (\<lambda>e. Inl (500, e)) (\<lambda>bsses. return (Inr bsses))"

text \<open>The request is the decoded body, or the decoder's error.\<close>

definition meshNeighborsHandler :: "env \<Rightarrow> meshWorld \<Rightarrow> MeshBSS list res \<Rightarrow> (int \<times> err) go" where
  "meshNeighborsHandler E W request =
    (case request of Inl e \<Rightarrow> return (400, Some e)
     | Inr bsses \<Rightarrow> do {
         e \<leftarrow> meshApplyNeighbors E W bsses;
         return (case e of Some e \<Rightarrow> (502, Some e) | None \<Rightarrow> (200, None))
       })"

end
