(* ===== verification/MeshSafety.thy ===== *)
theory MeshSafety
  imports Mesh "HOL-Library.Multiset" "HOL-Library.Char_ord" "HOL-Library.List_Lexorder"
begin

text \<open>
  What the handlers of \<open>mesh.go\<close> guarantee: a node's certificate authority is stored only when the
  holder of the pairing token signed it and the server proved it; adding and removing a node
  touches no other; a station has one place on the bridge; a node's token goes only to that
  node, under its own certificate authority.
\<close>

section \<open>Certificate authorities\<close>

text \<open>A certificate the code accepts as an authority at the time \<open>t\<close>.\<close>

definition ca_ok :: "meshWorld \<Rightarrow> int \<Rightarrow> string \<Rightarrow> x509 \<Rightarrow> bool" where
  "ca_ok W t pem ca \<longleftrightarrow> (\<exists>block. mw_pem W pem = Some block \<and> mw_x509 W block = Inr ca) \<and>
     xc_IsCA ca \<and> xc_Subject ca = xc_Issuer ca \<and> mw_checkSig W ca = None \<and>
     xc_NotBefore ca \<le> t \<and> t \<le> xc_NotAfter ca \<and> (xc_MaxPathLen ca \<noteq> 0 \<or> xc_MaxPathLenZero ca)"

text \<open>\<open>validateCA\<close> decides exactly this, on the time it reads.\<close>

lemma wp_validateCA:
  "wp (validateCA E W pem) (\<lambda>e t. e = None \<longrightarrow> pem \<noteq> [] \<and>
     (\<exists>ca. w_hist t = CNow # w_hist s \<and> ca_ok W (e_Now E (w_hist s)) pem ca)) s"
  by (auto simp: validateCA_def validateCert_def wp_simps ca_ok_def split: option.splits sum.splits)

lemma run_validateCA:
  assumes "pem \<noteq> []" "ca_ok W (e_Now E (w_hist s)) pem ca"
  shows "run_state (validateCA E W pem) s = (None, s\<lparr>w_hist := CNow # w_hist s\<rparr>)"
proof -
  obtain block where "mw_pem W pem = Some block" "mw_x509 W block = Inr ca"
    using assms(2) by (auto simp: ca_ok_def)
  with assms have "wp (validateCA E W pem) (\<lambda>e t. e = None \<and> t = s\<lparr>w_hist := CNow # w_hist s\<rparr>) s"
    by (auto simp: validateCA_def validateCert_def wp_simps ca_ok_def)
  then show ?thesis by (auto simp: wp_def split: prod.splits)
qed

lemma wp_CAPool:
  "wp (CAPoolFromCABytes E W pem) (\<lambda>r t. \<forall>ca. r = Inr ca \<longrightarrow>
     (\<exists>h. grows h (w_hist t) \<and> ca_ok W (e_Now E h) pem ca)) s"
  unfolding CAPoolFromCABytes_def wp_bind wp_return
proof (rule wp_mono [OF wp_validateCA], goal_cases)
  case (1 e t)
  show ?case
  proof (cases e)
    case None
    with 1 obtain ca where "w_hist t = CNow # w_hist s" "ca_ok W (e_Now E (w_hist s)) pem ca" by auto
    moreover from this obtain block where "mw_pem W pem = Some block" "mw_x509 W block = Inr ca"
      by (auto simp: ca_ok_def)
    ultimately show ?thesis using None by (auto intro!: exI [of _ "w_hist s"])
  qed simp
qed

section \<open>Trust in a node\<close>

definition trusted_reply :: "env \<Rightarrow> meshWorld \<Rightarrow> LeafRouter \<Rightarrow> hist \<Rightarrow> string \<Rightarrow> bool" where
  "trusted_reply E W node h data \<longleftrightarrow> (\<exists>h0 r server ca h1. mw_cert W h0 (lr_IP node) = Inr r \<and>
     grows (CFetchCert (lr_IP node) # h0) h \<and> cr_Status r = 200 \<and> cr_Body r = data \<and> cr_HMAC r \<noteq> [] \<and>
     cr_HMAC r = createHMACSignatureWithData E data (certKeyMaterial (lr_APIToken node)) \<and>
     cr_Server r = Some server \<and> grows h1 h \<and> ca_ok W (e_Now E h1) data ca \<and> mw_verify W server ca = None)"

lemma trusted_replyI:
  "mw_cert W h0 (lr_IP node) = Inr r \<Longrightarrow> grows (CFetchCert (lr_IP node) # h0) h \<Longrightarrow> cr_Status r = 200 \<Longrightarrow>
    cr_HMAC r \<noteq> [] \<Longrightarrow>
    cr_HMAC r = createHMACSignatureWithData E (cr_Body r) (certKeyMaterial (lr_APIToken node)) \<Longrightarrow>
    cr_Server r = Some server \<Longrightarrow> grows h1 h \<Longrightarrow> ca_ok W (e_Now E h1) (cr_Body r) ca \<Longrightarrow>
    mw_verify W server ca = None \<Longrightarrow> trusted_reply E W node h (cr_Body r)"
  unfolding trusted_reply_def by blast

lemma emits_CAPool: "P CNow \<Longrightarrow> emits P (CAPoolFromCABytes E W pem)"
  unfolding CAPoolFromCABytes_def validateCA_def validateCert_def
  by (intro emits_rules frame)

lemma wp_checkCertReply:
  assumes r: "mw_cert W h0 (lr_IP node) = Inr r" and h: "grows (CFetchCert (lr_IP node) # h0) (w_hist s)"
  shows "wp (checkCertReply E W node r) (\<lambda>x t. \<forall>data. x = Inr data \<longrightarrow> trusted_reply E W node (w_hist t) data) s"
proof -
  let ?good = "cr_Status r = 200 \<and> cr_HMAC r \<noteq> [] \<and>
    cr_HMAC r = createHMACSignatureWithData E (cr_Body r) (certKeyMaterial (lr_APIToken node))"
  have tail: "wp (bindr (CAPoolFromCABytes E W (cr_Body r)) Inl (\<lambda>ca.
           return (case mw_verify W server ca of
               Some _ \<Rightarrow> Inl ''server certificate not signed by provided CA''
             | None \<Rightarrow> Inr (cr_Body r)))) (\<lambda>x t. \<forall>data. x = Inr data \<longrightarrow> trusted_reply E W node (w_hist t) data) s"
    if good: ?good "cr_Server r = Some server" for server
  proof -
    have "wp (CAPoolFromCABytes E W (cr_Body r)) (\<lambda>x t. hist_ext (\<lambda>_. True) s t \<and>
        (\<forall>ca. x = Inr ca \<longrightarrow> (\<exists>h. grows h (w_hist t) \<and> ca_ok W (e_Now E h) (cr_Body r) ca))) s"
      unfolding wp_conj by (intro conjI emits.in_wp [OF emits_CAPool] wp_CAPool TrueI)
    then show ?thesis
      unfolding wp_bindr wp_return
    proof (rule wp_mono, goal_cases)
      case (1 x t)
      then have "grows (CFetchCert (lr_IP node) # h0) (w_hist t)"
        using grows_trans [OF h] hist_ext_grows by blast
      with 1 r good show ?case
        by (auto split: sum.splits option.splits intro: trusted_replyI)
    qed
  qed
  show ?thesis
    using tail by (auto simp: checkCertReply_def wp_return httpStatusOK_def split: option.split)
qed

lemma wp_chainTrust:
  "wp (chainTrustForNodeTLS E W node) (\<lambda>r t. \<forall>data. r = Inr data \<longrightarrow> trusted_reply E W node (w_hist t) data) s"
  unfolding chainTrustForNodeTLS_def wp_bindr wp_ask
  by (cases "mw_cert W (w_hist s) (lr_IP node)") (auto intro!: wp_checkCertReply)

text \<open>
  The other direction: a node that serves its authority with \<open>getCert\<close> under the same pairing
  token is trusted.
\<close>

lemma hex_encode_empty: "hex_encode bs = [] \<longleftrightarrow> bs = []"
  using length_hex_encode [of bs] by (metis length_0_conv mult_is_0 zero_neq_numeral)

lemma honest_node:
  assumes "hmac_ok (e_hmac E)" "cr_Status r = 200" "cr_Body r = data" "data \<noteq> []"
    and "cr_HMAC r = createHMACSignatureWithData E data (''X-MESH|'' @ DOWNHAUL_TOKEN_NAME @ ''|'' @ lr_APIToken node)"
    and "cr_Server r = Some server" "ca_ok W (e_Now E (w_hist s)) data ca" "mw_verify W server ca = None"
  shows "wp (checkCertReply E W node r) (\<lambda>x _. x = Inr data) s"
proof -
  have "cr_HMAC r \<noteq> []"
    using assms(1) by (auto simp: assms(5) createHMACSignatureWithData_def hex_encode_empty hmac_ok_def
        macsecCtlMACLen_def) (metis list.size(3) zero_neq_numeral)
  moreover obtain block where "mw_pem W data = Some block" "mw_x509 W block = Inr ca"
    using assms(7) by (auto simp: ca_ok_def)
  ultimately show ?thesis
    using assms run_validateCA [OF assms(4,7)]
    by (simp add: checkCertReply_def httpStatusOK_def certKeyMaterial_def wp_simps CAPoolFromCABytes_def)
      (simp add: wp_def)
qed

section \<open>Adding and removing a node\<close>

lemma otherLeaves_ids: "leaf_id l \<in> leaf_id ` set (otherLeaves entry leaves) \<Longrightarrow> \<not> sameLeaf l entry"
  by (auto simp: otherLeaves_def sameLeaf_id)

lemma ports_distinct_wrt:
  "ports_distinct leaves \<longleftrightarrow> sorted_wrt (\<lambda>a b. \<forall>p. \<not> (has_port a p \<and> has_port b p)) leaves"
proof
  assume "ports_distinct leaves"
  then show "sorted_wrt (\<lambda>a b. \<forall>p. \<not> (has_port a p \<and> has_port b p)) leaves"
    unfolding ports_distinct_def sorted_wrt_iff_nth_less by (metis less_trans nat_neq_iff)
next
  assume wrt: "sorted_wrt (\<lambda>a b. \<forall>p. \<not> (has_port a p \<and> has_port b p)) leaves"
  show "ports_distinct leaves"
    unfolding ports_distinct_def
  proof (intro allI impI)
    fix i j p
    assume "i < length leaves" "j < length leaves" "i \<noteq> j"
    then show "\<not> (has_port (leaves ! i) p \<and> has_port (leaves ! j) p)"
      using wrt unfolding sorted_wrt_iff_nth_less by (cases i j rule: linorder_cases) auto
  qed
qed

lemma preserved_in: "preservedMACsec entry leaves = Some m \<Longrightarrow> \<exists>l \<in> set leaves. sameLeaf l entry \<and> lr_MACsec l = Some m"
proof -
  have "fold (\<lambda>e p. if sameLeaf e entry then lr_MACsec e else p) leaves q = Some m \<Longrightarrow>
      q = Some m \<or> (\<exists>l \<in> set leaves. sameLeaf l entry \<and> lr_MACsec l = Some m)" for q
    by (induction leaves arbitrary: q) (auto split: if_splits)
  from this [of None] show "preservedMACsec entry leaves = Some m \<Longrightarrow> ?thesis"
    by (simp add: preservedMACsec_def)
qed

lemma leaves_ok_others: "leaves_ok leaves \<Longrightarrow> leaves_ok (otherLeaves entry leaves)"
  unfolding leaves_ok_def ports_distinct_wrt otherLeaves_def
  by (auto intro: sorted_wrt_filter simp: distinct_map_filter)

text \<open>The entry that replaces the old one has its port, so the ports stay distinct.\<close>

lemma leaves_ok_new:
  assumes "leaves_ok leaves"
  shows "leaves_ok (otherLeaves entry leaves @ [newEntry entry ca (preservedMACsec entry leaves)])"
proof -
  let ?new = "newEntry entry ca (preservedMACsec entry leaves)"
  have "leaf_id ?new = leaf_id entry" by (simp add: newEntry_def leaf_id_def)
  then have ids: "leaf_id ?new \<notin> leaf_id ` set (otherLeaves entry leaves)"
    by (auto simp: otherLeaves_def sameLeaf_id)
  have "\<not> (has_port l p \<and> has_port ?new p)" if "l \<in> set (otherLeaves entry leaves)" for l p
  proof
    assume p: "has_port l p \<and> has_port ?new p"
    then obtain m where m: "preservedMACsec entry leaves = Some m" "lm_Port m = p"
      by (auto simp: has_port_def newEntry_def split: option.splits)
    from preserved_in [OF m(1)] obtain k where k: "k \<in> set leaves" "sameLeaf k entry" "lr_MACsec k = Some m" by auto
    then have kp: "has_port k p" using m by (simp add: has_port_def)
    have l: "l \<in> set leaves" "\<not> sameLeaf l entry" using that by (auto simp: otherLeaves_def)
    obtain i j where "i < length leaves" "j < length leaves" "leaves ! i = k" "leaves ! j = l"
      using k(1) l(1) by (auto simp: in_set_conv_nth)
    moreover from this have "i \<noteq> j" using k(2) l(2) by auto
    ultimately show False
      using assms p kp unfolding leaves_ok_def ports_distinct_def by metis
  qed
  then show ?thesis
    using leaves_ok_others [OF assms, of entry] ids
    by (simp add: leaves_ok_def ports_distinct_wrt sorted_wrt_append)
qed

lemma trusted_mono: "trusted_reply E W node h d \<Longrightarrow> grows h h' \<Longrightarrow> trusted_reply E W node h' d"
  unfolding trusted_reply_def using grows_trans by blast

lemma keeps_certs [frame]:
  assumes "\<And>s h. f (s\<lparr>w_hist := h\<rparr>) = f s"
  shows "keeps f (validateCA E W pem)" "keeps f (CAPoolFromCABytes E W pem)" "keeps f (chainTrustForNodeTLS E W node)"
  unfolding validateCA_def validateCert_def CAPoolFromCABytes_def chainTrustForNodeTLS_def checkCertReply_def
  by (intro keeps_rules frame assms)+

lemma keeps_release:
  assumes "\<And>h f. e_Race E h f = f"
  shows "keeps w_cfg (macsecReleaseLeaf E entry)"
proof -
  have "keeps w_cfg (lockedConfig E)" by (simp add: within_def wp_simps assms Let_def)
  then show ?thesis
    unfolding macsecReleaseLeaf_def by (intro keeps_rules frame) simp_all
qed

lemma wp_storeLeaves:
  "wp (storeLeaves E config leaves) (\<lambda>r t. r = (200, None) \<and> grows (w_hist s) (w_hist t) \<and>
     (w_cfg t = w_cfg s \<or> w_cfg t = CfgOk (config\<lparr>mc_LeafRouters := leaves\<rparr>)) \<and>
     (e_Err E (w_hist s) CSaveConfig = None \<longrightarrow> w_cfg t = CfgOk (config\<lparr>mc_LeafRouters := leaves\<rparr>))) s"
  by (auto simp: storeLeaves_def wp_simps Let_def grows_cons_r)

text \<open>What a \<open>PUT\<close> does to the file it finds under the lock.\<close>

definition node_added :: "env \<Rightarrow> meshWorld \<Rightarrow> LeafRouter \<Rightarrow> cfgFile \<Rightarrow> (int \<times> err) \<Rightarrow> st \<Rightarrow> bool" where
  "node_added E W req f r t \<longleftrightarrow> w_cfg t = f \<or>
     (\<exists>ca. r = (200, None) \<and> lr_TLSCA req = [] \<and> ca \<noteq> [] \<and>
        trusted_reply E W (req\<lparr>lr_MACsec := None\<rparr>) (w_hist t) ca \<and>
        w_cfg t = CfgOk ((cfg_load f)\<lparr>mc_LeafRouters := otherLeaves req (mc_LeafRouters (cfg_load f)) @
          [newEntry req ca (preservedMACsec req (mc_LeafRouters (cfg_load f)))]\<rparr>))"

lemma same_ids:
  "otherLeaves (req\<lparr>lr_MACsec := m\<rparr>) leaves = otherLeaves req leaves"
  "preservedMACsec (req\<lparr>lr_MACsec := m\<rparr>) leaves = preservedMACsec req leaves"
  "newEntry (req\<lparr>lr_MACsec := m\<rparr>) ca p = newEntry req ca p"
  by (simp_all add: otherLeaves_def preservedMACsec_def sameLeaf_def newEntry_def split: option.split)

lemma wp_leafRouter_put:
  "wp (leafRouter E W PUT req) (\<lambda>r t. node_added E W req (e_Race E (w_hist s) (w_cfg s)) r t) s"
proof (cases "lr_TLSCA req = []")
  case False
  then show ?thesis by (simp add: leafRouter_def wp_simps Let_def node_added_def)
next
  case True
  let ?f = "e_Race E (w_hist s) (w_cfg s)"
  let ?c = "cfg_load ?f"
  let ?s = "s\<lparr>w_cfg := ?f\<rparr>"
  let ?node = "req\<lparr>lr_MACsec := None, lr_TLSCA := []\<rparr>"
  let ?new = "\<lambda>ca. otherLeaves req (mc_LeafRouters ?c) @ [newEntry req ca (preservedMACsec req (mc_LeafRouters ?c))]"
  have node: "?node = req\<lparr>lr_MACsec := None\<rparr>" using True by simp
  have store: "wp (storeLeaves E ?c (?new ca)) (node_added E W req ?f) t"
    if "ca \<noteq> []" "trusted_reply E W (req\<lparr>lr_MACsec := None\<rparr>) (w_hist t) ca" "w_cfg t = ?f" for ca t
    by (rule wp_mono [OF wp_storeLeaves]) (use that True trusted_mono in \<open>fastforce simp: node_added_def\<close>)
  have chain: "wp (chainTrustForNodeTLS E W ?node) (\<lambda>r t. w_cfg t = ?f \<and>
      (\<forall>data. r = Inr data \<longrightarrow> trusted_reply E W (req\<lparr>lr_MACsec := None\<rparr>) (w_hist t) data)) ?s"
    unfolding wp_conj node by (intro conjI wp_chainTrust wp_mono [OF keeps_wp [where f = w_cfg]] frame) simp_all
  show ?thesis
    unfolding leafRouter_def Let_def
    by (simp add: wp_simps True Let_def same_ids del: LeafRouter.update_convs)
      (rule wp_mono [OF chain], auto simp: node_added_def wp_simps same_ids intro!: store split: sum.split)
qed

text \<open>And a \<open>DELETE\<close>, when nobody else writes the file.\<close>

lemma wp_leafRouter_delete:
  assumes "\<And>h f. e_Race E h f = f" "\<And>h. e_Err E h CSaveConfig = None"
  shows "wp (leafRouter E W DELETE req) (\<lambda>r t. r = (200, None) \<and> w_cfg t = CfgOk ((cfg_load (w_cfg s))
     \<lparr>mc_LeafRouters := otherLeaves req (mc_LeafRouters (cfg_load (w_cfg s)))\<rparr>)) s"
proof -
  let ?c = "cfg_load (w_cfg s)"
  have "wp (storeLeaves E ?c (otherLeaves req (mc_LeafRouters ?c))) (\<lambda>r t. r = (200, None) \<and>
      w_cfg t = CfgOk (?c\<lparr>mc_LeafRouters := otherLeaves req (mc_LeafRouters ?c)\<rparr>)) t" for t
    by (rule wp_mono [OF wp_storeLeaves]) (simp add: assms)
  then show ?thesis
    unfolding leafRouter_def Let_def
    by (auto simp: wp_simps assms same_ids Let_def intro!: wp_mono [OF keeps_wp [OF keeps_release [OF assms(1)]]])
qed

text \<open>The well formedness of the leaves through the handler.\<close>

lemma cfg_inv_put: "leaves_ok leaves \<Longrightarrow> preserves good_leaves (storeLeaves E config leaves)"
  unfolding storeLeaves_def
  by (intro preservesI) (simp add: wp_simps Let_def cfg_inv_def)

lemma leafRouter_leaves:
  assumes "races_keep E (\<lambda>c. leaves_ok (mc_LeafRouters c))"
  shows "preserves good_leaves (leafRouter E W method req)"
proof (rule preservesI)
  fix s
  assume s: "good_leaves s"
  have lock: "wp (lockedConfig E) (\<lambda>c t. leaves_ok (mc_LeafRouters c) \<and> good_leaves t) u" if "good_leaves u" for u
    using that assms by (simp add: wp_simps Let_def cfg_inv_def races_keep_def)
  have rel: "preserves good_leaves (macsecReleaseLeaf E entry)" for entry
    unfolding macsecReleaseLeaf_def
    by (intro preserves_rules cfg_inv_lock [OF assms] cfg_inv_keeps frame) simp_all
  have store: "preserves good_leaves (storeLeaves E c (otherLeaves e (mc_LeafRouters c)))"
    "preserves good_leaves (storeLeaves E c (otherLeaves e (mc_LeafRouters c) @
      [newEntry e ca (preservedMACsec e (mc_LeafRouters c))]))"
    if "leaves_ok (mc_LeafRouters c)" for c e ca
    using that by (auto intro!: cfg_inv_put leaves_ok_others leaves_ok_new)
  have rest: "preserves good_leaves (bindr (chainTrustForNodeTLS E W n) (\<lambda>e. (400, Some e)) (\<lambda>ca.
           if ca = [] then return (400, Some ''Failed to get mesh TLS Certificate'')
           else storeLeaves E c (otherLeaves e (mc_LeafRouters c) @ [newEntry e ca (preservedMACsec e (mc_LeafRouters c))])))"
    if "leaves_ok (mc_LeafRouters c)" for c e n
    by (intro preserves_rules store [OF that] cfg_inv_keeps frame) simp_all
  have first: "preserves good_leaves (doif (method = DELETE) (macsecReleaseLeaf E e))" for e
    by (intro preserves_rules rel)
  show "wp (leafRouter E W method req) (\<lambda>_. good_leaves) s"
    unfolding leafRouter_def Let_def wp_bind
    by (rule wp_mono [OF preserves_wp [OF first s]], rule wp_mono [OF lock], assumption)
      (auto simp: wp_return intro!: preserves_wp [OF rest] preserves_wp [OF store(1)])
qed

section \<open>The bridge access map\<close>

text \<open>
  Documented behaviour of \<open>nft\<close>: \<open>add element\<close> inserts and \<open>delete element\<close> removes the key.
  \<open>after\<close> gives the map's keys after a command that succeeded.
\<close>

type_synonym access = "(string \<times> string) set"

definition nft_map_ok :: "(string list \<Rightarrow> access \<Rightarrow> access) \<Rightarrow> bool" where
  "nft_map_ok after \<longleftrightarrow> (\<forall>k S. after (elemArgs ''add'' k) S = insert k S \<and> after (elemArgs ''delete'' k) S = S - {k})"

lemma nft_map_okD:
  assumes "nft_map_ok after"
  shows "after (elemArgs ''add'' k) S = insert k S" "after (elemArgs ''delete'' k) S = S - {k}"
  using assms unfolding nft_map_ok_def by blast+

text \<open>The keys after the \<open>nft\<close> commands of a history, oldest first.\<close>

fun run_access :: "(string list \<Rightarrow> access \<Rightarrow> access) \<Rightarrow> sysCall list \<Rightarrow> access \<Rightarrow> access" where
  "run_access after [] S = S"
| "run_access after (c # cs) S =
    (case c of CCmd n args \<Rightarrow> if n = ''nft'' then after args (run_access after cs S) else run_access after cs S
     | _ \<Rightarrow> run_access after cs S)"

lemma run_access_append: "run_access after (cs @ ds) S = run_access after cs (run_access after ds S)"
  by (induction cs) (auto split: sysCall.split)

lemma wp_dropElements:
  assumes "nft_map_ok after"
  shows "wp (dropElements E iface mac ks) (\<lambda>_ t. \<exists>cs. w_hist t = cs @ w_hist s \<and>
     (\<forall>S. run_access after cs S = S - {k \<in> set ks. fst k = iface \<or> snd k = mac})) s"
  unfolding dropElements_def
proof (induction ks arbitrary: s)
  case Nil
  then show ?case by (simp add: wp_simps)
next
  case (Cons k ks)
  let ?hit = "fst k = iface \<or> snd k = mac"
  have "wp (if ?hit then drop_result (act E (CCmd ''nft'' (elemArgs ''delete'' k))) else return ())
      (\<lambda>_ t. \<exists>ds. w_hist t = ds @ w_hist s \<and> (\<forall>S. run_access after ds S = (if ?hit then S - {k} else S))) s"
    using nft_map_okD [OF assms]
    by (auto simp: wp_simps intro!: exI [of _ "[CCmd ''nft'' (elemArgs ''delete'' k)]"])
  then show ?case
    unfolding for_each.simps wp_bind
  proof (rule wp_mono, goal_cases)
    case (1 r t)
    then obtain ds where ds: "w_hist t = ds @ w_hist s"
      "\<And>S. run_access after ds S = (if ?hit then S - {k} else S)" by auto
    show ?case
    proof (rule wp_mono [OF Cons.IH], goal_cases)
      case (1 r' u)
      then obtain cs where cs: "w_hist u = cs @ w_hist t"
        "\<And>S. run_access after cs S = S - {k \<in> set ks. fst k = iface \<or> snd k = mac}" by auto
      have "run_access after (cs @ ds) S = S - {k' \<in> set (k # ks). fst k' = iface \<or> snd k' = mac}" for S
        unfolding run_access_append ds(2) cs(2) by auto
      with ds(1) cs(1) show ?case by (intro exI [of _ "cs @ ds"]) simp
    qed
  qed
qed

text \<open>
  With a listing that shows the map's keys, a station that connects gets the only entry with its
  interface or its address, and every other entry stays; so the map stays one to one.
\<close>

definition lists_access :: "env \<Rightarrow> meshWorld \<Rightarrow> hist \<Rightarrow> access \<Rightarrow> bool" where
  "lists_access E W h S \<longleftrightarrow> (\<exists>out j.
     e_Output E h ''nft'' [''-j'', ''list'', ''map'', ''bridge'', ''filter'', ''bridge_access''] = Inr out \<and>
     mw_json W out = Inr j \<and> set (bridgeSet_of j) = S)"

definition one_to_one :: "access \<Rightarrow> bool" where
  "one_to_one S \<longleftrightarrow> inj_on fst S \<and> inj_on snd S"

lemma wp_bridgeSet:
  assumes "lists_access E W (w_hist s) S"
  shows "wp (getExistingBridgeSet E W) (\<lambda>ks t. set ks = S \<and>
     w_hist t = COutput ''nft'' [''-j'', ''list'', ''map'', ''bridge'', ''filter'', ''bridge_access''] # w_hist s) s"
  using assms by (auto simp: getExistingBridgeSet_def wp_simps lists_access_def)

lemma wp_updateBridgeAccess:
  assumes "nft_map_ok after" "lists_access E W (w_hist s) S" "action = ''add'' \<or> action = ''remove''"
  shows "wp (updateBridgeAccess E W action iface mac) (\<lambda>_ t. \<exists>cs. w_hist t = cs @ w_hist s \<and>
     run_access after cs S = {k \<in> S. fst k \<noteq> iface \<and> snd k \<noteq> mac} \<union> (if action = ''add'' then {(iface, mac)} else {})) s"
  unfolding updateBridgeAccess_def wp_bind
proof (rule wp_mono [OF wp_bridgeSet [OF assms(2)]], goal_cases)
  case (1 ks t)
  have "wp (dropElements E iface mac ks) (\<lambda>_ u. \<exists>cs. w_hist u = cs @ w_hist s \<and>
      run_access after cs S = {k \<in> S. fst k \<noteq> iface \<and> snd k \<noteq> mac}) t"
  proof (rule wp_mono [OF wp_dropElements [OF assms(1)]], goal_cases)
    case (1 r u)
    then obtain cs where "w_hist u = cs @ w_hist t"
      "run_access after cs S = S - {k \<in> set ks. fst k = iface \<or> snd k = mac}" by auto
    with \<open>set ks = S \<and> w_hist t = _\<close> show ?case
      by (intro exI [of _ "cs @ [COutput ''nft'' [''-j'', ''list'', ''map'', ''bridge'', ''filter'', ''bridge_access'']]"])
        (auto simp: run_access_append)
  qed
  then have drop: "wp (dropElements E iface mac ks) (\<lambda>_ u. Q u) t"
    if "\<And>u. \<exists>cs. w_hist u = cs @ w_hist s \<and> run_access after cs S = {k \<in> S. fst k \<noteq> iface \<and> snd k \<noteq> mac} \<Longrightarrow> Q u" for Q
    by (rule wp_mono) (rule that)
  have add: "\<exists>cs. CCmd ''nft'' (elemArgs ''add'' (iface, mac)) # w_hist u = cs @ w_hist s \<and>
      run_access after cs S = insert (iface, mac) {k \<in> S. fst k \<noteq> iface \<and> snd k \<noteq> mac}"
    if "w_hist u = cs @ w_hist s" "run_access after cs S = {k \<in> S. fst k \<noteq> iface \<and> snd k \<noteq> mac}" for cs and u :: st
    by (rule exI [of _ "CCmd ''nft'' (elemArgs ''add'' (iface, mac)) # cs"])
      (use that in \<open>simp add: nft_map_okD [OF assms(1)]\<close>)
  show ?case
    using assms(3) by (auto simp: wp_simps intro!: drop add)
qed

lemma one_to_one_add:
  "one_to_one S \<Longrightarrow> one_to_one ({k \<in> S. fst k \<noteq> iface \<and> snd k \<noteq> mac} \<union> (if b then {(iface, mac)} else {}))"
  by (auto simp: one_to_one_def inj_on_def)

section \<open>Where tokens go\<close>

text \<open>
  A request carries a node's token only to that node's address, over a connection that trusts
  only that node's authority.
\<close>

definition to_leaf :: "LeafRouter list \<Rightarrow> sysCall \<Rightarrow> bool" where
  "to_leaf leaves c \<longleftrightarrow> (\<exists>leaf \<in> set leaves. \<exists>m path. c = CHTTP m (lr_IP leaf) path (lr_APIToken leaf) (lr_TLSCA leaf))"

lemma emits_callLeafAPI: "leaf \<in> set leaves \<Longrightarrow> emits (to_leaf leaves) (callLeafAPI W leaf m path)"
  unfolding callLeafAPI_def httpDo_def Let_def by (intro frame) (auto simp: to_leaf_def)

lemma emits_leaf_requests:
  assumes "leaf \<in> set leaves"
  shows "emits (to_leaf leaves) (callAPIGetInterfaces W leaf)"
    "emits (to_leaf leaves) (pollLeafRouterStations W leaf)" "emits (to_leaf leaves) (callAPIGetTopology W leaf)"
  unfolding pollLeafRouterStations_def callAPIAllStations_def callAPIGetInterfaces_def callAPIGetTopology_def Let_def
  by (intro emits_rules emits_callLeafAPI assms)+

text \<open>The configuration is read under the lock first; every request is to one of its nodes.\<close>

lemma wp_after_config:
  assumes "\<And>config. emits (P config) (m config)"
  shows "wp (do { config \<leftarrow> lockedConfig E; m config })
    (\<lambda>_ t. hist_ext (P (cfg_load (e_Race E (w_hist s) (w_cfg s)))) s t) s"
proof -
  let ?f = "e_Race E (w_hist s) (w_cfg s)"
  have "wp (m (cfg_load ?f)) (\<lambda>_ t. hist_ext (P (cfg_load ?f)) s t) (s\<lparr>w_cfg := ?f\<rparr>)"
    by (rule wp_mono [OF emits.in_wp [OF assms]]) (simp add: hist_ext_def)
  then show ?thesis by (simp add: wp_simps Let_def)
qed

lemma wp_leaf_requests:
  "wp (syncDevices E W) (\<lambda>_ t. hist_ext (to_leaf (mc_LeafRouters (cfg_load (e_Race E (w_hist s) (w_cfg s))))) s t) s"
  "wp (setSSID E W ssid) (\<lambda>_ t. hist_ext (to_leaf (mc_LeafRouters (cfg_load (e_Race E (w_hist s) (w_cfg s))))) s t) s"
  "wp (getAllLeafStations E W) (\<lambda>_ t. hist_ext (to_leaf (mc_LeafRouters (cfg_load (e_Race E (w_hist s) (w_cfg s))))) s t) s"
  "wp (getAllLeafTopologies E W) (\<lambda>_ t. hist_ext (to_leaf (mc_LeafRouters (cfg_load (e_Race E (w_hist s) (w_cfg s))))) s t) s"
  unfolding syncDevices_def callAPIDeviceSync_def setSSID_def callAPISetSSID_def getAllLeafStations_def getAllLeafTopologies_def
  by (rule wp_after_config [where P = "\<lambda>c. to_leaf (mc_LeafRouters c)"],
      intro emits_rules emits_callLeafAPI emits_leaf_requests; assumption)+

lemma wp_syncOTP:
  "wp (syncOTP E W) (\<lambda>_ t. hist_ext (\<lambda>c. to_leaf (mc_LeafRouters (cfg_load (e_Race E (w_hist s) (w_cfg s)))) c \<or>
     c = CReadFile ''otp_settings.json'') s t) s"
proof -
  have leaf: "emits (\<lambda>c. to_leaf leaves c \<or> c = CReadFile ''otp_settings.json'') (callAPISetOTP E W leaf)"
    if "leaf \<in> set leaves" for leaf leaves
    unfolding callAPISetOTP_def otpLoadLocked_def callLeafAPI_def httpDo_def Let_def
    by (intro emits_rules frame) (use that in \<open>auto simp: to_leaf_def\<close>)
  show ?thesis
    unfolding syncOTP_def
    by (rule wp_after_config [where P = "\<lambda>c k. to_leaf (mc_LeafRouters c) k \<or> k = CReadFile ''otp_settings.json''"])
      (intro emits_rules leaf)
qed

definition to_parent :: "MeshConfig \<Rightarrow> sysCall \<Rightarrow> bool" where
  "to_parent config c \<longleftrightarrow> mc_ParentIP config \<noteq> [] \<and> mc_ParentAPIToken config \<noteq> [] \<and>
     (\<exists>m path. c = CHTTP m (mc_ParentIP config) path (mc_ParentAPIToken config) (mc_ParentCA config))"

lemma wp_callParent:
  "wp (callParentAPI E W path) (\<lambda>_ t. hist_ext (to_parent (cfg_load (e_Race E (w_hist s) (w_cfg s)))) s t) s"
  unfolding callParentAPI_def httpDo_def Let_def
  by (rule wp_after_config, intro emits_rules frame) (auto simp: to_parent_def)

section \<open>The parent's credentials\<close>

text \<open>
  They are replaced only by a complete set whose authority is valid; on every refusal the file
  stays.
\<close>

definition parent_ok :: "env \<Rightarrow> meshWorld \<Rightarrow> hist \<Rightarrow> string \<Rightarrow> string \<Rightarrow> string \<Rightarrow> bool" where
  "parent_ok E W h ip tok ca \<longleftrightarrow> tok \<noteq> [] \<and> e_parseIP E ip \<noteq> None \<and> ca \<noteq> [] \<and>
     (\<exists>x. ca_ok W (e_Now E h) ca x)"

lemma wp_setParentCredentials:
  assumes "method \<noteq> DELETE"
  shows "wp (setParentCredentials E W method ip tok ca) (\<lambda>r t.
     let f = e_Race E (w_hist s) (w_cfg s) in
     (fst r \<noteq> 200 \<longrightarrow> w_cfg t = f) \<and>
     (fst r = 200 \<longrightarrow> parent_ok E W (w_hist s) ip tok ca) \<and>
     (w_cfg t \<noteq> f \<longrightarrow> w_cfg t = CfgOk ((cfg_load f)\<lparr>mc_ParentIP := ip, mc_ParentAPIToken := tok, mc_ParentCA := ca\<rparr>))) s"
proof -
  let ?f = "e_Race E (w_hist s) (w_cfg s)"
  have v: "wp (validateCA E W ca) (\<lambda>e t. w_cfg t = ?f \<and> (e = None \<longrightarrow> ca \<noteq> [] \<and>
      (\<exists>x. ca_ok W (e_Now E (w_hist s)) ca x))) (s\<lparr>w_cfg := ?f\<rparr>)"
    unfolding wp_conj
    by (intro conjI wp_mono [OF keeps_wp [OF keeps_certs(1) [where f = w_cfg]]] wp_mono [OF wp_validateCA]) auto
  show ?thesis
    using assms
    by (auto simp: setParentCredentials_def wp_simps Let_def parent_ok_def split: option.split
        intro!: wp_mono [OF v])
qed

section \<open>The order of the topologies\<close>

text \<open>The comparison is the library's order of strings, and the insertion sort sorts by it.\<close>

lemma str_less_iff: "str_less s t \<longleftrightarrow> s < t"
  by (induction s t rule: str_less.induct) (auto simp: less_char_def)

lemma insertTopology_insort: "insertTopology x ts = insort_key tp_LeafIP x ts"
  by (induction ts) (auto simp: str_less_iff not_less)

lemma wp_pollTopologies:
  "wp (for_fold leaves rs (\<lambda>leaf results. do {
       r \<leftarrow> callAPIGetTopology W leaf;
       return (results @ [r]) })) (\<lambda>ts _. map tp_LeafIP ts = map tp_LeafIP rs @ map lr_IP leaves \<and>
         (\<forall>r \<in> set ts. r \<notin> set rs \<longrightarrow> tp_Topology r \<noteq> None \<longrightarrow> tp_Online r)) s"
proof (induction leaves arbitrary: rs s)
  case Nil
  then show ?case by (simp add: wp_simps)
next
  case (Cons leaf leaves rs s)
  have "wp (callAPIGetTopology W leaf) (\<lambda>r _. tp_LeafIP r = lr_IP leaf \<and> (tp_Topology r \<noteq> None \<longrightarrow> tp_Online r)) s"
    by (auto simp: callAPIGetTopology_def callLeafAPI_def httpDo_def wp_simps Let_def split: sum.split)
  then show ?case
    unfolding for_fold.simps wp_bind wp_return
  proof (rule wp_mono, goal_cases)
    case (1 r t)
    show ?case by (rule wp_mono [OF Cons.IH]) (use 1 in auto)
  qed
qed

lemma foldr_insertTopology: "foldr insertTopology ts [] = sort_key tp_LeafIP ts"
  by (induction ts) (simp_all add: insertTopology_insort)

lemma mset_map_sort: "mset (map f (sort_key g xs)) = mset (map f xs)"
  by simp

lemma wp_getAllLeafTopologies:
  "wp (getAllLeafTopologies E W) (\<lambda>ts _. sorted (map tp_LeafIP ts) \<and>
     mset (map tp_LeafIP ts) = mset (map lr_IP (mc_LeafRouters (cfg_load (e_Race E (w_hist s) (w_cfg s))))) \<and>
     {r \<in> set ts. tp_Topology r \<noteq> None} \<subseteq> {r. tp_Online r}) s"
  by (auto simp: getAllLeafTopologies_def wp_simps Let_def foldr_insertTopology mset_map_sort simp del: mset_map
      intro!: wp_mono [OF wp_pollTopologies [where rs = "[]"]])

end
