(* ===== verification/NeighborSafety.thy ===== *)
theory NeighborSafety
  imports Neighbors MeshSafety
begin

text \<open>
  What the exchange of neighbour reports keeps and promises: the commands \<open>hostapd\<close> is given are
  well formed whatever another router reports, and after a pass the record in \<open>neighbors.json\<close> is
  the function of the inventories that \<open>recordAfter\<close> computes.
\<close>

section \<open>Words of a command\<close>

definition no_space :: "string \<Rightarrow> bool" where
  "no_space s = list_all (\<lambda>c. \<not> is_space c) s"

lemma no_space_simps [simp]:
  "no_space []" "no_space (c # s) \<longleftrightarrow> \<not> is_space c \<and> no_space s"
  "no_space (a @ b) \<longleftrightarrow> no_space a \<and> no_space b"
  by (simp_all add: no_space_def)

lemma fields_acc_word: "no_space w \<Longrightarrow> str_fields_acc v (w @ s) = str_fields_acc (rev w @ v) s"
  by (induction w arbitrary: v) auto

lemma str_fields_word: "no_space w \<Longrightarrow> w \<noteq> [] \<Longrightarrow> str_fields w = [w]"
  using fields_acc_word [of w "[]" "[]"] by (simp add: str_fields_def)

lemma str_fields_Cons: "no_space w \<Longrightarrow> w \<noteq> [] \<Longrightarrow> str_fields (w @ CHR '' '' # s) = w # str_fields s"
  using fields_acc_word [of w "[]" "CHR '' '' # s"] by (simp add: str_fields_def is_space_def)

lemma unhex_space: "unhex c = Some n \<Longrightarrow> \<not> is_space c"
  by (auto simp: unhex_def is_space_def Let_def split: if_splits)

lemma hex_decode_space: "hex_decode s = Some bs \<Longrightarrow> no_space s"
  by (induction s arbitrary: bs rule: hex_decode.induct) (auto simp: unhex_space split: option.splits)

lemma unhex_hexch_space: "n < 16 \<Longrightarrow> \<not> is_space (hexch n)"
  by (rule unhex_space [OF unhex_hexch])

lemma hex2_space: "no_space (hex2 b)"
  by (simp add: hex2_def unhex_hexch_space)

lemma mac_string_space: "no_space (mac_string m)"
proof (induction m)
  case Nil
  show ?case by (simp add: mac_string_def)
next
  case (Cons b m)
  then show ?case
    using join_hex2_Cons [of b m] by (simp add: mac_string_def hex2_space is_space_def)
qed

definition neighborWords :: "MeshBSS \<Rightarrow> string list" where
  "neighborWords peer = [''SET_NEIGHBOR'', bssMAC peer, ''ssid='' @ bss_SSID peer, ''nr='' @ bss_NR peer]"

lemma setNeighborCmd_words:
  assumes "validMeshBSS peer"
  shows "str_fields (setNeighborCmd peer) = neighborWords peer"
proof -
  obtain mac ssid nr where v: "parse_mac (bss_BSSID peer) = Some mac" "hex_decode (bss_SSID peer) = Some ssid"
    "hex_decode (bss_NR peer) = Some nr" "length mac = 6"
    using assms by (auto simp: validMeshBSS_def split: option.splits)
  have m: "bssMAC peer = mac_string mac" "mac_string mac \<noteq> []"
    using v mac_string_nonempty by (simp_all add: bssMAC_def)
  have split: "setNeighborCmd peer = ''SET_NEIGHBOR'' @ CHR '' '' # (mac_string mac @ CHR '' '' #
      ((''ssid='' @ bss_SSID peer) @ CHR '' '' # (''nr='' @ bss_NR peer)))"
    by (simp add: setNeighborCmd_def neighborKey_def m)
  have w: "no_space ''SET_NEIGHBOR''" "no_space (''ssid='' @ bss_SSID peer)" "no_space (''nr='' @ bss_NR peer)"
    using hex_decode_space [OF v(2)] hex_decode_space [OF v(3)] by (simp_all add: is_space_def)
  let ?tail = "(''ssid='' @ bss_SSID peer) @ CHR '' '' # (''nr='' @ bss_NR peer)"
  have "str_fields (setNeighborCmd peer) = ''SET_NEIGHBOR'' # str_fields (mac_string mac @ CHR '' '' # ?tail)"
    unfolding split by (rule str_fields_Cons [OF w(1)]) simp
  also have "str_fields (mac_string mac @ CHR '' '' # ?tail) = mac_string mac # str_fields ?tail"
    by (rule str_fields_Cons [OF mac_string_space m(2)])
  also have "str_fields ?tail = (''ssid='' @ bss_SSID peer) # str_fields (''nr='' @ bss_NR peer)"
    by (rule str_fields_Cons [OF w(2)]) simp
  also have "str_fields (''nr='' @ bss_NR peer) = [''nr='' @ bss_NR peer]"
    by (rule str_fields_word [OF w(3)]) simp
  finally show ?thesis
    by (simp add: neighborWords_def m(1))
qed

section \<open>Footprints\<close>

lemma emits_hostapd [frame]:
  "(valid_iface iface \<Longrightarrow> P (CHostapd iface cmd)) \<Longrightarrow> emits P (meshHostapdCommand W iface cmd)"
  "(valid_iface iface \<Longrightarrow> P (CHostapd iface cmd)) \<Longrightarrow> emits P (meshQuery W iface cmd)"
  unfolding meshQuery_def meshHostapdCommand_def by (intro emits_rules frame; simp)+

definition read_call :: "sysCall \<Rightarrow> bool" where
  "read_call c \<longleftrightarrow> c = CReadFile ''interfaces.json'' \<or>
     (\<exists>i cmd. c = CHostapd i cmd \<and> valid_iface i \<and> cmd \<in> {''STATUS'', ''GET_CONFIG'', ''SHOW_NEIGHBOR''})"

lemma emits_localBSS: "emits read_call (localBSS W iface)"
  unfolding localBSS_def Let_def by (intro emits_rules frame) (simp_all add: read_call_def)

lemma emits_localBSSes: "emits read_call (meshLocalBSSes E W)"
  unfolding meshLocalBSSes_def
  by (intro emits_rules emits_localBSS frame) (simp add: read_call_def)

text \<open>Every command is one of the code's own, a well formed report, or about a recorded key.\<close>

definition apply_call :: "MeshBSS list \<Rightarrow> meshNeighborKey set \<Rightarrow> sysCall \<Rightarrow> bool" where
  "apply_call peers keys c \<longleftrightarrow> read_call c \<or> (\<exists>r. c = CSaveNeighbors r) \<or> (\<exists>a b. c = CRename a b) \<or>
     (\<exists>i cmd. c = CHostapd i cmd \<and> valid_iface i \<and>
        ((\<exists>peer \<in> set peers. cmd = setNeighborCmd peer \<and> str_fields cmd = neighborWords peer) \<or>
         (\<exists>key \<in> keys. cmd = removeNeighborCmd key)))"

lemma emits_setNeighbors:
  assumes "\<And>peer. peer \<in> set peers \<Longrightarrow> valid_iface (bss_Interface lcl) \<Longrightarrow> P (CHostapd (bss_Interface lcl) (setNeighborCmd peer))"
  shows "emits P (setNeighbors W lcl peers want)"
  using assms
  by (induction peers arbitrary: want) (auto intro!: emits_rules frame)

lemma keeps_hostapd [frame]:
  assumes "\<And>s h. f (s\<lparr>w_hist := h\<rparr>) = f s"
  shows "keeps f (meshHostapdCommand W iface cmd)" "keeps f (meshQuery W iface cmd)"
  unfolding meshQuery_def meshHostapdCommand_def by (intro keeps_rules frame assms)+

lemma keeps_localBSSes [frame]:
  assumes "\<And>s h. f (s\<lparr>w_hist := h\<rparr>) = f s"
  shows "keeps f (meshLocalBSSes E W)"
  unfolding meshLocalBSSes_def localBSS_def Let_def by (intro keeps_rules frame assms)

lemma keeps_setNeighbors [frame]:
  assumes "\<And>s h. f (s\<lparr>w_hist := h\<rparr>) = f s"
  shows "keeps f (setNeighbors W lcl peers want)"
  by (induction peers arbitrary: want) (auto intro!: keeps_rules frame assms)

lemma keeps_applyLocals [frame]:
  assumes "\<And>s h. f (s\<lparr>w_hist := h\<rparr>) = f s"
  shows "keeps f (applyLocal W peers lcl previous)" "keeps f (applyLocals W peers locals previous)"
proof -
  show one: "keeps f (applyLocal W peers lcl previous)" for lcl previous
    unfolding applyLocal_def by (intro keeps_rules frame assms)
  show "keeps f (applyLocals W peers locals previous)"
    by (induction locals arbitrary: previous) (auto intro!: keeps_rules one)
qed

section \<open>The inventory\<close>

definition own_bss :: "MeshBSS \<Rightarrow> bool" where
  "own_bss b \<longleftrightarrow> validMeshBSS b \<and> valid_iface (bss_Interface b)"

lemma selfReport_valid: "selfReport iface bssid sec reports = Some b \<Longrightarrow> validMeshBSS b \<and> bss_Interface b = iface"
  by (auto simp: selfReport_def Let_def split: option.splits if_splits)

lemma wp_localBSS: "wp (localBSS W iface) (\<lambda>r _. \<forall>b. r = Some b \<longrightarrow> own_bss b \<and> bss_Interface b = iface) s"
  by (auto simp: localBSS_def wp_simps Let_def own_bss_def meshQuery_def meshHostapdCommand_def
      dest: selfReport_valid split: sum.split option.split)

lemma wp_localBSSes: "wp (meshLocalBSSes E W) (\<lambda>r _. \<forall>bs. r = Inr bs \<longrightarrow> list_all own_bss bs) s"
proof -
  have loop: "wp (for_fold names [] (\<lambda>iface bsses. do {
      b \<leftarrow> localBSS W iface;
      return (case b of None \<Rightarrow> bsses | Some bss \<Rightarrow> bsses @ [bss]) })) (\<lambda>bs _. list_all own_bss bs) t" for names t
    by (rule wp_for_fold)
      (auto simp: wp_bind wp_return intro!: wp_mono [OF wp_localBSS] split: option.split)
  show ?thesis
    by (auto simp: meshLocalBSSes_def wp_simps split: sum.split intro!: wp_mono [OF loop])
qed

section \<open>The record\<close>

definition wantedKeys :: "MeshBSS list \<Rightarrow> MeshBSS \<Rightarrow> meshNeighborKey list" where
  "wantedKeys peers lcl = fold (\<lambda>peer. List.insert (neighborKey peer)) (filter (isNeighbor lcl) peers) []"

definition recordAfter ::
  "MeshBSS list \<Rightarrow> MeshBSS list \<Rightarrow> (string, meshNeighborKey list) gomap \<Rightarrow> (string, meshNeighborKey list) gomap" where
  "recordAfter peers locals previous = fold (\<lambda>lcl. mput (bss_Interface lcl) (wantedKeys peers lcl)) locals previous"

lemma set_fold_insert: "set (fold (\<lambda>x. List.insert (f x)) xs acc) = f ` set xs \<union> set acc"
  by (induction xs arbitrary: acc) auto

lemma set_wantedKeys: "set (wantedKeys peers lcl) = neighborKey ` {p \<in> set peers. isNeighbor lcl p}"
  by (simp add: wantedKeys_def set_fold_insert)

text \<open>Every report an access point needs was sent to it.\<close>

definition told :: "MeshBSS \<Rightarrow> MeshBSS list \<Rightarrow> st \<Rightarrow> st \<Rightarrow> bool" where
  "told lcl peers s t \<longleftrightarrow> (\<forall>p \<in> set peers. isNeighbor lcl p \<longrightarrow> made s t (CHostapd (bss_Interface lcl) (setNeighborCmd p)))"

definition dropped :: "MeshBSS \<Rightarrow> MeshBSS list \<Rightarrow> meshNeighborKey list \<Rightarrow> st \<Rightarrow> st \<Rightarrow> bool" where
  "dropped lcl peers keys s t \<longleftrightarrow> (\<forall>k \<in> set keys. k \<notin> set (wantedKeys peers lcl) \<longrightarrow>
     made s t (CHostapd (bss_Interface lcl) (removeNeighborCmd k)))"

lemma wp_hostapd_made:
  assumes "valid_iface iface"
  shows "wp (meshHostapdCommand W iface cmd) (\<lambda>_ t. made s t (CHostapd iface cmd)) s"
  using assms by (auto simp: meshHostapdCommand_def wp_simps made_def split: sum.split)

lemma emits_true:
  "emits (\<lambda>_. True) (meshHostapdCommand W iface cmd)" "emits (\<lambda>_. True) (setNeighbors W lcl peers want)"
  by (intro frame emits_setNeighbors; simp)+

lemma wp_setNeighbors:
  assumes "valid_iface (bss_Interface lcl)"
  shows "wp (setNeighbors W lcl peers want) (\<lambda>r t. \<forall>w. r = Inr w \<longrightarrow>
    w = fold (\<lambda>peer. List.insert (neighborKey peer)) (filter (isNeighbor lcl) peers) want \<and> told lcl peers s t) s"
proof (induction peers arbitrary: want s)
  case Nil
  show ?case by (simp add: wp_simps told_def)
next
  case (Cons p peers)
  show ?case
  proof (cases "isNeighbor lcl p")
    case False
    then show ?thesis using Cons.IH [of want s] by (simp add: told_def)
  next
    case True
    let ?c = "CHostapd (bss_Interface lcl) (setNeighborCmd p)"
    have rest: "wp (setNeighbors W lcl peers w) (\<lambda>r u. \<forall>v. r = Inr v \<longrightarrow>
        v = fold (\<lambda>peer. List.insert (neighborKey peer)) (filter (isNeighbor lcl) peers) w \<and> told lcl (p # peers) s u) t"
      if m: "made s t ?c" and e: "hist_ext (\<lambda>_. True) s t" for t w
    proof -
      have "told lcl (p # peers) s u" if "told lcl peers t u" "hist_ext (\<lambda>_. True) t u" for u
        using that made_left [OF m that(2)] made_right [OF e] by (auto simp: told_def)
      then show ?thesis
        using Cons.IH [of w t] emits.in_wp [OF emits_true(2), of W lcl peers w t] by (auto simp: wp_def)
    qed
    have "wp (meshHostapdCommand W (bss_Interface lcl) (setNeighborCmd p)) (\<lambda>_ t. made s t ?c \<and> hist_ext (\<lambda>_. True) s t) s"
      unfolding wp_conj by (intro conjI wp_hostapd_made [OF assms] emits.in_wp [OF emits_true(1)])
    then show ?thesis
      unfolding setNeighbors.simps using True
      by (auto simp: wp_simps intro!: rest elim!: wp_mono)
  qed
qed

lemma wp_each_made:
  assumes "\<And>x t. wp (f x) (\<lambda>_ u. q x \<longrightarrow> made t u (c x)) t" and "\<And>x. emits (\<lambda>_. True) (f x)"
  shows "wp (for_each xs f) (\<lambda>_ t. \<forall>x \<in> set xs. q x \<longrightarrow> made s t (c x)) s"
proof (induction xs arbitrary: s)
  case Nil
  show ?case by (simp add: wp_simps)
next
  case (Cons x xs)
  have e: "emits (\<lambda>_. True) (for_each xs f)"
    by (intro emits_rules assms)
  have rest: "wp (for_each xs f) (\<lambda>_ u. \<forall>y \<in> set (x # xs). q y \<longrightarrow> made s u (c y)) t"
    if m: "q x \<longrightarrow> made s t (c x)" and h: "hist_ext (\<lambda>_. True) s t" for t
    using Cons.IH [of t] emits.in_wp [OF e, of t] m made_left made_right [OF h] by (auto simp: wp_def)
  have "wp (f x) (\<lambda>_ t. (q x \<longrightarrow> made s t (c x)) \<and> hist_ext (\<lambda>_. True) s t) s"
    unfolding wp_conj by (intro conjI assms(1) emits.in_wp [OF assms(2)])
  then show ?case
    unfolding for_each.simps wp_bind by (rule wp_mono) (use rest in blast)
qed

lemma wp_dropKeys:
  assumes "valid_iface iface"
  shows "wp (for_each keys (\<lambda>key. doif (key \<notin> set want)
      (drop_result (meshHostapdCommand W iface (removeNeighborCmd key)))))
    (\<lambda>_ t. \<forall>k \<in> set keys. k \<notin> set want \<longrightarrow> made s t (CHostapd iface (removeNeighborCmd k))) s"
  by (rule wp_each_made) (auto simp: wp_simps intro!: wp_mono [OF wp_hostapd_made [OF assms]] emits_rules emits_true)

lemma emits_dropKeys:
  assumes "\<And>k. k \<in> set keys \<Longrightarrow> valid_iface iface \<Longrightarrow> P (CHostapd iface (removeNeighborCmd k))"
  shows "emits P (for_each keys (\<lambda>key. doif (key \<notin> set want)
      (drop_result (meshHostapdCommand W iface (removeNeighborCmd key)))))"
  by (intro emits_rules frame) (use assms in blast)

lemma wp_applyLocal:
  assumes "own_bss lcl"
  shows "wp (applyLocal W peers lcl previous) (\<lambda>r t. \<forall>p. r = Inr p \<longrightarrow>
    p = mput (bss_Interface lcl) (wantedKeys peers lcl) previous \<and> told lcl peers s t \<and>
    dropped lcl peers (recordedFor previous (bss_Interface lcl)) s t) s"
proof -
  have v: "valid_iface (bss_Interface lcl)" using assms by (simp add: own_bss_def)
  let ?drop = "\<lambda>want. for_each (recordedFor previous (bss_Interface lcl)) (\<lambda>key. doif (key \<notin> set want)
      (drop_result (meshHostapdCommand W (bss_Interface lcl) (removeNeighborCmd key))))"
  have e: "emits (\<lambda>_. True) (?drop want)" for want
    by (rule emits_dropKeys) simp
  have rest: "wp (?drop (wantedKeys peers lcl)) (\<lambda>_ u. told lcl peers s u \<and>
      dropped lcl peers (recordedFor previous (bss_Interface lcl)) s u) t"
    if m: "told lcl peers s t" and h: "hist_ext (\<lambda>_. True) s t" for t
    using wp_dropKeys [OF v, of "recordedFor previous (bss_Interface lcl)" "wantedKeys peers lcl" W t]
      emits.in_wp [OF e, of "wantedKeys peers lcl" t] m made_left made_right [OF h]
    by (auto simp: wp_def told_def dropped_def)
  have "wp (setNeighbors W lcl peers []) (\<lambda>r t. (\<forall>w. r = Inr w \<longrightarrow> w = wantedKeys peers lcl \<and> told lcl peers s t) \<and>
      hist_ext (\<lambda>_. True) s t) s"
    unfolding wp_conj using wp_setNeighbors [OF v, of W peers "[]" s]
    by (intro conjI emits.in_wp [OF emits_true(2)]) (simp add: wantedKeys_def)
  then show ?thesis
    unfolding applyLocal_def wp_bindr
    by (rule wp_mono) (auto simp: wp_simps intro: wp_mono [OF rest] split: sum.split)
qed

lemma recordedFor_put: "recordedFor (mput i w previous) j = (if j = i then w else recordedFor previous j)"
  by (simp add: recordedFor_def gomap.get_put)

lemma emits_applyLocal_any: "emits (\<lambda>_. True) (applyLocal W peers lcl previous)"
  unfolding applyLocal_def by (intro emits_rules emits_true emits_dropKeys) simp

lemma emits_applyLocals_any: "emits (\<lambda>_. True) (applyLocals W peers locals previous)"
  by (induction locals arbitrary: previous) (auto intro!: emits_rules emits_applyLocal_any)

definition settled :: "MeshBSS list \<Rightarrow> MeshBSS list \<Rightarrow> (string, meshNeighborKey list) gomap \<Rightarrow> st \<Rightarrow> st \<Rightarrow> bool" where
  "settled peers locals previous s t \<longleftrightarrow> (\<forall>lcl \<in> set locals. told lcl peers s t) \<and>
     (distinct (map bss_Interface locals) \<longrightarrow>
        (\<forall>lcl \<in> set locals. dropped lcl peers (recordedFor previous (bss_Interface lcl)) s t))"

lemma settled_Cons:
  assumes one: "told lcl peers s t" "dropped lcl peers (recordedFor previous (bss_Interface lcl)) s t"
    and h: "hist_ext (\<lambda>_. True) s t" "hist_ext (\<lambda>_. True) t u"
    and rest: "settled peers locals (mput (bss_Interface lcl) w previous) t u"
  shows "settled peers (lcl # locals) previous s u"
proof -
  have "told l peers s u" if "l = lcl \<or> l \<in> set locals" for l
    using that one(1) rest made_left [OF _ h(2)] made_right [OF h(1)] by (auto simp: settled_def told_def)
  moreover have "dropped l peers (recordedFor previous (bss_Interface l)) s u"
    if l: "l = lcl \<or> l \<in> set locals" and d: "distinct (map bss_Interface (lcl # locals))" for l
  proof (cases "l = lcl")
    case True
    then show ?thesis using one(2) made_left [OF _ h(2)] by (auto simp: dropped_def)
  next
    case False
    with l have l: "l \<in> set locals" by simp
    from imageI [OF l, of bss_Interface] d have "bss_Interface l \<noteq> bss_Interface lcl" by auto
    with l show ?thesis
      using rest d made_right [OF h(1)] by (fastforce simp: settled_def dropped_def recordedFor_put)
  qed
  ultimately show ?thesis by (auto simp: settled_def)
qed

lemma wp_applyLocals:
  assumes "list_all own_bss locals"
  shows "wp (applyLocals W peers locals previous) (\<lambda>r t. \<forall>p. r = Inr p \<longrightarrow>
    p = recordAfter peers locals previous \<and> settled peers locals previous s t) s"
  using assms
proof (induction locals arbitrary: previous s)
  case Nil
  show ?case by (simp add: wp_simps recordAfter_def settled_def)
next
  case (Cons lcl locals)
  let ?next = "mput (bss_Interface lcl) (wantedKeys peers lcl) previous"
  have rest: "wp (applyLocals W peers locals ?next) (\<lambda>r u. \<forall>p. r = Inr p \<longrightarrow>
      p = recordAfter peers (lcl # locals) previous \<and> settled peers (lcl # locals) previous s u) t"
    if one: "told lcl peers s t" "dropped lcl peers (recordedFor previous (bss_Interface lcl)) s t"
      and h: "hist_ext (\<lambda>_. True) s t" for t
    using Cons.IH [of ?next t] Cons.prems emits.in_wp [OF emits_applyLocals_any, of W peers locals ?next t]
      settled_Cons [OF one h]
    by (auto simp: wp_def recordAfter_def)
  have "wp (applyLocal W peers lcl previous) (\<lambda>r t. (\<forall>p. r = Inr p \<longrightarrow> p = ?next \<and> told lcl peers s t \<and>
      dropped lcl peers (recordedFor previous (bss_Interface lcl)) s t) \<and> hist_ext (\<lambda>_. True) s t) s"
    unfolding wp_conj using Cons.prems
    by (intro conjI wp_applyLocal emits.in_wp [OF emits_applyLocal_any]) simp
  then show ?case
    unfolding applyLocals.simps wp_bindr
    by (rule wp_mono) (auto intro: rest split: sum.split)
qed

definition recorded :: "st \<Rightarrow> (string, meshNeighborKey list) gomap" where
  "recorded s = (case w_neighbors s of None \<Rightarrow> [] | Some previous \<Rightarrow> previous)"

text \<open>
  The outcome of a pass: on success the record is the one computed from the inventories and every
  command it stands for was sent; on an error the record is the old one.
\<close>

definition applied :: "env \<Rightarrow> meshWorld \<Rightarrow> MeshBSS list \<Rightarrow> st \<Rightarrow> err \<Rightarrow> st \<Rightarrow> bool" where
  "applied E W peers s e t =
    (if e = None then \<exists>locals. fst (run_state (meshLocalBSSes E W) s) = Inr locals \<and>
       w_neighbors t = Some (recordAfter peers locals (recorded s)) \<and> settled peers locals (recorded s) s t
     else w_neighbors t = w_neighbors s)"

lemma settled_ext:
  assumes "hist_ext (\<lambda>_. True) s t" "settled peers locals previous t u" "hist_ext (\<lambda>_. True) u v"
  shows "settled peers locals previous s v"
  using assms(2) made_left [OF _ assms(3)] made_right [OF assms(1)]
  unfolding settled_def told_def dropped_def by blast

lemma wp_saveNeighbors:
  "wp (saveNeighbors E p) (\<lambda>e t. hist_ext (\<lambda>_. True) s t \<and>
     w_neighbors t = (if e = None then Some p else w_neighbors s)) s"
  by (auto simp: saveNeighbors_def wp_simps hist_ext_def split: option.split)

lemma wp_meshApplyNeighbors: "wp (meshApplyNeighbors E W peers) (applied E W peers s) s"
proof -
  have save: "wp (saveNeighbors E p) (applied E W peers s) u"
    if "fst (run_state (meshLocalBSSes E W) s) = Inr locals" "p = recordAfter peers locals (recorded s)"
      "settled peers locals (recorded s) t u" "hist_ext (\<lambda>_. True) s t" "w_neighbors u = w_neighbors s" for p locals t u
    by (rule wp_mono [OF wp_saveNeighbors]) (use that in \<open>auto simp: applied_def intro: settled_ext\<close>)
  have set_locals: "wp (bindr (applyLocals W peers locals (recorded s)) Some (saveNeighbors E)) (applied E W peers s) t"
    if r: "fst (run_state (meshLocalBSSes E W) s) = Inr locals" "list_all own_bss locals"
      and t: "hist_ext (\<lambda>_. True) s t" "w_neighbors t = w_neighbors s" for locals t
  proof -
    have keep: "wp (applyLocals W peers locals (recorded s)) (\<lambda>_ u. w_neighbors u = w_neighbors t) t"
      by (intro keeps_wp frame) simp
    have "wp (applyLocals W peers locals (recorded s)) (\<lambda>r u. (\<forall>p. r = Inr p \<longrightarrow>
        p = recordAfter peers locals (recorded s) \<and> settled peers locals (recorded s) t u) \<and>
        w_neighbors u = w_neighbors t) t"
      unfolding wp_conj by (intro conjI keep wp_applyLocals r(2))
    then show ?thesis
      unfolding wp_bindr
      by (rule wp_mono) (use t r(1) in \<open>auto simp: applied_def intro: save split: sum.split\<close>)
  qed
  have "wp (meshLocalBSSes E W) (\<lambda>r t. r = fst (run_state (meshLocalBSSes E W) s) \<and>
      (\<forall>bs. r = Inr bs \<longrightarrow> list_all own_bss bs) \<and> hist_ext read_call s t \<and> w_neighbors t = w_neighbors s) s"
    unfolding wp_conj
    by (intro conjI wp_localBSSes emits.in_wp [OF emits_localBSSes] keeps_wp frame) (simp_all add: wp_def case_prod_beta)
  then have "wp (meshLocalBSSes E W) (\<lambda>r t. case r of Inl e \<Rightarrow> applied E W peers s (Some e) t
     | Inr locals \<Rightarrow> wp (bindr (applyLocals W peers locals (recorded t)) Some (saveNeighbors E)) (applied E W peers s) t) s"
  proof (rule wp_mono, elim conjE)
    fix r t
    assume r: "r = fst (run_state (meshLocalBSSes E W) s)" "\<forall>bs. r = Inr bs \<longrightarrow> list_all own_bss bs"
      and t: "hist_ext read_call s t" "w_neighbors t = w_neighbors s"
    have same: "recorded t = recorded s" using t(2) by (simp add: recorded_def)
    show "case r of Inl e \<Rightarrow> applied E W peers s (Some e) t
      | Inr locals \<Rightarrow> wp (bindr (applyLocals W peers locals (recorded t)) Some (saveNeighbors E)) (applied E W peers s) t"
    proof (cases r)
      case (Inl e)
      then show ?thesis using t(2) by (simp add: applied_def)
    next
      case (Inr locals)
      then show ?thesis
        using set_locals [OF _ _ hist_ext_any [OF t(1)] t(2), of locals] r by (simp add: same)
    qed
  qed
  then show ?thesis
    unfolding meshApplyNeighbors_def
    by (simp add: wp_if wp_return wp_bindr wp_bind wp_gets applied_def recorded_def cong: sum.case_cong)
qed

section \<open>Every command\<close>

definition keys_in :: "(string, meshNeighborKey list) gomap \<Rightarrow> meshNeighborKey set \<Rightarrow> bool" where
  "keys_in previous keys \<longleftrightarrow> (\<forall>i. set (recordedFor previous i) \<subseteq> keys)"

lemma emits_applyLocal:
  assumes "list_all validMeshBSS peers" "keys_in previous keys"
  shows "emits (apply_call peers keys) (applyLocal W peers lcl previous)"
proof -
  have put: "apply_call peers keys (CHostapd (bss_Interface lcl) (setNeighborCmd p))"
    if "p \<in> set peers" "valid_iface (bss_Interface lcl)" for p
    using that assms(1) setNeighborCmd_words [of p] by (auto simp: apply_call_def list_all_iff)
  have drop: "apply_call peers keys (CHostapd (bss_Interface lcl) (removeNeighborCmd k))"
    if "k \<in> set (recordedFor previous (bss_Interface lcl))" "valid_iface (bss_Interface lcl)" for k
    using that assms(2) by (auto simp: apply_call_def keys_in_def)
  show ?thesis
    unfolding applyLocal_def by (intro emits_rules emits_setNeighbors emits_dropKeys put drop)
qed

lemma emits_applyLocals:
  assumes "list_all validMeshBSS peers" "keys_in previous keys" "neighborKey ` set peers \<subseteq> keys"
    and "list_all own_bss locals"
  shows "emits (apply_call peers keys) (applyLocals W peers locals previous)"
  using assms(2,4)
proof (induction locals arbitrary: previous)
  case Nil
  show ?case by (simp add: emits_rules)
next
  case (Cons lcl locals)
  have nxt: "keys_in (mput (bss_Interface lcl) (wantedKeys peers lcl) previous) keys"
    using Cons.prems(1) assms(3) by (auto simp: keys_in_def recordedFor_put set_wantedKeys)
  have rest: "emits (apply_call peers keys) (applyLocals W peers locals p)"
    if "p = mput (bss_Interface lcl) (wantedKeys peers lcl) previous" for p
    using Cons.IH [OF nxt] Cons.prems(2) that by simp
  have own: "own_bss lcl" using Cons.prems(2) by simp
  show ?case
    unfolding applyLocals.simps bindr_def
  proof (rule emits.bind_post [where Q = "\<lambda>r _. \<forall>p. r = Inr p \<longrightarrow> p = mput (bss_Interface lcl) (wantedKeys peers lcl) previous"])
    show "emits (apply_call peers keys) (applyLocal W peers lcl previous)"
      by (rule emits_applyLocal [OF assms(1) Cons.prems(1)])
    show "wp (applyLocal W peers lcl previous)
        (\<lambda>r _. \<forall>p. r = Inr p \<longrightarrow> p = mput (bss_Interface lcl) (wantedKeys peers lcl) previous) s" for s
      by (rule wp_mono [OF wp_applyLocal [OF own]]) blast
    show "wp (case r of Inl e \<Rightarrow> return (Inl e) | Inr p \<Rightarrow> applyLocals W peers locals p)
        (\<lambda>_ u. hist_ext (apply_call peers keys) t u) t"
      if "\<forall>p. r = Inr p \<longrightarrow> p = mput (bss_Interface lcl) (wantedKeys peers lcl) previous" for r t
      using that emits.in_wp [OF rest] by (auto simp: wp_simps split: sum.split)
  qed
qed

definition known_keys :: "st \<Rightarrow> MeshBSS list \<Rightarrow> meshNeighborKey set" where
  "known_keys s peers = (\<Union>i. set (recordedFor (recorded s) i)) \<union> neighborKey ` set peers"

lemma read_apply: "read_call c \<Longrightarrow> apply_call peers keys c"
  by (simp add: apply_call_def)

lemma emits_save: "emits (apply_call peers keys) (saveNeighbors E p)"
  unfolding saveNeighbors_def by (intro emits_rules frame) (simp_all add: apply_call_def)

lemma wp_apply_commands:
  "wp (meshApplyNeighbors E W peers) (\<lambda>_ t. hist_ext (apply_call peers (known_keys s peers)) s t) s"
proof -
  let ?P = "apply_call peers (known_keys s peers)"
  have keys: "keys_in (recorded s) (known_keys s peers)" "neighborKey ` set peers \<subseteq> known_keys s peers"
    by (auto simp: keys_in_def known_keys_def)
  have rest: "emits ?P (bindr (applyLocals W peers locals (recorded s)) Some (saveNeighbors E))"
    if "list_all validMeshBSS peers" "list_all own_bss locals" for locals
    by (intro emits_rules emits_applyLocals emits_save that keys)
  have "wp (meshLocalBSSes E W) (\<lambda>r t. case r of Inl e \<Rightarrow> hist_ext ?P s t
     | Inr locals \<Rightarrow> wp (bindr (applyLocals W peers locals (recorded t)) Some (saveNeighbors E)) (\<lambda>_ u. hist_ext ?P s u) t) s"
    if "list_all validMeshBSS peers"
  proof (rule wp_mono, rule wp_conj [THEN iffD2], rule conjI, rule wp_localBSSes, rule wp_conj [THEN iffD2], rule conjI,
      rule emits.in_wp [OF emits_mono [OF emits_localBSSes read_apply]], assumption,
      rule keeps_wp [of w_neighbors], rule keeps_localBSSes, simp, elim conjE)
    fix r t
    assume r: "\<forall>bs. r = Inr bs \<longrightarrow> list_all own_bss bs" and h: "hist_ext ?P s t" and t: "w_neighbors t = w_neighbors s"
    have same: "recorded t = recorded s" using t by (simp add: recorded_def)
    show "case r of Inl e \<Rightarrow> hist_ext ?P s t
      | Inr locals \<Rightarrow> wp (bindr (applyLocals W peers locals (recorded t)) Some (saveNeighbors E)) (\<lambda>_ u. hist_ext ?P s u) t"
    proof (cases r)
      case (Inr locals)
      then show ?thesis
        unfolding same using r emits.in_wp [OF rest [OF \<open>list_all validMeshBSS peers\<close>, of locals], of t] emits.trans [OF h]
        by (auto elim!: wp_mono)
    qed (simp add: h)
  qed
  then show ?thesis
    unfolding meshApplyNeighbors_def
    by (simp add: wp_if wp_return wp_bindr wp_bind wp_gets recorded_def cong: sum.case_cong)
qed

lemma emits_neighbors:
  assumes "\<And>i cmd. P (CHostapd i cmd)" "P (CReadFile ''interfaces.json'')" "\<And>r. P (CSaveNeighbors r)" "\<And>a b. P (CRename a b)"
  shows "emits P (meshLocalBSSes E W)" "emits P (meshApplyNeighbors E W peers)"
proof -
  show l: "emits P (meshLocalBSSes E W)"
    by (rule emits_mono [OF emits_localBSSes]) (auto simp: read_call_def assms)
  have one: "emits P (applyLocal W peers lcl previous)" for lcl previous
    unfolding applyLocal_def by (intro emits_rules emits_setNeighbors emits_dropKeys assms)
  have all: "emits P (applyLocals W peers locals previous)" for locals previous
    by (induction locals arbitrary: previous) (auto intro!: emits_rules one)
  show "emits P (meshApplyNeighbors E W peers)"
    unfolding meshApplyNeighbors_def saveNeighbors_def by (intro emits_rules frame l all assms; simp)
qed

lemma keeps_neighbors:
  assumes "\<And>s h. f (s\<lparr>w_hist := h\<rparr>) = f s" "\<And>s n. f (s\<lparr>w_neighbors := n\<rparr>) = f s"
  shows "keeps f (meshApplyNeighbors E W peers)" "keeps f (meshBSSesHandler E W)" "keeps f (meshNeighborsHandler E W request)"
    "keeps f (meshRemote W leaf m path)"
  unfolding meshApplyNeighbors_def saveNeighbors_def meshBSSesHandler_def meshNeighborsHandler_def
    meshRemote_def callLeafAPI_def httpDo_def Let_def
  by (intro keeps_rules frame assms; simp add: assms)+

section \<open>Requests to nodes\<close>

definition not_http :: "sysCall \<Rightarrow> bool" where
  "not_http c \<longleftrightarrow> (\<forall>m a path tok ca. c \<noteq> CHTTP m a path tok ca)"

lemma not_http_simps [simp]:
  "not_http (CHostapd i cmd)" "not_http (CReadFile f)" "not_http (CSaveNeighbors r)" "not_http (CRename a b)"
  by (simp_all add: not_http_def)

definition node_call :: "LeafRouter list \<Rightarrow> sysCall \<Rightarrow> bool" where
  "node_call leaves c \<longleftrightarrow> to_leaf leaves c \<or> not_http c"

lemma emits_meshRemote: "leaf \<in> set leaves \<Longrightarrow> emits (node_call leaves) (meshRemote W leaf m path)"
  unfolding meshRemote_def Let_def
  by (intro emits_rules, rule emits_mono [OF emits_callLeafAPI], assumption, simp add: node_call_def)

lemma inventories_from:
  "wp (for_fold leaves acc (\<lambda>leaf acc. do { bsses \<leftarrow> nodeInventory W leaf; return (acc @ [(leaf, bsses)]) }))
    (\<lambda>is _. fst ` set is \<subseteq> set leaves \<union> fst ` set acc) s"
  by (rule wp_for_fold) (auto simp: wp_simps intro!: wp_mono [OF wp_true])

lemma emits_spread:
  "emits (node_call leaves) (do {
     inventories \<leftarrow> for_fold leaves [] (\<lambda>leaf acc. do {
       bsses \<leftarrow> nodeInventory W leaf;
       return (acc @ [(leaf, bsses)])
     });
     drop_result (meshApplyNeighbors E W (own @ concat (map snd inventories)));
     for_each (map fst (filter (\<lambda>i. snd i \<noteq> []) inventories))
       (\<lambda>leaf. drop_result (meshRemote W leaf ''PUT'' ''neighbors''))
   })"
proof (rule emits.bind_post [OF _ inventories_from])
  show "emits (node_call leaves) (for_fold leaves [] (\<lambda>leaf acc. do {
       bsses \<leftarrow> nodeInventory W leaf;
       return (acc @ [(leaf, bsses)]) }))"
    unfolding nodeInventory_def by (intro emits_rules emits_meshRemote)
  show "wp (do { drop_result (meshApplyNeighbors E W (own @ concat (map snd is)));
       for_each (map fst (filter (\<lambda>i. snd i \<noteq> []) is)) (\<lambda>leaf. drop_result (meshRemote W leaf ''PUT'' ''neighbors'')) })
     (\<lambda>_ u. hist_ext (node_call leaves) t u) t"
    if "fst ` set is \<subseteq> set leaves \<union> fst ` set []" for "is" t
    by (rule emits.in_wp, intro emits_rules emits_meshRemote emits_neighbors) (use that in \<open>auto simp: node_call_def\<close>)
qed

lemma wp_syncMeshNeighbors:
  "wp (syncMeshNeighbors E W) (\<lambda>_ t. \<exists>h. hist_ext (node_call (mc_LeafRouters (cfg_load (e_Race E h (w_cfg s))))) s t) s"
proof -
  have nh: "hist_ext (node_call leaves) s t" if "hist_ext not_http s t" for leaves t
    using that by (rule hist_ext_mono) (simp add: node_call_def)
  have own: "wp (meshLocalBSSes E W) (\<lambda>r t. hist_ext not_http s t \<and> w_cfg t = w_cfg s) s"
    unfolding wp_conj by (intro conjI emits.in_wp emits_neighbors keeps_wp frame) simp_all
  have rest: "wp (case r of Inl e \<Rightarrow> return () | Inr own \<Rightarrow> if own = [] then return () else do {
         config \<leftarrow> lockedConfig E;
         inventories \<leftarrow> for_fold (mc_LeafRouters config) [] (\<lambda>leaf acc. do {
           bsses \<leftarrow> nodeInventory W leaf;
           return (acc @ [(leaf, bsses)])
         });
         drop_result (meshApplyNeighbors E W (own @ concat (map snd inventories)));
         for_each (map fst (filter (\<lambda>i. snd i \<noteq> []) inventories))
           (\<lambda>leaf. drop_result (meshRemote W leaf ''PUT'' ''neighbors''))
       }) (\<lambda>_ u. \<exists>h. hist_ext (node_call (mc_LeafRouters (cfg_load (e_Race E h (w_cfg s))))) s u) t"
    if h: "hist_ext not_http s t" and c: "w_cfg t = w_cfg s" for r t
  proof -
    let ?P = "node_call (mc_LeafRouters (cfg_load (e_Race E (w_hist t) (w_cfg t))))"
    have "\<exists>h. hist_ext (node_call (mc_LeafRouters (cfg_load (e_Race E h (w_cfg s))))) s u" if "hist_ext ?P t u" for u
      using emits.trans [OF nh [OF h] that] c by auto
    then show ?thesis
      using nh [OF h] wp_mono [OF wp_after_config [where P = "\<lambda>c. node_call (mc_LeafRouters c)", OF emits_spread]]
      by (auto simp: wp_return split: sum.split)
  qed
  show ?thesis
    unfolding syncMeshNeighbors_def bindr_def
    by (auto simp: wp_bind wp_isLeafRouter wp_if wp_return intro!: wp_mono [OF own] rest exI)
qed

end
