(* ===== verification/System.thy ===== *)
theory System
  imports NeighborSafety
begin

text \<open>
  The running program as a machine: its states are those of the manager and the files, its
  steps the operations the loops and handlers run, one at a time. What every operation keeps
  holds in every reachable state: the process table is exact, and no two mesh nodes share a
  port.
\<close>

section \<open>Operations\<close>

datatype op =
    OpReconcile
  | OpListen string
  | OpFrame string "byte list"
  | OpSetLeaf leafMACsecRequest
  | OpRetryPending
  | OpPeer macsecPeerRequest
  | OpTestMTU leafMACsecRequest
  | OpAutoTest string
  | OpSetJumbo leafMACsecRequest
  | OpStatus
  | OpLeafRouter httpMethod LeafRouter
  | OpParent httpMethod string string string
  | OpOTP string string
  | OpLeafMode httpMethod string
  | OpCert
  | OpConnect WifiConnectEvent
  | OpDisconnect WifiConnectEvent
  | OpCallParent string
  | OpSyncDevices
  | OpSetSSID string
  | OpStations
  | OpTopologies
  | OpConnectFailure WifiConnectFailureEvent
  | OpSyncOTP
  | OpGetConfig
  | OpGetLeaves
  | OpNeighborSync
  | OpNeighbors "MeshBSS list res"
  | OpBSSes

definition perform :: "env \<Rightarrow> meshWorld \<Rightarrow> op \<Rightarrow> unit go" where
  "perform E W job =
    (case job of
       OpReconcile \<Rightarrow> reconcile E
     | OpListen dev \<Rightarrow> drop_result (listenTop E dev)
     | OpFrame dev frame \<Rightarrow> drop_result (handleLeafCtl E dev frame)
     | OpSetLeaf request \<Rightarrow> drop_result (leafRouterMACsec E request)
     | OpRetryPending \<Rightarrow> retryPendingMACsec E
     | OpPeer request \<Rightarrow> drop_result (macsecPeer E request)
     | OpTestMTU request \<Rightarrow> drop_result (leafRouterMTUTest E request)
     | OpAutoTest ip \<Rightarrow> runMTUTest E ip
     | OpSetJumbo request \<Rightarrow> drop_result (leafRouterJumbo E request)
     | OpStatus \<Rightarrow> drop_result macsecStatusHandler
     | OpLeafRouter method entry \<Rightarrow> drop_result (leafRouter E W method entry)
     | OpParent method ip token ca \<Rightarrow> drop_result (setParentCredentials E W method ip token ca)
     | OpOTP token settings \<Rightarrow> drop_result (setOTP E token settings)
     | OpLeafMode method action \<Rightarrow> drop_result (leafMode E method action)
     | OpCert \<Rightarrow> drop_result (getCert E)
     | OpConnect event \<Rightarrow> wifiConnect E W event
     | OpDisconnect event \<Rightarrow> wifiDisconnect E W event
     | OpCallParent path \<Rightarrow> callParentAPI E W path
     | OpSyncDevices \<Rightarrow> syncDevices E W
     | OpSetSSID ssid \<Rightarrow> setSSID E W ssid
     | OpStations \<Rightarrow> drop_result (getAllLeafStations E W)
     | OpTopologies \<Rightarrow> drop_result (getAllLeafTopologies E W)
     | OpConnectFailure event \<Rightarrow> wifiConnectFailure E W event
     | OpSyncOTP \<Rightarrow> syncOTP E W
     | OpGetConfig \<Rightarrow> drop_result (getMeshConfig E)
     | OpGetLeaves \<Rightarrow> drop_result (leafRouters E)
     | OpNeighborSync \<Rightarrow> syncMeshNeighbors E W
     | OpNeighbors request \<Rightarrow> drop_result (meshNeighborsHandler E W request)
     | OpBSSes \<Rightarrow> drop_result (meshBSSesHandler E W))"

text \<open>The program starts with whatever files an earlier run left; a JSON object read into a map has
  distinct keys.\<close>

inductive boot :: "st \<Rightarrow> bool" where
  "(\<And>m. mtus = Some m \<Longrightarrow> mwf m) \<Longrightarrow>
     boot ((newMACsecManager cfg leaf req mtus)\<lparr>w_wgKey := key, w_neighbors := nb\<rparr>)"

inductive sys_step :: "env \<Rightarrow> meshWorld \<Rightarrow> st \<Rightarrow> st \<Rightarrow> bool" for E :: env and W :: meshWorld where
  perform: "sys_step E W s (snd (run_state (perform E W job) s))"

inductive_cases bootE: "boot s"
inductive_cases sys_stepE: "sys_step E W s t"
inductive_simps sys_step_iff: "sys_step E W s t"

lemma step_preserves: "(\<And>job. preserves I (perform E W job)) \<Longrightarrow> I s \<Longrightarrow> sys_step E W s t \<Longrightarrow> I t"
  by (erule sys_stepE) (simp add: preserves_snd)

section \<open>Process accounting\<close>

lemma quiet_protocol:
  "emits quiet_call (lockedConfig E)" "emits quiet_call (ctlKeys E)" "emits quiet_call (sendFrame E d f)"
  "emits quiet_call (switchOff E k)" "emits quiet_call (RecvFrames E d g)"
  "emits quiet_call (Exchange E d b r)" "emits quiet_call (newMACsecChallenge E)"
  "emits quiet_call (newMACsecNonce E)" "emits quiet_call (macsecCallLeaf E leaf rq)"
  "emits quiet_call (checkParent E p)" "emits quiet_call (enabledLeaf E ip)"
  "emits quiet_call macsecStatusHandler" "emits quiet_call (clearMACsecPendingError ip)"
  by (auto simp: lockedConfig_def ctlKeys_def sendFrame_def switchOff_def RecvFrames_def Exchange_def
      newMACsecChallenge_def newMACsecNonce_def macsecCallLeaf_def checkParent_def enabledLeaf_def
      macsecStatusHandler_def Status_def Ready_def clearMACsecPendingError_def Let_def split: option.split
      intro!: emits_rules frame)

lemma quiet_handle: "emits quiet_call (handleLeafCtl E dev frame)" "emits quiet_call (listenTop E dev)"
  unfolding handleLeafCtl_def listenTop_def Let_def
  by (intro emits_rules quiet_protocol frame; simp)+

lemma quiet_probe: "emits quiet_call (probeFrame E p k a b i)"
  unfolding probeFrame_def Let_def by (intro emits_rules quiet_protocol)

lemma quiet_bisect:
  assumes "\<And>i. emits quiet_call (probe i)"
  shows "emits quiet_call (bisect probe lo hi)"
  using assms
proof (induction probe lo hi rule: bisect.induct)
  case (1 probe lo hi)
  then show ?case
    by (subst bisect.simps) (auto intro!: emits_rules)
qed

lemma quiet_test: "emits quiet_call (testUnderlayMTU E leaf)"
  unfolding testUnderlayMTU_def Let_def
  by (intro emits_rules quiet_protocol quiet_probe quiet_bisect frame) simp_all

lemma quiet_enable:
  "emits quiet_call (disableOverWire E leaf)" "emits quiet_call (macsecParentFor E leaf p)"
  "emits quiet_call (keyNonceFor E leaf p)" "emits quiet_call (askLeaf E leaf m i nxt)"
  "emits quiet_call (pushRequest E leaf nxt)" "emits quiet_call (peerRefused E rq)"
  "emits quiet_call (peerReply E rq up)"
  unfolding disableOverWire_def resendFrame_def macsecParentFor_def keyNonceFor_def askLeaf_def pushRequest_def
    peerRefused_def peerReply_def Let_def
  by (intro emits_rules quiet_protocol quiet_wg_ops frame; simp)+

lemma quiet_store:
  "emits quiet_call (storeLeaf E ip leaf nx e)" "emits quiet_call (storeUpdate E leaf nxt)"
  "emits quiet_call (disableLeaf E leaf)" "emits quiet_call (storePeer E rq reply)"
  unfolding storeLeaf_def storeUpdate_def disableLeaf_def storePeer_def Let_def
  by (intro emits_rules quiet_protocol quiet_enable frame; simp)+

lemma quiet_handlers:
  "emits quiet_call (macsecSetLeaf E request)" "emits quiet_call (pushLeafUpdate E leaf nxt)"
  "emits quiet_call (macsecPeer E rq)"
  unfolding macsecSetLeaf_def enableLeafMACsec_def proposeLink_def pushLeafUpdate_def macsecPeer_def
    enablePeer_def answerPeer_def Let_def
  by (intro emits_rules quiet_protocol quiet_enable quiet_store frame; simp)+

lemma quiet_tests:
  "emits quiet_call (retryPendingMACsec E)" "emits quiet_call (leafRouterMTUTest E rq)"
  "emits quiet_call (leafRouterJumbo E rq)" "emits quiet_call (leafRouterMACsec E rq)" "emits quiet_call (macsecTestMTU E ip)"
  unfolding retryPendingMACsec_def macsecTestMTU_def macsecSetJumbo_def leafRouterMTUTest_def
    leafRouterJumbo_def leafRouterMACsec_def Status_def Let_def
  by (intro emits_rules quiet_protocol quiet_handlers quiet_test frame; simp)+

text \<open>None of them touches the process table, or the key and the flag of the listener.\<close>

definition listening :: "st \<Rightarrow> macsecCtlKeys option \<times> bool \<times> bool" where
  "listening s = (m_leafCtl s, m_ctlRunning s, m_noCtlLoop s)"

lemma listening_simps [simp]:
  "listening (s\<lparr>m_procs := x0\<rparr>) = listening s" "listening (s\<lparr>w_hist := x1\<rparr>) = listening s"
  "listening (s\<lparr>w_cfg := x2\<rparr>) = listening s"
  "listening (s\<lparr>w_leafFlag := x3\<rparr>) = listening s"
  "listening (s\<lparr>w_reqFlag := x4\<rparr>) = listening s"
  "listening (s\<lparr>w_mtuFile := x5\<rparr>) = listening s"
  "listening (s\<lparr>w_wgKey := x6\<rparr>) = listening s"
  "listening (s\<lparr>w_neighbors := x7\<rparr>) = listening s"
  "listening (s\<lparr>w_pendingErrors := x8\<rparr>) = listening s"
  "listening (s\<lparr>m_status := x9\<rparr>) = listening s"
  "listening (s\<lparr>m_leafActive := x10\<rparr>) = listening s"
  "listening (s\<lparr>m_origMTU := x11\<rparr>) = listening s"
  "listening (s\<lparr>m_mtuInUse := x12\<rparr>) = listening s"
  "listening (s\<lparr>m_noEgress := x13\<rparr>) = listening s"
  "listening (s\<lparr>m_guardRules := x14\<rparr>) = listening s"
  "listening (s\<lparr>m_guardLive := x15\<rparr>) = listening s"
  "listening (s\<lparr>m_mssMTU := x16\<rparr>) = listening s"
  "listening (s\<lparr>m_ready := x17\<rparr>) = listening s"
  "listening (s\<lparr>m_mtuLoaded := x18\<rparr>) = listening s"
  "listening (s\<lparr>m_unsecured := x19\<rparr>) = listening s"
  "listening (s\<lparr>m_restarted := x20\<rparr>) = listening s"
  "listening (s\<lparr>m_leafCtlMAC := x21\<rparr>) = listening s"
  "listening (s\<lparr>m_ctlOffAt := x22\<rparr>) = listening s"
  "listening (s\<lparr>m_wgApplied := x23\<rparr>) = listening s"
  "listening (s\<lparr>m_wgParents := x24\<rparr>) = listening s"
  "listening (s\<lparr>m_wgMainMTU := x25\<rparr>) = listening s"
  "listening (s\<lparr>m_mtuTesting := x26\<rparr>) = listening s"
  "listening (s\<lparr>m_mtuRaised := x27\<rparr>) = listening s"
  "listening (s\<lparr>m_wgSeen := x28\<rparr>) = listening s"
  "listening (s\<lparr>m_bridgeGone := x29\<rparr>) = listening s"
  "listening (s\<lparr>m_bridgeGuard := x30\<rparr>) = listening s"
  "listening (s\<lparr>m_bridgeGuardLive := x31\<rparr>) = listening s"
  by (simp_all add: listening_def)

text \<open>The MTU bookkeeping, in memory and in the file.\<close>

definition mtu_view ::
  "st \<Rightarrow> (string, int) gomap option \<times> (string, int) gomap \<times> string set \<times> bool \<times> (string, int) gomap" where
  "mtu_view s = (w_mtuFile s, m_origMTU s, m_mtuInUse s, m_mtuLoaded s, m_mtuRaised s)"

lemma mtu_view_simps [simp]:
  "mtu_view (s\<lparr>w_hist := x0\<rparr>) = mtu_view s" "mtu_view (s\<lparr>w_cfg := x1\<rparr>) = mtu_view s"
  "mtu_view (s\<lparr>w_leafFlag := x2\<rparr>) = mtu_view s" "mtu_view (s\<lparr>w_reqFlag := x3\<rparr>) = mtu_view s"
  "mtu_view (s\<lparr>w_wgKey := x4\<rparr>) = mtu_view s" "mtu_view (s\<lparr>w_neighbors := x5\<rparr>) = mtu_view s"
  "mtu_view (s\<lparr>w_pendingErrors := x6\<rparr>) = mtu_view s" "mtu_view (s\<lparr>m_status := x7\<rparr>) = mtu_view s"
  "mtu_view (s\<lparr>m_leafActive := x8\<rparr>) = mtu_view s" "mtu_view (s\<lparr>m_noEgress := x9\<rparr>) = mtu_view s"
  "mtu_view (s\<lparr>m_guardRules := x10\<rparr>) = mtu_view s" "mtu_view (s\<lparr>m_guardLive := x11\<rparr>) = mtu_view s"
  "mtu_view (s\<lparr>m_mssMTU := x12\<rparr>) = mtu_view s" "mtu_view (s\<lparr>m_ready := x13\<rparr>) = mtu_view s"
  "mtu_view (s\<lparr>m_unsecured := x14\<rparr>) = mtu_view s" "mtu_view (s\<lparr>m_restarted := x15\<rparr>) = mtu_view s"
  "mtu_view (s\<lparr>m_leafCtlMAC := x16\<rparr>) = mtu_view s" "mtu_view (s\<lparr>m_ctlOffAt := x17\<rparr>) = mtu_view s"
  "mtu_view (s\<lparr>m_wgApplied := x18\<rparr>) = mtu_view s" "mtu_view (s\<lparr>m_wgParents := x19\<rparr>) = mtu_view s"
  "mtu_view (s\<lparr>m_wgMainMTU := x20\<rparr>) = mtu_view s" "mtu_view (s\<lparr>m_mtuTesting := x21\<rparr>) = mtu_view s"
  "mtu_view (s\<lparr>m_wgSeen := x22\<rparr>) = mtu_view s" "mtu_view (s\<lparr>m_bridgeGone := x23\<rparr>) = mtu_view s"
  "mtu_view (s\<lparr>m_bridgeGuard := x24\<rparr>) = mtu_view s" "mtu_view (s\<lparr>m_bridgeGuardLive := x25\<rparr>) = mtu_view s"
  "mtu_view (s\<lparr>m_procs := x26\<rparr>) = mtu_view s" "mtu_view (s\<lparr>m_leafCtl := x27\<rparr>) = mtu_view s"
  "mtu_view (s\<lparr>m_ctlRunning := x28\<rparr>) = mtu_view s" "mtu_view (s\<lparr>m_noCtlLoop := x29\<rparr>) = mtu_view s"
  by (simp_all add: mtu_view_def)

definition core :: "st \<Rightarrow> (string, mkaRunning) gomap \<times> (macsecCtlKeys option \<times> bool \<times> bool) \<times>
    (string, int) gomap option \<times> (string, int) gomap \<times> string set \<times> bool \<times> (string, int) gomap" where
  "core s = (m_procs s, listening s, mtu_view s)"

lemma core_simps [simp]:
  "core (s\<lparr>w_hist := x0\<rparr>) = core s" "core (s\<lparr>w_cfg := x1\<rparr>) = core s"
  "core (s\<lparr>w_leafFlag := x2\<rparr>) = core s" "core (s\<lparr>w_reqFlag := x3\<rparr>) = core s"
  "core (s\<lparr>w_wgKey := x4\<rparr>) = core s" "core (s\<lparr>w_neighbors := x5\<rparr>) = core s"
  "core (s\<lparr>w_pendingErrors := x6\<rparr>) = core s" "core (s\<lparr>m_status := x7\<rparr>) = core s"
  "core (s\<lparr>m_leafActive := x8\<rparr>) = core s" "core (s\<lparr>m_noEgress := x9\<rparr>) = core s"
  "core (s\<lparr>m_guardRules := x10\<rparr>) = core s" "core (s\<lparr>m_guardLive := x11\<rparr>) = core s"
  "core (s\<lparr>m_mssMTU := x12\<rparr>) = core s" "core (s\<lparr>m_ready := x13\<rparr>) = core s"
  "core (s\<lparr>m_unsecured := x14\<rparr>) = core s" "core (s\<lparr>m_restarted := x15\<rparr>) = core s"
  "core (s\<lparr>m_leafCtlMAC := x16\<rparr>) = core s" "core (s\<lparr>m_ctlOffAt := x17\<rparr>) = core s"
  "core (s\<lparr>m_wgApplied := x18\<rparr>) = core s" "core (s\<lparr>m_wgParents := x19\<rparr>) = core s"
  "core (s\<lparr>m_wgMainMTU := x20\<rparr>) = core s" "core (s\<lparr>m_mtuTesting := x21\<rparr>) = core s"
  "core (s\<lparr>m_wgSeen := x22\<rparr>) = core s" "core (s\<lparr>m_bridgeGone := x23\<rparr>) = core s"
  "core (s\<lparr>m_bridgeGuard := x24\<rparr>) = core s" "core (s\<lparr>m_bridgeGuardLive := x25\<rparr>) = core s"
  by (simp_all add: core_def)

lemma core_procs: "keeps core m \<Longrightarrow> keeps m_procs m"
  by (auto simp: within_def core_def intro: wp_mono)

lemma core_listening: "keeps core m \<Longrightarrow> keeps listening m"
  by (auto simp: within_def core_def intro: wp_mono)

lemma core_mtu: "keeps core m \<Longrightarrow> keeps mtu_view m"
  by (auto simp: within_def core_def intro: wp_mono)

lemma keeps_protocol:
  "keeps core (lockedConfig E)" "keeps core (sendFrame E d f)" "keeps core (switchOff E k)"
  "keeps core (enabledLeaf E ip)"
  "keeps core macsecStatusHandler" "keeps core (clearMACsecPendingError ip)"
  by (auto simp: lockedConfig_def sendFrame_def switchOff_def enabledLeaf_def
      macsecStatusHandler_def Status_def Ready_def clearMACsecPendingError_def Let_def split: option.split
      intro!: keeps_rules frame)

lemma keeps_ctlKeys: "keeps m_procs (ctlKeys E)"
  by (auto simp: ctlKeys_def Let_def split: option.split intro!: keeps_rules frame)

lemma keeps_handle: "keeps m_procs (handleLeafCtl E dev frame)" "keeps m_procs (listenTop E dev)"
  unfolding handleLeafCtl_def listenTop_def Let_def
  by (intro keeps_rules keeps_ctlKeys keeps_protocol [THEN core_procs] frame; simp)+

lemma keeps_bisect:
  assumes "\<And>i. keeps f (probe i)"
  shows "keeps f (bisect probe lo hi)"
  using assms
proof (induction probe lo hi rule: bisect.induct)
  case (1 probe lo hi)
  then show ?case
    by (subst bisect.simps) (auto intro!: keeps_rules)
qed

lemma keeps_test:
  assumes "\<And>s h. f (s\<lparr>w_hist := h\<rparr>) = f s"
  shows "keeps f (testUnderlayMTU E leaf)"
  unfolding testUnderlayMTU_def Let_def
  by (intro keeps_rules keeps_bisect frame assms)

lemma keeps_peer:
  assumes "\<And>s h. f (s\<lparr>w_hist := h\<rparr>) = f s" "\<And>s k. f (s\<lparr>w_wgKey := k\<rparr>) = f s"
  shows "keeps f (peerRefused E rq)" "keeps f (peerReply E rq up)"
  unfolding peerRefused_def peerReply_def Let_def
  by (intro keeps_rules frame assms; simp)+

lemma keeps_stores:
  "keeps core (storeLeaf E ip leaf nx e)" "keeps core (storeUpdate E leaf nxt)"
  "keeps core (storePeer E rq reply)"
  unfolding storeLeaf_def storeUpdate_def storePeer_def Let_def
  by (intro keeps_rules keeps_protocol frame; simp)+

lemma keeps_handlers:
  "keeps core (macsecSetLeaf E request)" "keeps core (pushLeafUpdate E leaf nxt)"
  "keeps core (macsecPeer E rq)"
  unfolding macsecSetLeaf_def pushLeafUpdate_def macsecPeer_def enablePeer_def answerPeer_def Let_def
  by (intro keeps_rules keeps_protocol keeps_stores keeps_peer frame; simp)+

lemma keeps_tests:
  "keeps core (retryPendingMACsec E)" "keeps core (leafRouterMTUTest E rq)"
  "keeps core (leafRouterJumbo E rq)" "keeps core (leafRouterMACsec E rq)" "keeps core (macsecTestMTU E ip)"
  unfolding retryPendingMACsec_def macsecTestMTU_def macsecSetJumbo_def leafRouterMTUTest_def
    leafRouterJumbo_def leafRouterMACsec_def Status_def Let_def
  by (intro keeps_rules keeps_protocol keeps_handlers keeps_test frame; simp)+

text \<open>The handlers of \<open>mesh.go\<close>: none starts or stops a process.\<close>

lemmas mesh_others = publish_defs otpSaveLocked_def setOTP_def leafMode_def setLeafRouter_def
  getCert_def createHMACSignatureWithFile_def getCertApiKey_def wifiConnect_def wifiDisconnect_def LeafRouterID_def updateBridgeAccess_def
  getExistingBridgeSet_def dropElements_def callParentAPI_def syncDevices_def setSSID_def
  wifiConnectFailure_def syncOTP_def callAPISetOTP_def otpLoadLocked_def getMeshConfig_def leafRouters_def
  getAllLeafStations_def getAllLeafTopologies_def callAPIGetTopology_def pollLeafRouterStations_def
  callAPIDeviceSync_def callAPISetSSID_def callAPIAllStations_def callAPIGetInterfaces_def callLeafAPI_def httpDo_def

lemmas mesh_ops = mesh_others leafRouter_def setParentCredentials_def storeLeaves_def
  macsecReleaseLeaf_def chainTrustForNodeTLS_def checkCertReply_def CAPoolFromCABytes_def
  validateCA_def validateCert_def

lemma quiet_mesh:
  "emits quiet_call (leafRouter E W method entry)" "emits quiet_call (setParentCredentials E W method ip tok ca)"
  "emits quiet_call (setOTP E tok settings)" "emits quiet_call (leafMode E method action)"
  "emits quiet_call (getCert E)" "emits quiet_call (wifiConnect E W event)"
  "emits quiet_call (wifiDisconnect E W event)" "emits quiet_call (callParentAPI E W path)"
  "emits quiet_call (syncDevices E W)" "emits quiet_call (setSSID E W ssid)"
  "emits quiet_call (getAllLeafStations E W)" "emits quiet_call (getAllLeafTopologies E W)"
  "emits quiet_call (wifiConnectFailure E W failure)" "emits quiet_call (syncOTP E W)" "emits quiet_call (getMeshConfig E)"
  "emits quiet_call (leafRouters E)"
  unfolding mesh_ops Let_def
  by (intro emits_rules quiet_protocol frame; simp)+

lemma keeps_mesh:
  "keeps core (leafRouter E W method entry)" "keeps core (setParentCredentials E W method ip tok ca)"
  "keeps core (setOTP E tok settings)" "keeps core (leafMode E method action)"
  "keeps core (getCert E)" "keeps core (wifiConnect E W event)"
  "keeps core (wifiDisconnect E W event)" "keeps core (callParentAPI E W path)"
  "keeps core (syncDevices E W)" "keeps core (setSSID E W ssid)"
  "keeps core (getAllLeafStations E W)" "keeps core (getAllLeafTopologies E W)"
  "keeps core (wifiConnectFailure E W failure)" "keeps core (syncOTP E W)" "keeps core (getMeshConfig E)"
  "keeps core (leafRouters E)"
  unfolding mesh_ops Let_def
  by (intro keeps_rules keeps_protocol frame; simp)+

lemma quiet_neighbors:
  "emits quiet_call (syncMeshNeighbors E W)" "emits quiet_call (meshNeighborsHandler E W request)"
  "emits quiet_call (meshBSSesHandler E W)"
  unfolding syncMeshNeighbors_def meshNeighborsHandler_def meshBSSesHandler_def nodeInventory_def meshRemote_def
    callLeafAPI_def httpDo_def Let_def
  by (intro emits_rules emits_neighbors quiet_protocol frame; simp)+

lemma keeps_sync:
  "keeps core (syncMeshNeighbors E W)" "keeps core (meshNeighborsHandler E W request)"
  "keeps core (meshBSSesHandler E W)"
  unfolding syncMeshNeighbors_def nodeInventory_def
  by (intro keeps_rules keeps_neighbors keeps_protocol frame; simp)+

lemmas keeps_others = keeps_protocol keeps_handlers keeps_tests keeps_mesh keeps_sync

lemma perform_inv: "preserves (proc_inv E) (perform E W job)"
  unfolding perform_def runMTUTest_def
  by (cases job; simp; intro preserves_rules reconcile_inv preserves_proc_inv quiet_handle quiet_handlers
      quiet_tests quiet_protocol quiet_mesh quiet_neighbors keeps_handle keeps_others [THEN core_procs] frame; simp)

lemma boot_proc_inv: "boot s \<Longrightarrow> proc_inv E s"
  by (erule bootE) (simp add: newMACsecManager_def proc_inv_def mwf_def)

interpretation procs: machine boot "sys_step E W" "proc_inv E" for E W
  by unfold_locales (auto intro: boot_proc_inv step_preserves perform_inv)

section \<open>Ports\<close>

text \<open>
  What a concurrent change of the configuration may do: it leaves the entries well formed, and a
  pairing that is still the same (leaf and key nonce) still has the same port.
\<close>

definition same_pairing :: "LeafRouter \<Rightarrow> LeafRouter \<Rightarrow> bool" where
  "same_pairing a b = (sameLeaf a b \<and>
     (case (lr_MACsec a, lr_MACsec b) of (Some m, Some n) \<Rightarrow> lm_KeyNonce m = lm_KeyNonce n | _ \<Rightarrow> False))"

definition port_of :: "LeafRouter \<Rightarrow> int option" where
  "port_of leaf = map_option lm_Port (lr_MACsec leaf)"

definition port_rely :: "env \<Rightarrow> bool" where
  "port_rely E \<longleftrightarrow> races_keep E (\<lambda>c. leaves_ok (mc_LeafRouters c)) \<and>
     (\<forall>h f. leaves_ok (mc_LeafRouters (cfg_load f)) \<longrightarrow>
        (\<forall>a \<in> set (mc_LeafRouters (cfg_load f)). \<forall>b \<in> set (mc_LeafRouters (cfg_load (e_Race E h f))).
           same_pairing a b \<longrightarrow> port_of a = port_of b))"

lemma port_relyD:
  assumes "port_rely E"
  shows "races_keep E (\<lambda>c. leaves_ok (mc_LeafRouters c))"
    "leaves_ok (mc_LeafRouters (cfg_load f)) \<Longrightarrow> a \<in> set (mc_LeafRouters (cfg_load f)) \<Longrightarrow> b \<in> set (mc_LeafRouters (cfg_load (e_Race E h f))) \<Longrightarrow>
      same_pairing a b \<Longrightarrow> port_of a = port_of b"
  using assms unfolding port_rely_def by blast+

text \<open>A property of the leaves alone survives the writes to the leaf's own side.\<close>

definition leaves_only :: "(MeshConfig \<Rightarrow> bool) \<Rightarrow> bool" where
  "leaves_only P \<longleftrightarrow> (\<forall>c side. P (c\<lparr>mc_LeafMACsec := side\<rparr>) = P c)"

lemma leaves_only_ports: "leaves_only (\<lambda>c. leaves_ok (mc_LeafRouters c))"
  by (simp add: leaves_only_def)

lemma checked_inv: "cfg_checked f = Inr c \<Longrightarrow> P (cfg_load f) \<Longrightarrow> P c"
  by (simp add: cfg_checked_load)

lemma side_writes:
  assumes "races_keep E P" "leaves_only P"
  shows "preserves (cfg_inv P) (lockConfig E)"
    "preserves (cfg_inv P) (switchOff E k)" "preserves (cfg_inv P) (confirmLeaf E cfg)"
    "preserves (cfg_inv P) (storePeer E rq reply)"
  using assms
  by (auto intro!: preservesI simp: switchOff_def confirmLeaf_def storePeer_def wp_simps Let_def cfg_inv_def
      races_keep_def leaves_only_def split: sum.split elim!: checked_inv [where P = P])

lemma keeps_cfg_ops:
  "keeps w_cfg (leafBody E cfg wanif lst)" "keeps w_cfg (mainStep E leaf acc)"
  unfolding leafBody_def leafKeyed_def leafWGLink_def leafMACsecLink_def leafSecY_def mainStep_def
    mainWGStep_def mainMACsecStep_def finishMainWG_def finishMainMACsec_def leafWG_def Let_def
  by (intro keeps_rules frame; simp)+

lemma side_writes_leaf:
  assumes "races_keep E P" "leaves_only P"
  shows "preserves (cfg_inv P) (revertLeaf E cfg wanif)" "preserves (cfg_inv P) (leaveLeafMode E c)"
proof -
  note lp = assms [unfolded races_keep_def leaves_only_def]
  have td: "wp (teardownLeaf E w) (\<lambda>_ t. P (cfg_load (w_cfg t))) t" if "P (cfg_load (w_cfg t))" for t w
    using preserves_wp [OF cfg_inv_keeps [OF keeps_teardown_cfg [of E w], of P], of t] that
    by (simp add: cfg_inv_def [abs_def])
  show "preserves (cfg_inv P) (revertLeaf E cfg wanif)"
    using lp
    by (auto intro!: preservesI td simp: revertLeaf_def wp_simps Let_def cfg_inv_def)
  have clear: "preserves (cfg_inv P) (do {
         lockConfig E;
         current \<leftarrow> loadMeshConfigChecked;
         (case current of Inl _ \<Rightarrow> return ()
          | Inr current \<Rightarrow> doif (ls_Enabled (mc_LeafMACsec current))
              (saveConfigLocked E (current\<lparr>mc_LeafMACsec := noLeafSide\<rparr>)))
       })"
    using lp by (auto intro!: preservesI simp: wp_simps Let_def cfg_inv_def split: sum.split
      elim!: checked_inv [where P = P])
  show "preserves (cfg_inv P) (leaveLeafMode E c)"
    unfolding leaveLeafMode_def
    by (intro preserves_rules clear cfg_inv_keeps keeps_teardown_cfg frame) simp_all
qed

lemma reconcile_cfg:
  assumes "races_keep E P" "leaves_only P"
  shows "preserves (cfg_inv P) (reconcile E)"
  unfolding reconcile_def reconcileLeaf_def leafOff_def leafWaits_def leafOn_def confirmOrRevert_def
    reconcileMain_def Let_def
  by (intro preserves_rules side_writes [OF assms] side_writes_leaf [OF assms]
      cfg_inv_keeps keeps_cfg_ops keeps_teardown_cfg frame) simp_all

text \<open>The handlers that change a pairing in place: the port stays the one that was read.\<close>

definition pairing_read :: "LeafRouter \<Rightarrow> cfgFile \<Rightarrow> bool" where
  "pairing_read leaf f \<longleftrightarrow> leaves_ok (mc_LeafRouters (cfg_load f)) \<and> leaf \<in> set (mc_LeafRouters (cfg_load f))"

definition retuned :: "LeafRouter \<Rightarrow> LeafMACsec \<Rightarrow> bool" where
  "retuned leaf nxt \<longleftrightarrow> (\<exists>m. lr_MACsec leaf = Some m \<and> lm_KeyNonce nxt = lm_KeyNonce m \<and> lm_Port nxt = lm_Port m)"

lemma leaves_ok_same:
  assumes "leaves_ok leaves" "i < length leaves" "port_of (leaves ! i) = Some (lm_Port nxt)"
  shows "leaves_ok (leaves[i := (leaves ! i)\<lparr>lr_MACsec := Some nxt\<rparr>])"
proof -
  have "has_port (leaves[i := (leaves ! i)\<lparr>lr_MACsec := Some nxt\<rparr>] ! j) p = has_port (leaves ! j) p"
    if "j < length leaves" for j p
    using assms(2,3) that by (cases "j = i") (auto simp: has_port_def port_of_def)
  then show ?thesis
    using assms(1) by (simp add: leaves_ok_def ports_distinct_def map_leaf_id_set leaf_id_def del: map_update)
qed

lemma wp_storeUpdate_ports:
  assumes "port_rely E" "pairing_read leaf (w_cfg s)" "retuned leaf nxt"
  shows "wp (storeUpdate E leaf nxt) (\<lambda>_. good_leaves) s"
proof -
  let ?f = "e_Race E (w_hist s) (w_cfg s)"
  let ?leaves = "mc_LeafRouters (cfg_load ?f)"
  have d: "leaves_ok ?leaves"
    using port_relyD(1) [OF assms(1)] assms(2) by (simp add: races_keep_def pairing_read_def)
  have "leaves_ok (?leaves[i := (?leaves ! i)\<lparr>lr_MACsec := Some nxt\<rparr>])"
    if "findLeafByIP ?leaves (lr_IP leaf) = Some i" and same: "sameLeaf (?leaves ! i) leaf"
      "case lr_MACsec (?leaves ! i) of Some m \<Rightarrow> lm_KeyNonce m = lm_KeyNonce nxt | None \<Rightarrow> False" for i
  proof -
    have i: "i < length ?leaves" using findLeafByIP_Some [OF that(1)] by simp
    moreover have "same_pairing leaf (?leaves ! i)"
      using same assms(3) by (auto simp: same_pairing_def sameLeaf_def retuned_def split: option.splits)
    moreover have "leaves_ok (mc_LeafRouters (cfg_load (w_cfg s)))" "leaf \<in> set (mc_LeafRouters (cfg_load (w_cfg s)))"
      using assms(2) by (simp_all add: pairing_read_def)
    ultimately have "port_of leaf = port_of (?leaves ! i)"
      by (intro port_relyD(2) [OF assms(1), of "w_cfg s" leaf _ "w_hist s"]) simp_all
    with assms(3) have "port_of (?leaves ! i) = Some (lm_Port nxt)"
      by (auto simp: retuned_def port_of_def dest: sym)
    with d i show ?thesis by (rule leaves_ok_same)
  qed
  then show ?thesis
    using d by (auto simp: storeUpdate_def wp_simps Let_def cfg_inv_def setLeafAt_def split: option.split)
qed

lemma wp_after_keeps:
  assumes "keeps f m" "J (f s)" "\<And>x t. J (f t) \<Longrightarrow> wp (k x) Q t"
  shows "wp (State_Monad.bind m k) Q s"
  unfolding wp_bind by (rule wp_mono [OF keeps_wp [OF assms(1)]]) (use assms in auto)

lemma pairing_read_ports: "pairing_read leaf (w_cfg s) \<Longrightarrow> good_leaves s"
  by (simp add: pairing_read_def cfg_inv_def)

lemma wp_pushLeafUpdate_ports:
  assumes "port_rely E" "pairing_read leaf (w_cfg s)" "retuned leaf nxt"
  shows "wp (pushLeafUpdate E leaf nxt) (\<lambda>_. good_leaves) s"
proof -
  have store: "wp (do { storeUpdate E leaf nxt; Kick; return (200 :: int, None) }) (\<lambda>_. good_leaves) t"
    if "pairing_read leaf (w_cfg t)" for t
    unfolding wp_bind
    by (rule wp_mono [OF wp_storeUpdate_ports [OF assms(1) that assms(3)]]) (simp add: wp_simps cfg_inv_def)
  have call: "wp (bindr (macsecCallLeaf E leaf rq) (\<lambda>e. (502, Some e)) (\<lambda>_. do {
         storeUpdate E leaf nxt; Kick; return (200 :: int, None) })) (\<lambda>_. good_leaves) t"
    if "pairing_read leaf (w_cfg t)" for t rq
    unfolding bindr_def
    by (rule wp_after_keeps [where f = w_cfg and J = "pairing_read leaf"])
      (auto intro!: frame store simp: that wp_return pairing_read_ports split: sum.split)
  have "wp (bindr (pushRequest E leaf nxt) (\<lambda>e. (500, Some e)) (\<lambda>rq.
      bindr (macsecCallLeaf E leaf rq) (\<lambda>e. (502, Some e)) (\<lambda>_. do {
         storeUpdate E leaf nxt; Kick; return (200 :: int, None) }))) (\<lambda>_. good_leaves) s"
    unfolding bindr_def [of "pushRequest E leaf nxt"]
    by (rule wp_after_keeps [where f = w_cfg and J = "pairing_read leaf"])
      (auto intro!: frame call simp: assms(2) wp_return pairing_read_ports split: sum.split)
  then show ?thesis
    unfolding pushLeafUpdate_def by (simp add: wp_return pairing_read_ports [OF assms(2)])
qed

text \<open>What \<open>enabledLeaf\<close> returns was read from the configuration.\<close>

lemma wp_enabledLeaf:
  assumes "races_keep E (\<lambda>c. leaves_ok (mc_LeafRouters c))" "good_leaves s"
  shows "wp (enabledLeaf E ip) (\<lambda>r t. good_leaves t \<and>
     (\<forall>leaf m. r = Inr (leaf, m) \<longrightarrow> pairing_read leaf (w_cfg t) \<and> lr_MACsec leaf = Some m)) s"
  using assms
  by (auto simp: enabledLeaf_def wp_simps Let_def cfg_inv_def pairing_read_def races_keep_def leaf_enabled_def
      dest: findLeafByIP_Some split: option.splits if_splits)

lemma retuned_tested: "lr_MACsec leaf = Some m \<Longrightarrow> retuned leaf (testedLink m u)"
  by (simp add: retuned_def testedLink_def Let_def)

lemma macsecTestMTU_ports:
  assumes "port_rely E"
  shows "preserves good_leaves (macsecTestMTU E ip)"
proof (rule preservesI)
  fix s
  assume s: "good_leaves s"
  have push: "wp (do { p \<leftarrow> pushLeafUpdate E leaf (testedLink m u); return (K p) }) (\<lambda>_. good_leaves) t"
    if "pairing_read leaf (w_cfg t)" "lr_MACsec leaf = Some m" for leaf m u t and K :: "int \<times> err \<Rightarrow> (int \<times> string) + macsecMTUResult"
    unfolding wp_bind wp_return by (rule wp_pushLeafUpdate_ports [OF assms that(1) retuned_tested [OF that(2)]])
  have test: "wp (bindr (testUnderlayMTU E leaf) (\<lambda>e. Inl (502, e)) (\<lambda>u. do {
        p \<leftarrow> pushLeafUpdate E leaf (testedLink m u); return (K u p) })) (\<lambda>_. good_leaves) t"
    if "pairing_read leaf (w_cfg t)" "lr_MACsec leaf = Some m"
    for leaf m t and K :: "int \<Rightarrow> int \<times> err \<Rightarrow> (int \<times> string) + macsecMTUResult"
    unfolding bindr_def
    by (rule wp_after_keeps [where f = w_cfg and J = "pairing_read leaf"])
      (use that in \<open>auto intro!: keeps_test push simp: wp_return pairing_read_ports split: sum.split\<close>)
  show "wp (macsecTestMTU E ip) (\<lambda>_. good_leaves) s"
    unfolding macsecTestMTU_def Let_def wp_bind [of "enabledLeaf E ip"]
    by (rule wp_mono [OF wp_enabledLeaf [OF port_relyD(1) [OF assms] s]])
      (auto simp: wp_return intro!: test split: sum.split)
qed

lemma macsecSetJumbo_ports:
  assumes "port_rely E"
  shows "preserves good_leaves (macsecSetJumbo E ip jumbo)"
proof (rule preservesI)
  fix s
  assume s: "good_leaves s"
  have push: "wp (pushLeafUpdate E leaf (m\<lparr>lm_Jumbo := b, lm_UnderlayMTU := u, lm_LinkMTU := i\<rparr>)) (\<lambda>_. good_leaves) t"
    if "pairing_read leaf (w_cfg t)" "lr_MACsec leaf = Some m" for leaf m b u i t
    by (rule wp_pushLeafUpdate_ports [OF assms that(1)]) (simp add: retuned_def that(2))
  show "wp (macsecSetJumbo E ip jumbo) (\<lambda>_. good_leaves) s"
    unfolding macsecSetJumbo_def Let_def wp_bind [of "enabledLeaf E ip"]
    by (rule wp_mono [OF wp_enabledLeaf [OF port_relyD(1) [OF assms] s]])
      (auto simp: wp_simps intro!: push split: sum.split)
qed

lemma mesh_ports:
  assumes "races_keep E (\<lambda>c. leaves_ok (mc_LeafRouters c))"
  shows "preserves good_leaves (setOTP E tok settings)" "preserves good_leaves (leafMode E method action)"
    "preserves good_leaves (getCert E)" "preserves good_leaves (wifiConnect E W event)"
    "preserves good_leaves (wifiDisconnect E W event)" "preserves good_leaves (callParentAPI E W path)"
    "preserves good_leaves (syncDevices E W)" "preserves good_leaves (setSSID E W ssid)"
    "preserves good_leaves (getAllLeafStations E W)" "preserves good_leaves (getAllLeafTopologies E W)"
    "preserves good_leaves (wifiConnectFailure E W failure)" "preserves good_leaves (syncOTP E W)" "preserves good_leaves (getMeshConfig E)"
    "preserves good_leaves (leafRouters E)"
  unfolding mesh_others Let_def
  by (intro preserves_rules cfg_inv_lock [OF assms] cfg_inv_keeps frame; simp)+

lemma neighbor_ports:
  assumes "races_keep E (\<lambda>c. leaves_ok (mc_LeafRouters c))"
  shows "preserves good_leaves (syncMeshNeighbors E W)" "preserves good_leaves (meshNeighborsHandler E W request)"
    "preserves good_leaves (meshBSSesHandler E W)"
proof -
  have cfg: "keeps w_cfg (meshApplyNeighbors E W peers)" "keeps w_cfg (meshRemote W leaf m path)"
    "keeps w_cfg (meshNeighborsHandler E W request)" "keeps w_cfg (meshBSSesHandler E W)" for peers leaf m path
    by (intro keeps_neighbors; simp)+
  show "preserves good_leaves (syncMeshNeighbors E W)"
    unfolding syncMeshNeighbors_def nodeInventory_def
    by (intro preserves_rules cfg_inv_lock [OF assms] cfg_inv_keeps cfg frame; simp)
  show "preserves good_leaves (meshNeighborsHandler E W request)" "preserves good_leaves (meshBSSesHandler E W)"
    by (intro cfg_inv_keeps cfg)+
qed

lemma setParentCredentials_ports:
  assumes "races_keep E (\<lambda>c. leaves_ok (mc_LeafRouters c))"
  shows "preserves good_leaves (setParentCredentials E W method ip tok ca)"
proof (rule preservesI)
  fix s
  assume "good_leaves s"
  then have lock: "wp (lockedConfig E) (\<lambda>c t. leaves_ok (mc_LeafRouters c) \<and> good_leaves t) s"
    using assms by (simp add: wp_simps Let_def cfg_inv_def races_keep_def)
  have save: "preserves good_leaves (do { saveConfigLocked E c; return x })"
    if "leaves_ok (mc_LeafRouters c)" for c and x :: "int \<times> err"
    using that by (intro preservesI) (simp add: wp_simps Let_def cfg_inv_def)
  have rest: "preserves good_leaves (check (validateCA E W ca) h (do { saveConfigLocked E c; return x }))"
    if "leaves_ok (mc_LeafRouters c)" for c h and x :: "int \<times> err"
    by (intro preserves_rules save [OF that] cfg_inv_keeps frame) simp
  show "wp (setParentCredentials E W method ip tok ca) (\<lambda>_. good_leaves) s"
    unfolding setParentCredentials_def wp_bind [of "lockedConfig E"]
    by (rule wp_mono [OF lock]) (simp add: wp_return preserves_wp [OF save] preserves_wp [OF rest])
qed

lemma perform_ports:
  assumes "port_rely E"
  shows "preserves good_leaves (perform E W job)"
proof -
  note races = port_relyD(1) [OF assms]
  note side = side_writes [OF races leaves_only_ports]
  have handle: "preserves good_leaves (handleLeafCtl E dev frame)" "preserves good_leaves (listenTop E dev)" for dev frame
    unfolding handleLeafCtl_def listenTop_def ctlKeys_def sendFrame_def Let_def
    by (intro preserves_rules side cfg_inv_keeps frame; simp)+
  have clear: "preserves good_leaves (do {
      config \<leftarrow> lockedConfig E;
      saveConfigLocked E (config\<lparr>mc_LeafMACsec := noLeafSide\<rparr>);
      KickAfter macsecApplyDelay;
      return r })" for r :: "(int \<times> string) + macsecPeerResponse"
    using races by (auto intro!: preservesI simp: wp_simps Let_def cfg_inv_def races_keep_def)
  have peer: "preserves good_leaves (macsecPeer E rq)" for rq
    unfolding macsecPeer_def enablePeer_def answerPeer_def
    by (intro preserves_rules side(4) clear cfg_inv_keeps keeps_peer frame; simp)
  show ?thesis
    unfolding perform_def runMTUTest_def macsecStatusHandler_def leafRouterMTUTest_def leafRouterJumbo_def
      leafRouterMACsec_def Status_def Ready_def
    by (cases job; simp; intro preserves_rules reconcile_cfg [OF races leaves_only_ports] handle peer
      leafRouter_leaves [OF races] setParentCredentials_ports [OF races] mesh_ports [OF races] neighbor_ports [OF races]
      macsecSetLeaf_ports [OF races] retryPending_ports [OF races] macsecTestMTU_ports [OF assms]
      macsecSetJumbo_ports [OF assms] cfg_inv_keeps frame; simp)
qed

text \<open>
  The second machine: the program under an environment whose concurrent writers keep the rely,
  started on a configuration whose leaves are well formed.
\<close>

definition port_step :: "env \<Rightarrow> meshWorld \<Rightarrow> st \<Rightarrow> st \<Rightarrow> bool" where
  "port_step E W s t \<longleftrightarrow> port_rely E \<and> sys_step E W s t"

definition port_boot :: "st \<Rightarrow> bool" where
  "port_boot s \<longleftrightarrow> boot s \<and> good_leaves s"

interpretation ports: machine port_boot "port_step E W" good_leaves for E W
  by unfold_locales
    (auto simp: port_boot_def port_step_def intro: step_preserves [OF perform_ports])

lemma port_reachable:
  assumes "port_rely E" "reachable port_boot (sys_step E W) s"
  shows "reachable port_boot (port_step E W) s"
  using assms(2,1) by (induction rule: reachable.induct) (auto simp: port_step_def intro: reachable.intros)

end
