(* ===== verification/Router.thy ===== *)
theory Router
  imports System
begin

text \<open>
  The HTTP interface \<open>main\<close> sets up on its socket: which handler serves which path and methods. The
  matching of a path against a template is the router library's. Each handler is an operation
  of theory \<open>System\<close>, and each operation is a handler or belongs to a goroutine.
\<close>

datatype handler =
    H_getMeshConfig | H_leafMode | H_leafRouters | H_leafRouter | H_leafRouterMACsec | H_leafRouterMTUTest
  | H_leafRouterJumbo | H_macsecPeer | H_macsecStatus | H_wifiConnect | H_wifiConnectFailure | H_wifiDisconnect
  | H_syncDevices | H_setSSID | H_meshBSSes | H_meshNeighbors | H_setOTP | H_syncOTP | H_setParentCredentials
  | H_getCert | H_getAllStations | H_getLeafTopologies

definition apiRoutes :: "(string \<times> handler \<times> httpMethod list) list" where
  "apiRoutes =
    [(''/config'', H_getMeshConfig, [GET]),
     (''/leafMode/{enable}'', H_leafMode, [PUT]),
     (''/leafMode'', H_leafMode, [GET]),
     (''/leafRouters'', H_leafRouters, [GET]),
     (''/leafRouter'', H_leafRouter, [PUT, DELETE]),
     (''/leafRouter/macsec'', H_leafRouterMACsec, [PUT]),
     (''/leafRouter/backhaul'', H_leafRouterMACsec, [PUT]),
     (''/leafRouter/backhaul/mtu'', H_leafRouterMTUTest, [PUT]),
     (''/leafRouter/backhaul/jumbo'', H_leafRouterJumbo, [PUT]),
     (''/macsec/peer'', H_macsecPeer, [PUT]),
     (''/macsec/status'', H_macsecStatus, [GET]),
     (''/stationConnect'', H_wifiConnect, [PUT]),
     (''/stationConnectFailure'', H_wifiConnectFailure, [PUT]),
     (''/stationDisconnect'', H_wifiDisconnect, [PUT]),
     (''/syncDevices'', H_syncDevices, [PUT]),
     (''/setSSID'', H_setSSID, [PUT]),
     (''/bsses'', H_meshBSSes, [GET]),
     (''/neighbors'', H_meshNeighbors, [PUT]),
     (''/setOTP'', H_setOTP, [PUT]),
     (''/syncOTP'', H_syncOTP, [PUT]),
     (''/setParentCredentials'', H_setParentCredentials, [PUT, DELETE]),
     (''/cert'', H_getCert, [GET]),
     (''/allLeafStations'', H_getAllStations, [GET]),
     (''/leafTopologies'', H_getLeafTopologies, [GET])]"

text \<open>The handler an operation is, \<open>None\<close> when a goroutine runs it.\<close>

definition handlerOf :: "op \<Rightarrow> handler option" where
  "handlerOf job =
    (case job of
       OpSetLeaf _ \<Rightarrow> Some H_leafRouterMACsec
     | OpPeer _ \<Rightarrow> Some H_macsecPeer
     | OpTestMTU _ \<Rightarrow> Some H_leafRouterMTUTest
     | OpSetJumbo _ \<Rightarrow> Some H_leafRouterJumbo
     | OpStatus \<Rightarrow> Some H_macsecStatus
     | OpLeafRouter _ _ \<Rightarrow> Some H_leafRouter
     | OpParent _ _ _ _ \<Rightarrow> Some H_setParentCredentials
     | OpOTP _ _ \<Rightarrow> Some H_setOTP
     | OpLeafMode _ _ \<Rightarrow> Some H_leafMode
     | OpCert \<Rightarrow> Some H_getCert
     | OpConnect _ \<Rightarrow> Some H_wifiConnect
     | OpDisconnect _ \<Rightarrow> Some H_wifiDisconnect
     | OpConnectFailure _ \<Rightarrow> Some H_wifiConnectFailure
     | OpSyncDevices \<Rightarrow> Some H_syncDevices
     | OpSetSSID _ \<Rightarrow> Some H_setSSID
     | OpStations \<Rightarrow> Some H_getAllStations
     | OpTopologies \<Rightarrow> Some H_getLeafTopologies
     | OpSyncOTP \<Rightarrow> Some H_syncOTP
     | OpGetConfig \<Rightarrow> Some H_getMeshConfig
     | OpGetLeaves \<Rightarrow> Some H_leafRouters
     | OpNeighbors _ \<Rightarrow> Some H_meshNeighbors
     | OpBSSes \<Rightarrow> Some H_meshBSSes
     | OpReconcile \<Rightarrow> None | OpListen _ \<Rightarrow> None | OpFrame _ _ \<Rightarrow> None | OpRetryPending \<Rightarrow> None
     | OpAutoTest _ \<Rightarrow> None | OpCallParent _ \<Rightarrow> None | OpNeighborSync \<Rightarrow> None)"

text \<open>No two routes share a template and a method, so the order of registration does not matter.\<close>

lemma apiRoutes_distinct: "distinct (concat (map (\<lambda>(path, h, ms). map (\<lambda>m. (path, m)) ms) apiRoutes))"
  by code_simp

text \<open>Every handler of an operation has a route, and every route runs an operation.\<close>

lemma handler_routed: "handlerOf job = Some h \<Longrightarrow> h \<in> set (map (\<lambda>(path, h, ms). h) apiRoutes)"
  by (cases h) (simp_all add: apiRoutes_def)

lemma route_runs: "\<exists>job. handlerOf job = Some h"
proof -
  have "handlerOf (OpSetLeaf r) = Some H_leafRouterMACsec" "handlerOf (OpPeer p) = Some H_macsecPeer"
    "handlerOf (OpTestMTU r) = Some H_leafRouterMTUTest" "handlerOf (OpSetJumbo r) = Some H_leafRouterJumbo"
    "handlerOf OpStatus = Some H_macsecStatus" "handlerOf (OpLeafRouter m l) = Some H_leafRouter"
    "handlerOf (OpParent m a b c) = Some H_setParentCredentials" "handlerOf (OpOTP a b) = Some H_setOTP"
    "handlerOf (OpLeafMode m a) = Some H_leafMode" "handlerOf OpCert = Some H_getCert"
    "handlerOf (OpConnect e) = Some H_wifiConnect" "handlerOf (OpDisconnect e) = Some H_wifiDisconnect"
    "handlerOf (OpConnectFailure f) = Some H_wifiConnectFailure" "handlerOf OpSyncDevices = Some H_syncDevices"
    "handlerOf (OpSetSSID a) = Some H_setSSID" "handlerOf OpStations = Some H_getAllStations"
    "handlerOf OpTopologies = Some H_getLeafTopologies" "handlerOf OpSyncOTP = Some H_syncOTP"
    "handlerOf OpGetConfig = Some H_getMeshConfig" "handlerOf OpGetLeaves = Some H_leafRouters"
    "handlerOf (OpNeighbors n) = Some H_meshNeighbors" "handlerOf OpBSSes = Some H_meshBSSes"
    for r p m l a b c e f n
    by (simp_all add: handlerOf_def)
  then show ?thesis by (cases h) metis+
qed

end
