(* ===== verification/AtomicFile.thy ===== *)
theory AtomicFile
  imports Prelude
begin

text \<open>
  \<open>atomicWriteFile\<close> and \<open>writeSecretFile\<close> of \<open>macsec_runtime.go\<close>, on a file system whose every
  intermediate state is recorded: what a crash may leave behind is one of them. The rest of the
  library uses what is proved here, that a write replaces the file or leaves it, as one step
  (\<open>saveConfigLocked\<close> and the other \<open>CSave\<close> and \<open>CWrite\<close> calls of theory \<open>SysEnv\<close>).
\<close>

section \<open>A file system\<close>

type_synonym files = "string \<Rightarrow> string option"

text \<open>\<open>d_seen\<close>: the states the disk has been in, newest first; \<open>d_step\<close> counts the system calls.\<close>

record disk =
  d_files :: files
  d_seen :: "files list"
  d_step :: nat

text \<open>
  Which call fails, how much of its data a failed write has written, and the name \<open>CreateTemp\<close>
  picks in a directory.
\<close>

record diskEnv =
  de_err :: "nat \<Rightarrow> err"
  de_part :: "nat \<Rightarrow> nat"
  de_tmp :: "files \<Rightarrow> string \<Rightarrow> string"

definition fileCall :: "diskEnv \<Rightarrow> (files \<Rightarrow> files) \<Rightarrow> (files \<Rightarrow> files) \<Rightarrow> (disk, err) state" where
  "fileCall F ok failed = State (\<lambda>d.
     let e = de_err F (d_step d);
         g = (if e = None then ok (d_files d) else failed (d_files d))
     in (e, d\<lparr>d_files := g, d_seen := g # d_seen d, d_step := Suc (d_step d)\<rparr>))"

text \<open>A call that touches no contents: \<open>Chmod\<close>, \<open>Close\<close>, \<open>MkdirAll\<close>.\<close>

definition metaCall :: "diskEnv \<Rightarrow> (disk, err) state" where
  "metaCall F = fileCall F (\<lambda>g. g) (\<lambda>g. g)"

definition createTemp :: "diskEnv \<Rightarrow> string \<Rightarrow> (disk, err) state" where
  "createTemp F tmp = fileCall F (\<lambda>g. g(tmp \<mapsto> [])) (\<lambda>g. g)"

definition writeFile :: "diskEnv \<Rightarrow> string \<Rightarrow> string \<Rightarrow> (disk, err) state" where
  "writeFile F tmp data = do {
     n \<leftarrow> gets d_step;
     fileCall F (\<lambda>g. g(tmp \<mapsto> data)) (\<lambda>g. g(tmp \<mapsto> take (de_part F n) data))
   }"

definition renameFile :: "diskEnv \<Rightarrow> string \<Rightarrow> string \<Rightarrow> (disk, err) state" where
  "renameFile F tmp path = fileCall F (\<lambda>g. (g(path := g tmp))(tmp := None)) (\<lambda>g. g)"

definition removeFile :: "diskEnv \<Rightarrow> string \<Rightarrow> (disk, err) state" where
  "removeFile F tmp = fileCall F (\<lambda>g. g(tmp := None)) (\<lambda>g. g)"

section \<open>The two functions\<close>

text \<open>What \<open>atomicWriteFile\<close> does between creating the temporary file and removing it.\<close>

definition fillAndRename :: "diskEnv \<Rightarrow> string \<Rightarrow> string \<Rightarrow> string \<Rightarrow> (disk, err) state" where
  "fillAndRename F tmp path data = do {
     e \<leftarrow> metaCall F;
     if e \<noteq> None then do { metaCall F; return e }
     else do {
       e \<leftarrow> writeFile F tmp data;
       if e \<noteq> None then do { metaCall F; return e }
       else check (metaCall F) Some (renameFile F tmp path)
     }
   }"

definition atomicWriteFile :: "diskEnv \<Rightarrow> string \<Rightarrow> string \<Rightarrow> string \<Rightarrow> (disk, err) state" where
  "atomicWriteFile F dir path data = do {
     g \<leftarrow> gets d_files;
     let tmp = de_tmp F g dir in
     check (createTemp F tmp) Some (do {
       e \<leftarrow> fillAndRename F tmp path data;
       drop_result (removeFile F tmp);
       return e
     })
   }"

definition writeSecretFile :: "diskEnv \<Rightarrow> string \<Rightarrow> string \<Rightarrow> string \<Rightarrow> (disk, err) state" where
  "writeSecretFile F dir path data =
     check (metaCall F) Some (check (metaCall F) Some (atomicWriteFile F dir path data))"

section \<open>A write is atomic\<close>

text \<open>Every state the disk went through since \<open>d\<close> has the file as it was or as it should be.\<close>

definition all_or_nothing :: "string \<Rightarrow> string \<Rightarrow> disk \<Rightarrow> disk \<Rightarrow> bool" where
  "all_or_nothing path data d t \<longleftrightarrow> (\<exists>new. d_seen t = new @ d_seen d \<and>
     (\<forall>g \<in> set new. g path = d_files d path \<or> g path = Some data))"

definition fresh_name :: "diskEnv \<Rightarrow> string \<Rightarrow> string \<Rightarrow> disk \<Rightarrow> bool" where
  "fresh_name F dir path d \<longleftrightarrow> de_tmp F (d_files d) dir \<noteq> path \<and> d_files d (de_tmp F (d_files d) dir) = None"

text \<open>After the call: done, and the file is new; or failed, and it is old. No other file changes.\<close>

definition written :: "diskEnv \<Rightarrow> string \<Rightarrow> string \<Rightarrow> string \<Rightarrow> disk \<Rightarrow> err \<Rightarrow> disk \<Rightarrow> bool" where
  "written F dir path data d e t \<longleftrightarrow> all_or_nothing path data d t \<and>
     d_files t path = (if e = None then Some data else d_files d path) \<and>
     (\<forall>q. q \<noteq> path \<and> q \<noteq> de_tmp F (d_files d) dir \<longrightarrow> d_files t q = d_files d q)"

lemma all_or_nothing_step:
  assumes "all_or_nothing path data d t" "g path = d_files d path \<or> g path = Some data"
  shows "all_or_nothing path data d (t\<lparr>d_files := g, d_seen := g # d_seen t, d_step := n\<rparr>)"
proof -
  obtain new where "d_seen t = new @ d_seen d" "\<forall>g \<in> set new. g path = d_files d path \<or> g path = Some data"
    using assms(1) by (auto simp: all_or_nothing_def)
  then show ?thesis
    using assms(2) by (auto simp: all_or_nothing_def intro!: exI [of _ "g # new"])
qed

lemma wp_fileCall [wp_simps]:
  "wp (fileCall F f g) Q d =
    (let e = de_err F (d_step d); h = (if e = None then f (d_files d) else g (d_files d))
     in Q e (d\<lparr>d_files := h, d_seen := h # d_seen d, d_step := Suc (d_step d)\<rparr>))"
  by (simp add: fileCall_def wp_def Let_def)

text \<open>Only the temporary file changes until the rename.\<close>

definition only_tmp :: "string \<Rightarrow> disk \<Rightarrow> disk \<Rightarrow> bool" where
  "only_tmp tmp d t \<longleftrightarrow> (\<exists>new. d_seen t = new @ d_seen d \<and> (\<forall>g \<in> set new. \<forall>q. q \<noteq> tmp \<longrightarrow> g q = d_files d q)) \<and>
     (\<forall>q. q \<noteq> tmp \<longrightarrow> d_files t q = d_files d q)"

lemma only_tmp_refl: "only_tmp tmp d d"
  by (simp add: only_tmp_def)

lemma only_tmp_step:
  assumes "only_tmp tmp d t" "\<forall>q. q \<noteq> tmp \<longrightarrow> g q = d_files t q"
  shows "only_tmp tmp d (t\<lparr>d_files := g, d_seen := g # d_seen t, d_step := n\<rparr>)"
proof -
  obtain new where "d_seen t = new @ d_seen d" "\<forall>g \<in> set new. \<forall>q. q \<noteq> tmp \<longrightarrow> g q = d_files d q"
    using assms(1) by (auto simp: only_tmp_def)
  then show ?thesis
    using assms by (auto simp: only_tmp_def intro!: exI [of _ "g # new"])
qed

lemma only_tmp_same: "only_tmp tmp d t \<Longrightarrow> only_tmp tmp d (t\<lparr>d_seen := d_files t # d_seen t, d_step := n\<rparr>)"
  using only_tmp_step [of tmp d t "d_files t" n] by simp

lemma wp_meta: "only_tmp tmp d t \<Longrightarrow> wp (metaCall F) (\<lambda>_ u. only_tmp tmp d u \<and> d_files u = d_files t) t"
  by (auto simp: metaCall_def wp_simps Let_def intro: only_tmp_same)

lemma wp_writeFile: "only_tmp tmp d t \<Longrightarrow>
    wp (writeFile F tmp data) (\<lambda>e u. only_tmp tmp d u \<and> (e = None \<longrightarrow> d_files u tmp = Some data)) t"
  by (auto simp: writeFile_def wp_simps Let_def intro!: only_tmp_step)

text \<open>The rename takes the disk from one of the old states to the new one.\<close>

definition renamed :: "string \<Rightarrow> string \<Rightarrow> string \<Rightarrow> disk \<Rightarrow> err \<Rightarrow> disk \<Rightarrow> bool" where
  "renamed tmp path data d e t \<longleftrightarrow> all_or_nothing path data d t \<and>
     d_files t path = (if e = None then Some data else d_files d path) \<and>
     (\<forall>q. q \<noteq> path \<and> q \<noteq> tmp \<longrightarrow> d_files t q = d_files d q)"

lemma only_tmp_renamed: "only_tmp tmp d t \<Longrightarrow> tmp \<noteq> path \<Longrightarrow> e \<noteq> None \<Longrightarrow> renamed tmp path data d e t"
  by (auto simp: only_tmp_def renamed_def all_or_nothing_def)

lemma renamed_step:
  assumes "renamed tmp path data d e t" "g = (d_files t)(tmp := x)" "tmp \<noteq> path"
  shows "renamed tmp path data d e (t\<lparr>d_files := g, d_seen := g # d_seen t, d_step := n\<rparr>)"
proof -
  obtain new where "d_seen t = new @ d_seen d" "\<forall>g \<in> set new. g path = d_files d path \<or> g path = Some data"
    using assms(1) by (auto simp: renamed_def all_or_nothing_def)
  then show ?thesis
    using assms by (auto simp: renamed_def all_or_nothing_def intro!: exI [of _ "g # new"])
qed

lemma wp_rename:
  assumes "only_tmp tmp d t" "d_files t tmp = Some data" "tmp \<noteq> path"
  shows "wp (renameFile F tmp path) (\<lambda>e u. renamed tmp path data d e u) t"
proof -
  obtain new where n: "d_seen t = new @ d_seen d" "\<forall>g \<in> set new. \<forall>q. q \<noteq> tmp \<longrightarrow> g q = d_files d q"
    and q: "\<forall>q. q \<noteq> tmp \<longrightarrow> d_files t q = d_files d q"
    using assms(1) by (auto simp: only_tmp_def)
  show ?thesis
    using n q assms(2,3)
    by (auto simp: renameFile_def wp_simps Let_def renamed_def all_or_nothing_def intro!: exI [of _ "_ # new"])
qed

lemma wp_fillAndRename:
  assumes "only_tmp tmp d t" "tmp \<noteq> path"
  shows "wp (fillAndRename F tmp path data) (\<lambda>e u. renamed tmp path data d e u) t"
proof -
  have close: "wp (do { metaCall F; return e }) (\<lambda>e u. renamed tmp path data d e u) u"
    if "only_tmp tmp d u" "e \<noteq> None" for e u
    unfolding wp_bind wp_return
    by (rule wp_mono [OF wp_meta [OF that(1)]]) (use that assms(2) in \<open>auto intro: only_tmp_renamed\<close>)
  have finish: "wp (check (metaCall F) Some (renameFile F tmp path)) (\<lambda>e u. renamed tmp path data d e u) u"
    if "only_tmp tmp d u" "d_files u tmp = Some data" for u
    unfolding wp_check
    by (rule wp_mono [OF wp_meta [OF that(1)]])
      (use that assms(2) in \<open>auto intro: only_tmp_renamed wp_rename split: option.split\<close>)
  show ?thesis
    unfolding fillAndRename_def wp_bind [of "metaCall F"]
    by (rule wp_mono [OF wp_meta [OF assms(1)]])
      (auto simp: wp_if wp_bind [of "writeFile F tmp data"] intro!: close finish wp_mono [OF wp_writeFile])
qed

lemma wp_atomicWriteFile:
  assumes "fresh_name F dir path d"
  shows "wp (atomicWriteFile F dir path data) (written F dir path data d) d"
proof -
  let ?tmp = "de_tmp F (d_files d) dir"
  have ne: "?tmp \<noteq> path" using assms by (simp add: fresh_name_def)
  have remove: "wp (do { drop_result (removeFile F ?tmp); return e }) (written F dir path data d) t"
    if "renamed ?tmp path data d e t" for e t
    using renamed_step [OF that _ ne, of _ "d_files t ?tmp"] renamed_step [OF that _ ne, of _ None]
    by (auto simp: removeFile_def wp_simps Let_def written_def renamed_def)
  have body: "wp (do { e \<leftarrow> fillAndRename F ?tmp path data; drop_result (removeFile F ?tmp); return e })
      (written F dir path data d) t" if "only_tmp ?tmp d t" for t
    unfolding wp_bind [of "fillAndRename F ?tmp path data"]
    by (rule wp_mono [OF wp_fillAndRename [OF that ne]]) (rule remove)
  have failed: "written F dir path data d (Some e) t" if "only_tmp ?tmp d t" for e t
    using only_tmp_renamed [OF that ne, of "Some e" data] by (simp add: written_def renamed_def)
  have "wp (createTemp F ?tmp) (\<lambda>e t. only_tmp ?tmp d t) d"
    by (auto simp: createTemp_def wp_simps Let_def intro!: only_tmp_step [OF only_tmp_refl] only_tmp_same [OF only_tmp_refl])
  then have "wp (check (createTemp F ?tmp) Some (do { e \<leftarrow> fillAndRename F ?tmp path data;
      drop_result (removeFile F ?tmp); return e })) (written F dir path data d) d"
    unfolding wp_check
    by (rule wp_mono) (auto intro!: body failed split: option.split)
  then show ?thesis
    by (simp add: atomicWriteFile_def wp_bind wp_gets Let_def)
qed

lemma written_later:
  assumes "all_or_nothing path data d t" "d_files t = d_files d" "written F dir path data t e u"
  shows "written F dir path data d e u"
proof -
  obtain new where "d_seen t = new @ d_seen d" "\<forall>g \<in> set new. g path = d_files d path \<or> g path = Some data"
    using assms(1) by (auto simp: all_or_nothing_def)
  moreover obtain more where "d_seen u = more @ d_seen t" "\<forall>g \<in> set more. g path = d_files t path \<or> g path = Some data"
    using assms(3) by (auto simp: written_def all_or_nothing_def)
  ultimately show ?thesis
    using assms(2,3) by (auto simp: written_def all_or_nothing_def intro!: exI [of _ "more @ new"])
qed

lemma wp_writeSecretFile:
  assumes "fresh_name F dir path d"
  shows "wp (writeSecretFile F dir path data) (written F dir path data d) d"
proof -
  have meta: "wp (metaCall F) (\<lambda>e u. all_or_nothing path data d u \<and> d_files u = d_files d) t"
    if "all_or_nothing path data d t" "d_files t = d_files d" for t
    using that all_or_nothing_step [of path data d t "d_files t"] by (simp add: metaCall_def wp_simps Let_def)
  have stop: "written F dir path data d (Some e) t" if "all_or_nothing path data d t" "d_files t = d_files d" for e t
    using that by (simp add: written_def)
  have wr: "wp (atomicWriteFile F dir path data) (written F dir path data d) t"
    if "all_or_nothing path data d t" "d_files t = d_files d" for t
    by (rule wp_mono [OF wp_atomicWriteFile]) (use assms that in \<open>auto simp: fresh_name_def intro: written_later\<close>)
  have start: "all_or_nothing path data d d" by (simp add: all_or_nothing_def)
  show ?thesis
    unfolding writeSecretFile_def wp_check
    by (rule wp_mono [OF meta [OF start refl]])
      (auto intro!: stop wp_mono [OF meta] wr split: option.split)
qed

text \<open>
  C22. Files are written atomically. Whatever call fails and wherever the program is stopped, the
  file has its old contents or the new ones, never a part of them: this holds in every state
  the disk goes through. The function reports success exactly when the file is the new one, and
  touches no other file but its temporary one.
\<close>

theorem write_is_atomic:
  assumes "fresh_name F dir path d"
  shows "wp (atomicWriteFile F dir path data) (written F dir path data d) d \<and>
    wp (writeSecretFile F dir path data) (written F dir path data d) d"
  using wp_atomicWriteFile [OF assms] wp_writeSecretFile [OF assms] by blast

text \<open>A disk that fails the third call, the write, after two bytes.\<close>

definition fullDisk :: diskEnv where
  "fullDisk = \<lparr>de_err = (\<lambda>n. if n = 2 then Some ''no space left'' else None), de_part = (\<lambda>_. 2),
     de_tmp = (\<lambda>_ dir. dir @ ''/.tmp-1'')\<rparr>"

definition oneFile :: disk where
  "oneFile = \<lparr>d_files = [''/c/config.json'' \<mapsto> ''old''], d_seen = [], d_step = 0\<rparr>"

theorem write_is_atomic_witness:
  "fst (run_state (atomicWriteFile fullDisk ''/c'' ''/c/config.json'' ''new'') oneFile) = Some ''no space left'' \<and>
   wp (atomicWriteFile fullDisk ''/c'' ''/c/config.json'' ''new'') (written fullDisk ''/c'' ''/c/config.json'' ''new'' oneFile) oneFile \<and>
   wp (writeSecretFile fullDisk ''/c'' ''/c/config.json'' ''new'') (written fullDisk ''/c'' ''/c/config.json'' ''new'' oneFile) oneFile"
proof
  show "fst (run_state (atomicWriteFile fullDisk ''/c'' ''/c/config.json'' ''new'') oneFile) = Some ''no space left''"
    by code_simp
qed (rule write_is_atomic; simp add: fresh_name_def fullDisk_def oneFile_def)

end
