(* ===== verification/ExecSys.thy ===== *)
theory ExecSys
  imports Bridge
begin

text \<open>
  \<open>execMACsecSys\<close>, the implementation of the interface \<open>macsecSys\<close> by command lines: which program
  each method runs with which arguments, after which checks, and what it makes of the decoded
  output. A method that runs one command is a function to that command line; an error is a
  check that failed before anything ran.
\<close>

section \<open>Checks\<close>

definition checkIfname :: "string \<Rightarrow> err" where
  "checkIfname name = (if valid_iface name then None else Some (''invalid interface name '' @ quote name))"

definition checkNFTTable :: "string \<Rightarrow> string \<Rightarrow> err" where
  "checkNFTTable family table =
    (if family \<noteq> ''netdev'' \<and> family \<noteq> ''bridge'' then Some ''unexpected nft family''
     else if table \<noteq> macsecGuardTable \<and> table \<noteq> macsecMSSTable \<and> table \<noteq> meshBridgeGuardTable
     then Some ''unexpected nft table'' else None)"

definition guard_args :: "err \<Rightarrow> string list \<Rightarrow> string list res" where
  "guard_args e argv = (case e of Some m \<Rightarrow> Inl m | None \<Rightarrow> Inr argv)"

section \<open>Command lines\<close>

definition linkInfoArgs :: "string \<Rightarrow> string list" where
  "linkInfoArgs name =
    (if has_prefix name meshVXLANPrefix then [''-j'', ''link'', ''show'', ''dev'', name]
     else [''-d'', ''-j'', ''link'', ''show'', ''dev'', name])"

definition linkInfoCmd :: "string \<Rightarrow> string list res" where
  "linkInfoCmd name = guard_args (checkIfname name) (''ip'' # linkInfoArgs name)"

definition linksCmd :: "string list" where
  "linksCmd = [''ip'', ''-d'', ''-j'', ''link'', ''show'', ''type'', ''macsec'']"

definition routeDevCmd :: "(string \<Rightarrow> byte list option) \<Rightarrow> string \<Rightarrow> string list res" where
  "routeDevCmd parseIP ip =
    (if parseIP ip = None then Inl ''invalid ip'' else Inr [''ip'', ''-j'', ''route'', ''get'', ip])"

definition setMTUCmd :: "string \<Rightarrow> int \<Rightarrow> string list res" where
  "setMTUCmd name mtu = guard_args (checkIfname name) [''ip'', ''link'', ''set'', ''dev'', name, ''mtu'', itoa mtu]"

definition setMasterCmd :: "string \<Rightarrow> string \<Rightarrow> string list res" where
  "setMasterCmd name master =
    (case checkIfname name of Some e \<Rightarrow> Inl e
     | None \<Rightarrow> if master = [] then Inr [''ip'', ''link'', ''set'', ''dev'', name, ''nomaster'']
        else guard_args (checkIfname master) [''ip'', ''link'', ''set'', ''dev'', name, ''master'', master])"

definition setUpCmd :: "string \<Rightarrow> string list res" where
  "setUpCmd name = guard_args (checkIfname name) [''ip'', ''link'', ''set'', ''dev'', name, ''up'']"

definition deleteLinkCmd :: "string \<Rightarrow> string list res" where
  "deleteLinkCmd name = guard_args (checkIfname name) [''ip'', ''link'', ''del'', ''dev'', name]"

text \<open>The file \<open>DisableIPv6\<close> writes.\<close>

definition disableIPv6Path :: "string \<Rightarrow> string res" where
  "disableIPv6Path name =
    (case checkIfname name of Some e \<Rightarrow> Inl e
     | None \<Rightarrow> Inr (''/proc/sys/net/ipv6/conf/'' @ name @ ''/disable_ipv6''))"

definition nftDeleteTableCmd :: "string \<Rightarrow> string \<Rightarrow> string list res" where
  "nftDeleteTableCmd family table =
     guard_args (checkNFTTable family table) [''nft'', ''delete'', ''table'', family, table]"

definition nftListCmd :: "string \<Rightarrow> string \<Rightarrow> string list res" where
  "nftListCmd family table =
     guard_args (checkNFTTable family table) [''nft'', ''list'', ''table'', family, table]"

definition startMKACmd :: "string \<Rightarrow> string \<Rightarrow> string list res" where
  "startMKACmd parent confPath =
     guard_args (checkIfname parent) [''wpa_supplicant'', ''-D'', ''macsec_linux'', ''-i'', parent, ''-c'', confPath]"

definition cmdAllowed :: "string \<Rightarrow> string list \<Rightarrow> string list res" where
  "cmdAllowed name args =
    (if name \<noteq> ''ip'' \<and> name \<noteq> ''wg'' \<and> name \<noteq> ''ethtool'' \<and> name \<noteq> ''bridge''
     then Inl ''unexpected command'' else Inr (name # args))"

definition outputAllowed :: "string \<Rightarrow> string list \<Rightarrow> string list res" where
  "outputAllowed name args =
    (if name \<noteq> ''ip'' \<and> name \<noteq> ''wg'' then Inl ''unexpected command'' else Inr (name # args))"

definition routeReplaceArgs :: "string \<Rightarrow> routeEntry \<Rightarrow> int \<Rightarrow> string list" where
  "routeReplaceArgs dev r mtu =
     [''-'' @ itoa (re_Family r), ''route'', ''replace'', re_Dst r] @
     (if re_Gateway r \<noteq> [] then [''via'', re_Gateway r] else []) @ [''dev'', dev] @
     (if re_Protocol r \<noteq> [] then [''proto'', re_Protocol r] else []) @
     (if re_Scope r \<noteq> [] then [''scope'', re_Scope r] else []) @
     (if re_PrefSrc r \<noteq> [] then [''src'', re_PrefSrc r] else []) @
     (if re_Metric r \<noteq> 0 then [''metric'', itoa (re_Metric r)] else []) @ [''mtu'', ''lock'', itoa mtu]"

definition pinRouteCmd :: "string \<Rightarrow> routeEntry \<Rightarrow> int \<Rightarrow> string list res" where
  "pinRouteCmd dev r mtu = guard_args (checkIfname dev) (''ip'' # routeReplaceArgs dev r mtu)"

text \<open>Raw frames: no command, only the check.\<close>

definition frameCheck :: "string \<Rightarrow> byte list \<Rightarrow> err" where
  "frameCheck dev frame =
    (case checkIfname dev of Some e \<Rightarrow> Some e
     | None \<Rightarrow> if length frame < 14 then Some ''short frame'' else None)"

section \<open>Decoded output\<close>

record jsonLink =
  jl_Address :: string
  jl_MTU :: int
  jl_MaxMTU :: int
  jl_Master :: string

definition parseLinkInfo :: "(string \<Rightarrow> jsonLink list res) \<Rightarrow> string \<Rightarrow> linkInfo res" where
  "parseLinkInfo dec data =
    (case dec data of Inl e \<Rightarrow> Inl e
     | Inr [e] \<Rightarrow>
        (let info = (\<lambda>mac. \<lparr>li_MAC = mac, li_MTU = jl_MTU e, li_MaxMTU = jl_MaxMTU e, li_Master = jl_Master e\<rparr>)
         in if jl_Address e = [] then Inr (info [])
            else case parse_mac (jl_Address e) of
              None \<Rightarrow> Inl (''address '' @ jl_Address e @ '': invalid MAC address'')
            | Some mac \<Rightarrow> Inr (info mac))
     | Inr _ \<Rightarrow> Inl ''interface not found'')"

definition parseRouteDev :: "(string \<Rightarrow> string list res) \<Rightarrow> string \<Rightarrow> string res" where
  "parseRouteDev dec data =
    (case dec data of Inl e \<Rightarrow> Inl e
     | Inr [] \<Rightarrow> Inl ''no route''
     | Inr (dev # _) \<Rightarrow> if valid_iface dev then Inr dev else Inl ''no route'')"

record jsonRoute =
  jr_Type :: string
  jr_Dst :: string
  jr_Gateway :: string
  jr_Protocol :: string
  jr_Scope :: string
  jr_PrefSrc :: string
  jr_Metric :: int
  jr_Nexthops :: nat
  jr_Metrics :: "int option list"

text \<open>\<open>routeWordRE\<close>: 1 to 32 of \<open>[a-z0-9_-]\<close>.\<close>

definition route_word :: "string \<Rightarrow> bool" where
  "route_word s = (1 \<le> length s \<and> length s \<le> 32 \<and> list_all (\<lambda>c. let n = (of_char c :: nat) in
     (97 \<le> n \<and> n \<le> 122) \<or> (48 \<le> n \<and> n \<le> 57) \<or> n = 95 \<or> n = 45) s)"

text \<open>\<open>isIP\<close> and \<open>isCIDR\<close> are \<open>net.ParseIP\<close> and \<open>net.ParseCIDR\<close> succeeding.\<close>

definition route_usable :: "(string \<Rightarrow> bool) \<Rightarrow> (string \<Rightarrow> bool) \<Rightarrow> jsonRoute \<Rightarrow> bool" where
  "route_usable isIP isCIDR r =
    (\<not> ((jr_Type r \<noteq> [] \<and> jr_Type r \<noteq> ''unicast'') \<or> jr_Nexthops r > 0) \<and>
     \<not> (jr_Dst r \<noteq> ''default'' \<and> \<not> isCIDR (jr_Dst r) \<and> \<not> isIP (jr_Dst r)) \<and>
     \<not> ((jr_Gateway r \<noteq> [] \<and> \<not> isIP (jr_Gateway r)) \<or> (jr_PrefSrc r \<noteq> [] \<and> \<not> isIP (jr_PrefSrc r))) \<and>
     \<not> ((jr_Protocol r \<noteq> [] \<and> \<not> route_word (jr_Protocol r)) \<or> (jr_Scope r \<noteq> [] \<and> \<not> route_word (jr_Scope r))))"

definition route_of :: "int \<Rightarrow> jsonRoute \<Rightarrow> routeEntry" where
  "route_of family r = \<lparr>re_Family = family, re_Dst = jr_Dst r, re_Gateway = jr_Gateway r,
     re_Protocol = jr_Protocol r, re_Scope = jr_Scope r, re_PrefSrc = jr_PrefSrc r, re_Metric = jr_Metric r,
     re_MTU = fold (\<lambda>m mtu. case m of Some i \<Rightarrow> i | None \<Rightarrow> mtu) (jr_Metrics r) 0\<rparr>"

definition parseRoutes ::
  "(string \<Rightarrow> jsonRoute list res) \<Rightarrow> (string \<Rightarrow> bool) \<Rightarrow> (string \<Rightarrow> bool) \<Rightarrow> string \<Rightarrow> int \<Rightarrow> routeEntry list res" where
  "parseRoutes dec isIP isCIDR data family =
    (case dec data of Inl e \<Rightarrow> Inl e
     | Inr raw \<Rightarrow> Inr (map (route_of family) (filter (route_usable isIP isCIDR) raw)))"

section \<open>The methods\<close>

text \<open>
  What \<open>os/exec\<close> and \<open>os\<close> answer: \<open>Output\<close> of a command line, \<open>CombinedOutput\<close> of one with its standard
  input, \<open>Run\<close>, and \<open>os.WriteFile\<close>. Of an error only the text matters.
\<close>

record tools =
  tl_output :: "string list \<Rightarrow> string \<times> err"
  tl_combined :: "string list \<Rightarrow> string \<Rightarrow> string \<times> err"
  tl_run :: "string list \<Rightarrow> err"
  tl_write :: "string \<Rightarrow> string \<Rightarrow> err"

definition runQuiet :: "tools \<Rightarrow> string list \<Rightarrow> err" where
  "runQuiet T argv =
    (case tl_combined T argv [] of (_, None) \<Rightarrow> None
     | (out, Some e) \<Rightarrow> Some (hd argv @ '' '' @ join '' '' (tl argv) @ '': '' @ e @ '': '' @ trim_space out))"

definition runCmd :: "tools \<Rightarrow> string list res \<Rightarrow> err" where
  "runCmd T cmd = (case cmd of Inl e \<Rightarrow> Some e | Inr argv \<Rightarrow> runQuiet T argv)"

definition outCmd :: "tools \<Rightarrow> string list res \<Rightarrow> (string \<Rightarrow> 'a res) \<Rightarrow> 'a res" where
  "outCmd T cmd parse =
    (case cmd of Inl e \<Rightarrow> Inl e
     | Inr argv \<Rightarrow> (case tl_output T argv of (_, Some e) \<Rightarrow> Inl e | (out, None) \<Rightarrow> parse out))"

definition execLinks :: "tools \<Rightarrow> (string \<Rightarrow> ipLinkEntry list res) \<Rightarrow> macsecLink list res" where
  "execLinks T dec = outCmd T (Inr linksCmd) (parseMACsecLinks dec)"

definition execLinkInfo :: "tools \<Rightarrow> (string \<Rightarrow> jsonLink list res) \<Rightarrow> string \<Rightarrow> linkInfo res" where
  "execLinkInfo T dec name = outCmd T (linkInfoCmd name) (parseLinkInfo dec)"

definition execRouteDev :: "tools \<Rightarrow> (string \<Rightarrow> byte list option) \<Rightarrow> (string \<Rightarrow> string list res) \<Rightarrow> string \<Rightarrow> string res" where
  "execRouteDev T parseIP dec ip = outCmd T (routeDevCmd parseIP ip) (parseRouteDev dec)"

definition execSetMTU :: "tools \<Rightarrow> string \<Rightarrow> int \<Rightarrow> err" where
  "execSetMTU T name mtu = runCmd T (setMTUCmd name mtu)"

definition execSetMaster :: "tools \<Rightarrow> string \<Rightarrow> string \<Rightarrow> err" where
  "execSetMaster T name master = runCmd T (setMasterCmd name master)"

definition execSetUp :: "tools \<Rightarrow> string \<Rightarrow> err" where
  "execSetUp T name = runCmd T (setUpCmd name)"

definition execDeleteLink :: "tools \<Rightarrow> string \<Rightarrow> err" where
  "execDeleteLink T name = runCmd T (deleteLinkCmd name)"

definition execDisableIPv6 :: "tools \<Rightarrow> string \<Rightarrow> err" where
  "execDisableIPv6 T name = (case disableIPv6Path name of Inl e \<Rightarrow> Some e | Inr path \<Rightarrow> tl_write T path ''1'')"

definition execNFT :: "tools \<Rightarrow> string \<Rightarrow> err" where
  "execNFT T ruleset =
    (case tl_combined T [''nft'', ''-f'', ''-''] ruleset of (_, None) \<Rightarrow> None
     | (out, Some e) \<Rightarrow> Some (''nft: '' @ e @ '': '' @ trim_space out))"

definition execNFTDeleteTable :: "tools \<Rightarrow> string \<Rightarrow> string \<Rightarrow> err" where
  "execNFTDeleteTable T family table =
    (case nftDeleteTableCmd family table of Inl e \<Rightarrow> Some e | Inr argv \<Rightarrow> tl_run T argv)"

definition execNFTList :: "tools \<Rightarrow> string \<Rightarrow> string \<Rightarrow> string \<times> err" where
  "execNFTList T family table =
    (case nftListCmd family table of Inl e \<Rightarrow> ([], Some e) | Inr argv \<Rightarrow> tl_output T argv)"

definition routesCmd :: "string \<Rightarrow> int \<Rightarrow> string list res" where
  "routesCmd dev family = guard_args (checkIfname dev)
     [''ip'', ''-j'', ''-'' @ itoa family, ''route'', ''show'', ''dev'', dev]"

definition execRoutes ::
  "tools \<Rightarrow> (string \<Rightarrow> jsonRoute list res) \<Rightarrow> (string \<Rightarrow> bool) \<Rightarrow> (string \<Rightarrow> bool) \<Rightarrow> string \<Rightarrow> routeEntry list res" where
  "execRoutes T dec isIP isCIDR dev =
    fold (\<lambda>family acc. case acc of Inl e \<Rightarrow> Inl e
      | Inr routes \<Rightarrow> (case outCmd T (routesCmd dev family) (\<lambda>out. parseRoutes dec isIP isCIDR out family) of
           Inl e \<Rightarrow> Inl e | Inr parsed \<Rightarrow> Inr (routes @ parsed)))
      [4, 6] (Inr [])"

definition execPinRouteMTU :: "tools \<Rightarrow> string \<Rightarrow> routeEntry \<Rightarrow> int \<Rightarrow> err" where
  "execPinRouteMTU T dev r mtu = runCmd T (pinRouteCmd dev r mtu)"

definition execSysCmd :: "tools \<Rightarrow> string \<Rightarrow> string list \<Rightarrow> err" where
  "execSysCmd T name args = runCmd T (cmdAllowed name args)"

definition execSysOutput :: "tools \<Rightarrow> string \<Rightarrow> string list \<Rightarrow> string \<times> err" where
  "execSysOutput T name args = (case outputAllowed name args of Inl e \<Rightarrow> ([], Some e) | Inr argv \<Rightarrow> tl_output T argv)"

text \<open>
  \<open>execMKAProc.Stop\<close>: the signals it sends, given whether the process has exited before and whether it
  exits within three seconds of the first. Each branch ends when \<open>done\<close> is closed.
\<close>

datatype sig = SIGTERM | SIGKILL

definition mkaStop :: "bool \<Rightarrow> bool \<Rightarrow> sig list" where
  "mkaStop exited inTime = (if exited then [] else if inTime then [SIGTERM] else [SIGTERM, SIGKILL])"

section \<open>What may reach a command line\<close>

text \<open>
  No argument a method takes from elsewhere can pass for an option: an interface name starts
  with a letter, and the other parts of a route are addresses, words or numbers.
\<close>

lemma valid_iface_alpha: "valid_iface s \<Longrightarrow> s \<noteq> [] \<and> is_alpha (hd s)"
  by (cases s) auto

lemma valid_iface_not_option: "valid_iface s \<Longrightarrow> \<not> has_prefix s ''-''"
  by (cases s) (auto simp: has_prefix_def is_alpha_def)

lemma guard_args_Inr: "guard_args e argv = Inr a \<longleftrightarrow> e = None \<and> a = argv"
  by (auto simp: guard_args_def split: option.splits)

lemma checkIfname_None: "checkIfname n = None \<longleftrightarrow> valid_iface n"
  by (simp add: checkIfname_def)

text \<open>A path component: no separator, and not a dot entry.\<close>

lemma iface_no_slash: "valid_iface s \<Longrightarrow> CHR ''/'' \<notin> set s \<and> s \<noteq> ''.'' \<and> s \<noteq> ''..''"
  by (cases s) (auto simp: is_alpha_def is_iface_char_def list_all_iff)

text \<open>The shape of the arguments of one route, read back.\<close>

fun opt_arg :: "string \<Rightarrow> string list \<Rightarrow> string \<times> string list" where
  "opt_arg k (a # v # rest) = (if a = k then (v, rest) else ([], a # v # rest))"
| "opt_arg k rest = ([], rest)"

lemma opt_arg_hit [simp]: "opt_arg k (k # v # rest) = (v, rest)"
  by simp

lemma opt_arg_miss: "a \<noteq> k \<Longrightarrow> opt_arg k (a # rest) = ([], a # rest)"
  by (cases rest) auto

definition read_route :: "string list \<Rightarrow> string \<times> string \<times> string \<times> string \<times> string \<times> string \<times> string list" where
  "read_route args =
    (let dst = args ! 3; (gw, r) = opt_arg ''via'' (drop 4 args); (dev, r) = opt_arg ''dev'' r;
         (proto, r) = opt_arg ''proto'' r; (scope, r) = opt_arg ''scope'' r; (src, r) = opt_arg ''src'' r;
         (metric, r) = opt_arg ''metric'' r
     in (dst, gw, dev, proto, scope, src, metric # r))"

lemma opt_arg_opt: "rest \<noteq> [] \<Longrightarrow> hd rest \<noteq> k \<Longrightarrow>
    opt_arg k ((if v \<noteq> [] then [k, v] else []) @ rest) = (v, rest)"
  by (cases rest) (auto simp: opt_arg_miss)

lemma opt_arg_if: "rest \<noteq> [] \<Longrightarrow> hd rest \<noteq> k \<Longrightarrow>
    opt_arg k ((if b then [k, v] else []) @ rest) = (if b then v else [], rest)"
  by (cases rest) (auto simp: opt_arg_miss)

lemma hd_opt: "rest \<noteq> [] \<Longrightarrow> hd rest \<noteq> j \<Longrightarrow> k \<noteq> j \<Longrightarrow>
    (if b then [k, v] else []) @ rest \<noteq> [] \<and> hd ((if b then [k, v] else []) @ rest) \<noteq> j"
  by simp

lemma read_route_args:
  "read_route (routeReplaceArgs dev r mtu) =
    (re_Dst r, re_Gateway r, dev, re_Protocol r, re_Scope r, re_PrefSrc r,
     [if re_Metric r \<noteq> 0 then itoa (re_Metric r) else [], ''mtu'', ''lock'', itoa mtu])"
  by (simp add: read_route_def routeReplaceArgs_def opt_arg_opt opt_arg_if hd_opt del: opt_arg.simps)

lemma itoa_nonempty [simp]: "itoa i \<noteq> []" "[] \<noteq> itoa i"
  by (simp_all add: itoa_def eq_commute [of "[]"])

lemma routeReplaceArgs_inj:
  assumes "routeReplaceArgs dev r mtu = routeReplaceArgs dev' r' mtu'"
  shows "dev = dev' \<and> mtu = mtu' \<and> r\<lparr>re_MTU := 0\<rparr> = r'\<lparr>re_MTU := 0\<rparr>"
proof -
  have "hd (routeReplaceArgs dev r mtu) = hd (routeReplaceArgs dev' r' mtu')" using assms by simp
  then have f: "re_Family r = re_Family r'"
    by (auto simp: routeReplaceArgs_def dest: itoa_inj)
  have "read_route (routeReplaceArgs dev r mtu) = read_route (routeReplaceArgs dev' r' mtu')"
    using assms by simp
  then show ?thesis
    using f by (auto simp: read_route_args dest: itoa_inj split: if_splits)
qed

lemma route_usable_words:
  assumes "route_usable isIP isCIDR r"
  shows "(jr_Dst r = ''default'' \<or> isCIDR (jr_Dst r) \<or> isIP (jr_Dst r)) \<and>
    (jr_Gateway r = [] \<or> isIP (jr_Gateway r)) \<and> (jr_PrefSrc r = [] \<or> isIP (jr_PrefSrc r)) \<and>
    (jr_Protocol r = [] \<or> route_word (jr_Protocol r)) \<and> (jr_Scope r = [] \<or> route_word (jr_Scope r))"
  using assms unfolding route_usable_def by blast

lemma parseRoutes_in:
  assumes "parseRoutes dec isIP isCIDR data family = Inr routes" "r \<in> set routes"
  obtains raw where "route_usable isIP isCIDR raw" "r = route_of family raw"
  using assms by (auto simp: parseRoutes_def split: sum.splits)

lemma parseRoutes_usable:
  assumes "parseRoutes dec isIP isCIDR data family = Inr routes" "r \<in> set routes"
  shows "re_Family r = family \<and> (re_Dst r = ''default'' \<or> isCIDR (re_Dst r) \<or> isIP (re_Dst r)) \<and>
    (re_Gateway r = [] \<or> isIP (re_Gateway r)) \<and> (re_PrefSrc r = [] \<or> isIP (re_PrefSrc r)) \<and>
    (re_Protocol r = [] \<or> route_word (re_Protocol r)) \<and> (re_Scope r = [] \<or> route_word (re_Scope r))"
proof -
  obtain raw where raw: "route_usable isIP isCIDR raw" "r = route_of family raw"
    using parseRoutes_in [OF assms] .
  show ?thesis using route_usable_words [OF raw(1)] by (simp add: raw(2) route_of_def)
qed

text \<open>The routes of a device, of both families, are built from checked words.\<close>

lemma execRoutes_usable:
  assumes "execRoutes T dec isIP isCIDR dev = Inr routes" "r \<in> set routes"
  shows "valid_iface dev \<and> (re_Family r = 4 \<or> re_Family r = 6) \<and>
    (re_Dst r = ''default'' \<or> isCIDR (re_Dst r) \<or> isIP (re_Dst r)) \<and>
    (re_Gateway r = [] \<or> isIP (re_Gateway r)) \<and> (re_PrefSrc r = [] \<or> isIP (re_PrefSrc r)) \<and>
    (re_Protocol r = [] \<or> route_word (re_Protocol r)) \<and> (re_Scope r = [] \<or> route_word (re_Scope r))"
proof -
  have one: "valid_iface dev \<and> (\<exists>out. parseRoutes dec isIP isCIDR out family = Inr parsed)"
    if "outCmd T (routesCmd dev family) (\<lambda>out. parseRoutes dec isIP isCIDR out family) = Inr parsed" for family parsed
    using that by (auto simp: outCmd_def routesCmd_def guard_args_def checkIfname_def split: if_splits prod.splits option.splits)
  from assms(1) obtain a b where ab: "routes = a @ b"
    "outCmd T (routesCmd dev 4) (\<lambda>out. parseRoutes dec isIP isCIDR out 4) = Inr a"
    "outCmd T (routesCmd dev 6) (\<lambda>out. parseRoutes dec isIP isCIDR out 6) = Inr b"
    by (auto simp: execRoutes_def split: sum.splits)
  from one [OF ab(2)] one [OF ab(3)] obtain x y where xy: "valid_iface dev"
    "parseRoutes dec isIP isCIDR x 4 = Inr a" "parseRoutes dec isIP isCIDR y 6 = Inr b"
    by blast
  show ?thesis
    using assms(2) xy(1) parseRoutes_usable [OF xy(2)] parseRoutes_usable [OF xy(3)] by (auto simp: ab(1))
qed

end
