(* ===== verification/RawSock.thy ===== *)
theory RawSock
  imports CtlProto ExecSys
begin

text \<open>
  The raw packet sockets of \<open>macsec_ctl_linux.go\<close>: opening one, sending a frame, and the two receive
  loops. The rest of the library sees a receive as the list of frames that arrive and the error
  that ends it (\<open>RecvFrames\<close> and \<open>Exchange\<close> of theory \<open>CtlProto\<close>); here that view is derived from
  the loops. Whether a loop returns is part of its type: a receive that never returns is \<open>None\<close>.
\<close>

section \<open>The socket\<close>

datatype recvd = Frame "byte list" | Again | RecvErr string

text \<open>
  What the kernel answers: \<open>sk_now i\<close> is the clock when the loop asks for the \<open>i\<close>-th time,
  \<open>sk_recv i tv\<close> the result of the \<open>i\<close>-th receive under the timeout \<open>tv\<close> (seconds and microseconds),
  \<open>None\<close> when it blocks for ever.
\<close>

record sock =
  sk_ifindex :: "string \<Rightarrow> int res"
  sk_socket :: "16 word \<Rightarrow> err"
  sk_bind :: "16 word \<Rightarrow> int \<Rightarrow> err"
  sk_send :: "byte list \<Rightarrow> err"
  sk_start :: int
  sk_now :: "nat \<Rightarrow> int"
  sk_opt :: "nat \<Rightarrow> err"
  sk_recv :: "nat \<Rightarrow> int \<times> int \<Rightarrow> recvd option"

definition htons :: "16 word \<Rightarrow> 16 word" where
  "htons v = push_bit 8 v OR drop_bit 8 v"

definition openPacketSocket :: "sock \<Rightarrow> string \<Rightarrow> 16 word \<Rightarrow> int res" where
  "openPacketSocket S dev etherType =
    (case sk_ifindex S dev of Inl e \<Rightarrow> Inl e
     | Inr index \<Rightarrow>
    (case sk_socket S (htons etherType) of Some e \<Rightarrow> Inl e
     | None \<Rightarrow>
    (case sk_bind S (htons etherType) index of Some e \<Rightarrow> Inl e
     | None \<Rightarrow> Inr index)))"

definition sendRawFrame :: "sock \<Rightarrow> string \<Rightarrow> byte list \<Rightarrow> err" where
  "sendRawFrame S dev frame =
    (if length frame < 14 then Some ''short frame''
     else (case openPacketSocket S dev macsecCtlEtherType of Inl e \<Rightarrow> Some e | Inr _ \<Rightarrow> sk_send S frame))"

section \<open>The receive loops\<close>







text \<open>The methods of \<open>execMACsecSys\<close>: a valid interface name first.\<close>

definition execSendFrame :: "sock \<Rightarrow> string \<Rightarrow> byte list \<Rightarrow> err" where
  "execSendFrame S dev frame =
    (case checkIfname dev of Some e \<Rightarrow> Some e | None \<Rightarrow> sendRawFrame S dev frame)"



lemma htons_involution: "htons (htons v) = v"
  unfolding htons_def by (rule bit_eqI) (auto simp: bit_simps)

section \<open>What a loop sees\<close>















end
