(* ===== verification/Examples.thy ===== *)
theory Examples
  imports System ExecSys "HOL-Library.Code_Target_Numeral"
begin

text \<open>
  Concrete environments, configurations and states, on which the properties are applied: a leaf
  and a main router with a MACsec link between them, one with a WireGuard link, and the states
  a pass reaches on them.
\<close>

section \<open>Keys and nonces\<close>

definition exNonce :: string where "exNonce = hex_encode (replicate 32 0xa5)"
definition exToken :: string where "exToken = replicate 40 CHR ''t''"
definition exMAC :: "byte list" where "exMAC = [2, 0, 0, 0, 0, 1]"
definition exLeafMAC :: "byte list" where "exLeafMAC = [2, 0, 0, 0, 0, 9]"

definition exKeys :: macsecCtlKeys where
  "exKeys = \<lparr>ck_Nonce = exNonce, ck_CKN = replicate 16 9, ck_Key = replicate 32 9\<rparr>"

section \<open>A main router with one MACsec leaf\<close>

definition exPairing :: LeafMACsec where
  "exPairing = noLeafMACsec\<lparr>lm_Enabled := True, lm_Port := 2, lm_KeyNonce := exNonce, lm_Parent := ''eth1'',
     lm_LinkMTU := 1468, lm_LeafMAC := mac_string exLeafMAC\<rparr>"

definition exLeaf :: LeafRouter where
  "exLeaf = \<lparr>lr_APIToken = exToken, lr_IP = ''192.168.2.2'', lr_TLSCA = ''ca'', lr_MACsec = Some exPairing,
     lr_MACsecPending = False\<rparr>"

definition exMainConfig :: MeshConfig where
  "exMainConfig = noConfig\<lparr>mc_LeafRouters := [exLeaf]\<rparr>"

definition exLink :: macsecLink where
  "exLink = \<lparr>ml_Name = ''macsec0'', ml_Parent = ''eth1'', ml_Master = [], ml_SCI = sciOrZero exMAC 2,
     ml_MTU = 1468, ml_AdminUp = True, ml_Encrypt = True, ml_Protect = True, ml_Replay = True,
     ml_Validate = ''strict'', ml_Cipher = ''GCM-AES-128''\<rparr>"

definition exInfo :: linkInfo where
  "exInfo = \<lparr>li_MAC = exMAC, li_MTU = 1500, li_MaxMTU = 9000, li_Master = []\<rparr>"

text \<open>Every device exists with the same properties, the secure channel is up and encrypted.\<close>

definition exMainEnv :: env where
  "exMainEnv = env0\<lparr>e_Links := (\<lambda>_. Inr [exLink]), e_LinkInfo := (\<lambda>_ _. Inr exInfo)\<rparr>"

definition exMain0 :: st where
  "exMain0 = newMACsecManager (CfgOk exMainConfig) Absent False None"

definition exMain1 :: st where
  "exMain1 = snd (run_state (reconcile exMainEnv) exMain0)"

text \<open>The same router when the leaf answers: what it replies to a pairing request.\<close>

definition exReplied :: macsecPeerResponse where
  "exReplied = \<lparr>rp_Version = 1, rp_BridgeMAC = mac_string exLeafMAC, rp_MaxMTU = 1468, rp_LinkMTU = 1468,
     rp_LeafPublicKey = []\<rparr>"

definition exPairEnv :: env where
  "exPairEnv = exMainEnv\<lparr>e_parseIP := (\<lambda>_. Some [192, 168, 2, 2]), e_RouteDev := (\<lambda>_ _. Inr ''eth1''),
     e_CallLeaf := (\<lambda>_ _ _. Inr (200, ''{}'')), e_peerReply := (\<lambda>_. Some exReplied)\<rparr>"

section \<open>A leaf\<close>

definition exSide :: LeafSideMACsec where
  "exSide = noLeafSide\<lparr>ls_Enabled := True, ls_Confirmed := True, ls_KeyNonce := exNonce, ls_LinkMTU := 1468\<rparr>"

definition exNewSide :: LeafSideMACsec where
  "exNewSide = exSide\<lparr>ls_Confirmed := False\<rparr>"

definition exLeafConfig :: MeshConfig where
  "exLeafConfig = noConfig\<lparr>mc_LeafMACsec := exSide\<rparr>"

definition exNewConfig :: MeshConfig where
  "exNewConfig = noConfig\<lparr>mc_LeafMACsec := exNewSide\<rparr>"

definition exTokenEntry :: Token where
  "exTokenEntry = \<lparr>tk_Name = DOWNHAUL_TOKEN_NAME, tk_Token = exToken, tk_Expire = 0, tk_ScopedPaths = []\<rparr>"

definition exLeafEnv :: env where
  "exLeafEnv = env0\<lparr>e_LinkInfo := (\<lambda>_ _. Inr exInfo), e_Tokens := (\<lambda>_. Inr [exTokenEntry])\<rparr>"

definition exLeaf0 :: st where
  "exLeaf0 = newMACsecManager (CfgOk noConfig) Present False None"

definition exLeafLink :: macsecLink where
  "exLeafLink = exLink\<lparr>ml_Parent := ''eth0'', ml_SCI := sciOrZero exMAC 1\<rparr>"

definition exInst :: mkaInstance where
  "exInst = \<lparr>mi_ID = ''leaf'', mi_Parent = ''eth0'', mi_Port = 1, mi_Priority = 255,
     mi_Keys = \<lparr>k_CAK = replicate 32 9, k_CKN = replicate 16 9\<rparr>\<rparr>"

lemma boot_manager: "boot (newMACsecManager cfg leaf req None)"
  using boot.intros [where cfg = cfg and leaf = leaf and req = req and mtus = None and key = None and nb = None] by (simp add: newMACsecManager_def)

lemma ex_reach: "reachable boot (sys_step exMainEnv W) exMain1"
proof -
  have "sys_step exMainEnv W exMain0 exMain1"
    using sys_step.perform [of exMainEnv W exMain0 OpReconcile] by (simp add: exMain1_def perform_def)
  then show ?thesis
    using reachable.step [OF reachable.start [where init = boot]] boot_manager unfolding exMain0_def by metis
qed

lemma env0_race [simp]: "e_Race env0 h f = f" "e_Race exLeafEnv h f = f" "e_Race exMainEnv h f = f"
  by (simp_all add: env0_def exLeafEnv_def exMainEnv_def)

lemma env0_err [simp]: "e_Err env0 h c = None" "e_Err exLeafEnv h c = None" "e_Err exMainEnv h c = None"
  by (simp_all add: env0_def exLeafEnv_def exMainEnv_def)

lemma ex_nonce: "decodeMACsecNonce exNonce = Inr (replicate 32 0xa5)"
  unfolding exNonce_def by (rule decodeMACsecNonce_encode) (simp add: macsecNonceLen_def)

lemma ex_hkdf [simp]: "e_hkdf env0 s n i k = Inr (replicate k 9)" "e_hkdf exLeafEnv s n i k = Inr (replicate k 9)"
    "e_hkdf exMainEnv s n i k = Inr (replicate k 9)"
  by (simp_all add: env0_def exLeafEnv_def exMainEnv_def)

lemma ex_keys: "deriveMACsecKeys (\<lambda>s n i k. Inr (replicate k 9)) exToken exNonce =
    Inr \<lparr>k_CAK = replicate 32 9, k_CKN = replicate 16 9\<rparr>"
  by (simp add: deriveMACsecKeys_def ex_nonce exToken_def macsecMinSecretLen_def macsecCAKLen_def)

lemma ex_eth0: "valid_iface ''eth0''" "valid_iface ''eth1''" "valid_iface ''macsec0''"
  by code_simp+

lemma ex_ctl_keys: "deriveMACsecCtlKeys (\<lambda>s n i k. Inr (replicate k 9)) exToken exNonce = Inr exKeys"
  by (simp add: deriveMACsecCtlKeys_def ex_nonce ex_keys exKeys_def)

end
