(* ===== verification/LinkProps.thy ===== *)
theory LinkProps
  imports Examples "HOL-Library.Sublist"
begin

text \<open>
  Properties of the link layer: the signed control frames and the exchange over them, secure
  channel identifiers, MTU arithmetic, the underlay test, rendered rulesets and command lines.
\<close>

section \<open>Control frames\<close>


definition exRunning :: st where
  "exRunning = (newMACsecManager (CfgOk exLeafConfig) Present False None)
     \<lparr>m_leafCtl := Some exKeys, m_leafCtlMAC := exLeafMAC\<rparr>"

text \<open>
  C3. A control frame that was built is read back: for every message with proper fields the
  frame has exactly the length asked for, and the parser returns the same command, sender,
  challenge and length.
\<close>

theorem frame_roundtrip:
  assumes "hmac_ok H" "length (ck_CKN keys) = 16" "ck_Key keys \<noteq> []"
    and "length dst = 6" "length src = 6" "length challenge = 16" "89 \<le> tot" "tot < 65536"
  shows "\<exists>f. buildMACsecCtlFrameSized H dst src cmd keys challenge tot = Some f \<and> length f = tot \<and>
    parseMACsecCtlFrameSized H f keys = Some (cmd, src, challenge, tot)"
  using ctl.build_parse [of "(H, keys)" "\<lparr>cm_dst = dst, cm_src = src, cm_cmd = cmd, cm_challenge = challenge, cm_total = tot\<rparr>"]
    assms by (auto simp: key_ok_def msg_ok_def build_msg_def parse_msg_def)

theorem frame_roundtrip_witness:
  "\<exists>f. buildMACsecCtlFrameSized (\<lambda>_ _. replicate 32 5) exLeafMAC exMAC macsecCtlProbe exKeys (replicate 16 3) 1514 = Some f \<and>
    length f = 1514 \<and>
    parseMACsecCtlFrameSized (\<lambda>_ _. replicate 32 5) f exKeys = Some (macsecCtlProbe, exMAC, replicate 16 3, 1514)"
  by (rule frame_roundtrip) (simp_all add: hmac_ok_def macsecCtlMACLen_def exKeys_def exLeafMAC_def exMAC_def)





text \<open>
  C6. The leaf is no amplifier: whatever frame arrives, every frame it sends in answer goes out
  of the uplink and is no longer than the one that arrived.
\<close>

theorem answers_no_longer:
  assumes "hmac_ok (e_hmac E)"
  shows "emits (small_send wanif (length frame)) (handleLeafCtl E wanif frame)"
  by (rule handle_sends) (rule assms)

theorem answers_no_longer_witness:
  "emits (small_send ''eth0'' 100) (handleLeafCtl exLeafEnv ''eth0'' (replicate 100 0))"
  using answers_no_longer [of exLeafEnv "''eth0''" "replicate 100 0"]
  by (simp add: hmac_ok_def macsecCtlMACLen_def exLeafEnv_def env0_def)

text \<open>
  C7. The disable exchange completes. The frame the main router builds for a running leaf whose
  stored side has the same key nonce clears that side and nothing else of the configuration,
  and the leaf has then sent a frame the main router accepts as the acknowledgement.
\<close>

theorem disable_exchange:
  assumes "hmac_ok (e_hmac E)" "length (ck_CKN keys) = 16" "ck_Key keys \<noteq> []"
    and "length src = 6" "length (m_leafCtlMAC s) = 6" "length challenge = 16"
    and "m_leafCtl s = Some keys" "m_ctlOffAt s = None" "cfg_checked (w_cfg s) = Inr config"
    and "\<And>h. e_Race E h (w_cfg s) = w_cfg s" "\<And>h. e_Err E h CSaveConfig = None"
    and "ls_Enabled (mc_LeafMACsec config)" "ls_KeyNonce (mc_LeafMACsec config) = ck_Nonce keys"
  shows "\<exists>f. buildMACsecCtlFrame (e_hmac E) broadcastMAC src macsecCtlDisable keys challenge = Some f \<and>
    wp (handleLeafCtl E wanif f) (\<lambda>_ t. w_cfg t = CfgOk (config\<lparr>mc_LeafMACsec := noLeafSide\<rparr>) \<and>
      (\<exists>g. CSendFrame wanif g \<in> set (w_hist t) \<and> isAck E keys challenge g = Some ())) s"
proof -
  have "key_ok (e_hmac E, keys)" using assms by (simp add: key_ok_def)
  then obtain f g where
    "buildMACsecCtlFrame (e_hmac E) broadcastMAC src macsecCtlDisable keys challenge = Some f"
    "parseMACsecCtlFrameSized (e_hmac E) f keys = Some (macsecCtlDisable, src, challenge, 89)"
    "buildMACsecCtlFrame (e_hmac E) src (m_leafCtlMAC s) macsecCtlAck keys challenge = Some g"
    "isAck E keys challenge g = Some ()"
    by (rule disable_acked [OF _ assms(4,5,6)])
  then show ?thesis
    by (intro exI [of _ f] conjI)
      (assumption, rule wp_mono [OF wp_handle_disable], use assms in \<open>auto\<close>)
qed

theorem disable_exchange_witness:
  "\<exists>f. buildMACsecCtlFrame (e_hmac exLeafEnv) broadcastMAC exMAC macsecCtlDisable exKeys (replicate 16 3) = Some f \<and>
    wp (handleLeafCtl exLeafEnv ''eth0'' f) (\<lambda>_ t. w_cfg t = CfgOk (exLeafConfig\<lparr>mc_LeafMACsec := noLeafSide\<rparr>) \<and>
      (\<exists>g. CSendFrame ''eth0'' g \<in> set (w_hist t) \<and> isAck exLeafEnv exKeys (replicate 16 3) g = Some ())) exRunning"
  by (rule disable_exchange)
    (simp_all add: hmac_ok_def macsecCtlMACLen_def exLeafEnv_def env0_def exKeys_def exMAC_def exLeafMAC_def
      exRunning_def newMACsecManager_def cfg_checked_def exLeafConfig_def exSide_def noLeafSide_def)

section \<open>Identifiers and MTUs\<close>

lemma port_word: "validMACsecPort p \<Longrightarrow> validMACsecPort q \<Longrightarrow> word_of_int p = (word_of_int q :: 16 word) \<Longrightarrow> p = q"
  by (simp add: validMACsecPort_def word_of_int_eq_iff take_bit_eq_mod)

text \<open>
  A secure channel identifier names one end of one link: two addresses and ports that get
  the same identifier are the same.
\<close>

lemma sci_injective:
  assumes "macsecSCI mac port = Inr c" "macsecSCI mac' port' = Inr c"
  shows "mac = mac' \<and> port = port'"
proof -
  have "mac @ append_u16 [] (of_int port) = mac' @ append_u16 [] (of_int port')"
    using assms by (intro be_u64_inj)
      (auto simp: macsecSCI_def append_u16_append [of mac] append_u16_append [of mac'] split: if_splits)
  then have mac: "mac = mac'" and "append_u16 [] (of_int port) = append_u16 [] (of_int port')"
    using assms by (auto simp: macsecSCI_def split: if_splits)
  then have "(of_int port :: 16 word) = of_int port'"
    by (metis append_u16_be)
  with assms mac show ?thesis
    by (auto simp: macsecSCI_def split: if_splits intro: port_word)
qed

text \<open>
  Both ends of a MACsec link agree on its MTU: the computation does not depend on which end
  is local, and what it yields is at least 1280, at most 1500 and no more than either end can
  carry.
\<close>

lemma link_mtu_agreement:
  assumes "macsecLinkMTU a b = Inr m"
  shows "macsecLinkMTU b a = Inr m \<and> 1280 \<le> m \<and> m \<le> 1500 \<and> m \<le> a \<and> m \<le> b"
  using assms macsecLinkMTU_comm [of a b] macsecLinkMTU_bounds [OF assms]
  by (simp add: macsecMinLinkMTU_def macsecEthernetMTU_def)

text \<open>
  The VXLAN interface over WireGuard always fits: with both headers its packets are no
  larger than the underlay's MTU, and its MTU lies between 1390 and 1500 whatever was measured.
\<close>

lemma wireguard_mtu_fits:
  "1390 \<le> wgInnerMTU (meshUnderlay jumbo mtu) \<and> wgInnerMTU (meshUnderlay jumbo mtu) \<le> 1500 \<and>
   wgInnerMTU (meshUnderlay jumbo mtu) + 60 + 50 \<le> meshUnderlay jumbo mtu"
  using wgInnerMTU_bounds [of jumbo mtu]
  by (simp add: macsecEthernetMTU_def meshWGOverhead_def meshVXLANOverhead_def)

section \<open>The underlay test\<close>



text \<open>
  C12. The test ends, and soon: whatever the node answers, it exchanges at most 24 frames.
\<close>

theorem mtu_test_bounded:
  "wp (testUnderlayMTU E leaf) (\<lambda>_ t. exchanges (w_hist t) \<le> exchanges (w_hist s) + 24) s"
  by (rule wp_testUnderlay_exchanges)

text \<open>
  C13. The search finds the limit: when exactly the sizes up to \<open>limit\<close> pass, the result is one
  of them and less than eight below the limit.
\<close>

theorem bisect_finds_limit:
  assumes "\<And>n s. wp (probe n) (\<lambda>ok _. ok \<longleftrightarrow> n \<le> limit) s" "lo \<le> limit" "limit < hi"
  shows "wp (bisect probe lo hi) (\<lambda>r _. r \<le> limit \<and> limit < r + 8) s"
  by (rule wp_bisect_limit) (rule assms)+

theorem bisect_finds_limit_witness:
  "wp (bisect (\<lambda>n. return (n \<le> 4000)) 1500 9000) (\<lambda>r _. r \<le> 4000 \<and> (4000 :: int) < r + 8) exMain0"
  by (rule bisect_finds_limit) (simp_all add: wp_simps)

section \<open>Rulesets and command lines\<close>

definition pin_rule :: "meshBridgePin \<Rightarrow> byte list \<Rightarrow> string" where
  "pin_rule pin mac = drop_rule mac (if pin_Port pin \<noteq> [] then '' iifname != '' @ quote (pin_Port pin) else [])"

lemma pin_rules_Cons:
  "pin_rules (p # pins) = Inr rules \<longleftrightarrow> (\<exists>mac rest. pin_mac p = Some mac \<and> pin_rules pins = Inr rest \<and>
     rules = ln 2 (pin_rule p mac) @ rest)"
  by (auto simp: pin_rule_def Let_def split: option.splits sum.splits)

lemma sublist_ln: "sublist r (ln n r @ rest)"
  unfolding ln_def sublist_def by (metis append.assoc)

lemma sublist_tail: "sublist xs ys \<Longrightarrow> sublist xs (zs @ ys)"
  by (simp add: sublist_append)

lemma pin_rule_in:
  "pin_rules pins = Inr rules \<Longrightarrow> pin \<in> set pins \<Longrightarrow>
    \<exists>mac. pin_mac pin = Some mac \<and> sublist (pin_rule pin mac) rules"
proof (induction pins arbitrary: rules)
  case Nil
  then show ?case by simp
next
  case (Cons p pins)
  from Cons.prems(1) obtain mac rest where p: "pin_mac p = Some mac" "pin_rules pins = Inr rest"
    "rules = ln 2 (pin_rule p mac) @ rest"
    unfolding pin_rules_Cons by blast
  show ?case
  proof (cases "pin = p")
    case True
    with p show ?thesis by (auto intro: sublist_ln)
  next
    case False
    with Cons p(2) obtain m where "pin_mac pin = Some m" "sublist (pin_rule pin m) rest" by auto
    with p(3) show ?thesis by (auto intro: sublist_tail)
  qed
qed

text \<open>
  C14. The bridge's ruleset fails closed: it is rendered only when every pin has a valid address
  and port, and then contains, for every node on the bridge, the rule that drops its address on
  any other port.
\<close>

theorem bridge_rules_cover_pins:
  assumes "renderBridgeGuard own pins = Inr ruleset" "pin \<in> set pins"
  shows "\<exists>mac. pin_mac pin = Some mac \<and> length mac = 6 \<and> sublist (pin_rule pin mac) ruleset"
proof -
  obtain rules where r: "pin_rules pins = Inr rules"
    using assms(1) by (cases "pin_rules pins") (auto simp: renderBridgeGuard_def)
  from pin_rule_in [OF r assms(2)] obtain mac where mac: "pin_mac pin = Some mac"
    "sublist (pin_rule pin mac) rules" by auto
  have "sublist rules ruleset"
    using assms(1) unfolding renderBridgeGuard_def r sum.case sum.inject append_assoc
    by (elim subst) (intro sublist_tail sublist_append_rightI)
  with mac(2) have "sublist (pin_rule pin mac) ruleset"
    by (rule sublist_order.order.trans)
  moreover have "length mac = 6"
    using mac(1) by (auto simp: pin_mac_def split: option.splits if_splits)
  ultimately show ?thesis using mac(1) by blast
qed

definition exPin :: meshBridgePin where
  "exPin = \<lparr>pin_Port = ''macsec0'', pin_MAC = ''02:00:00:00:00:09''\<rparr>"

theorem bridge_rules_cover_pins_witness:
  "\<exists>mac. pin_mac exPin = Some mac \<and> length mac = 6 \<and>
    sublist (pin_rule exPin mac) (case renderBridgeGuard exMAC [exPin] of Inr r \<Rightarrow> r | Inl e \<Rightarrow> e)"
proof (rule bridge_rules_cover_pins)
  have "pin_mac exPin = Some [2, 0, 0, 0, 0, 9]"
    unfolding exPin_def by code_simp
  then show "renderBridgeGuard exMAC [exPin] =
      Inr (case renderBridgeGuard exMAC [exPin] of Inr r \<Rightarrow> r | Inl e \<Rightarrow> e)"
    by (simp add: renderBridgeGuard_def Let_def)
qed simp

text \<open>
  The command line that pins a route's MTU names one route: two routes with the same
  arguments are the same up to the MTU they had, on the same device and with the same lock.
\<close>

lemma route_command_injective:
  assumes "pinRouteCmd dev r mtu = Inr argv" "pinRouteCmd dev' r' mtu' = Inr argv"
  shows "dev = dev' \<and> mtu = mtu' \<and> r\<lparr>re_MTU := 0\<rparr> = r'\<lparr>re_MTU := 0\<rparr>"
  using assms by (intro routeReplaceArgs_inj) (auto simp: pinRouteCmd_def guard_args_Inr)

end
