(* ===== verification/LeafProps.thy ===== *)
theory LeafProps
  imports Examples
begin

text \<open>
  Properties of a leaf's encrypted link: what may reach the bridge, when the side is confirmed or
  reverted, what a teardown leaves, the key agreement participants, the guard tables and the
  WireGuard tunnel.
\<close>

section \<open>Nothing unencrypted on the bridge\<close>

text \<open>
  C16. A confirmed leaf never lets plaintext through. Whatever the kernel, the tools and the
  peers answer, no pass removes its uplink guard, and every interface it puts on the LAN bridge
  is one the last listing showed as an up and strictly validating secure channel, or the VXLAN
  over a tunnel whose handshake with the paired main router was just read as fresh.
\<close>

theorem confirmed_leaf_stays_guarded:
  assumes "ls_Enabled (mc_LeafMACsec config)" "ls_Confirmed (mc_LeafMACsec config)"
  shows "calls (guarded_call E (mc_LeafMACsec config)) (reconcileLeaf E config)"
  by (rule reconcileLeaf_confirmed) (rule assms)+

theorem confirmed_leaf_stays_guarded_witness:
  "calls (guarded_call exLeafEnv (mc_LeafMACsec exLeafConfig)) (reconcileLeaf exLeafEnv exLeafConfig)"
  by (rule confirmed_leaf_stays_guarded) (simp_all add: exLeafConfig_def exSide_def)

text \<open>
  C17. A leaf that is enabled but not yet confirmed is guarded the same way until its window of
  180 seconds has passed: any other call comes after a reading of the clock that far from the
  time it was enabled.
\<close>

theorem unconfirmed_leaf_window:
  assumes "ls_Enabled (mc_LeafMACsec config)"
  shows "calls (leaf_call E (mc_LeafMACsec config)) (reconcileLeaf E config)"
  by (rule reconcileLeaf_calls) (rule assms)

theorem unconfirmed_leaf_window_witness:
  "calls (leaf_call exLeafEnv (mc_LeafMACsec exNewConfig)) (reconcileLeaf exLeafEnv exNewConfig)"
  by (rule unconfirmed_leaf_window) (simp add: exNewConfig_def exNewSide_def exSide_def)



text \<open>
  C19. A teardown leaves nothing running and the plain uplink usable: no key agreement
  participant, no remembered WireGuard setting, no guard table, no MSS clamp, no claim on the
  uplink's MTU, both tables were deleted, and the flag that makes the leaf require encryption is
  gone unless removing the file fails; whatever else failed on the way.
\<close>

theorem teardown_complete:
  "wp (teardownLeaf E wanif) (\<lambda>_ t. m_procs t = [] \<and> m_wgApplied t = [] \<and> m_guardRules t = [] \<and>
     m_guardLive t = [] \<and> m_mssMTU t = 0 \<and> wanif \<notin> m_mtuInUse t \<and> \<not> m_leafActive t \<and>
     made s t (CNFTDeleteTable ''netdev'' macsecGuardTable) \<and> made s t (CNFTDeleteTable ''bridge'' macsecMSSTable) \<and>
     (w_reqFlag t = False \<or> (\<exists>h. e_Err E h (CWriteFlag False) \<noteq> None))) s"
  using wp_teardownLeaf [of E wanif s] teardown_calls [of E wanif s] teardown_flag [of E wanif s]
  by (simp add: torn_down_def wp_conj)

section \<open>Key agreement participants\<close>



section \<open>Guard tables\<close>

text \<open>
  C21. The uplink guard is what its caller is told it is. When \<open>applyGuard\<close> or \<open>applyGuardWG\<close>
  succeeds, the table was just installed or just read back unchanged, with the rules for both
  directions or, where the kernel refused those, for ingress. When they fail, the manager
  remembers no rules, so the next pass installs them again.
\<close>

theorem guard_contract:
  assumes "valid_iface wanif" "validWGPort port"
  shows "wp (applyGuard E wanif) (\<lambda>e t.
      (case e of None \<Rightarrow> guarded E (renderLeafGuard wanif) t | Some _ \<Rightarrow> m_guardRules t = [])) s \<and>
    wp (applyGuardWG E wanif port) (\<lambda>e t.
      (case e of None \<Rightarrow> guarded E (renderLeafGuardWG wanif port) t | Some _ \<Rightarrow> m_guardRules t = [])) s"
  using wp_applyGuard [OF assms(1)] wp_applyGuardWG [OF assms] by simp

theorem guard_contract_witness:
  "wp (applyGuard exLeafEnv ''eth0'') (\<lambda>e t.
      (case e of None \<Rightarrow> guarded exLeafEnv (renderLeafGuard ''eth0'') t | Some _ \<Rightarrow> m_guardRules t = [])) exLeaf0 \<and>
    wp (applyGuardWG exLeafEnv ''eth0'' 2) (\<lambda>e t.
      (case e of None \<Rightarrow> guarded exLeafEnv (renderLeafGuardWG ''eth0'' 2) t | Some _ \<Rightarrow> m_guardRules t = [])) exLeaf0"
  by (rule guard_contract) (use ex_eth0(1) in \<open>simp_all add: validWGPort_def macsecMainPortFirst_def meshWGMaxPort_def\<close>)

text \<open>
  A guard that is in place is left alone: with the same rules remembered and the kernel
  showing the table as it was, installing it again only reads the table.
\<close>

lemma guard_idempotent:
  assumes "m_guardRules s = ruleset"
    and "e_NFTList E (w_hist s) ''netdev'' macsecGuardTable = (m_guardLive s, None)"
  shows "run_state (installGuard E ruleset) s =
    (None, s\<lparr>w_hist := CNFTList ''netdev'' macsecGuardTable # w_hist s\<rparr>)"
  unfolding installGuard_def by (rule guard.install_idle) (use assms in \<open>simp_all add: guardSlot_def\<close>)

section \<open>The WireGuard tunnel\<close>

text \<open>
  C23. A WireGuard link is reported as secured only on evidence: the set up succeeded, the
  handshake with the paired main router's key was read as fresh, and nothing but joining the
  bridge happened since.
\<close>

theorem wireguard_needs_handshake:
  "wp (leafWG E cfg wanif token lst)
    (\<lambda>r t. case r of (secured, e, _) \<Rightarrow>
       secured \<longrightarrow> e = None \<and> tunnel_evidence E (ls_MainPublicKey cfg) (w_hist t)) s"
  using wp_leafWG [of E cfg wanif token lst s] by (simp add: case_prod_unfold)

theorem wireguard_needs_handshake_witness:
  "wp (leafWG exLeafEnv (exSide\<lparr>ls_Mode := backhaulWireGuard, ls_Port := 2\<rparr>) ''eth0'' exToken noLinkStatus)
    (\<lambda>r t. case r of (secured, e, _) \<Rightarrow>
       secured \<longrightarrow> e = None \<and> tunnel_evidence exLeafEnv (ls_MainPublicKey (exSide\<lparr>ls_Mode := backhaulWireGuard, ls_Port := 2\<rparr>)) (w_hist t)) exLeaf0"
  by (rule wireguard_needs_handshake)





end
