(* ===== verification/MtuInv.thy ===== *)
theory MtuInv
  imports System
begin

text \<open>
  The third invariant of the machine of \<open>System\<close>: the bookkeeping of raised MTUs. In every
  reachable state an interface the program raised has its original MTU remembered, only
  interfaces the last pass used are remembered, and the file holds what memory holds, so the
  change can be undone by this process or by the next one.
\<close>

section \<open>The invariant\<close>

text \<open>What is remembered can be read back from the file.\<close>

definition mtu_saved :: "(string, int) gomap option \<Rightarrow> (string, int) gomap \<Rightarrow> bool" where
  "mtu_saved file m =
    (case file of None \<Rightarrow> m = [] | Some f \<Rightarrow> list_all (\<lambda>(p, v). mget f p = Some v) m)"

lemma saved_iff:
  assumes "mwf m"
  shows "mtu_saved file m \<longleftrightarrow> (\<forall>p v. mget m p = Some v \<longrightarrow> (\<exists>f. file = Some f \<and> mget f p = Some v))"
proof (cases "file")
  case None
  then show ?thesis
    by (cases m) (auto simp: mtu_saved_def mget_def split: if_splits)
next
  case (Some f)
  then show ?thesis
    by (auto simp: mtu_saved_def list_all_iff mget_mem [OF assms])
qed

lemma saved_self: "mwf m \<Longrightarrow> mtu_saved (Some m) m"
  by (simp add: saved_iff)

lemma saved_del: "mwf m \<Longrightarrow> mtu_saved file m \<Longrightarrow> mtu_saved file (mdel k m)"
  by (simp add: saved_iff gomap.wf_del)

lemma adopt_wf: "mwf m \<Longrightarrow> mwf (fold adoptMTU ps m)"
  by (induction ps arbitrary: m) (auto simp: adoptMTU_def gomap.wf_put)

text \<open>The file is read once, into an empty map.\<close>

lemma adopt_mem: "mget (fold adoptMTU ps m) k = Some v \<Longrightarrow> mget m k = Some v \<or> (k, v) \<in> set ps"
proof (induction ps arbitrary: m)
  case (Cons p ps)
  from Cons.prems have "mget (adoptMTU p m) k = Some v \<or> (k, v) \<in> set ps"
    by (intro Cons.IH) simp
  then show ?case
    by (cases p) (auto simp: adoptMTU_def split: if_splits)
qed simp

lemma saved_adopt: "mwf f \<Longrightarrow> mtu_saved (Some f) (fold adoptMTU f [])"
  using adopt_mem [of f "[]"] by (simp add: saved_iff adopt_wf mget_mem)

text \<open>
  The tables as they stand during a pass; the flag is whether saves are known to work. The rules
  follow the assignments of the code.
\<close>

definition mtu_tables ::
  "bool \<Rightarrow> (string, int) gomap option \<Rightarrow> (string, int) gomap \<Rightarrow> (string, int) gomap \<Rightarrow> bool" where
  "mtu_tables works file orig raised \<longleftrightarrow> mwf orig \<and> pred_option mwf file \<and>
     set (mkeys raised) \<subseteq> set (mkeys orig) \<and> (works \<longrightarrow> mtu_saved file orig)"

lemma tables_saved: "mtu_tables b f orig r \<Longrightarrow> mtu_tables c (Some orig) orig r"
  by (simp add: mtu_tables_def saved_self)

lemma tables_remember: "mtu_tables b f orig r \<Longrightarrow> mtu_tables False f (mput p v orig) r"
  by (auto simp: mtu_tables_def gomap.wf_put)

lemma tables_raised: "mtu_tables b f orig r \<Longrightarrow> mget orig p \<noteq> None \<Longrightarrow> mtu_tables b f orig (mput p t r)"
  by (auto simp: mtu_tables_def mget_mkeys)

lemma tables_forget: "mtu_tables b f orig r \<Longrightarrow> mtu_tables b f (mdel p orig) (mdel p r)"
  by (auto simp: mtu_tables_def gomap.wf_del saved_del)

lemma tables_adopt: "mtu_tables b (Some f) [] [] \<Longrightarrow> mtu_tables b (Some f) (fold adoptMTU f []) []"
  by (simp add: mtu_tables_def saved_adopt adopt_wf)

definition saves_work :: "env \<Rightarrow> bool" where
  "saves_work E \<longleftrightarrow> (\<forall>h m. e_Err E h (CSaveMTU m) = None)"

lemma saves_workD: "saves_work E \<Longrightarrow> e_Err E h (CSaveMTU m) = None"
  by (simp add: saves_work_def)

text \<open>Before the file is read the tables are empty.\<close>

definition mtu_ok :: "env \<Rightarrow> st \<Rightarrow> bool" where
  "mtu_ok E s \<longleftrightarrow> mtu_tables (saves_work E) (w_mtuFile s) (m_origMTU s) (m_mtuRaised s) \<and>
     (\<not> m_mtuLoaded s \<longrightarrow> m_origMTU s = [])"

definition pass_ok :: "env \<Rightarrow> st \<Rightarrow> bool" where
  "pass_ok E s \<longleftrightarrow> mtu_tables (saves_work E) (w_mtuFile s) (m_origMTU s) (m_mtuRaised s) \<and> m_mtuLoaded s"

text \<open>Between operations nothing is remembered that the last pass did not use.\<close>

definition mtu_inv :: "env \<Rightarrow> st \<Rightarrow> bool" where
  "mtu_inv E s \<longleftrightarrow> mtu_ok E s \<and> set (mkeys (m_origMTU s)) \<subseteq> m_mtuInUse s"

lemma mtu_view_eq:
  assumes "mtu_view t = mtu_view s"
  shows "mtu_inv E t = mtu_inv E s" "pass_ok E t = pass_ok E s"
  using assms by (simp_all add: mtu_view_def mtu_ok_def mtu_inv_def pass_ok_def)

lemma mtu_inv_keeps: "keeps mtu_view m \<Longrightarrow> preserves (mtu_inv E) m"
  by (erule preserves_keeps) (drule mtu_view_eq(1) [where E = E], simp)

lemma pass_ok_keeps: "keeps mtu_view m \<Longrightarrow> preserves (pass_ok E) m"
  by (erule preserves_keeps) (drule mtu_view_eq(2) [where E = E], simp)

section \<open>The operations of the bookkeeping\<close>

lemma saveOrig_ok: "preserves (pass_ok E) (saveOrigMTU E)"
  by (rule preservesI) (auto simp: saveOrigMTU_def wp_simps pass_ok_def intro: tables_saved)

text \<open>A pass starts by loading the file.\<close>

lemma wp_loadOrig_ok: "mtu_ok E s \<Longrightarrow> wp (loadOrigMTU E) (\<lambda>_. pass_ok E) s"
  by (auto simp: loadOrigMTU_def wp_simps mtu_ok_def pass_ok_def mtu_tables_def adopt_wf saved_adopt
      split: option.split)

text \<open>The original is in the table, and in the file if that can be written, before the MTU changes.\<close>

definition remember :: "env \<Rightarrow> string \<Rightarrow> int \<Rightarrow> unit go" where
  "remember E p v = do { modify (\<lambda>s. s\<lparr>m_origMTU := mput p v (m_origMTU s)\<rparr>); saveOrigMTU E }"

lemma wp_remember:
  assumes "pass_ok E s"
  shows "wp (remember E p v) (\<lambda>_ t. pass_ok E t \<and> mget (m_origMTU t) p \<noteq> None) s"
proof -
  let ?m = "mput p v (m_origMTU s)"
  have new: "mtu_tables False (w_mtuFile s) ?m (m_mtuRaised s)"
    using assms by (auto simp: pass_ok_def intro: tables_remember)
  from tables_saved [OF new] have "mtu_tables (saves_work E) (Some ?m) ?m (m_mtuRaised s)" .
  then show ?thesis
    using assms new
    by (cases "saves_work E") (auto simp: remember_def saveOrigMTU_def wp_simps pass_ok_def saves_workD)
qed

lemma raise_ok:
  "preserves (pass_ok E) (raiseParentMTUTo E p info target)" "preserves (pass_ok E) (raiseParentMTU E p info)"
proof -
  show "preserves (pass_ok E) (raiseParentMTUTo E p info target)" for target
  proof (rule preservesI)
    fix s assume "pass_ok E s"
    then have s: "pass_ok E (s\<lparr>m_mtuInUse := insert p (m_mtuInUse s)\<rparr>)" by (simp add: pass_ok_def)
    have later: "pass_ok E (t\<lparr>w_hist := h, m_mtuRaised := mput p i (m_mtuRaised t)\<rparr>)" "pass_ok E (t\<lparr>w_hist := h\<rparr>)"
      if "pass_ok E t" "mget (m_origMTU t) p \<noteq> None" for t h i
      using that by (auto simp: pass_ok_def intro!: tables_raised)
    show "wp (raiseParentMTUTo E p info target) (\<lambda>_. pass_ok E) s"
      unfolding raiseParentMTUTo_def Let_def remember_def [symmetric]
      by (auto simp: wp_simps s later [OF s, simplified] intro!: wp_mono [OF wp_remember [OF s]] later)
  qed
  then show "preserves (pass_ok E) (raiseParentMTU E p info)"
    by (simp add: raiseParentMTU_def)
qed

lemma restoreOne_ok: "preserves (pass_ok E) (restoreOne E p b)"
  by (rule preservesI) (auto simp: restoreOne_def wp_simps pass_ok_def intro: tables_forget)

lemma restore_ok: "preserves (pass_ok E) (restoreUnusedMTU E)"
  unfolding restoreUnusedMTU_def by (intro preserves_rules saveOrig_ok restoreOne_ok)

section \<open>A pass\<close>

lemma pass_teardown: "preserves (pass_ok E) (teardownLeaf E wanif)"
proof -
  have unused: "preserves (pass_ok E) (modify (\<lambda>s. s\<lparr>m_mssMTU := 0, m_mtuInUse := m_mtuInUse s - {wanif}\<rparr>))"
    by (rule preservesI) (simp add: wp_simps pass_ok_def)
  then show ?thesis
    unfolding teardownLeaf_def
    by (intro preserves_rules unused restore_ok pass_ok_keeps frame) simp_all
qed

lemma leafUplink_ok: "preserves (pass_ok E) (leafUplink E cfg wanif lst)"
  unfolding leafUplink_def by (intro preserves_rules raise_ok pass_ok_keeps frame) simp_all

lemma leafBody_mtu: "preserves (pass_ok E) (leafBody E cfg wanif lst)"
  unfolding leafBody_def leafKeyed_def leafWGLink_def leafMACsecLink_def leafSecY_def Let_def
  by (intro preserves_rules leafUplink_ok pass_ok_keeps frame) simp_all

lemma reconcileLeaf_mtu: "preserves (pass_ok E) (reconcileLeaf E config)"
  unfolding reconcileLeaf_def leafOff_def leafWaits_def leafOn_def confirmOrRevert_def confirmLeaf_def
    revertLeaf_def Let_def
  by (intro preserves_rules pass_teardown leafBody_mtu pass_ok_keeps frame) simp_all

lemma mainStep_ok: "preserves (pass_ok E) (mainStep E leaf acc)"
  unfolding mainStep_def mainWGStep_def mainMACsecStep_def finishMainWG_def finishMainMACsec_def Let_def
  by (intro preserves_rules raise_ok pass_ok_keeps frame) simp_all

lemma reconcileMain_mtu: "preserves (pass_ok E) (reconcileMain E config)"
  unfolding reconcileMain_def leaveLeafMode_def
  by (intro preserves_rules pass_teardown mainStep_ok pass_ok_keeps frame) simp_all

text \<open>The end of a pass restores what it did not use, whether the restores succeed or not.\<close>

lemma wp_restore_inv:
  assumes "pass_ok E s"
  shows "wp (restoreUnusedMTU E) (\<lambda>_. mtu_inv E) s"
proof -
  have "wp (restoreUnusedMTU E) (\<lambda>_ t. pass_ok E t \<and> m_mtuInUse t = m_mtuInUse s \<and>
    (\<forall>k. mget (m_origMTU t) k = (if k \<in> m_mtuInUse s then mget (m_origMTU s) k else None))) s"
    unfolding wp_conj
    by (intro conjI preserves_wp [OF restore_ok assms] wp_restoreUnusedMTU keeps_wp)
      (auto simp: restoreUnusedMTU_def restoreOne_def saveOrigMTU_def intro!: keeps_rules frame)
  then show ?thesis
    by (rule wp_mono) (auto simp: mtu_inv_def mtu_ok_def pass_ok_def gomap.keys_get split: if_splits)
qed

lemma wp_pass:
  assumes "mtu_ok E s"
  shows "wp (do {
      loadOrigMTU E;
      leaf \<leftarrow> isLeafRouter;
      (if leaf then reconcileLeaf E config else reconcileMain E config);
      restoreUnusedMTU E;
      modify (\<lambda>s. s\<lparr>m_ready := True\<rparr>) }) (\<lambda>_. mtu_inv E) s"
proof -
  have last: "wp (do { restoreUnusedMTU E; modify (\<lambda>s. s\<lparr>m_ready := True\<rparr>) }) (\<lambda>_. mtu_inv E) t"
    if "pass_ok E t" for t
    unfolding wp_bind by (rule wp_mono [OF wp_restore_inv [OF that]]) (simp add: wp_simps mtu_inv_def mtu_ok_def)
  have side: "preserves (pass_ok E) (do { leaf \<leftarrow> isLeafRouter;
      (if leaf then reconcileLeaf E config else reconcileMain E config) })"
    by (intro preserves_rules reconcileLeaf_mtu reconcileMain_mtu pass_ok_keeps frame) simp
  have "wp (do { leaf \<leftarrow> isLeafRouter; (if leaf then reconcileLeaf E config else reconcileMain E config) })
      (\<lambda>_ t. wp (do { restoreUnusedMTU E; modify (\<lambda>s. s\<lparr>m_ready := True\<rparr>) }) (\<lambda>_. mtu_inv E) t) t"
    if "pass_ok E t" for t
    by (rule wp_mono [OF preserves_wp [OF side that]]) (rule last)
  then show ?thesis
    unfolding wp_bind [of "loadOrigMTU E"]
    by (intro wp_mono [OF wp_loadOrig_ok [OF assms]]) (simp add: wp_bind)
qed

lemma reconcile_mtu: "preserves (mtu_inv E) (reconcile E)"
proof (rule preservesI)
  fix s
  assume s: "mtu_inv E s"
  have used: "mtu_ok E (t\<lparr>m_mtuInUse := {}\<rparr>)" if "mtu_inv E t" for t
    using that by (simp add: mtu_inv_def mtu_ok_def)
  have rest: "wp (case r of Inl _ \<Rightarrow> return ()
      | Inr config \<Rightarrow> do {
          modify (\<lambda>s. s\<lparr>m_mtuInUse := {}\<rparr>);
          loadOrigMTU E;
          leaf \<leftarrow> isLeafRouter;
          (if leaf then reconcileLeaf E config else reconcileMain E config);
          restoreUnusedMTU E;
          modify (\<lambda>s. s\<lparr>m_ready := True\<rparr>) }) (\<lambda>_. mtu_inv E) t" if "mtu_inv E t" for r t
    using used [OF that] that by (auto simp: wp_return wp_bind [of "modify f" for f] wp_modify intro!: wp_pass split: sum.split)
  have pre: "preserves (mtu_inv E) (do { lockConfig E; loadMeshConfigChecked })"
    by (intro preserves_rules mtu_inv_keeps frame) simp_all
  have "wp (do { lockConfig E; loadMeshConfigChecked }) (\<lambda>r t. wp (case r of Inl _ \<Rightarrow> return ()
      | Inr config \<Rightarrow> do {
          modify (\<lambda>s. s\<lparr>m_mtuInUse := {}\<rparr>);
          loadOrigMTU E;
          leaf \<leftarrow> isLeafRouter;
          (if leaf then reconcileLeaf E config else reconcileMain E config);
          restoreUnusedMTU E;
          modify (\<lambda>s. s\<lparr>m_ready := True\<rparr>) }) (\<lambda>_. mtu_inv E) t) s"
    by (rule wp_mono [OF preserves_wp [OF pre s] rest])
  then show "wp (reconcile E) (\<lambda>_. mtu_inv E) s"
    unfolding reconcile_def by (simp only: wp_bind)
qed

section \<open>The machine\<close>

lemma keeps_ctl: "keeps mtu_view (handleLeafCtl E dev frame)" "keeps mtu_view (listenTop E dev)"
  unfolding handleLeafCtl_def listenTop_def ctlKeys_def Let_def
  by (intro keeps_rules keeps_protocol [THEN core_mtu] frame; simp)+

lemma perform_mtu: "preserves (mtu_inv E) (perform E W job)"
  unfolding perform_def runMTUTest_def
  by (cases job; simp; intro preserves_rules reconcile_mtu mtu_inv_keeps keeps_ctl
      keeps_others [THEN core_mtu] frame; simp)

lemma boot_mtu: "boot s \<Longrightarrow> mtu_inv E s"
  by (erule bootE) (auto simp: newMACsecManager_def mtu_inv_def mtu_ok_def mtu_tables_def mtu_saved_def mwf_def split: option.split)

interpretation mtus: machine boot "sys_step E W" "mtu_inv E" for E W
  by unfold_locales (auto intro: boot_mtu step_preserves perform_mtu)

end
