(* ===== verification/MtuProps.thy ===== *)
theory MtuProps
  imports MtuInv Examples
begin

text \<open>
  Properties of the MTU bookkeeping over whole runs of the program: what is remembered in every
  reachable state, and what a program that starts after a crash does with it.
\<close>

section \<open>What is remembered\<close>








section \<open>After a crash\<close>














end
