(* ===== verification/MainProps.thy ===== *)
theory MainProps
  imports Examples
begin

text \<open>
  Properties of the main router and of pairing: the status and the participants of a pass, the
  members of the mesh bridge, the ports, what both routers store when a link is switched on and
  that they agree.
\<close>

section \<open>A pass on the main router\<close>

text \<open>
  C27. The status of a pass is faithful: one entry per enabled node and per pending one, in
  order, with its address, interface and port; strict exactly when there is a node and every
  node is enabled; and a bridged link is called secured only behind the bridge guard rendered
  from these very entries, installed in this pass or read back unchanged.
\<close>

theorem main_status_faithful:
  "wp (reconcileMain E config) (\<lambda>_ t. main_status_ok E config t) s"
  by (rule wp_reconcileMain_status)

text \<open>
  C28. After a pass only participants of nodes that are enabled for MACsec run: every identity in
  the table belongs to such a node's port.
\<close>

theorem main_participants_wanted:
  "wp (reconcileMain E config) (\<lambda>_ t. \<forall>k. mget (m_procs t) k \<noteq> None \<longrightarrow>
     k \<in> \<Union> (want_ids ` set (mc_LeafRouters config))) s"
  by (rule wp_reconcileMain_procs)

theorem main_participants_wanted_witness:
  "wp (reconcileMain exMainEnv exMainConfig) (\<lambda>_ t. \<forall>k. mget (m_procs t) k \<noteq> None \<longrightarrow>
     k \<in> \<Union> (want_ids ` set (mc_LeafRouters exMainConfig))) exMain0"
  by (rule main_participants_wanted)




section \<open>Switching a link on\<close>

text \<open>
  C30. The port given to a node is the lowest one between 2 and 65000 that no node has; when there
  is none, every one of them is taken.
\<close>

definition port_used :: "LeafRouter list \<Rightarrow> int \<Rightarrow> bool" where
  "port_used leaves p \<longleftrightarrow> (\<exists>leaf \<in> set leaves. has_port leaf p)"

theorem lowest_free_port:
  "case allocateMACsecPort leaves of
     Inr p \<Rightarrow> 2 \<le> p \<and> p \<le> 65000 \<and> \<not> port_used leaves p \<and> {2..<p} \<subseteq> Collect (port_used leaves)
   | Inl _ \<Rightarrow> {2..65000} \<subseteq> Collect (port_used leaves)"
proof (cases "allocateMACsecPort leaves")
  case (Inl e)
  then have "{2..65000} \<subseteq> usedPorts leaves"
    using freePort_fails [of "usedPorts leaves" macsecMainPortFirst e]
    by (simp add: allocateMACsecPort_def macsecMainPortFirst_def macsecMainPortLast_def)
  then show ?thesis
    using Inl usedPorts_iff [of _ leaves] by (auto simp: port_used_def)
next
  case (Inr p)
  then show ?thesis
    using allocate_lowest [OF Inr]
    by (auto simp: port_used_def macsecMainPortFirst_def macsecMainPortLast_def)
qed



text \<open>
  C32. Nobody without the pairing token changes a leaf. A request with another token, or with any
  token when the leaf has none or an empty one, is refused with 400 or 403 and reads nothing but
  the tokens.
\<close>

theorem peer_needs_token:
  assumes "\<not> has_token E (w_hist s) (rq_Token request)"
  shows "wp (macsecPeer E request) (\<lambda>r t. (\<exists>c e. r = Inl (c, e) \<and> (c = 400 \<or> c = 403)) \<and>
     t = s\<lparr>w_hist := w_hist t\<rparr> \<and> hist_ext (\<lambda>c. c = CTokens) s t) s"
  by (rule wp_macsecPeer_token) (rule assms)

theorem peer_needs_token_witness:
  "wp (macsecPeer exLeafEnv noPeerRequest) (\<lambda>r t. (\<exists>c e. r = Inl (c, e) \<and> (c = 400 \<or> c = 403)) \<and>
     t = exLeaf0\<lparr>w_hist := w_hist t\<rparr> \<and> hist_ext (\<lambda>c. c = CTokens) exLeaf0 t) exLeaf0"
  by (rule peer_needs_token) (simp add: has_token_def noPeerRequest_def)

text \<open>
  C33. What a leaf stores when it accepts a request is consistent: enabled, under a nonce from
  which keys derive with the pairing token, with an MTU in range (for WireGuard: a valid port
  and main router key, and the MTU the tunnel's underlay leaves).
\<close>

theorem peer_stores_valid_side:
  assumes "\<And>h. e_Err E h CSaveConfig = None" "rq_Enable request"
  shows "wp (macsecPeer E request) (\<lambda>r t. \<forall>reply. r = Inr reply \<longrightarrow>
     side_ok E (rq_Token request) (mc_LeafMACsec (cfg_load (w_cfg t)))) s"
  by (rule wp_mono [OF wp_macsecPeer_on [OF assms]]) (blast intro: stored_side_ok)

definition exRequest :: macsecPeerRequest where
  "exRequest = peerRequestFor exLeaf exPairing 1468"

theorem peer_stores_valid_side_witness:
  "(case fst (run_state (macsecPeer exLeafEnv exRequest) exLeaf0) of Inl _ \<Rightarrow> False | Inr _ \<Rightarrow> True) \<and>
    wp (macsecPeer exLeafEnv exRequest) (\<lambda>r t. \<forall>reply. r = Inr reply \<longrightarrow>
     side_ok exLeafEnv (rq_Token exRequest) (mc_LeafMACsec (cfg_load (w_cfg t)))) exLeaf0"
proof
  show "(case fst (run_state (macsecPeer exLeafEnv exRequest) exLeaf0) of Inl _ \<Rightarrow> False | Inr _ \<Rightarrow> True)"
    by code_simp
qed (rule peer_stores_valid_side; simp add: exRequest_def peerRequestFor_def)

text \<open>
  C34. Both routers agree. When a leaf accepts the request the main router sends for a pairing and
  the main router accepts the leaf's reply, what the one stores and what the other stores are
  the same link: nonce, mode, MTU, jumbo frames and, for WireGuard, port and underlay MTU.
\<close>

theorem routers_agree:
  assumes "\<And>h. e_Err EL h CSaveConfig = None" "lm_Enabled nxt" "storedMode (lm_Mode nxt) = mode"
  shows "wp (macsecPeer EL (sent_request leaf mode localMTU nxt pub)) (\<lambda>r t. \<forall>reply m.
     r = Inr reply \<longrightarrow> acceptReply E mode localMTU nxt reply = Inr m \<longrightarrow>
     agree m (mc_LeafMACsec (cfg_load (w_cfg t)))) s"
proof -
  have "rq_Enable (sent_request leaf mode localMTU nxt pub)"
    by (simp add: sent_request_def peerRequestFor_def wgRequest_def Let_def)
  then show ?thesis
    by (rule wp_mono [OF wp_macsecPeer_on [OF assms(1)]]) (blast intro: agreement assms)
qed

theorem routers_agree_witness:
  "(case fst (run_state (macsecPeer exLeafEnv (sent_request exLeaf backhaulMACsec 1468 exPairing [])) exLeaf0) of
      Inl _ \<Rightarrow> False | Inr reply \<Rightarrow> is_ok (acceptReply exMainEnv backhaulMACsec 1468 exPairing reply)) \<and>
    wp (macsecPeer exLeafEnv (sent_request exLeaf backhaulMACsec 1468 exPairing [])) (\<lambda>r t. \<forall>reply m.
     r = Inr reply \<longrightarrow> acceptReply exMainEnv backhaulMACsec 1468 exPairing reply = Inr m \<longrightarrow>
     agree m (mc_LeafMACsec (cfg_load (w_cfg t)))) exLeaf0"
proof
  show "case fst (run_state (macsecPeer exLeafEnv (sent_request exLeaf backhaulMACsec 1468 exPairing [])) exLeaf0) of
      Inl _ \<Rightarrow> False | Inr reply \<Rightarrow> is_ok (acceptReply exMainEnv backhaulMACsec 1468 exPairing reply)"
    by code_simp
qed (rule routers_agree; simp add: exPairing_def noLeafMACsec_def storedMode_def)

text \<open>
  A repeated request keeps a confirmed link: for the same nonce and mode the side stays
  confirmed since the same time. For another nonce, or when the side was off, it starts
  unconfirmed at the time of the request, so a new link that never comes up is reverted.
\<close>

lemma confirmation_kept_or_reset:
  assumes "ls_Mode old = (if storedMode (rq_Mode rq) = backhaulWireGuard then backhaulWireGuard else [])"
  shows "if ls_Enabled old \<and> ls_KeyNonce old = rq_KeyNonce rq
    then ls_Confirmed (newLeafSide rq mtu u old) = ls_Confirmed old \<and>
      ls_EnabledAt (newLeafSide rq mtu u old) = ls_EnabledAt old
    else \<not> ls_Confirmed (newLeafSide rq mtu u old) \<and> ls_EnabledAt (newLeafSide rq mtu u old) = u"
  using assms newLeafSide_same [of old rq mtu u] newLeafSide_new [of old rq mtu u] by auto

end
