(* ===== verification/MeshProps.thy ===== *)
theory MeshProps
  imports Examples
begin

text \<open>
  Properties of the mesh handlers: trust in a node's certificate authority, the node list, the
  bridge access map, where tokens go, and the topologies' order.
\<close>

section \<open>Nodes\<close>

text \<open>
  C36. A node's certificate authority is believed only with proof. The bytes the check returns
  were signed with a key derived from the pairing token, are a valid self signed authority at a
  time read during the check, and verify the certificate the server itself presented.
\<close>

theorem node_trust_proven:
  "wp (chainTrustForNodeTLS E W node) (\<lambda>r t. \<forall>data. r = Inr data \<longrightarrow> trusted_reply E W node (w_hist t) data) s"
  by (rule wp_chainTrust)

text \<open>An authority and a node that serves it, signed with the pairing token.\<close>

definition exCA :: x509 where
  "exCA = \<lparr>xc_IsCA = True, xc_Subject = ''spr'', xc_Issuer = ''spr'', xc_NotBefore = 0, xc_NotAfter = 10,
     xc_MaxPathLen = 1, xc_MaxPathLenZero = False, xc_Raw = []\<rparr>"

definition exReply :: certReply where
  "exReply = \<lparr>cr_Status = 200, cr_HMAC = createHMACSignatureWithData exMainEnv ''ca'' (certKeyMaterial exToken),
     cr_Body = ''ca'', cr_Server = Some exCA\<rparr>"

definition exWorld :: meshWorld where
  "exWorld = \<lparr>mw_pem = (\<lambda>s. Some (str_bytes s)), mw_x509 = (\<lambda>_. Inr exCA), mw_checkSig = (\<lambda>_. None),
     mw_verify = (\<lambda>_ _. None), mw_cert = (\<lambda>_ _. Inr exReply), mw_http = (\<lambda>_ _. Inr (200, ''{}'')),
     mw_json = (\<lambda>_. Inr (JObj [(''nftables'', JArr [JOther, JObj [(''map'', JObj [(''elem'', JArr [])])]])])),
     mw_interfaces = (\<lambda>_. Inr []), mw_stations = (\<lambda>_. Inr []), mw_event = (\<lambda>_. ''{}''), mw_failure = (\<lambda>_. ''{}''), mw_otp = (\<lambda>_. (1, None)),
     mw_aps = (\<lambda>_. Inr []), mw_hostapd = (\<lambda>_ _ _. Inr ''OK''), mw_bss = (\<lambda>_. Inr [])\<rparr>"

theorem node_trust_proven_witness:
  "is_ok (fst (run_state (chainTrustForNodeTLS exMainEnv exWorld exLeaf) exMain0)) \<and>
    wp (chainTrustForNodeTLS exMainEnv exWorld exLeaf) (\<lambda>r t. \<forall>data. r = Inr data \<longrightarrow>
     trusted_reply exMainEnv exWorld exLeaf (w_hist t) data) exMain0"
proof
  show "is_ok (fst (run_state (chainTrustForNodeTLS exMainEnv exWorld exLeaf) exMain0))"
    by code_simp
qed (rule node_trust_proven)

text \<open>The response to a request for the certificate, as the main router receives it.\<close>

definition certResponse :: "string option \<times> string option \<Rightarrow> x509 \<Rightarrow> certReply" where
  "certResponse served server =
    \<lparr>cr_Status = (case snd served of None \<Rightarrow> 404 | Some _ \<Rightarrow> 200), cr_HMAC = (case fst served of None \<Rightarrow> [] | Some sig \<Rightarrow> sig),
     cr_Body = (case snd served of None \<Rightarrow> [] | Some data \<Rightarrow> data), cr_Server = Some server\<rparr>"

text \<open>What \<open>getCert\<close> serves while the tokens and the file stay as they are.\<close>

lemma wp_getCert:
  assumes "\<And>h. e_ReadFile N h ApiTlsCaCert = Inr data" "\<And>h. e_Tokens N h = Inr tokens"
    and "find (\<lambda>tok. tk_Name tok = DOWNHAUL_TOKEN_NAME) tokens = Some tok"
  shows "wp (getCert N) (\<lambda>served _. served = (Some (createHMACSignatureWithData N data
    (''X-MESH|'' @ DOWNHAUL_TOKEN_NAME @ ''|'' @ tk_Token tok)), Some data)) s"
  by (simp add: getCert_def getCertApiKey_def createHMACSignatureWithFile_def getToken_def assms wp_simps)

text \<open>
  C37. The other direction, over both routers: what a mesh node serves as its authority while its
  file and its tokens stay as they are, the main router that shares the pairing token believes,
  with exactly the bytes of the file. The authority is valid when the main router looks, and it
  signed the certificate the node's server presents.
\<close>

theorem honest_node_trusted:
  assumes "hmac_ok (e_hmac E)" "e_hmac N = e_hmac E" "e_sha256 N = e_sha256 E"
    and "\<And>h. e_ReadFile N h ApiTlsCaCert = Inr data" "data \<noteq> []"
    and "\<And>h. e_Tokens N h = Inr tokens" "find (\<lambda>tok. tk_Name tok = DOWNHAUL_TOKEN_NAME) tokens = Some tok"
    and "tk_Token tok = lr_APIToken node"
    and "ca_ok W (e_Now E (w_hist s)) data ca" "mw_verify W server ca = None"
  shows "wp (getCert N) (\<lambda>served _.
    wp (checkCertReply E W node (certResponse served server)) (\<lambda>r _. r = Inr data) s) n"
proof -
  have sig: "createHMACSignatureWithData N d k = createHMACSignatureWithData E d k" for d k
    by (simp add: createHMACSignatureWithData_def assms(2,3))
  have "wp (checkCertReply E W node (certResponse (Some (createHMACSignatureWithData N data
      (''X-MESH|'' @ DOWNHAUL_TOKEN_NAME @ ''|'' @ tk_Token tok)), Some data) server)) (\<lambda>r _. r = Inr data) s"
    by (rule honest_node [where server = server and ca = ca])
      (simp_all add: assms(1,5,8,9,10) sig certResponse_def)
  then show ?thesis
    by (intro wp_mono [OF wp_getCert [OF assms(4,6,7)]]) simp
qed

text \<open>A node whose file and token are those of the pairing.\<close>

definition exNodeEnv :: env where
  "exNodeEnv = exMainEnv\<lparr>e_ReadFile := (\<lambda>_ _. Inr ''ca''),
     e_Tokens := (\<lambda>_. Inr [exTokenEntry])\<rparr>"

theorem honest_node_trusted_witness:
  "wp (getCert exNodeEnv) (\<lambda>served _.
    wp (checkCertReply exMainEnv exWorld exLeaf (certResponse served exCA)) (\<lambda>r _. r = Inr ''ca'') exMain0) exMain0"
  by (rule honest_node_trusted [where ca = exCA and tokens = "[exTokenEntry]" and tok = exTokenEntry])
    (simp_all add: exNodeEnv_def exTokenEntry_def exLeaf_def exWorld_def ca_ok_def exCA_def hmac_ok_def
      macsecCtlMACLen_def exMainEnv_def env0_def)


text \<open>
  C39. A station has one place on the bridge. When the map is listed correctly and \<open>nft\<close> does what
  its manual says, an event for a station leaves every entry with another interface and another
  address, drops the rest, and for a connect adds exactly that station's.
\<close>

theorem station_has_one_place:
  assumes "nft_map_ok after" "lists_access E W (w_hist s) S" "action = ''add'' \<or> action = ''remove''"
  shows "wp (updateBridgeAccess E W action iface mac) (\<lambda>_ t. \<exists>cs. w_hist t = cs @ w_hist s \<and>
     run_access after cs S = {k \<in> S. fst k \<noteq> iface \<and> snd k \<noteq> mac} \<union> (if action = ''add'' then {(iface, mac)} else {})) s"
  by (rule wp_updateBridgeAccess) (rule assms)+

text \<open>What \<open>nft\<close> does with the two commands.\<close>

definition exAfter :: "string list \<Rightarrow> (string \<times> string) set \<Rightarrow> (string \<times> string) set" where
  "exAfter args S = (let k = (args ! 6, args ! 8) in if hd args = ''add'' then insert k S else S - {k})"

theorem station_has_one_place_witness:
  "wp (updateBridgeAccess (exMainEnv\<lparr>e_Output := \<lambda>_ _ _. Inr ''{}''\<rparr>) exWorld ''add'' ''wlan0'' ''02:00:00:00:00:07'')
    (\<lambda>_ t. \<exists>cs. w_hist t = cs @ w_hist exMain0 \<and> run_access exAfter cs {} =
      {k \<in> {}. fst k \<noteq> ''wlan0'' \<and> snd k \<noteq> ''02:00:00:00:00:07''} \<union>
      (if ''add'' = ''add'' then {(''wlan0'', ''02:00:00:00:00:07'')} else {})) exMain0"
proof (rule station_has_one_place)
  show "nft_map_ok exAfter"
    by (simp add: nft_map_ok_def exAfter_def elemArgs_def)
  show "lists_access (exMainEnv\<lparr>e_Output := \<lambda>_ _ _. Inr ''{}''\<rparr>) exWorld (w_hist exMain0) {}"
    by (simp add: lists_access_def exWorld_def bridgeSet_of_def)
qed simp

section \<open>Requests to nodes\<close>



text \<open>
  C35. The parent's credentials are replaced only by a complete and valid set. A request that is
  refused leaves the configuration alone; one that is accepted had a token, an address and a
  valid self signed authority; and whatever is written differs from the file read under the
  lock in these three fields only.
\<close>

theorem parent_credentials_checked:
  assumes "method \<noteq> DELETE" "f = e_Race E (w_hist s) (w_cfg s)"
  shows "wp (setParentCredentials E W method ip tok ca) (\<lambda>r t.
     (fst r \<noteq> 200 \<longrightarrow> w_cfg t = f) \<and>
     (fst r = 200 \<longrightarrow> parent_ok E W (w_hist s) ip tok ca) \<and>
     (w_cfg t \<noteq> f \<longrightarrow> w_cfg t = CfgOk ((cfg_load f)\<lparr>mc_ParentIP := ip, mc_ParentAPIToken := tok, mc_ParentCA := ca\<rparr>))) s"
  using wp_setParentCredentials [OF assms(1), of E W ip tok ca s] by (simp add: assms(2) Let_def)

theorem parent_credentials_checked_witness:
  "fst (fst (run_state (setParentCredentials exPairEnv exWorld PUT ''192.168.2.1'' exToken ''ca'') exLeaf0)) = 200 \<and>
   wp (setParentCredentials exPairEnv exWorld PUT ''192.168.2.1'' exToken ''ca'') (\<lambda>r t.
     (fst r \<noteq> 200 \<longrightarrow> w_cfg t = CfgOk noConfig) \<and>
     (fst r = 200 \<longrightarrow> parent_ok exPairEnv exWorld (w_hist exLeaf0) ''192.168.2.1'' exToken ''ca'') \<and>
     (w_cfg t \<noteq> CfgOk noConfig \<longrightarrow> w_cfg t = CfgOk ((cfg_load (CfgOk noConfig))
       \<lparr>mc_ParentIP := ''192.168.2.1'', mc_ParentAPIToken := exToken, mc_ParentCA := ''ca''\<rparr>))) exLeaf0"
proof
  show "fst (fst (run_state (setParentCredentials exPairEnv exWorld PUT ''192.168.2.1'' exToken ''ca'') exLeaf0)) = 200"
    by code_simp
qed (rule parent_credentials_checked; simp add: exLeaf0_def newMACsecManager_def exPairEnv_def)

section \<open>Neighbour reports\<close>

text \<open>
  C9. After a pass over the neighbour reports that succeeds, \<open>neighbors.json\<close> holds for every own
  access point exactly the compatible ones of the mesh, each of them was reported to
  \<open>hostapd\<close>, and every recorded one that is not among them was removed there. A pass that fails
  leaves the record as it was.
\<close>

theorem neighbors_recorded:
  "wp (meshApplyNeighbors E W peers) (\<lambda>e t.
     if e = None then \<exists>locals. fst (run_state (meshLocalBSSes E W) s) = Inr locals \<and>
       w_neighbors t = Some (recordAfter peers locals (recorded s)) \<and> settled peers locals (recorded s) s t
     else w_neighbors t = w_neighbors s) s"
  using wp_meshApplyNeighbors [of E W peers s] by (simp add: applied_def [abs_def])

text \<open>A router with one access point, and a second one of the mesh.\<close>

definition exBSS :: "string \<Rightarrow> byte list \<Rightarrow> MeshBSS" where
  "exBSS iface mac = \<lparr>bss_Interface = iface, bss_BSSID = mac_string mac, bss_SSID = hex_encode (str_bytes ''home''),
     bss_NR = hex_encode (mac @ replicate 7 1), bss_Security = ''2|WPA-PSK|CCMP|CCMP''\<rparr>"

definition exHostapd :: "string \<Rightarrow> string \<Rightarrow> string" where
  "exHostapd iface cmd =
    (if cmd = ''STATUS'' then ''state=ENABLED''
     else if cmd = ''GET_CONFIG''
     then join [CHR 0x0A] [''bssid='' @ mac_string exMAC, ''wpa=2'', ''key_mgmt=WPA-PSK'', ''group_cipher=CCMP'', ''rsn_pairwise_cipher=CCMP'']
     else if cmd = ''SHOW_NEIGHBOR''
     then mac_string exMAC @ '' ssid='' @ bss_SSID (exBSS iface exMAC) @ '' nr='' @ bss_NR (exBSS iface exMAC)
     else ''OK'')"

definition exWifi :: meshWorld where
  "exWifi = exWorld\<lparr>mw_aps := (\<lambda>_. Inr [\<lparr>if_Name = ''wlan0'', if_Type = ''AP'', if_Enabled = True, if_ExtraBSS = 0\<rparr>]),
     mw_hostapd := (\<lambda>_ iface cmd. Inr (exHostapd iface cmd))\<rparr>"

definition exWifiEnv :: env where
  "exWifiEnv = exMainEnv\<lparr>e_ReadFile := (\<lambda>_ _. Inr ''[]'')\<rparr>"

definition exPeers :: "MeshBSS list" where
  "exPeers = [exBSS ''wlan0'' exMAC, exBSS ''wlan1'' exLeafMAC]"

theorem neighbors_recorded_witness:
  "w_neighbors (snd (run_state (meshApplyNeighbors exWifiEnv exWifi exPeers) exMain0)) =
     Some [(''wlan0'', [(mac_string exLeafMAC, hex_encode (str_bytes ''home''))])] \<and>
   wp (meshApplyNeighbors exWifiEnv exWifi exPeers) (\<lambda>e t.
     if e = None then \<exists>locals. fst (run_state (meshLocalBSSes exWifiEnv exWifi) exMain0) = Inr locals \<and>
       w_neighbors t = Some (recordAfter exPeers locals (recorded exMain0)) \<and> settled exPeers locals (recorded exMain0) exMain0 t
     else w_neighbors t = w_neighbors exMain0) exMain0"
proof
  show "w_neighbors (snd (run_state (meshApplyNeighbors exWifiEnv exWifi exPeers) exMain0)) =
     Some [(''wlan0'', [(mac_string exLeafMAC, hex_encode (str_bytes ''home''))])]"
    by code_simp
qed (rule neighbors_recorded)

text \<open>
  C15. Another router cannot smuggle a command to \<open>hostapd\<close>. Whatever access points a request
  lists, every command of the pass goes to the control socket of a properly named interface and
  is one of the three queries, a \<open>SET_NEIGHBOR\<close> of exactly four words (the address and the hex
  strings of one listed access point), or a \<open>REMOVE_NEIGHBOR\<close> of a recorded or listed key.
\<close>

theorem neighbor_commands:
  "wp (meshApplyNeighbors E W peers) (\<lambda>_ t. hist_ext (apply_call peers (known_keys s peers)) s t) s"
  by (rule wp_apply_commands)

section \<open>Topologies\<close>

text \<open>
  The topologies the main router reports are sorted by the nodes' addresses, with exactly one
  entry per node of the configuration, and a node whose topology is there is reported online.
\<close>

theorem topologies_sorted:
  "wp (getAllLeafTopologies E W) (\<lambda>ts _. sorted (map tp_LeafIP ts) \<and>
     mset (map tp_LeafIP ts) = mset (map lr_IP (mc_LeafRouters (cfg_load (e_Race E (w_hist s) (w_cfg s))))) \<and>
     {r \<in> set ts. tp_Topology r \<noteq> None} \<subseteq> {r. tp_Online r}) s"
  by (rule wp_getAllLeafTopologies)

end
