(* ===== verification/Loops.thy ===== *)
theory Loops
  imports System "HOL-Library.Multiset"
begin

text \<open>
  The goroutines that run for ever: the reconcile loop (\<open>run\<close>) with its channel \<open>kick\<close> of one token,
  the timers of \<open>KickAfter\<close>, and the listeners (\<open>ctlListen\<close>) a leaf starts. A step of one of them, or of
  an HTTP handler, is one step of the machine; between any two steps another goroutine may run.
  Two things are shown of every reachable state: a leaf that has the key of its pairing has a
  listener, and a kick is never lost.
\<close>

section \<open>The machine\<close>

text \<open>Where the goroutines are: the loop of \<open>run\<close>, and each \<open>ctlListen\<close> with its interface.\<close>

datatype loopPc = AtPass | AtSelect
datatype listenPc = AtTop | Receiving

text \<open>
  \<open>pg_token\<close> is the token in \<open>kick\<close>, \<open>pg_timers\<close> the number of timers that have not fired. \<open>pg_due\<close> is not
  in the code: it says that \<open>Kick\<close> was called since the last pass began.
\<close>

record prog =
  pg_st :: st
  pg_loop :: loopPc
  pg_listeners :: "(string \<times> listenPc) multiset"
  pg_token :: bool
  pg_timers :: nat
  pg_due :: bool

definition newCalls :: "st \<Rightarrow> st \<Rightarrow> hist" where
  "newCalls s t = take (length (w_hist t) - length (w_hist s)) (w_hist t)"

definition started :: "hist \<Rightarrow> string list" where
  "started h = List.map_filter (\<lambda>c. case c of CGoCtlListen w \<Rightarrow> Some w | _ \<Rightarrow> None) h"

definition timersOf :: "hist \<Rightarrow> nat" where
  "timersOf h = length (filter (\<lambda>c. case c of CKickAfter _ \<Rightarrow> True | _ \<Rightarrow> False) h)"

definition kick :: "prog \<Rightarrow> prog" where
  "kick p = p\<lparr>pg_token := True, pg_due := True\<rparr>"

text \<open>The calls of an operation take effect: goroutines and timers start, \<open>Kick\<close> fills the channel.\<close>

definition settle :: "st \<Rightarrow> prog \<Rightarrow> prog" where
  "settle t p =
    (let new = newCalls (pg_st p) t;
         q = p\<lparr>pg_st := t, pg_listeners := pg_listeners p + mset (map (\<lambda>w. (w, AtTop)) (started new)),
               pg_timers := pg_timers p + timersOf new\<rparr>
     in if CKick \<in> set new then kick q else q)"

definition exec :: "'a go \<Rightarrow> prog \<Rightarrow> prog" where
  "exec m p = settle (snd (run_state m (pg_st p))) p"

text \<open>Whether a listener goes on at the top of its loop.\<close>

definition goOn :: "env \<Rightarrow> string \<Rightarrow> prog \<Rightarrow> bool" where
  "goOn E wanif p = fst (run_state (listenTop E wanif) (pg_st p))"

definition own_goroutine :: "op \<Rightarrow> bool" where
  "own_goroutine job = (case job of OpReconcile \<Rightarrow> True | OpListen _ \<Rightarrow> True | OpFrame _ _ \<Rightarrow> True | _ \<Rightarrow> False)"

inductive prog_step :: "env \<Rightarrow> meshWorld \<Rightarrow> prog \<Rightarrow> prog \<Rightarrow> bool" for E :: env and W :: meshWorld where
  pass: "pg_loop p = AtPass \<Longrightarrow>
    prog_step E W p (exec (perform E W OpReconcile) (p\<lparr>pg_loop := AtSelect, pg_due := False\<rparr>))"
| tick: "pg_loop p = AtSelect \<Longrightarrow> prog_step E W p (p\<lparr>pg_loop := AtPass\<rparr>)"
| woken: "pg_loop p = AtSelect \<Longrightarrow> pg_token p \<Longrightarrow> prog_step E W p (p\<lparr>pg_loop := AtPass, pg_token := False\<rparr>)"
| timer: "pg_timers p = Suc n \<Longrightarrow> prog_step E W p (kick (p\<lparr>pg_timers := n\<rparr>))"
| serve: "\<not> own_goroutine job \<Longrightarrow> prog_step E W p (exec (perform E W job) p)"
| receive: "(w, AtTop) \<in># pg_listeners p \<Longrightarrow> goOn E w p \<Longrightarrow>
    prog_step E W p (exec (perform E W (OpListen w)) (p\<lparr>pg_listeners := add_mset (w, Receiving) (pg_listeners p - {#(w, AtTop)#})\<rparr>))"
| leave: "(w, AtTop) \<in># pg_listeners p \<Longrightarrow> \<not> goOn E w p \<Longrightarrow>
    prog_step E W p (exec (perform E W (OpListen w)) (p\<lparr>pg_listeners := pg_listeners p - {#(w, AtTop)#}\<rparr>))"
| hear: "(w, Receiving) \<in># pg_listeners p \<Longrightarrow> prog_step E W p (exec (perform E W (OpFrame w f)) p)"
| timeout: "(w, Receiving) \<in># pg_listeners p \<Longrightarrow>
    prog_step E W p (p\<lparr>pg_listeners := add_mset (w, AtTop) (pg_listeners p - {#(w, Receiving)#})\<rparr>)"

inductive prog_boot :: "prog \<Rightarrow> bool" where
  "boot s \<Longrightarrow> prog_boot \<lparr>pg_st = s, pg_loop = AtPass, pg_listeners = {#}, pg_token = False, pg_timers = 0, pg_due = False\<rparr>"

inductive_cases prog_stepE: "prog_step E W p q"
inductive_cases prog_bootE: "prog_boot p"

section \<open>The key and its listener\<close>

definition listen_ok :: "st \<Rightarrow> bool" where
  "listen_ok s \<longleftrightarrow> \<not> m_noCtlLoop s \<and> (m_leafCtl s \<noteq> None \<longrightarrow> m_ctlRunning s)"

text \<open>
  What every operation keeps, beside \<open>listen_ok\<close>: \<open>ctlRunning\<close> is set only together with the start of a
  listener. The number of starts before the operation is \<open>n\<close>, and \<open>b\<close> says whether it was set.
\<close>

definition starts_ok :: "bool \<Rightarrow> nat \<Rightarrow> st \<Rightarrow> bool" where
  "starts_ok b n s \<longleftrightarrow> listen_ok s \<and> n \<le> length (started (w_hist s)) \<and>
     (m_ctlRunning s \<longrightarrow> b \<or> n < length (started (w_hist s)))"

lemma started_append [simp]: "started (a @ b) = started a @ started b"
  by (simp add: started_def List.map_filter_def)

lemma started_Cons: "started (c # h) = (case c of CGoCtlListen w \<Rightarrow> [w] | _ \<Rightarrow> []) @ started h"
  by (simp add: started_def List.map_filter_simps split: sysCall.split option.split)

lemma started_ext: "hist_ext P s t \<Longrightarrow> length (started (w_hist s)) \<le> length (started (w_hist t))"
  by (auto simp: hist_ext_def)

lemma starts_keeps:
  assumes "keeps listening m" "emits (\<lambda>_. True) m"
  shows "preserves (starts_ok b n) m"
proof (rule preservesI)
  fix s
  assume s: "starts_ok b n s"
  have "wp m (\<lambda>_ t. listening t = listening s \<and> hist_ext (\<lambda>_. True) s t) s"
    by (simp add: wp_conj keeps.in_wp [OF assms(1)] emits.in_wp [OF assms(2)])
  then show "wp m (\<lambda>_. starts_ok b n) s"
  proof (rule wp_mono)
    fix t
    assume t: "listening t = listening s \<and> hist_ext (\<lambda>_. True) s t"
    then have "length (started (w_hist s)) \<le> length (started (w_hist t))"
      by (auto intro: started_ext)
    with t s show "starts_ok b n t"
      by (simp add: starts_ok_def listen_ok_def listening_def) linarith
  qed
qed

lemma startCtl_ok: "preserves (starts_ok b n) (startCtl E wanif ctl mac)"
  by (rule preservesI) (simp add: startCtl_def wp_simps starts_ok_def listen_ok_def started_Cons)

lemma ctlKeys_ok: "preserves (starts_ok b n) (ctlKeys E)"
  by (rule preservesI) (auto simp: ctlKeys_def wp_simps starts_ok_def listen_ok_def started_Cons split: option.split)

lemma off_ok: "preserves (starts_ok b n) (modify (\<lambda>s. if m_ctlOffAt s = None then s\<lparr>m_leafCtl := None\<rparr> else s))"
  by (rule preservesI) (simp add: wp_simps starts_ok_def listen_ok_def)

lemmas quiet_any = quiet_protocol quiet_handlers quiet_tests quiet_mesh quiet_neighbors

lemma handle_ok: "preserves (starts_ok b n) (handleLeafCtl E dev frame)"
  unfolding handleLeafCtl_def Let_def
  by (intro preserves_rules ctlKeys_ok starts_keeps keeps_protocol [THEN core_listening]
      quiet_protocol [THEN emits_any] frame) simp_all

lemma teardown_ok: "preserves (starts_ok b n) (teardownLeaf E wanif)"
  unfolding teardownLeaf_def
  by (intro preserves_rules starts_keeps quiet_leaf_ops [THEN emits_any] frame) simp_all

lemma leafBody_ok: "preserves (starts_ok b n) (leafBody E cfg wanif lst)"
  unfolding leafBody_def leafKeyed_def leafWGLink_def leafMACsecLink_def leafSecY_def Let_def
  by (intro preserves_rules startCtl_ok starts_keeps quiet_leaf_ops [THEN emits_any] frame) simp_all

lemma reconcileLeaf_ok: "preserves (starts_ok b n) (reconcileLeaf E config)"
  unfolding reconcileLeaf_def leafOn_def leafOff_def leafWaits_def confirmOrRevert_def confirmLeaf_def
    revertLeaf_def Let_def
  by (intro preserves_rules leafBody_ok teardown_ok off_ok starts_keeps frame) simp_all

lemma reconcileMain_ok: "preserves (starts_ok b n) (reconcileMain E config)"
  unfolding reconcileMain_def leaveLeafMode_def mainStep_def mainWGStep_def mainMACsecStep_def
    finishMainWG_def finishMainMACsec_def Let_def
  by (intro preserves_rules teardown_ok starts_keeps quiet_wg_ops [THEN emits_any] quiet_mainparts [THEN emits_any]
      emits_bridge [THEN emits_any] frame) simp_all

lemma reconcile_ok: "preserves (starts_ok b n) (reconcile E)"
  unfolding reconcile_def
  by (intro preserves_rules reconcileLeaf_ok reconcileMain_ok starts_keeps frame) simp_all

lemma listenTop_ok: "preserves (starts_ok b n) (listenTop E w)"
  unfolding listenTop_def by (intro preserves_rules ctlKeys_ok starts_keeps frame) simp_all

lemma perform_ok: "preserves (starts_ok b n) (perform E W job)"
  unfolding perform_def runMTUTest_def
  by (cases job; simp; intro preserves_rules handle_ok listenTop_ok reconcile_ok starts_keeps quiet_any [THEN emits_any]
      keeps_others [THEN core_listening] frame; simp)

text \<open>An operation only adds to the history.\<close>

lemma teardown_grows: "emits (\<lambda>_. True) (teardownLeaf E wanif)"
  unfolding teardownLeaf_def by (intro emits_rules quiet_leaf_ops [THEN emits_any] frame) simp_all

lemma reconcileLeaf_grows: "emits (\<lambda>_. True) (reconcileLeaf E config)"
  unfolding reconcileLeaf_def leafOn_def leafOff_def leafWaits_def confirmOrRevert_def confirmLeaf_def
    revertLeaf_def leafBody_def leafKeyed_def leafWGLink_def leafMACsecLink_def leafSecY_def Let_def
  by (intro emits_rules teardown_grows quiet_leaf_ops [THEN emits_any] frame) simp_all

lemma reconcileMain_grows: "emits (\<lambda>_. True) (reconcileMain E config)"
  unfolding reconcileMain_def leaveLeafMode_def mainStep_def mainWGStep_def mainMACsecStep_def
    finishMainWG_def finishMainMACsec_def Let_def
  by (intro emits_rules teardown_grows quiet_wg_ops [THEN emits_any] quiet_mainparts [THEN emits_any]
      emits_bridge [THEN emits_any] frame) simp_all

lemma perform_grows: "emits (\<lambda>_. True) (perform E W job)"
  unfolding perform_def runMTUTest_def reconcile_def
  by (cases job; simp; intro emits_rules quiet_handle [THEN emits_any] reconcileLeaf_grows reconcileMain_grows
      quiet_any [THEN emits_any] frame; simp)

text \<open>A listener that leaves has seen no key, and has taken back the flag.\<close>

lemma leave_clears: "\<not> goOn E w p \<Longrightarrow> \<not> m_ctlRunning (snd (run_state (perform E W (OpListen w)) (pg_st p)))"
proof -
  have "wp (listenTop E w) (\<lambda>r t. \<not> r \<longrightarrow> \<not> m_ctlRunning t) (pg_st p)"
    by (auto simp: listenTop_def ctlKeys_def wp_simps split: option.split)
  then show "\<not> goOn E w p \<Longrightarrow> ?thesis"
    by (simp add: goOn_def perform_def drop_result_def wp_def split: prod.splits)
qed

section \<open>The invariant\<close>

definition prog_inv :: "prog \<Rightarrow> bool" where
  "prog_inv p \<longleftrightarrow> listen_ok (pg_st p) \<and> (m_ctlRunning (pg_st p) \<longrightarrow> pg_listeners p \<noteq> {#}) \<and>
     (pg_due p \<longrightarrow> pg_token p \<or> pg_loop p = AtPass)"

lemma newCalls_ext: "w_hist t = h @ w_hist s \<Longrightarrow> newCalls s t = h"
  by (simp add: newCalls_def)

lemma settle_simps [simp]:
  "pg_st (settle t p) = t" "pg_loop (settle t p) = pg_loop p"
  "pg_listeners (settle t p) = pg_listeners p + mset (map (\<lambda>w. (w, AtTop)) (started (newCalls (pg_st p) t)))"
  "pg_due (settle t p) \<longleftrightarrow> pg_due p \<or> CKick \<in> set (newCalls (pg_st p) t)"
  "pg_token (settle t p) \<longleftrightarrow> pg_token p \<or> CKick \<in> set (newCalls (pg_st p) t)"
  by (simp_all add: settle_def kick_def Let_def)

text \<open>
  An operation keeps the invariant, also when its listener has just been taken out, provided the
  operation then takes back the flag.
\<close>

lemma exec_inv:
  assumes m: "\<And>b n. preserves (starts_ok b n) m" "emits (\<lambda>_. True) m"
    and p: "listen_ok (pg_st p)" "pg_due p \<longrightarrow> pg_token p \<or> pg_loop p = AtPass"
    and flag: "m_ctlRunning (pg_st p) \<Longrightarrow> pg_listeners p \<noteq> {#} \<or> \<not> m_ctlRunning (snd (run_state m (pg_st p)))"
  shows "prog_inv (exec m p)"
proof -
  define s where "s = pg_st p"
  define t where "t = snd (run_state m s)"
  from emits.in_wp [OF m(2), of s] obtain h where h: "w_hist t = h @ w_hist s"
    by (auto simp: t_def wp_snd hist_ext_def)
  have "starts_ok (m_ctlRunning s) (length (started (w_hist s))) s"
    using p(1) by (simp add: starts_ok_def s_def)
  from preserves_snd [OF m(1) this] have t: "listen_ok t" "m_ctlRunning t \<Longrightarrow> m_ctlRunning s \<or> started h \<noteq> []"
    by (auto simp: t_def [symmetric] starts_ok_def h)
  have "exec m p = settle t p" by (simp add: exec_def t_def s_def)
  moreover have "newCalls (pg_st p) t = h" using newCalls_ext [OF h] by (simp add: s_def)
  ultimately show ?thesis
    using t p(2) flag by (auto simp: prog_inv_def s_def t_def)
qed

text \<open>An operation ends no listener, and starts one when it sets the flag.\<close>

lemma exec_listeners: "pg_listeners p \<subseteq># pg_listeners (exec m p)"
  by (simp add: exec_def)

lemma exec_starts:
  assumes "listen_ok (pg_st p)" "\<not> m_ctlRunning (pg_st p)" "m_ctlRunning (pg_st (exec (perform E W job) p))"
  shows "size (pg_listeners p) < size (pg_listeners (exec (perform E W job) p))"
proof -
  define s where "s = pg_st p"
  define t where "t = snd (run_state (perform E W job) s)"
  from emits.in_wp [OF perform_grows [of E W job], of s] obtain h where h: "w_hist t = h @ w_hist s"
    by (auto simp: t_def wp_snd hist_ext_def)
  have "starts_ok False (length (started (w_hist s))) s"
    using assms(1,2) by (simp add: starts_ok_def s_def)
  from preserves_snd [OF perform_ok [of _ _ E W job] this] have "m_ctlRunning t \<Longrightarrow> started h \<noteq> []"
    by (auto simp: t_def [symmetric] starts_ok_def h)
  then show ?thesis
    using assms(3) newCalls_ext [OF h] by (simp add: exec_def s_def t_def)
qed

lemma boot_inv: "prog_boot p \<Longrightarrow> prog_inv p"
  by (auto elim!: prog_bootE bootE simp: prog_inv_def listen_ok_def newMACsecManager_def)

lemma step_inv:
  assumes "prog_inv p" "prog_step E W p q"
  shows "prog_inv q"
  using assms(2)
proof cases
  case pass
  show ?thesis
    unfolding pass(1) by (rule exec_inv [OF perform_ok perform_grows]) (use assms(1) in \<open>auto simp: prog_inv_def\<close>)
next
  case (serve job)
  show ?thesis
    unfolding serve(1) by (rule exec_inv [OF perform_ok perform_grows]) (use assms(1) in \<open>auto simp: prog_inv_def\<close>)
next
  case (hear w f)
  show ?thesis
    unfolding hear(1) by (rule exec_inv [OF perform_ok perform_grows]) (use assms(1) in \<open>auto simp: prog_inv_def\<close>)
next
  case (receive w)
  show ?thesis
    unfolding receive(1) by (rule exec_inv [OF perform_ok perform_grows]) (use assms(1) in \<open>auto simp: prog_inv_def\<close>)
next
  case (leave w)
  show ?thesis
    unfolding leave(1) by (rule exec_inv [OF perform_ok perform_grows])
      (use assms(1) leave_clears [OF leave(3)] in \<open>auto simp: prog_inv_def\<close>)
qed (use assms(1) in \<open>auto simp: prog_inv_def kick_def\<close>)

interpretation loops: machine prog_boot "prog_step E W" prog_inv for E W
  by unfold_locales (auto intro: boot_inv step_inv)

text \<open>
  The files and the manager of a reachable program are a reachable state of theory \<open>System\<close>, so what
  is shown there holds here.
\<close>

lemma exec_st: "pg_st (exec m p) = snd (run_state m (pg_st p))"
  by (simp add: exec_def)

lemma step_refines:
  assumes "prog_step E W p q"
  shows "pg_st q = pg_st p \<or> sys_step E W (pg_st p) (pg_st q)"
  using assms by cases (auto simp: exec_st kick_def intro: sys_step.intros)

lemma prog_reachable:
  "reachable prog_boot (prog_step E W) p \<Longrightarrow> reachable boot (sys_step E W) (pg_st p)"
proof (induction rule: reachable.induct)
  case (start p)
  then show ?case by (auto elim!: prog_bootE intro: reachable.start)
next
  case (step p q)
  then show ?case using step_refines [OF step.hyps(2)] by (auto intro: reachable.step)
qed

section \<open>A pass on a leaf\<close>

text \<open>
  A pass on a leaf whose link is on, whose uplink answers and whose pairing token is there sets the
  key, so with the invariant its listener runs. A pass on a leaf whose link is off takes the key away.
\<close>

definition keyed :: "macsecCtlKeys \<Rightarrow> st \<Rightarrow> bool" where
  "keyed k s \<longleftrightarrow> m_leafCtl s = Some k \<and> m_ctlRunning s"

abbreviation loop_on :: "st \<Rightarrow> bool" where
  "loop_on s \<equiv> \<not> m_noCtlLoop s"

lemma keyed_keeps: "keeps listening m \<Longrightarrow> preserves (keyed k) m"
  by (erule preserves_keeps) (simp add: listening_def keyed_def)

lemma loop_keeps: "keeps listening m \<Longrightarrow> preserves loop_on m"
  by (erule preserves_keeps) (simp add: listening_def)

lemma wp_then:
  "preserves I m \<Longrightarrow> I s \<Longrightarrow> (\<And>x t. I t \<Longrightarrow> wp (k x) Q t) \<Longrightarrow> wp (State_Monad.bind m k) Q s"
  unfolding wp_bind by (rule wp_mono [OF preserves_wp])

lemma startCtl_keyed: "loop_on s \<Longrightarrow> wp (startCtl E wanif k mac) (\<lambda>_. keyed k) s"
  by (simp add: startCtl_def wp_simps keyed_def)

lemma wp_leafKeyed:
  assumes "\<And>h. e_Tokens E h = Inr tokens" "find (\<lambda>tok. tk_Name tok = DOWNHAUL_TOKEN_NAME) tokens = Some tok"
    and "deriveMACsecKeys (e_hkdf E) (tk_Token tok) (ls_KeyNonce cfg) = Inr keys"
    and "deriveMACsecCtlKeys (e_hkdf E) (tk_Token tok) (ls_KeyNonce cfg) = Inr k"
    and "loop_on s"
  shows "wp (leafKeyed E cfg wanif info lst) (\<lambda>_. keyed k) s"
proof -
  have rest: "preserves (keyed k) (leafWGLink E cfg wanif token lst)" "preserves (keyed k) (leafMACsecLink E cfg wanif keys info lst)"
    for token
    unfolding leafWGLink_def leafMACsecLink_def leafSecY_def Let_def
    by (intro preserves_rules keyed_keeps frame; simp)+
  have "wp (do { startCtl E wanif k (li_MAC info);
      if c then leafWGLink E cfg wanif (tk_Token tok) lst else leafMACsecLink E cfg wanif keys info lst }) (\<lambda>_. keyed k) t"
    if "loop_on t" for c t
    unfolding wp_bind by (rule wp_mono [OF startCtl_keyed [OF that]]) (simp add: preserves_wp [OF rest(1)] preserves_wp [OF rest(2)])
  then show ?thesis
    using assms(5) by (simp add: leafKeyed_def getToken_def wp_bindr wp_bind [of "ask _ _"] wp_ask wp_return assms(1-4))
qed

lemma wp_leafUplink:
  assumes "\<And>h. e_LinkInfo E h wanif = Inr info" "li_Master info = []" "loop_on s"
  shows "wp (leafUplink E cfg wanif lst) (\<lambda>r t. (\<exists>i. fst r = Some i) \<and> loop_on t) s"
proof -
  have "preserves loop_on (leafUplink E cfg wanif lst)"
    by (intro loop_keeps frame) simp_all
  moreover have "wp (leafUplink E cfg wanif lst) (\<lambda>r _. \<exists>i. fst r = Some i) s"
    unfolding leafUplink_def
    by (simp add: wp_bindr wp_check wp_sys wp_return wp_drop wp_bind [of "drop_result _"] assms(1,2))
      (intro conjI impI wp_skip; simp add: wp_return)
  ultimately show ?thesis
    using assms(3) by (simp add: wp_conj preserves_wp)
qed

lemma wp_leafBody:
  assumes "valid_iface wanif" "\<And>h. e_LinkInfo E h wanif = Inr info" "li_Master info = []"
    and "\<And>h. e_Tokens E h = Inr tokens" "find (\<lambda>tok. tk_Name tok = DOWNHAUL_TOKEN_NAME) tokens = Some tok"
    and "deriveMACsecKeys (e_hkdf E) (tk_Token tok) (ls_KeyNonce cfg) = Inr keys"
    and "deriveMACsecCtlKeys (e_hkdf E) (tk_Token tok) (ls_KeyNonce cfg) = Inr k"
    and "loop_on s"
  shows "wp (leafBody E cfg wanif lst) (\<lambda>_. keyed k) s"
proof -
  have guard: "preserves loop_on (leafGuard E cfg wanif lst)"
    by (intro loop_keeps frame) simp_all
  have link: "wp (do { r \<leftarrow> leafUplink E cfg wanif lst';
      case r of (None, lst) \<Rightarrow> return (False, lst) | (Some info, lst) \<Rightarrow> leafKeyed E cfg wanif info lst }) (\<lambda>_. keyed k) t"
    if "loop_on t" for lst' t
    unfolding wp_bind
    by (rule wp_mono [OF wp_leafUplink [OF assms(2,3) that]]) (auto intro!: wp_leafKeyed [OF assms(4-7)] split: prod.splits)
  show ?thesis
    using wp_then [OF guard assms(8) link] by (simp add: leafBody_def assms(1))
qed

text \<open>What the parts before and after the body leave alone.\<close>

definition leaf_loop :: "st \<Rightarrow> bool" where
  "leaf_loop s \<longleftrightarrow> loop_on s \<and> w_leafFlag s = Present"

lemma leaf_loop_keeps: "keeps listening m \<Longrightarrow> keeps w_leafFlag m \<Longrightarrow> preserves leaf_loop m"
  unfolding within_def by (fastforce simp: wp_def listening_def leaf_loop_def split: prod.splits)

lemma run_meshWANIF: "valid_iface (e_Getenv E ''WANIF'') \<Longrightarrow> meshWANIF E = return (e_Getenv E ''WANIF'')"
  by (simp add: meshWANIF_def Let_def)

lemma pass_keys:
  assumes "leaf_loop s" "cfg_checked (e_Race E (w_hist s) (w_cfg s)) = Inr config" "mc_LeafMACsec config = cfg"
    and "ls_Enabled cfg" "ls_Confirmed cfg" "wanif = e_Getenv E ''WANIF''" "valid_iface wanif"
    and "\<And>h. e_LinkInfo E h wanif = Inr info" "li_Master info = []"
    and "\<And>h. e_Tokens E h = Inr tokens" "find (\<lambda>tok. tk_Name tok = DOWNHAUL_TOKEN_NAME) tokens = Some tok"
    and "deriveMACsecKeys (e_hkdf E) (tk_Token tok) (ls_KeyNonce cfg) = Inr keys"
    and "deriveMACsecCtlKeys (e_hkdf E) (tk_Token tok) (ls_KeyNonce cfg) = Inr k"
  shows "wp (reconcile E) (\<lambda>_. keyed k) s"
proof -
  have on: "wp (leafOn E cfg wanif) (\<lambda>_. keyed k) t" if "leaf_loop t" for t
  proof -
    have flag: "preserves leaf_loop (setMACsecRequiredFlag E True)"
      by (intro leaf_loop_keeps frame) simp_all
    have body: "wp (leafBody E cfg wanif lst) (\<lambda>_. keyed k) u" if "leaf_loop u" for lst u
      using that by (intro wp_leafBody [OF assms(7-13)]) (simp add: leaf_loop_def)
    show ?thesis
      unfolding leafOn_def
    proof (rule wp_then [where I = leaf_loop])
      show "preserves leaf_loop (modify (\<lambda>s. s\<lparr>m_leafActive := True\<rparr>))"
        by (intro leaf_loop_keeps frame) simp_all
      show "leaf_loop t" by (rule that)
      fix x u
      assume "leaf_loop u"
      then show "wp (do { setMACsecRequiredFlag E True;
          r \<leftarrow> leafBody E cfg wanif (noLinkStatus\<lparr>st_Parent := wanif, st_Port := macsecLeafPort, st_LinkMTU := ls_LinkMTU cfg\<rparr>);
          (case r of (secured, lst) \<Rightarrow> do {
             cfg' \<leftarrow> (if ls_Enabled cfg then confirmOrRevert E cfg secured wanif else return cfg);
             modify (\<lambda>s. s\<lparr>m_status := leafStatus (ls_Enabled cfg') (ls_Confirmed cfg') [lst]\<rparr>)
           }) }) (\<lambda>_. keyed k) u"
        by (intro wp_then [OF flag]) (auto simp: wp_bind wp_return wp_modify confirmOrRevert_def assms(4,5)
            keyed_def [of _ "_\<lparr>m_status := _\<rparr>"] intro!: wp_mono [OF body] simp flip: keyed_def split: prod.splits)
    qed
  qed
  have leaf: "wp (reconcileLeaf E config) (\<lambda>_. keyed k) t" if "leaf_loop t" for t
    using on [OF that] assms(3-7)
    by (simp add: reconcileLeaf_def Let_def run_meshWANIF leafWaits_def wp_bind wp_return wp_gets wp_if)
  have fin: "preserves (keyed k) (restoreUnusedMTU E)" "preserves (keyed k) (modify (\<lambda>s. s\<lparr>m_ready := True\<rparr>))"
    by (intro keyed_keeps frame; simp)+
  have load: "preserves leaf_loop (loadOrigMTU E)"
    by (intro leaf_loop_keeps frame) simp_all
  have s: "leaf_loop (s\<lparr>w_cfg := c, m_mtuInUse := {}\<rparr>)" for c
    using assms(1) by (simp add: leaf_loop_def)
  have tail: "wp (do { leaf \<leftarrow> isLeafRouter;
      (if leaf then reconcileLeaf E config else reconcileMain E config);
      restoreUnusedMTU E;
      modify (\<lambda>s. s\<lparr>m_ready := True\<rparr>) }) (\<lambda>_. keyed k) t" if "leaf_loop t" for t
    using that leaf [OF that]
    by (auto simp: wp_bind wp_isLeafRouter leaf_loop_def intro!: wp_mono [OF leaf] wp_mono [OF preserves_wp [OF fin(1)]] preserves_wp [OF fin(2)])
  show ?thesis
    using wp_then [OF load s tail] assms(2)
    by (simp add: reconcile_def wp_bind [of "lockConfig _"] wp_bind [of loadMeshConfigChecked] wp_bind [of "modify _"]
        wp_lockConfig wp_loadMeshConfigChecked wp_modify)
qed

text \<open>The pass of a leaf whose link is off.\<close>

definition leaf_open :: "st \<Rightarrow> bool" where
  "leaf_open s \<longleftrightarrow> m_ctlOffAt s = None \<and> w_leafFlag s = Present"

definition keyless :: "st \<Rightarrow> bool" where
  "keyless s \<longleftrightarrow> m_leafCtl s = None \<and> w_leafFlag s = Present"

lemma leaf_open_keeps: "keeps m_ctlOffAt m \<Longrightarrow> keeps w_leafFlag m \<Longrightarrow> preserves leaf_open m"
  unfolding within_def by (fastforce simp: wp_def leaf_open_def split: prod.splits)

lemma keyless_keeps: "keeps listening m \<Longrightarrow> keeps w_leafFlag m \<Longrightarrow> preserves keyless m"
  unfolding within_def by (fastforce simp: wp_def listening_def keyless_def split: prod.splits)

lemma pass_forgets:
  assumes "leaf_open s" "cfg_checked (e_Race E (w_hist s) (w_cfg s)) = Inr config"
    and "\<not> ls_Enabled (mc_LeafMACsec config)"
  shows "wp (reconcile E) (\<lambda>_. keyless) s"
proof -
  have rest: "preserves keyless (do {
      flag \<leftarrow> macsecRequiredFlagSet;
      active \<leftarrow> gets (\<lambda>s. m_leafActive s \<or> flag \<or> m_procs s \<noteq> []);
      doif active (teardownLeaf E wanif);
      modify (\<lambda>s. s\<lparr>m_status := leafStatus False False []\<rparr>) })" for wanif
    unfolding teardownLeaf_def by (intro preserves_rules keyless_keeps frame) simp_all
  have off: "wp (leafOff E wanif) (\<lambda>_. keyless) t" if "leaf_open t" for wanif t
    using that unfolding leafOff_def wp_bind [of "modify _"] wp_modify
    by (intro preserves_wp [OF rest]) (simp add: leaf_open_def keyless_def)
  have wan: "preserves leaf_open (meshWANIF E)" "preserves leaf_open (loadOrigMTU E)"
    by (intro leaf_open_keeps frame; simp)+
  have leaf: "wp (reconcileLeaf E config) (\<lambda>_. keyless) t" if "leaf_open t" for t
    unfolding reconcileLeaf_def Let_def
    by (rule wp_then [OF wan(1) that]) (simp add: assms(3) off)
  have fin: "preserves keyless (restoreUnusedMTU E)" "preserves keyless (modify (\<lambda>s. s\<lparr>m_ready := True\<rparr>))"
    by (intro keyless_keeps frame; simp)+
  have tail: "wp (do { leaf \<leftarrow> isLeafRouter;
      (if leaf then reconcileLeaf E config else reconcileMain E config);
      restoreUnusedMTU E;
      modify (\<lambda>s. s\<lparr>m_ready := True\<rparr>) }) (\<lambda>_. keyless) t" if "leaf_open t" for t
    using that leaf [OF that]
    by (auto simp: wp_bind wp_isLeafRouter leaf_open_def intro!: wp_mono [OF leaf] wp_mono [OF preserves_wp [OF fin(1)]] preserves_wp [OF fin(2)])
  have s: "leaf_open (s\<lparr>w_cfg := c, m_mtuInUse := {}\<rparr>)" for c
    using assms(1) by (simp add: leaf_open_def)
  show ?thesis
    using wp_then [OF wan(2) s tail] assms(2)
    by (simp add: reconcile_def wp_bind [of "lockConfig _"] wp_bind [of loadMeshConfigChecked] wp_bind [of "modify _"]
        wp_lockConfig wp_loadMeshConfigChecked wp_modify)
qed

text \<open>A frame that arrives when the key is gone only takes back the flag.\<close>

lemma keyless_frame: "keyless s \<Longrightarrow> wp (handleLeafCtl E w f) (\<lambda>_ t. t = s\<lparr>m_ctlRunning := False\<rparr>) s"
  by (simp add: handleLeafCtl_def ctlKeys_def wp_simps keyless_def)

end
