(* ===== verification/LoopProps.thy ===== *)
theory LoopProps
  imports Loops Examples
begin

text \<open>
  Properties of the goroutines of theory \<open>Loops\<close>, on every interleaving.
\<close>

section \<open>Listeners and kicks\<close>


text \<open>
  A leaf whose configuration another goroutine switches off once its listener is in a receive,
  and on again when the certificate was served.
\<close>

definition exFlipEnv :: env where
  "exFlipEnv = exLeafEnv\<lparr>e_Getenv := (\<lambda>_. ''eth0''),
     e_Race := (\<lambda>h _. CfgOk (if CRecvFrames ''eth0'' \<in> set h \<and> CReadFile ApiTlsCaCert \<notin> set h then noConfig else exLeafConfig))\<rparr>"

definition exProg :: "st \<Rightarrow> prog" where
  "exProg s = \<lparr>pg_st = s, pg_loop = AtPass, pg_listeners = {#}, pg_token = False, pg_timers = 0, pg_due = False\<rparr>"

definition exWeb :: meshWorld where
  "exWeb = \<lparr>mw_pem = (\<lambda>_. None), mw_x509 = (\<lambda>_. Inl []), mw_checkSig = (\<lambda>_. None),
     mw_verify = (\<lambda>_ _. None), mw_cert = (\<lambda>_ _. Inl []), mw_http = (\<lambda>_ _. Inl []),
     mw_json = (\<lambda>_. Inl []), mw_interfaces = (\<lambda>_. Inr []), mw_stations = (\<lambda>_. Inr []), mw_event = (\<lambda>_. ''{}''),
     mw_failure = (\<lambda>_. ''{}''), mw_otp = (\<lambda>_. (1, None)), mw_aps = (\<lambda>_. Inr []), mw_hostapd = (\<lambda>_ _ _. Inr ''OK''),
     mw_bss = (\<lambda>_. Inr [])\<rparr>"

definition doPass :: "prog \<Rightarrow> prog" where
  "doPass p = exec (perform exFlipEnv exWeb OpReconcile) (p\<lparr>pg_loop := AtSelect, pg_due := False\<rparr>)"

abbreviation ex_reachable :: "prog \<Rightarrow> bool" where
  "ex_reachable \<equiv> reachable prog_boot (prog_step exFlipEnv exWeb)"

definition exProg1 :: prog where "exProg1 = doPass (exProg exLeaf0)"

definition exProg2 :: prog where
  "exProg2 = exec (perform exFlipEnv exWeb (OpListen ''eth0''))
     (exProg1\<lparr>pg_listeners := add_mset (''eth0'', Receiving) (pg_listeners exProg1 - {#(''eth0'', AtTop)#})\<rparr>)"

lemma ex_prog1:
  "let p = exProg1; s = pg_st p in pg_listeners p = {#(''eth0'', AtTop)#} \<and> m_leafCtl s \<noteq> None \<and> leaf_open s \<and>
     CReadFile ApiTlsCaCert \<notin> set (w_hist s)"
  by code_simp

text \<open>A listener that finds the key goes on, and only its receive is new.\<close>

lemma listen_on:
  assumes "m_leafCtl (pg_st p) \<noteq> None" "leaf_open (pg_st p)"
  shows "goOn E w p" "snd (run_state (perform E W (OpListen w)) (pg_st p)) = (pg_st p)\<lparr>w_hist := CRecvFrames w # w_hist (pg_st p)\<rparr>"
proof -
  have "wp (listenTop E w) (\<lambda>r t. r \<and> t = (pg_st p)\<lparr>w_hist := CRecvFrames w # w_hist (pg_st p)\<rparr>) (pg_st p)"
    using assms by (auto simp: listenTop_def ctlKeys_def leaf_open_def wp_simps)
  then show "goOn E w p" "snd (run_state (perform E W (OpListen w)) (pg_st p)) = (pg_st p)\<lparr>w_hist := CRecvFrames w # w_hist (pg_st p)\<rparr>"
    by (simp_all add: goOn_def perform_def drop_result_def wp_def split: prod.splits)
qed

lemma ex_prog_facts: "(''eth0'', AtTop) \<in># pg_listeners exProg1" "goOn exFlipEnv ''eth0'' exProg1"
  using ex_prog1 listen_on(1) by (simp_all add: Let_def)

lemma ex_prog2_facts:
  "leaf_open (pg_st exProg2)" "CRecvFrames ''eth0'' \<in> set (w_hist (pg_st exProg2))"
  "CReadFile ApiTlsCaCert \<notin> set (w_hist (pg_st exProg2))"
proof -
  have "pg_st exProg2 = (pg_st exProg1)\<lparr>w_hist := CRecvFrames ''eth0'' # w_hist (pg_st exProg1)\<rparr>"
    using listen_on(2) [of exProg1] ex_prog1 by (simp add: exProg2_def exec_st Let_def)
  then show "leaf_open (pg_st exProg2)" "CRecvFrames ''eth0'' \<in> set (w_hist (pg_st exProg2))"
    "CReadFile ApiTlsCaCert \<notin> set (w_hist (pg_st exProg2))"
    using ex_prog1 by (simp_all add: Let_def leaf_open_def)
qed

lemma ex_prog_reach: "ex_reachable exProg1" "ex_reachable exProg2"
proof -
  have "prog_boot (exProg exLeaf0)"
    unfolding exProg_def exLeaf0_def by (rule prog_boot.intros [OF boot_manager])
  then have "ex_reachable (exProg exLeaf0)" by (rule reachable.start)
  moreover have "prog_step exFlipEnv exWeb (exProg exLeaf0) exProg1"
    unfolding exProg1_def doPass_def by (rule prog_step.pass) (simp add: exProg_def)
  ultimately show 1: "ex_reachable exProg1" by (rule reachable.step)
  show "ex_reachable exProg2"
  proof (rule reachable.step [OF 1])
    show "prog_step exFlipEnv exWeb exProg1 exProg2"
      unfolding exProg2_def by (rule prog_step.receive [OF ex_prog_facts])
  qed
qed


section \<open>A second listener\<close>

text \<open>
  There may be more than one listener: \<open>ctlKeys\<close> takes back \<open>ctlRunning\<close> also when a frame arrives in a
  receive and the key is gone. When the key is back before that receive ends, another listener
  starts, and the first goes on.
\<close>

definition exProg3 :: prog where "exProg3 = doPass (exProg2\<lparr>pg_loop := AtPass\<rparr>)"
definition exProg4 :: prog where "exProg4 = exec (perform exFlipEnv exWeb (OpFrame ''eth0'' [])) exProg3"
definition exProg5 :: prog where "exProg5 = exec (perform exFlipEnv exWeb OpCert) exProg4"
definition exProg6 :: prog where "exProg6 = doPass (exProg5\<lparr>pg_loop := AtPass\<rparr>)"

lemma exec_loop: "pg_loop (exec m p) = pg_loop p"
  by (simp add: exec_def)

lemma pass_st: "pg_st (doPass p) = snd (run_state (reconcile exFlipEnv) (pg_st p))"
  by (simp add: doPass_def exec_st perform_def)

lemma reach_pass:
  assumes "ex_reachable p" "pg_loop p = AtSelect"
  shows "ex_reachable (doPass (p\<lparr>pg_loop := AtPass\<rparr>))"
proof -
  have "ex_reachable (p\<lparr>pg_loop := AtPass\<rparr>)"
    by (rule reachable.step [OF assms(1) prog_step.tick [OF assms(2)]])
  moreover have "prog_step exFlipEnv exWeb (p\<lparr>pg_loop := AtPass\<rparr>) (doPass (p\<lparr>pg_loop := AtPass\<rparr>))"
    unfolding doPass_def by (rule prog_step.pass) simp
  ultimately show ?thesis by (rule reachable.step)
qed

lemma ex_loops: "pg_loop exProg2 = AtSelect" "pg_loop exProg3 = AtSelect" "pg_loop exProg5 = AtSelect"
  by (simp_all add: exProg1_def exProg2_def exProg3_def exProg4_def exProg5_def doPass_def exec_loop)

lemma ex_receiving: "(''eth0'', Receiving) \<in># pg_listeners exProg3" "(''eth0'', Receiving) \<in># pg_listeners exProg5"
  by (simp_all add: exProg2_def exProg3_def exProg4_def exProg5_def doPass_def exec_def)

lemma ex_reach5: "ex_reachable exProg5"
proof -
  have "ex_reachable exProg3"
    unfolding exProg3_def by (rule reach_pass [OF ex_prog_reach(2) ex_loops(1)])
  moreover have "prog_step exFlipEnv exWeb exProg3 exProg4"
    unfolding exProg4_def by (rule prog_step.hear [OF ex_receiving(1)])
  moreover have "prog_step exFlipEnv exWeb exProg4 exProg5"
    unfolding exProg5_def by (rule prog_step.serve) (simp add: own_goroutine_def)
  ultimately show ?thesis by (blast intro: reachable.step)
qed

text \<open>After the second pass the key is gone; after the frame so is the flag.\<close>

lemma ex_keyless: "keyless (pg_st exProg3)"
proof -
  have "wp (reconcile exFlipEnv) (\<lambda>_. keyless) (pg_st exProg2)"
    by (rule pass_forgets [OF ex_prog2_facts(1), where config = noConfig])
      (simp_all add: exFlipEnv_def ex_prog2_facts(2,3) noConfig_def noLeafSide_def)
  then show ?thesis by (simp add: exProg3_def pass_st wp_snd)
qed

lemma ex_unflagged:
  "\<not> m_ctlRunning (pg_st exProg5)" "w_leafFlag (pg_st exProg5) = Present"
  "CReadFile ApiTlsCaCert \<in> set (w_hist (pg_st exProg5))"
proof -
  have frame: "pg_st exProg4 = pg_st exProg3\<lparr>m_ctlRunning := False\<rparr>"
    using keyless_frame [OF ex_keyless, of exFlipEnv "''eth0''" "[]"]
    by (simp add: exProg4_def exec_st perform_def drop_result_def wp_def split: prod.splits)
  have "wp (getCert exFlipEnv) (\<lambda>_ t. m_ctlRunning t = m_ctlRunning s \<and> w_leafFlag t = w_leafFlag s \<and>
      CReadFile ApiTlsCaCert \<in> set (w_hist t)) s" for s
    by (simp add: getCert_def getCertApiKey_def createHMACSignatureWithFile_def getToken_def wp_simps split: sum.split option.split)
  from this [of "pg_st exProg4"] ex_keyless
  show "\<not> m_ctlRunning (pg_st exProg5)" "w_leafFlag (pg_st exProg5) = Present"
    "CReadFile ApiTlsCaCert \<in> set (w_hist (pg_st exProg5))"
    by (simp_all add: exProg5_def exec_st perform_def drop_result_def wp_def frame keyless_def split: prod.splits)
qed

lemma second_listener: "\<exists>p. ex_reachable p \<and> 2 \<le> size (pg_listeners p)"
proof (intro exI conjI)
  show "ex_reachable exProg6"
    unfolding exProg6_def by (rule reach_pass [OF ex_reach5 ex_loops(3)])
  have ok: "listen_ok (pg_st exProg5)"
    using loops.reachable_inv [OF ex_reach5] by (simp add: prog_inv_def)
  have "e_hkdf exFlipEnv = (\<lambda>s n i k. Inr (replicate k 9))"
    by (simp add: exFlipEnv_def exLeafEnv_def env0_def)
  then have keys: "deriveMACsecKeys (e_hkdf exFlipEnv) exToken exNonce = Inr \<lparr>k_CAK = replicate 32 9, k_CKN = replicate 16 9\<rparr>"
    "deriveMACsecCtlKeys (e_hkdf exFlipEnv) exToken exNonce = Inr exKeys"
    by (simp_all only: ex_keys ex_ctl_keys)
  have "wp (reconcile exFlipEnv) (\<lambda>_. keyed exKeys) (pg_st exProg5)"
  proof (rule pass_keys [where config = exLeafConfig and cfg = exSide and wanif = "''eth0''" and info = exInfo
        and tokens = "[exTokenEntry]" and tok = exTokenEntry])
    show "leaf_loop (pg_st exProg5)"
      using ok ex_unflagged(2) by (simp add: leaf_loop_def listen_ok_def)
    show "valid_iface ''eth0''" by (rule ex_eth0)
    show "deriveMACsecKeys (e_hkdf exFlipEnv) (tk_Token exTokenEntry) (ls_KeyNonce exSide) =
        Inr \<lparr>k_CAK = replicate 32 9, k_CKN = replicate 16 9\<rparr>"
      "deriveMACsecCtlKeys (e_hkdf exFlipEnv) (tk_Token exTokenEntry) (ls_KeyNonce exSide) = Inr exKeys"
      using keys by (simp_all add: exTokenEntry_def exSide_def)
  qed (use ex_unflagged(3) in \<open>simp_all add: exFlipEnv_def exLeafEnv_def exLeafConfig_def exSide_def exInfo_def
      exTokenEntry_def\<close>)
  then have "m_ctlRunning (pg_st exProg6)"
    by (simp add: exProg6_def pass_st wp_snd keyed_def)
  then have "size (pg_listeners exProg5) < size (pg_listeners exProg6)"
    using exec_starts [of "exProg5\<lparr>pg_loop := AtSelect, pg_due := False\<rparr>" exFlipEnv exWeb OpReconcile] ok ex_unflagged(1)
    by (simp add: exProg6_def doPass_def)
  moreover have "0 < size (pg_listeners exProg5)"
    using ex_receiving(2) by (auto simp: nonempty_has_size [symmetric])
  ultimately show "2 \<le> size (pg_listeners exProg6)" by simp
qed

end
