(* ===== verification/Spec2Isabelle.thy ===== *)
theory Spec2Isabelle
  imports System Router AtomicFile RawSock Examples LinkProps LeafProps MtuProps MainProps MeshProps LoopProps
begin

text \<open>
  The mesh extension of SPR (\<open>src/code\<close>, Go) joins routers to one network: a main router and mesh
  nodes (leaves) below it. It encrypts the links between them, with MACsec or with WireGuard and
  VXLAN, keeps unencrypted traffic out of the bridge, pairs routers over an authenticated HTTPS
  API, and spreads Wi-Fi settings over the nodes. This library models that program and proves
  what makes it correct.

  \<^bold>\<open>Parts and how they interact.\<close>
  A loop (\<open>reconcile\<close>, \<open>macsec_runtime.go\<close>) brings the kernel to what \<open>config.json\<close> asks for, on a
  leaf by \<open>reconcileLeaf\<close>, on the main router by \<open>reconcileMain\<close>. It starts \<open>wpa_supplicant\<close> for key
  agreement, creates WireGuard and VXLAN interfaces (\<open>backhaul_wg.go\<close>), installs nftables guards,
  raises and restores MTUs and fills the mesh bridge (\<open>mesh_bridge.go\<close>). The pairing API
  (\<open>macsec_api.go\<close>) changes the configuration on both routers and wakes the loop. Signed Ethernet
  frames (\<open>macsec_ctl.go\<close>) switch a leaf off and measure the path MTU. The other handlers
  (\<open>mesh.go\<close>) keep the node list, credentials and the access map of the bridge, and
  \<open>mesh_neighbors.go\<close> exchanges neighbour reports. All of them share the configuration file, under
  \<open>Configmtx\<close>, and the manager's fields, under its lock.

  \<^bold>\<open>The model.\<close>
  The code is state passing over one record \<open>st\<close> (\<open>SysEnv\<close>): the files the program owns, the
  fields of \<open>macsecManager\<close>, and the history of the calls made so far. What is outside the program
  is the record \<open>env\<close>: each answer of the kernel, the tools, the clock and the peers is an arbitrary
  function of the history, and so is what another goroutine may do to the configuration before a
  lock is taken (\<open>e_Race\<close>). A theorem for every \<open>env\<close> therefore holds for every such behaviour.
  Cryptography, JSON, base64, certificates and HTTP are parameters (\<open>e_hmac\<close>, \<open>e_hkdf\<close>, \<open>meshWorld\<close>),
  and where a proof needs something of them it is a named hypothesis (\<open>hmac_ok\<close>: a tag has 32
  bytes). Errors are values: \<open>'a res\<close> is the error text or a value, \<open>err\<close> an optional error.
  Operations are written in the state monad and specified by \<open>wp\<close>: \<open>wp m Q s\<close>, the run of \<open>m\<close> on
  \<open>s\<close> ends and satisfies \<open>Q\<close>. Every operation is a total function, so termination is part of each
  statement.

  \<^bold>\<open>Theories and the code they model.\<close>
  \<open>Prelude\<close>: errors, the monad, \<open>wp\<close>, loops, Go maps, machines with reachable states, and the
  locales \<open>effect\<close>, \<open>machine\<close> and \<open>go_map\<close>. \<open>GoStd\<close>: the functions of Go's library on strings,
  bytes, hex and hardware addresses. \<open>Types\<close>: the structs. \<open>Macsec\<close>: the pure functions of
  \<open>macsec.go\<close> and \<open>backhaul_wg.go\<close>. \<open>CtlFrame\<close>: the frames of \<open>macsec_ctl.go\<close>. \<open>SysEnv\<close>: state and
  calls. \<open>Footprint\<close>: which calls and fields an operation touches. \<open>LinkMTU\<close>, \<open>Mka\<close>, \<open>Guard\<close>,
  \<open>Backhaul\<close>: the manager's parts in \<open>macsec_runtime.go\<close> and \<open>backhaul_wg.go\<close>. \<open>Leaf\<close>, \<open>Bridge\<close>,
  \<open>MainRec\<close>: \<open>reconcileLeaf\<close>, \<open>reconcileMeshBridge\<close>, \<open>reconcileMain\<close> and \<open>reconcile\<close>. \<open>CtlProto\<close>: the
  listener, the disable exchange and the MTU search. \<open>Probe\<close>: the tests for kernel support.
  \<open>Api\<close>: \<open>macsec_api.go\<close>. \<open>Mesh\<close>: \<open>mesh.go\<close>.
  \<open>Neighbors\<close>: \<open>mesh_neighbors.go\<close>. \<open>ExecSys\<close>: \<open>execMACsecSys\<close>, its command lines,
  output parsers and methods. \<open>RawSock\<close>: the packet sockets and receive loops of \<open>macsec_ctl_linux.go\<close>, with the
  proof that a receive is what \<open>CtlProto\<close> takes it for. \<open>AtomicFile\<close>: \<open>atomicWriteFile\<close> on a file
  system with crashes. \<open>MkaInv\<close>, \<open>LeafSafety\<close>, \<open>MainSafety\<close>, \<open>CtlSafety\<close>, \<open>ApiSafety\<close>, \<open>MeshSafety\<close> and
  \<open>NeighborSafety\<close> hold the invariants and specifications of these parts. \<open>System\<close> is the whole
  program as a machine whose steps are the operations, \<open>Router\<close> the table of HTTP routes and the
  operations they run, \<open>Loops\<close> the goroutines (\<open>run\<close>, \<open>Kick\<close>, \<open>KickAfter\<close>, \<open>ctlListen\<close>) as a machine over all
  their interleavings, whose files and manager are a reachable state of \<open>System\<close>. \<open>MtuInv\<close> proves the bookkeeping of
  raised MTUs over the states of \<open>System\<close>. \<open>Examples\<close> holds concrete environments. \<open>LinkProps\<close>,
  \<open>LeafProps\<close>, \<open>MtuProps\<close>, \<open>MainProps\<close>, \<open>MeshProps\<close>, \<open>LoopProps\<close> and this theory state the properties.

  \<^bold>\<open>What the properties show.\<close>
  Over all reachable states: the process table is exact, no two nodes share a port, a raised MTU is
  remembered on disk and undone after a crash (C1, C2, C25, C26). Over
  all interleavings of the goroutines: a leaf with a key has a listener, and no kick is lost (C10).
  Control frames: round trip, forged frames are ignored, only a genuine disable frame of the
  stored pairing switches a leaf off and it does so, no amplification, and the MTU test (C3 to C8,
  C11 to C13). Leaf: a confirmed leaf never loses its guard and bridges only what it saw
  secured, an unconfirmed one is reverted after 180 seconds, teardown is complete, and the
  contracts of participants, guards and WireGuard keys (C16 to C24). Main router: a faithful
  status, only wanted participants, isolated members (C27 to C29). Pairing: ports, well formed
  proposals, the token, and both routers agree on what they store (C30 to C34). Mesh: parent
  credentials, trust in node certificates, the node list, the access map, where tokens go, the
  neighbour reports (C9, C15, C35 to C40). C14 is the bridge ruleset.

  \<^bold>\<open>Bounds.\<close>
  No definition uses fuel; the receive loop of \<open>RawSock\<close>, which may block, is a partial function, and C8
  says when it returns. The binary search of the MTU test is a terminating function; between
  1500 and 9000 it makes at most 24 exchanges (C12). Machine integers that matter are words (SCI,
  frame fields); Go's \<open>int\<close> is \<open>int\<close>, whose values here are ports, MTUs and seconds. Instants are
  integers of nanoseconds, within the range of \<open>time.Time\<close>.

  \<^bold>\<open>Modelling decisions.\<close>
  A range over a Go map goes through the model's list, while Go's order is arbitrary; no property
  depends on it. \<open>atomicWriteFile\<close> either replaces a file or leaves it, which theory \<open>AtomicFile\<close> proves (C22). Requests the code makes to
  several nodes at the same time are made one after the other. The frames \<open>disableOverWire\<close> sends
  again while it waits come before its receive, which is one call. A step of \<open>Loops\<close> is a whole
  operation; what other goroutines do to the configuration within it is \<open>e_Race\<close>. \<open>sort.Slice\<close> is an
  insertion sort, of which only order and contents are used. Bodies of requests to nodes are not part of
  the call that is recorded; errors while reading a response body count as a failed request.
  Messages to the log are left out. The error of reading or decoding the configuration file has
  a fixed text.

  \<^bold>\<open>Not modelled.\<close>
  Request logging, the matching of a path to a route, the sockets \<open>main\<close> listens on, the TCP option of
  \<open>meshCtlDialControl\<close>, and the stubs for systems without packet sockets. The loops that repeat
  \<open>retryPendingMACsec\<close> and \<open>syncMeshNeighbors\<close>: these operations may be run at any time.
  Decoding of request bodies: handlers take the decoded request.
\<close>

section \<open>The running program\<close>

text \<open>
  C1. In every state the program can reach, whatever the kernel, the tools, the peers and the
  other goroutines do, the table of key agreement participants is exact: the \<open>wpa_supplicant\<close>
  processes that were started and not stopped are exactly those in the table, each under one
  identity. No process is leaked and none is tracked twice.
\<close>

theorem process_accounting:
  assumes "reachable boot (sys_step E W) s"
  shows "alive E (w_hist s) = set (map (\<lambda>p. mr_proc (snd p)) (m_procs s)) \<and>
    distinct (map (\<lambda>p. mr_proc (snd p)) (m_procs s)) \<and> distinct (map fst (m_procs s))"
  using procs.reachable_inv [OF assms] by (simp add: proc_inv_def handles_def mwf_def)

theorem process_accounting_witness:
  "alive exMainEnv (w_hist exMain1) = set (map (\<lambda>p. mr_proc (snd p)) (m_procs exMain1)) \<and>
    distinct (map (\<lambda>p. mr_proc (snd p)) (m_procs exMain1)) \<and> distinct (map fst (m_procs exMain1))"
  by (rule process_accounting [OF ex_reach])

text \<open>
  C2. No two mesh nodes ever get the same port. From a configuration whose nodes are distinct and
  have distinct ports, every operation keeps it so, as long as the other writers of the file do
  too and do not change the port of a pairing under the same key nonce.
\<close>

theorem ports_stay_distinct:
  assumes "port_rely E" "reachable port_boot (sys_step E W) s"
  shows "ports_distinct (mc_LeafRouters (cfg_load (w_cfg s)))"
  using ports.reachable_inv [OF port_reachable [OF assms]] by (simp add: cfg_inv_def leaves_ok_def)

lemma ex_port_rely: "port_rely exMainEnv"
  unfolding port_rely_def races_keep_def
proof (intro conjI allI impI ballI)
  fix h f a b
  assume ok: "leaves_ok (mc_LeafRouters (cfg_load f))"
    and mem: "a \<in> set (mc_LeafRouters (cfg_load f))" "b \<in> set (mc_LeafRouters (cfg_load (e_Race exMainEnv h f)))"
    and same: "same_pairing a b"
  have "a = b"
    by (rule leaves_ok_unique [OF ok mem(1)]) (use mem same in \<open>simp_all add: same_pairing_def\<close>)
  then show "port_of a = port_of b" by simp
qed simp

lemma ex_port_reach: "reachable port_boot (sys_step exMainEnv W) exMain1"
proof -
  have "port_boot exMain0"
    using boot_manager
    by (simp add: port_boot_def exMain0_def cfg_inv_def newMACsecManager_def exMainConfig_def leaves_ok_def
        ports_distinct_def)
  moreover have "sys_step exMainEnv W exMain0 exMain1"
    using sys_step.perform [of exMainEnv W exMain0 OpReconcile] by (simp add: exMain1_def perform_def)
  ultimately show ?thesis
    using reachable.step [OF reachable.start [where init = port_boot]] by metis
qed

theorem ports_stay_distinct_witness:
  "ports_distinct (mc_LeafRouters (cfg_load (w_cfg exMain1)))"
  by (rule ports_stay_distinct [OF ex_port_rely ex_port_reach])

end
